(* ===== verification/Prelude.thy ===== *)
theory Prelude
  imports Main "HOL-Library.Monad_Syntax" "HOL-Library.State_Monad" "HOL-Library.Sublist"
begin

text \<open>
  What every component shares: the Go standard library functions the operator calls
  (\<^verbatim>\<open>strings\<close>, \<^verbatim>\<open>strconv\<close>, \<^verbatim>\<open>path\<close>, \<^verbatim>\<open>time\<close>, \<^verbatim>\<open>errors\<close>), Go pointers as
  options, Go errors as a datatype with the wrapping chain that \<^verbatim>\<open>errors.As\<close> walks, and a
  small calculus for the state monad of call histories in which the controllers are
  written.  A Go string is a list of bytes; a Go map is a partial function, with the nil map
  and the empty map both \<^term>\<open>Map.empty\<close> (every read of the source treats them alike).
  The integers of the API are never added or multiplied by the operator, only compared and
  printed, so their width is not observable and they are \<open>int\<close>.
\<close>

named_theorems go_const \<open>the source's constants\<close>
named_theorems run_simps \<open>symbolic execution of programs that talk to a server\<close>

type_synonym strmap = "string \<rightharpoonup> string"

section \<open>Pointers\<close>

text \<open>\<^verbatim>\<open>internal/ptr\<close>: a pointer is an option, the nil pointer is \<^term>\<open>None\<close>.\<close>

definition ptr_To :: "'a \<Rightarrow> 'a option" where
  "ptr_To v = Some v"

definition ptr_Deref :: "'a option \<Rightarrow> 'a \<Rightarrow> 'a" where
  "ptr_Deref p fallback = (case p of None \<Rightarrow> fallback | Some v \<Rightarrow> v)"

lemma ptr_Deref_simps [simp]:
  "ptr_Deref None d = d"
  "ptr_Deref (Some v) d = v"
  by (simp_all add: ptr_Deref_def)

lemma ptr_Deref_To [simp]: "ptr_Deref (ptr_To v) d = v"
  by (simp add: ptr_To_def)

section \<open>Strings\<close>

text \<open>\<^verbatim>\<open>strings.Split(s, sep)\<close> for a one-byte separator, and \<^verbatim>\<open>strings.Join\<close>.\<close>

fun strings_Split :: "char \<Rightarrow> string \<Rightarrow> string list" where
  "strings_Split c [] = [[]]"
| "strings_Split c (x # xs) =
     (if x = c then [] # strings_Split c xs
      else (x # hd (strings_Split c xs)) # tl (strings_Split c xs))"

fun strings_Join :: "string \<Rightarrow> string list \<Rightarrow> string" where
  "strings_Join sep [] = []"
| "strings_Join sep [x] = x"
| "strings_Join sep (x # y # ys) = x @ sep @ strings_Join sep (y # ys)"

lemma strings_Split_not_Nil [simp]: "strings_Split c s \<noteq> []"
  by (cases s) auto

lemma strings_Split_sep_free: "x \<in> set (strings_Split c s) \<Longrightarrow> c \<notin> set x"
proof (induction s arbitrary: x)
  case Nil
  then show ?case by simp
next
  case (Cons a s)
  show ?case
  proof (cases "a = c")
    case True
    with Cons show ?thesis by auto
  next
    case False
    have "c \<notin> set (hd (strings_Split c s))"
      by (rule Cons.IH) simp
    moreover have "set (tl (strings_Split c s)) \<subseteq> set (strings_Split c s)"
      by (cases "strings_Split c s") auto
    ultimately show ?thesis using False Cons by auto
  qed
qed

lemma strings_Split_chars: "x \<in> set (strings_Split c s) \<Longrightarrow> set x \<subseteq> set s"
proof (induction s arbitrary: x)
  case Nil
  then show ?case by simp
next
  case (Cons a s)
  have hd: "set (hd (strings_Split c s)) \<subseteq> set s"
    by (rule Cons.IH) simp
  have "set (tl (strings_Split c s)) \<subseteq> set (strings_Split c s)"
    by (cases "strings_Split c s") auto
  then have "set y \<subseteq> set s" if "y \<in> set (tl (strings_Split c s))" for y
    using Cons.IH that by blast
  note tl = this
  show ?case
  proof (cases "a = c")
    case True
    with Cons.prems have "x = [] \<or> x \<in> set (strings_Split c s)" by simp
    with Cons.IH show ?thesis by auto
  next
    case False
    with Cons.prems have "x = a # hd (strings_Split c s) \<or> x \<in> set (tl (strings_Split c s))"
      by simp
    with hd tl show ?thesis by fastforce
  qed
qed

lemma strings_Split_no_sep: "c \<notin> set s \<Longrightarrow> strings_Split c s = [s]"
  by (induction s) auto

lemma strings_Split_append_sep:
  "c \<notin> set s \<Longrightarrow> strings_Split c (s @ c # t) = s # strings_Split c t"
  by (induction s) auto

text \<open>Splitting a joined list gives it back when no element holds the separator.\<close>

lemma strings_Split_Join:
  "xs \<noteq> [] \<Longrightarrow> \<forall>x\<in>set xs. c \<notin> set x \<Longrightarrow> strings_Split c (strings_Join [c] xs) = xs"
proof (induction "[c]" xs rule: strings_Join.induct)
  case 1
  then show ?case by simp
next
  case (2 x)
  then show ?case by (simp add: strings_Split_no_sep)
next
  case (3 x y ys)
  then show ?case by (simp add: strings_Split_append_sep)
qed

lemma strings_Join_chars:
  "set (strings_Join sep xs) \<subseteq> set sep \<union> (\<Union>x\<in>set xs. set x)"
  by (induction sep xs rule: strings_Join.induct) auto

definition strings_HasPrefix :: "string \<Rightarrow> string \<Rightarrow> bool" where
  "strings_HasPrefix s p = prefix p s"

definition strings_HasSuffix :: "string \<Rightarrow> string \<Rightarrow> bool" where
  "strings_HasSuffix s p = suffix p s"

definition strings_ContainsAny :: "string \<Rightarrow> string \<Rightarrow> bool" where
  "strings_ContainsAny s chars = list_ex (\<lambda>c. c \<in> set chars) s"

definition strings_TrimRight :: "string \<Rightarrow> string \<Rightarrow> string" where
  "strings_TrimRight s cutset = rev (dropWhile (\<lambda>c. c \<in> set cutset) (rev s))"

lemma strings_TrimRight_prefix: "prefix (strings_TrimRight s cutset) s"
proof -
  have "suffix (dropWhile P (rev s)) (rev s)" for P
    by (rule suffix_dropWhile)
  then show ?thesis
    by (simp add: strings_TrimRight_def suffix_to_prefix)
qed

lemma strings_TrimRight_length: "length (strings_TrimRight s cutset) \<le> length s"
  using strings_TrimRight_prefix by (rule prefix_length_le)

lemma strings_TrimRight_last:
  "strings_TrimRight s cutset \<noteq> [] \<Longrightarrow> last (strings_TrimRight s cutset) \<notin> set cutset"
  using hd_dropWhile [of "\<lambda>c. c \<in> set cutset" "rev s"]
  by (simp add: strings_TrimRight_def last_rev)

text \<open>
  \<^verbatim>\<open>strings.TrimSpace\<close> removes the white space of Unicode at both ends: the six ASCII
  bytes and the UTF-8 encodings of the other white-space runes.
\<close>

definition space_runes :: "string list" where
  "space_runes =
     [[CHR 0x09], [CHR 0x0A], [CHR 0x0B], [CHR 0x0C], [CHR 0x0D], [CHR 0x20],
      [CHR 0xC2, CHR 0x85], [CHR 0xC2, CHR 0xA0], [CHR 0xE1, CHR 0x9A, CHR 0x80],
      [CHR 0xE2, CHR 0x80, CHR 0x80], [CHR 0xE2, CHR 0x80, CHR 0x81],
      [CHR 0xE2, CHR 0x80, CHR 0x82], [CHR 0xE2, CHR 0x80, CHR 0x83],
      [CHR 0xE2, CHR 0x80, CHR 0x84], [CHR 0xE2, CHR 0x80, CHR 0x85],
      [CHR 0xE2, CHR 0x80, CHR 0x86], [CHR 0xE2, CHR 0x80, CHR 0x87],
      [CHR 0xE2, CHR 0x80, CHR 0x88], [CHR 0xE2, CHR 0x80, CHR 0x89],
      [CHR 0xE2, CHR 0x80, CHR 0x8A], [CHR 0xE2, CHR 0x80, CHR 0xA8],
      [CHR 0xE2, CHR 0x80, CHR 0xA9], [CHR 0xE2, CHR 0x80, CHR 0xAF],
      [CHR 0xE2, CHR 0x81, CHR 0x9F], [CHR 0xE3, CHR 0x80, CHR 0x80]]"

text \<open>Drop runes of a list from the front; every rune of the list is non-empty.\<close>

function trim_front :: "string list \<Rightarrow> string \<Rightarrow> string" where
  "trim_front rs s =
     (case find (\<lambda>r. r \<noteq> [] \<and> prefix r s) rs of
        None \<Rightarrow> s
      | Some r \<Rightarrow> trim_front rs (drop (length r) s))"
  by pat_completeness auto
termination
  by (relation "measure (\<lambda>(rs, s). length s)") (auto simp: find_Some_iff prefix_def)

declare trim_front.simps [simp del]

definition strings_TrimSpace :: "string \<Rightarrow> string" where
  "strings_TrimSpace s =
     rev (trim_front (map rev space_runes) (rev (trim_front space_runes s)))"

lemma trim_front_Nil [simp]: "trim_front rs [] = []"
proof -
  have "find (\<lambda>r. r \<noteq> [] \<and> prefix r []) rs = None"
    by (simp add: find_None_iff)
  then show ?thesis by (subst trim_front.simps) simp
qed

lemma strings_TrimSpace_Nil [simp]: "strings_TrimSpace [] = []"
  by (simp add: strings_TrimSpace_def)

section \<open>Decimal and quoted text\<close>

text \<open>\<^verbatim>\<open>strconv.Itoa\<close>.\<close>

fun nat_text :: "nat \<Rightarrow> string" where
  "nat_text n =
     (if n < 10 then [char_of (48 + n)] else nat_text (n div 10) @ [char_of (48 + n mod 10)])"

declare nat_text.simps [simp del]

definition strconv_Itoa :: "int \<Rightarrow> string" where
  "strconv_Itoa i = (if i < 0 then CHR ''-'' # nat_text (nat (- i)) else nat_text (nat i))"

text \<open>Reading the digits back: \<^const>\<open>strconv_Itoa\<close> loses nothing.\<close>

definition text_nat :: "string \<Rightarrow> nat" where
  "text_nat s = foldl (\<lambda>acc c. 10 * acc + (of_char c - 48)) 0 s"

lemma text_nat_text [simp]: "text_nat (nat_text n) = n"
proof (induction n rule: nat_text.induct)
  case (1 n)
  show ?case
  proof (cases "n < 10")
    case True
    then show ?thesis by (simp add: nat_text.simps [of n] text_nat_def)
  next
    case False
    then have "text_nat (nat_text n) = 10 * text_nat (nat_text (n div 10)) + n mod 10"
      by (simp add: nat_text.simps [of n] text_nat_def)
    also have "\<dots> = n" using 1 False by simp
    finally show ?thesis .
  qed
qed

lemma nat_text_digits: "c \<in> set (nat_text n) \<Longrightarrow> 48 \<le> (of_char c :: nat) \<and> (of_char c :: nat) < 58"
proof (induction n rule: nat_text.induct)
  case (1 n)
  show ?case
  proof (cases "n < 10")
    case True
    with 1 show ?thesis by (auto simp: nat_text.simps [of n])
  next
    case False
    with 1 show ?thesis by (auto simp: nat_text.simps [of n])
  qed
qed

lemma nat_text_not_Nil [simp]: "nat_text n \<noteq> []"
  by (subst nat_text.simps) simp

lemma strconv_Itoa_not_Nil [simp]: "strconv_Itoa i \<noteq> []"
  by (simp add: strconv_Itoa_def)

lemma nat_text_inject [simp]: "nat_text m = nat_text n \<longleftrightarrow> m = n"
proof
  assume "nat_text m = nat_text n"
  then have "text_nat (nat_text m) = text_nat (nat_text n)" by (rule arg_cong)
  then show "m = n" by simp
qed simp

lemma nat_text_no_minus: "nat_text n \<noteq> CHR ''-'' # s"
  using nat_text_digits [of "CHR ''-''" n] by auto

lemma strconv_Itoa_inject [simp]: "strconv_Itoa i = strconv_Itoa j \<longleftrightarrow> i = j"
  by (auto simp: strconv_Itoa_def nat_text_no_minus nat_text_no_minus [symmetric])

text \<open>
  The \<^verbatim>\<open>%q\<close> verb (\<^verbatim>\<open>strconv.Quote\<close>): ASCII control bytes, the double quote and the
  backslash are escaped as Go does.  Bytes of multi-byte runes are copied, which is what Go does
  for every printable rune; the names quoted by the operator are ASCII.
\<close>

definition hex_digit :: "nat \<Rightarrow> char" where
  "hex_digit n = (if n < 10 then char_of (48 + n) else char_of (87 + n))"

definition quote_byte :: "char \<Rightarrow> string" where
  "quote_byte c =
     (let n = (of_char c :: nat); bs = CHR 0x5C in
      if c = CHR 0x22 \<or> c = bs then [bs, c]
      else if n = 7 then [bs, CHR ''a''] else if n = 8 then [bs, CHR ''b'']
      else if n = 9 then [bs, CHR ''t''] else if n = 10 then [bs, CHR ''n'']
      else if n = 11 then [bs, CHR ''v''] else if n = 12 then [bs, CHR ''f'']
      else if n = 13 then [bs, CHR ''r'']
      else if n < 32 \<or> n = 127 then [bs, CHR ''x'', hex_digit (n div 16), hex_digit (n mod 16)]
      else [c])"

definition fmt_q :: "string \<Rightarrow> string" where
  "fmt_q s = CHR 0x22 # concat (map quote_byte s) @ [CHR 0x22]"

section \<open>Slash-separated paths\<close>

text \<open>
  \<^verbatim>\<open>path.Clean\<close>: the elements between slashes are processed left to right.  Empty and
  \<^verbatim>\<open>.\<close> elements vanish; \<^verbatim>\<open>..\<close> removes the element before it where there is one, is
  kept at the front of a relative path, and vanishes at the root.  The processed elements are
  kept in reverse.
\<close>

definition clean_step :: "bool \<Rightarrow> string list \<Rightarrow> string \<Rightarrow> string list" where
  "clean_step rooted out e =
     (if e = [] \<or> e = ''.'' then out
      else if e = ''..'' then
        (case out of
           [] \<Rightarrow> if rooted then [] else [''..'']
         | x # xs \<Rightarrow> if x \<noteq> ''..'' then xs else if rooted then out else ''..'' # out)
      else e # out)"

definition path_Clean :: "string \<Rightarrow> string" where
  "path_Clean p =
     (if p = [] then ''.''
      else let rooted = strings_HasPrefix p ''/'';
               out = rev (foldl (clean_step rooted) [] (strings_Split CHR ''/'' p))
           in if rooted then CHR ''/'' # strings_Join ''/'' out
              else if out = [] then ''.'' else strings_Join ''/'' out)"

text \<open>Without \<^verbatim>\<open>..\<close> elements, cleaning only drops the empty and the \<^verbatim>\<open>.\<close> ones.\<close>

lemma foldl_clean_step:
  "''..'' \<notin> set es \<Longrightarrow>
   foldl (clean_step r) out es = rev (filter (\<lambda>e. e \<noteq> [] \<and> e \<noteq> ''.'') es) @ out"
  by (induction es arbitrary: out) (auto simp: clean_step_def)

lemma path_Clean_relative:
  assumes "p \<noteq> []" and "\<not> strings_HasPrefix p ''/''" and "''..'' \<notin> set (strings_Split CHR ''/'' p)"
  shows "path_Clean p =
    (let es = filter (\<lambda>e. e \<noteq> [] \<and> e \<noteq> ''.'') (strings_Split CHR ''/'' p)
     in if es = [] then ''.'' else strings_Join ''/'' es)"
  using assms by (simp add: path_Clean_def foldl_clean_step Let_def)

section \<open>Time\<close>

text \<open>
  A \<^verbatim>\<open>time.Time\<close> is the number of nanoseconds since Go's zero time (1 January of year 1,
  UTC), so the zero time is 0.  \<^verbatim>\<open>Sub\<close> saturates at the bounds of an \<^verbatim>\<open>int64\<close>
  duration; \<^verbatim>\<open>Unix\<close> counts whole seconds since 1970.
\<close>

type_synonym gotime = int

definition time_IsZero :: "gotime \<Rightarrow> bool" where
  "time_IsZero t = (t = 0)"

text \<open>\<^verbatim>\<open>metav1.Time.IsZero\<close> on a pointer: true for nil.\<close>

definition timep_IsZero :: "gotime option \<Rightarrow> bool" where
  "timep_IsZero p = (case p of None \<Rightarrow> True | Some t \<Rightarrow> time_IsZero t)"

definition time_Sub :: "gotime \<Rightarrow> gotime \<Rightarrow> int" where
  "time_Sub t u = max (- (2 ^ 63)) (min (2 ^ 63 - 1) (t - u))"

definition time_Unix :: "gotime \<Rightarrow> int" where
  "time_Unix t = t div 1000000000 - 62135596800"

section \<open>Errors\<close>

text \<open>
  \<^verbatim>\<open>ErrorString\<close> is \<^verbatim>\<open>fmt.Errorf\<close> without \<^verbatim>\<open>%w\<close>; \<^verbatim>\<open>WrapError\<close> is
  \<^verbatim>\<open>fmt.Errorf\<close> with a prefix and \<^verbatim>\<open>%w\<close>; \<^verbatim>\<open>StatusError\<close> is an error reply of the
  API server with its reason; \<^verbatim>\<open>OwnedApplyError\<close> is \<^verbatim>\<open>ownedApplyError\<close> of
  \<^verbatim>\<open>internal/controller/owned.go\<close>, and the equation of \<^verbatim>\<open>error_text\<close> and
  \<^verbatim>\<open>errors_Unwrap\<close> for it are its two methods.
\<close>

datatype api_reason = ReasonNotFound | ReasonConflict | ReasonOther string

datatype goerror =
    ErrorString string
  | WrapError string goerror
  | StatusError api_reason string
  | OwnedApplyError string goerror

fun error_text :: "goerror \<Rightarrow> string" where
  "error_text (ErrorString m) = m"
| "error_text (WrapError pre e) = pre @ error_text e"
| "error_text (StatusError r m) = m"
| "error_text (OwnedApplyError reason e) = error_text e"

fun errors_Unwrap :: "goerror \<Rightarrow> goerror option" where
  "errors_Unwrap (ErrorString m) = None"
| "errors_Unwrap (WrapError pre e) = Some e"
| "errors_Unwrap (StatusError r m) = None"
| "errors_Unwrap (OwnedApplyError reason e) = Some e"

text \<open>The API reason that \<^verbatim>\<open>errors.As\<close> finds in the chain of wrapped errors.\<close>

fun status_reason :: "goerror \<Rightarrow> api_reason option" where
  "status_reason (ErrorString m) = None"
| "status_reason (WrapError pre e) = status_reason e"
| "status_reason (StatusError r m) = Some r"
| "status_reason (OwnedApplyError reason e) = status_reason e"

text \<open>The error result of a call that returns a value and an error.\<close>

definition err_of :: "goerror + 'a \<Rightarrow> goerror option" where
  "err_of r = (case r of Inl e \<Rightarrow> Some e | Inr _ \<Rightarrow> None)"

lemma err_of_simps [simp]: "err_of (Inl e) = Some e" "err_of (Inr x) = None"
  by (simp_all add: err_of_def)

section \<open>Programs that talk to a server\<close>

text \<open>
  A controller is a program in the state monad whose state is the history of its calls, oldest
  first.  A call asks the server, which answers as a function of the whole history (so the theorems
  hold for every server and for every interference by others), and appends the call with its
  answer.  \<^verbatim>\<open>does m h Q\<close> says that the run of \<open>m\<close> from the history \<open>h\<close> appends calls and
  returns a value that together satisfy \<open>Q\<close>; its rules run a program symbolically.
\<close>

definition call :: "('e list \<Rightarrow> 'r) \<Rightarrow> ('r \<Rightarrow> 'e) \<Rightarrow> ('e list, 'r) state" where
  "call answer event = State (\<lambda>h. (answer h, h @ [event (answer h)]))"

definition appends :: "('e list, 'a) state \<Rightarrow> bool" where
  "appends m \<longleftrightarrow> (\<forall>h. \<exists>cs. snd (run_state m h) = h @ cs)"

definition does :: "('e list, 'a) state \<Rightarrow> 'e list \<Rightarrow> ('e list \<Rightarrow> 'a \<Rightarrow> bool) \<Rightarrow> bool" where
  "does m h Q \<longleftrightarrow> (\<exists>cs x. run_state m h = (x, h @ cs) \<and> Q cs x)"

lemma appends_return [simp]: "appends (State_Monad.return x)"
  by (simp add: appends_def State_Monad.return_def)

lemma appends_call [simp]: "appends (call answer event)"
  by (simp add: appends_def call_def)

lemma appends_bind [simp]: "appends m \<Longrightarrow> (\<And>x. appends (k x)) \<Longrightarrow> appends (State_Monad.bind m k)"
proof -
  assume m: "appends m" and k: "\<And>x. appends (k x)"
  have "\<exists>cs. snd (run_state (State_Monad.bind m k) h) = h @ cs" for h
  proof -
    obtain x cs where "run_state m h = (x, h @ cs)"
      using m by (metis appends_def prod.collapse)
    moreover obtain ds where "snd (run_state (k x) (h @ cs)) = (h @ cs) @ ds"
      using k appends_def by metis
    ultimately show ?thesis by (simp add: State_Monad.bind_def)
  qed
  then show ?thesis by (simp add: appends_def)
qed

lemma does_return [run_simps]: "does (State_Monad.return x) h Q \<longleftrightarrow> Q [] x"
  by (simp add: does_def State_Monad.return_def)

lemma does_call [run_simps]: "does (call answer event) h Q \<longleftrightarrow> Q [event (answer h)] (answer h)"
  by (auto simp: does_def call_def)

text \<open>Branches and bindings of the source.\<close>

lemma appends_cases [simp]:
  "(\<And>e. appends (f e)) \<Longrightarrow> (\<And>x. appends (g x)) \<Longrightarrow> appends (case s of Inl e \<Rightarrow> f e | Inr x \<Rightarrow> g x)"
  "appends n \<Longrightarrow> (\<And>x. appends (j x)) \<Longrightarrow> appends (case p of None \<Rightarrow> n | Some x \<Rightarrow> j x)"
  "(\<And>x y. appends (l x y)) \<Longrightarrow> appends (case q of (x, y) \<Rightarrow> l x y)"
  by (simp_all split: sum.split option.split prod.split)

lemma appends_Let [simp]: "(\<And>x. appends (k x)) \<Longrightarrow> appends (Let v k)"
  by (simp add: Let_def)

lemma does_bind [run_simps]:
  assumes "appends m" and "\<And>x. appends (k x)"
  shows "does (State_Monad.bind m k) h Q \<longleftrightarrow>
    does m h (\<lambda>cs x. does (k x) (h @ cs) (\<lambda>ds y. Q (cs @ ds) y))"
proof -
  obtain x cs where "run_state m h = (x, h @ cs)"
    using assms(1) by (metis appends_def prod.collapse)
  moreover obtain y ds where "run_state (k x) (h @ cs) = (y, (h @ cs) @ ds)"
    using assms(2) by (metis appends_def prod.collapse)
  ultimately show ?thesis by (simp add: does_def State_Monad.bind_def)
qed

lemma does_total: "appends m \<Longrightarrow> does m h (\<lambda>_ _. True)"
  by (simp add: appends_def does_def) (metis prod.collapse)

lemma does_mono: "does m h P \<Longrightarrow> (\<And>cs x. P cs x \<Longrightarrow> Q cs x) \<Longrightarrow> does m h Q"
  by (auto simp: does_def)

lemma does_conj: "does m h P \<Longrightarrow> does m h Q \<Longrightarrow> does m h (\<lambda>cs x. P cs x \<and> Q cs x)"
  by (auto simp: does_def)

lemma does_bindI:
  "appends m \<Longrightarrow> (\<And>x. appends (k x)) \<Longrightarrow> does m h P \<Longrightarrow>
   (\<And>cs x. P cs x \<Longrightarrow> does (k x) (h @ cs) (\<lambda>ds y. Q (cs @ ds) y)) \<Longrightarrow> does (State_Monad.bind m k) h Q"
  by (simp add: does_bind) (blast intro: does_mono)

lemma does_run: "does m h Q \<Longrightarrow> run_state m h = (x, h') \<Longrightarrow> \<exists>cs. h' = h @ cs \<and> Q cs x"
  by (auto simp: does_def)

section \<open>Early returns\<close>

text \<open>
  A Go function that returns the first error of a sequence of checks: \<^verbatim>\<open>first_error\<close> of
  the list of checks, each nil (\<^const>\<open>None\<close>) or an error.  The checks are pure, so the ones
  after the first error have no effect.
\<close>

fun first_error :: "goerror option list \<Rightarrow> goerror option" where
  "first_error [] = None"
| "first_error (c # cs) = (case c of None \<Rightarrow> first_error cs | Some e \<Rightarrow> Some e)"

definition fail_if :: "bool \<Rightarrow> string \<Rightarrow> goerror option" where
  "fail_if b m = (if b then Some (ErrorString m) else None)"

lemma first_error_None_iff [simp]: "first_error cs = None \<longleftrightarrow> (\<forall>c\<in>set cs. c = None)"
  by (induction cs) (auto split: option.splits)

lemma first_error_Some_mem: "first_error cs = Some e \<Longrightarrow> Some e \<in> set cs"
  by (induction cs) (auto split: option.splits)

declare first_error.simps [simp del]

lemma fail_if_None [simp]: "fail_if b m = None \<longleftrightarrow> \<not> b"
  by (simp add: fail_if_def)

lemma fail_if_Some [simp]: "fail_if b m = Some e \<longleftrightarrow> b \<and> e = ErrorString m"
  by (auto simp: fail_if_def)

end
