(* ===== verification/Kube_Types.thy ===== *)
theory Kube_Types
  imports Prelude
begin

text \<open>
  The data the operator exchanges with Kubernetes, as far as it reads or writes it (the structs
  of \<^verbatim>\<open>k8s.io/api\<close> and \<^verbatim>\<open>k8s.io/apimachinery\<close>).
\<close>

section \<open>Object metadata\<close>

text \<open>Of the API version of an owner only the group matters; it is part of the kind here.\<close>

record ownerref =
  or_UID :: string
  or_Kind :: string
  or_Name :: string
  or_Controller :: bool

record objectmeta =
  om_Name :: string
  om_Namespace :: string
  om_UID :: string
  om_Generation :: int
  om_Labels :: strmap
  om_Annotations :: strmap
  om_OwnerReferences :: "ownerref list"
  om_CreationTimestamp :: gotime
  om_DeletionTimestamp :: "gotime option"

definition objectmeta_zero :: objectmeta where
  "objectmeta_zero =
     \<lparr>om_Name = [], om_Namespace = [], om_UID = [], om_Generation = 0, om_Labels = Map.empty,
      om_Annotations = Map.empty, om_OwnerReferences = [], om_CreationTimestamp = 0,
      om_DeletionTimestamp = None\<rparr>"

text \<open>\<^verbatim>\<open>metav1.ObjectMeta{Name: name, Namespace: ns}\<close>.\<close>

definition named_meta :: "string \<Rightarrow> string \<Rightarrow> objectmeta" where
  "named_meta name ns = objectmeta_zero\<lparr>om_Name := name, om_Namespace := ns\<rparr>"

text \<open>\<^verbatim>\<open>labels[key]\<close>: the empty string for a missing key.\<close>

definition map_index :: "strmap \<Rightarrow> string \<Rightarrow> string" where
  "map_index m k = (case m k of None \<Rightarrow> [] | Some v \<Rightarrow> v)"

record label_requirement =
  lr_Key :: string
  lr_Operator :: string
  lr_Values :: "string list"

record label_selector =
  ls_MatchLabels :: strmap
  ls_MatchExpressions :: "label_requirement list"

section \<open>Pods\<close>

text \<open>
  A \<^verbatim>\<open>resource.Quantity\<close> is a fixed-point number with nine decimals, here its number of
  nano-units.  Parsing and comparing quantities is the library's.
\<close>

type_synonym quantity = int
type_synonym resource_list = "string \<rightharpoonup> quantity"

record resource_requirements =
  rr_Requests :: resource_list
  rr_Limits :: resource_list

record env_var =
  ev_Name :: string
  ev_SecretName :: string
  ev_SecretKey :: string

record volume_mount =
  vm_Name :: string
  vm_MountPath :: string
  vm_SubPath :: string
  vm_ReadOnly :: bool

record security_context =
  sc_AllowPrivilegeEscalation :: "bool option"
  sc_CapDrop :: "string list"
  sc_CapAdd :: "string list"
  sc_Privileged :: "bool option"
  sc_ReadOnlyRootFilesystem :: "bool option"
  sc_RunAsGroup :: "int option"
  sc_RunAsNonRoot :: "bool option"
  sc_RunAsUser :: "int option"
  sc_SeccompType :: "string option"

record pod_security_context =
  psc_FSGroup :: "int option"
  psc_FSGroupChangePolicy :: "string option"

record container =
  ct_Name :: string
  ct_Image :: string
  ct_ImagePullPolicy :: string
  ct_Command :: "string list"
  ct_EnvFrom :: "string list" \<comment> \<open>names of the ConfigMaps\<close>
  ct_Env :: "env_var list"
  ct_Resources :: resource_requirements
  ct_SecurityContext :: "security_context option"
  ct_VolumeMounts :: "volume_mount list"

datatype volume_source =
    VSClaim string bool \<comment> \<open>claim name, read-only\<close>
  | VSEmptyDir "quantity option" \<comment> \<open>size limit\<close>
  | VSSecret string "(string \<times> string) list" \<comment> \<open>secret name, key to path\<close>

record volume =
  vo_Name :: string
  vo_Source :: volume_source

record affinity_term =
  at_LabelSelector :: label_selector
  at_TopologyKey :: string

record pod_spec =
  po_RestartPolicy :: string
  po_SecurityContext :: "pod_security_context option"
  po_Affinity :: "affinity_term list option" \<comment> \<open>required pod affinity\<close>
  po_Containers :: "container list"
  po_Volumes :: "volume list"
  po_AutomountServiceAccountToken :: "bool option"
  po_TerminationGracePeriodSeconds :: "int option"

section \<open>Objects\<close>

record secret =
  se_Meta :: objectmeta
  se_Data :: strmap

record configmap =
  cm_Meta :: objectmeta
  cm_Data :: strmap

record pvc_spec =
  pv_AccessModes :: "string list"
  pv_Requests :: resource_list
  pv_StorageClassName :: "string option"

record pvc =
  pvc_Meta :: objectmeta
  pvc_Spec :: pvc_spec

record cronjob_spec =
  cs_Schedule :: string
  cs_TimeZone :: "string option"
  cs_ConcurrencyPolicy :: string
  cs_FailedJobsHistoryLimit :: "int option"
  cs_SuccessfulJobsHistoryLimit :: "int option"
  cs_StartingDeadlineSeconds :: "int option"
  cs_Suspend :: "bool option"
  cs_JobLabels :: strmap \<comment> \<open>labels of the Job template\<close>
  cs_BackoffLimit :: "int option"
  cs_TTLSecondsAfterFinished :: "int option"
  cs_PodLabels :: strmap \<comment> \<open>labels of the pod template\<close>
  cs_PodSpec :: pod_spec

record cronjob_status =
  cst_LastScheduleTime :: "gotime option"
  cst_LastSuccessfulTime :: "gotime option"

record cronjob =
  cj_Meta :: objectmeta
  cj_Spec :: "cronjob_spec option" \<comment> \<open>\<^const>\<open>None\<close> is the zero spec of a fresh object\<close>
  cj_Status :: cronjob_status

record deployment_spec =
  ds_Replicas :: "int option"
  ds_Selector :: strmap
  ds_StrategyType :: string
  ds_PodLabels :: strmap
  ds_PodSpec :: pod_spec

record deployment =
  de_Meta :: objectmeta
  de_Spec :: "deployment_spec option" \<comment> \<open>\<^const>\<open>None\<close> is the zero spec of a fresh object\<close>
  de_AvailableReplicas :: int

record job_condition =
  jc_Type :: string
  jc_Status :: string
  jc_Reason :: string
  jc_Message :: string
  jc_LastTransitionTime :: gotime

record job_status =
  js_StartTime :: "gotime option"
  js_CompletionTime :: "gotime option"
  js_Failed :: int
  js_Conditions :: "job_condition list"

record job =
  jb_Meta :: objectmeta
  jb_Status :: job_status

record condition =
  co_Type :: string
  co_Status :: string
  co_ObservedGeneration :: int
  co_LastTransitionTime :: gotime
  co_Reason :: string
  co_Message :: string

section \<open>Constants of the Kubernetes API\<close>

abbreviation "ConditionTrue \<equiv> ''True''"
abbreviation "ConditionFalse \<equiv> ''False''"
abbreviation "ConditionUnknown \<equiv> ''Unknown''"
abbreviation "JobComplete \<equiv> ''Complete''"
abbreviation "JobFailed \<equiv> ''Failed''"
abbreviation "EventTypeNormal \<equiv> ''Normal''"
abbreviation "EventTypeWarning \<equiv> ''Warning''"
abbreviation "RestartPolicyAlways \<equiv> ''Always''"
abbreviation "RestartPolicyOnFailure \<equiv> ''OnFailure''"
abbreviation "RestartPolicyNever \<equiv> ''Never''"
abbreviation "ReadWriteOnce \<equiv> ''ReadWriteOnce''"
abbreviation "ReadWriteOncePod \<equiv> ''ReadWriteOncePod''"
abbreviation "PullIfNotPresent \<equiv> ''IfNotPresent''"
abbreviation "ForbidConcurrent \<equiv> ''Forbid''"
abbreviation "ResourceCPU \<equiv> ''cpu''"
abbreviation "ResourceMemory \<equiv> ''memory''"
abbreviation "ResourceEphemeralStorage \<equiv> ''ephemeral-storage''"
abbreviation "ResourceStorage \<equiv> ''storage''"

end
