(* ===== verification/Api_Types.thy ===== *)
theory Api_Types
  imports Kube_Types
begin

text \<open>
  The custom resources of \<^verbatim>\<open>api/v1alpha1\<close>: the structs of \<^verbatim>\<open>common_types.go\<close>,
  \<^verbatim>\<open>backup_types.go\<close> and \<^verbatim>\<open>restore_types.go\<close> field by field, their constants and
  their two methods.  \<^verbatim>\<open>Engine\<close>, \<^verbatim>\<open>RuntimeMode\<close> and the like are Go string types: any
  string can arrive, so they are strings here too.
\<close>

section \<open>Common types\<close>

type_synonym engine = string

definition EnginePostgres :: engine where [go_const]: "EnginePostgres = ''postgres''"
definition EngineMariaDB :: engine where [go_const]: "EngineMariaDB = ''mariadb''"
definition EngineRedis :: engine where [go_const]: "EngineRedis = ''redis''"
definition EnginePVC :: engine where [go_const]: "EnginePVC = ''pvc''"

record DatabaseSpec =
  db_Host :: string
  db_Port :: int
  db_Name :: string
  db_OwnerRole :: string

record S3Spec =
  s3_Enabled :: "bool option"
  s3_Endpoint :: string
  s3_Bucket :: string
  s3_Path :: string
  s3_RetentionDays :: "int option"

definition EnabledOrDefault :: "S3Spec \<Rightarrow> bool" where
  "EnabledOrDefault s = (case s3_Enabled s of None \<Rightarrow> True | Some b \<Rightarrow> b)"

record PersistenceSpec =
  ps_Enabled :: "bool option"
  ps_StorageClassName :: string
  ps_AccessModes :: "string list"
  ps_Size :: quantity
  ps_Annotations :: strmap

record ImageSpec =
  im_Image :: string
  im_PullPolicy :: string

record ImageSet =
  is_BusyBox :: "ImageSpec option"
  is_GnuPG :: "ImageSpec option"
  is_Postgres :: "ImageSpec option"
  is_Mc :: "ImageSpec option"
  is_MariaDB :: "ImageSpec option"
  is_Redis :: "ImageSpec option"
  is_Tar :: "ImageSpec option"

record SecretKeySelector =
  sk_Name :: string
  sk_UsernameKey :: string
  sk_PasswordKey :: string

type_synonym runtime_mode = string

definition RuntimeModeCronJob :: runtime_mode where [go_const]:
  "RuntimeModeCronJob = ''CronJob''"
definition RuntimeModeCronJobWithVolumeHolder :: runtime_mode where [go_const]:
  "RuntimeModeCronJobWithVolumeHolder = ''CronJobWithVolumeHolder''"
definition RuntimeModePersistentPodWithTriggerJob :: runtime_mode where [go_const]:
  "RuntimeModePersistentPodWithTriggerJob = ''PersistentPodWithTriggerJob''"
definition RuntimeModePersistentPodWithInPodCron :: runtime_mode where [go_const]:
  "RuntimeModePersistentPodWithInPodCron = ''PersistentPodWithInPodCron''"

record RuntimeSpec =
  rt_Mode :: runtime_mode

definition EffectiveMode :: "RuntimeSpec option \<Rightarrow> runtime_mode" where
  "EffectiveMode r =
     (case r of
        None \<Rightarrow> RuntimeModeCronJob
      | Some rt \<Rightarrow> if rt_Mode rt = [] then RuntimeModeCronJob else rt_Mode rt)"

record JobPolicy =
  jp_ConcurrencyPolicy :: string
  jp_FailedJobsHistoryLimit :: "int option"
  jp_SuccessfulJobsHistoryLimit :: "int option"
  jp_StartingDeadlineSeconds :: "int option"
  jp_BackoffLimit :: "int option"
  jp_TTLSecondsAfterFinished :: "int option"
  jp_RestartPolicy :: string
  jp_TimeZone :: string

text \<open>\<^verbatim>\<open>&JobPolicy{}\<close>.\<close>

definition JobPolicy_zero :: JobPolicy where
  "JobPolicy_zero =
     \<lparr>jp_ConcurrencyPolicy = [], jp_FailedJobsHistoryLimit = None,
      jp_SuccessfulJobsHistoryLimit = None, jp_StartingDeadlineSeconds = None,
      jp_BackoffLimit = None, jp_TTLSecondsAfterFinished = None, jp_RestartPolicy = [],
      jp_TimeZone = []\<rparr>"

definition LastJobOutcomeSucceeded :: string where [go_const]:
  "LastJobOutcomeSucceeded = ''Succeeded''"
definition LastJobOutcomeFailed :: string where [go_const]:
  "LastJobOutcomeFailed = ''Failed''"
definition ConditionReady :: string where [go_const]:
  "ConditionReady = ''Ready''"
definition ConditionBackupSucceeded :: string where [go_const]:
  "ConditionBackupSucceeded = ''BackupSucceeded''"
definition ConditionRestoreSucceeded :: string where [go_const]:
  "ConditionRestoreSucceeded = ''RestoreSucceeded''"

record LastJobStatus =
  lj_Name :: string
  lj_Outcome :: string
  lj_Reason :: string
  lj_Message :: string
  lj_StartTime :: "gotime option"
  lj_CompletionTime :: "gotime option"

section \<open>Status\<close>

text \<open>\<^verbatim>\<open>BackupStatus\<close> and \<^verbatim>\<open>RestoreStatus\<close> have the same fields.\<close>

record cr_status =
  st_Phase :: string
  st_ObservedGeneration :: int
  st_CronJobName :: string
  st_VolumeHolderName :: string
  st_LastScheduleTime :: "gotime option"
  st_LastSuccessfulTime :: "gotime option"
  st_LastJob :: "LastJobStatus option"
  st_Conditions :: "condition list"

type_synonym BackupStatus = cr_status
type_synonym RestoreStatus = cr_status

definition cr_status_zero :: cr_status where
  "cr_status_zero =
     \<lparr>st_Phase = [], st_ObservedGeneration = 0, st_CronJobName = [], st_VolumeHolderName = [],
      st_LastScheduleTime = None, st_LastSuccessfulTime = None, st_LastJob = None,
      st_Conditions = []\<rparr>"

definition BackupPhasePending :: string where [go_const]: "BackupPhasePending = ''Pending''"
definition BackupPhaseReady :: string where [go_const]: "BackupPhaseReady = ''Ready''"
definition BackupPhaseError :: string where [go_const]: "BackupPhaseError = ''Error''"
definition BackupPhaseUnsupported :: string where [go_const]:
  "BackupPhaseUnsupported = ''Unsupported''"

definition RestorePhasePending :: string where [go_const]: "RestorePhasePending = ''Pending''"
definition RestorePhaseReady :: string where [go_const]: "RestorePhaseReady = ''Ready''"
definition RestorePhaseError :: string where [go_const]: "RestorePhaseError = ''Error''"
definition RestorePhaseUnsupported :: string where [go_const]:
  "RestorePhaseUnsupported = ''Unsupported''"

section \<open>Backup\<close>

record BackupResources =
  br_Cleanup :: "resource_requirements option"
  br_Dump :: "resource_requirements option"
  br_Compress :: "resource_requirements option"
  br_Encrypt :: "resource_requirements option"
  br_S3Sync :: "resource_requirements option"

record PVCSourceSpec =
  pv_ClaimName :: string
  pv_Path :: string
  pv_Excludes :: "string list"
  pv_ConsumerSelector :: "label_selector option"
  pv_RunAsUser :: "int option"
  pv_RunAsGroup :: "int option"

text \<open>\<^verbatim>\<open>&PVCSourceSpec{}\<close>.\<close>

definition PVCSourceSpec_zero :: PVCSourceSpec where
  "PVCSourceSpec_zero =
     \<lparr>pv_ClaimName = [], pv_Path = [], pv_Excludes = [], pv_ConsumerSelector = None,
      pv_RunAsUser = None, pv_RunAsGroup = None\<rparr>"

record BackupSpec =
  bs_Engine :: engine
  bs_Schedule :: string
  bs_Suspend :: "bool option"
  bs_Database :: DatabaseSpec
  bs_PVC :: "PVCSourceSpec option"
  bs_S3 :: S3Spec
  bs_SecretRef :: string
  bs_Persistence :: "PersistenceSpec option"
  bs_LocalRetentionDays :: "int option"
  bs_LogFileEnabled :: "bool option"
  bs_DataDir :: string
  bs_McConfigDir :: string
  bs_Images :: "ImageSet option"
  bs_Resources :: "BackupResources option"
  bs_Job :: "JobPolicy option"
  bs_Runtime :: "RuntimeSpec option"
  bs_Component :: string

record Backup =
  bk_Meta :: objectmeta
  bk_Spec :: BackupSpec
  bk_Status :: BackupStatus

section \<open>Restore\<close>

record RestoreResources =
  rr_Cleanup :: "resource_requirements option"
  rr_Fetch :: "resource_requirements option"
  rr_Decrypt :: "resource_requirements option"
  rr_Extract :: "resource_requirements option"
  rr_Restore :: "resource_requirements option"

record RestoreSpec =
  rs_Engine :: engine
  rs_Schedule :: string
  rs_Suspend :: "bool option"
  rs_Database :: DatabaseSpec
  rs_S3 :: S3Spec
  rs_SecretRef :: string
  rs_PostgresSecret :: "SecretKeySelector option"
  rs_MariaDBSecret :: "SecretKeySelector option"
  rs_RedisSecret :: "SecretKeySelector option"
  rs_Persistence :: "PersistenceSpec option"
  rs_LogFileEnabled :: "bool option"
  rs_Workdir :: string
  rs_McConfigDir :: string
  rs_BackupFile :: string
  rs_UseLatestBackupAsFallback :: "bool option"
  rs_DropDatabaseIfExists :: "bool option"
  rs_StripPgAuditExtension :: "bool option"
  rs_Images :: "ImageSet option"
  rs_Resources :: "RestoreResources option"
  rs_Job :: "JobPolicy option"
  rs_Runtime :: "RuntimeSpec option"
  rs_Component :: string

record Restore =
  re_Meta :: objectmeta
  re_Spec :: RestoreSpec
  re_Status :: RestoreStatus

section \<open>The methods\<close>

lemma EffectiveMode_not_empty [simp]: "EffectiveMode r \<noteq> []"
  by (simp add: EffectiveMode_def go_const split: option.split)

lemma EffectiveMode_idem: "EffectiveMode (Some \<lparr>rt_Mode = EffectiveMode r\<rparr>) = EffectiveMode r"
  by (simp add: EffectiveMode_def [of "Some _"])

end
