(* ===== verification/Naming.thy ===== *)
theory Naming
  imports Api_Types
begin

text \<open>
  \<^verbatim>\<open>internal/config\<close> and the naming half of \<^verbatim>\<open>internal/resources\<close>: operator defaults,
  names of owned objects (\<^verbatim>\<open>names.go\<close>), labels (\<^verbatim>\<open>labels.go\<close>), engines
  (\<^verbatim>\<open>engine.go\<close>) and runtime roles (\<^verbatim>\<open>runtime.go\<close>).  The locale \<^verbatim>\<open>owned_kind\<close>
  is what the rest of the operator relies on: each kind of custom resource names and labels what
  it owns so that no two resources are confused.
\<close>

section \<open>Operator configuration\<close>

record Config =
  cfg_BusyBoxImage :: string
  cfg_GnuPGImage :: string
  cfg_PostgresImage :: string
  cfg_McImage :: string
  cfg_MariaDBImage :: string
  cfg_RedisImage :: string
  cfg_TarImage :: string
  cfg_DefaultS3Endpoint :: string
  cfg_DefaultS3Bucket :: string

definition DefaultBusyBoxImage :: string where [go_const]:
  "DefaultBusyBoxImage = ''docker.io/library/busybox:1.37''"
definition DefaultGnuPGImage :: string where [go_const]:
  "DefaultGnuPGImage = ''docker.io/vladgh/gpg:1.3.11''"
definition DefaultPostgresImage :: string where [go_const]:
  "DefaultPostgresImage = ''docker.io/cloudnative-pg/postgresql:18.4''"
definition DefaultMcImage :: string where [go_const]:
  "DefaultMcImage = ''docker.io/minio/mc:RELEASE.2025-08-13T08-35-41Z''"
definition DefaultMariaDBImage :: string where [go_const]:
  "DefaultMariaDBImage = ''docker.io/library/mariadb:10.6''"
definition DefaultRedisImage :: string where [go_const]:
  "DefaultRedisImage = ''docker.io/library/redis:7.4''"
definition DefaultTarImage :: string where [go_const]:
  "DefaultTarImage = ''docker.io/library/debian:trixie-slim''"
definition DefaultDataDir :: string where [go_const]: "DefaultDataDir = ''/backup/data''"
definition DefaultMcConfigDir :: string where [go_const]: "DefaultMcConfigDir = ''/tmp/mc-config''"
definition DefaultWorkdir :: string where [go_const]: "DefaultWorkdir = ''/workdir''"
definition DefaultPVCSourceDir :: string where [go_const]: "DefaultPVCSourceDir = ''/source''"
definition DefaultLocalRetentionDays :: int where [go_const]: "DefaultLocalRetentionDays = 7"
definition DefaultS3RetentionDays :: int where [go_const]: "DefaultS3RetentionDays = 14"

section \<open>Names\<close>

definition BackupNamePrefix :: string where [go_const]: "BackupNamePrefix = ''karkive-backup-''"
definition RestoreNamePrefix :: string where [go_const]: "RestoreNamePrefix = ''karkive-restore-''"
definition LegacyNamePrefix :: string where [go_const]: "LegacyNamePrefix = ''karkive-''"

definition BackupOwnedName :: "Backup \<Rightarrow> string" where
  "BackupOwnedName backup = BackupNamePrefix @ om_Name (bk_Meta backup)"

definition RestoreOwnedName :: "Restore \<Rightarrow> string" where
  "RestoreOwnedName restore = RestoreNamePrefix @ om_Name (re_Meta restore)"

definition LegacyOwnedName :: "string \<Rightarrow> string" where
  "LegacyOwnedName crName = LegacyNamePrefix @ crName"

section \<open>Engines\<close>

definition EffectiveEngine :: "engine \<Rightarrow> engine" where
  "EffectiveEngine e = (if e = [] then EnginePostgres else e)"

definition EngineImplemented :: "engine \<Rightarrow> bool" where
  "EngineImplemented e =
     (EffectiveEngine e \<in> {EnginePostgres, EngineMariaDB, EngineRedis, EnginePVC})"

definition RestoreEngineImplemented :: "engine \<Rightarrow> bool" where
  "RestoreEngineImplemented e = (EngineImplemented e \<and> EffectiveEngine e \<noteq> EnginePVC)"

definition DumpPrefix :: "engine \<Rightarrow> string" where
  "DumpPrefix e =
     (if EffectiveEngine e = EngineMariaDB then ''mysqldump''
      else if EffectiveEngine e = EngineRedis then ''redisdump''
      else if EffectiveEngine e = EnginePVC then ''pvcdump''
      else ''pg_dump'')"

definition DefaultPort :: "engine \<Rightarrow> int" where
  "DefaultPort e =
     (if EffectiveEngine e = EngineMariaDB then 3306
      else if EffectiveEngine e = EngineRedis then 6379
      else 5432)"

definition DatabasePort :: "DatabaseSpec \<Rightarrow> engine \<Rightarrow> int" where
  "DatabasePort db e = (if db_Port db > 0 then db_Port db else DefaultPort e)"

definition IsPVCBackup :: "Backup \<Rightarrow> bool" where
  "IsPVCBackup backup = (EffectiveEngine (bs_Engine (bk_Spec backup)) = EnginePVC)"

lemma EffectiveEngine_idem [simp]: "EffectiveEngine (EffectiveEngine e) = EffectiveEngine e"
  by (simp add: EffectiveEngine_def go_const)

lemma EffectiveEngine_eq [simp]:
  "EffectiveEngine e = EngineMariaDB \<longleftrightarrow> e = EngineMariaDB"
  "EffectiveEngine e = EngineRedis \<longleftrightarrow> e = EngineRedis"
  "EffectiveEngine e = EnginePVC \<longleftrightarrow> e = EnginePVC"
  "EffectiveEngine e = EnginePostgres \<longleftrightarrow> e = [] \<or> e = EnginePostgres"
  by (auto simp: EffectiveEngine_def go_const)

lemma engines_distinct [simp]:
  "EngineMariaDB \<noteq> EngineRedis" "EngineRedis \<noteq> EngineMariaDB"
  "EngineMariaDB \<noteq> EnginePVC" "EnginePVC \<noteq> EngineMariaDB"
  "EngineRedis \<noteq> EnginePVC" "EnginePVC \<noteq> EngineRedis"
  "EnginePostgres \<noteq> EnginePVC" "EnginePVC \<noteq> EnginePostgres"
  "EnginePostgres \<noteq> EngineMariaDB" "EngineMariaDB \<noteq> EnginePostgres"
  "EnginePostgres \<noteq> EngineRedis" "EngineRedis \<noteq> EnginePostgres"
  by (simp_all add: go_const)

lemma DatabasePort_positive: "0 < DatabasePort db e"
  by (simp add: DatabasePort_def DefaultPort_def)

section \<open>Labels\<close>

definition LabelAppName :: string where [go_const]: "LabelAppName = ''app.kubernetes.io/name''"
definition LabelAppInstance :: string where [go_const]:
  "LabelAppInstance = ''app.kubernetes.io/instance''"
definition LabelAppComponent :: string where [go_const]:
  "LabelAppComponent = ''app.kubernetes.io/component''"
definition LabelAppManagedBy :: string where [go_const]:
  "LabelAppManagedBy = ''app.kubernetes.io/managed-by''"
definition LabelAppPartOf :: string where [go_const]:
  "LabelAppPartOf = ''app.kubernetes.io/part-of''"
definition LabelBackupName :: string where [go_const]: "LabelBackupName = ''karkive.io/backup''"
definition LabelRestoreName :: string where [go_const]: "LabelRestoreName = ''karkive.io/restore''"
definition LabelEngine :: string where [go_const]: "LabelEngine = ''karkive.io/engine''"
definition LabelKind :: string where [go_const]: "LabelKind = ''karkive.io/kind''"
definition LabelRuntimeRole :: string where [go_const]:
  "LabelRuntimeRole = ''karkive.io/runtime-role''"
definition ManagedBy :: string where [go_const]: "ManagedBy = ''karkive''"
definition PartOf :: string where [go_const]: "PartOf = ''karkive''"
definition KindBackup :: string where [go_const]: "KindBackup = ''backup''"
definition KindRestore :: string where [go_const]: "KindRestore = ''restore''"

definition BackupLabels :: "Backup \<Rightarrow> strmap" where
  "BackupLabels backup =
     (let name = om_Name (bk_Meta backup);
          component = (if bs_Component (bk_Spec backup) = [] then name
                       else bs_Component (bk_Spec backup))
      in [LabelAppName \<mapsto> name, LabelAppInstance \<mapsto> name, LabelAppComponent \<mapsto> component,
          LabelAppManagedBy \<mapsto> ManagedBy, LabelAppPartOf \<mapsto> PartOf, LabelBackupName \<mapsto> name,
          LabelEngine \<mapsto> EffectiveEngine (bs_Engine (bk_Spec backup)), LabelKind \<mapsto> KindBackup])"

definition RestoreLabels :: "Restore \<Rightarrow> strmap" where
  "RestoreLabels restore =
     (let name = om_Name (re_Meta restore);
          component = (if rs_Component (re_Spec restore) = [] then name
                       else rs_Component (re_Spec restore))
      in [LabelAppName \<mapsto> name, LabelAppInstance \<mapsto> name, LabelAppComponent \<mapsto> component,
          LabelAppManagedBy \<mapsto> ManagedBy, LabelAppPartOf \<mapsto> PartOf, LabelRestoreName \<mapsto> name,
          LabelEngine \<mapsto> EffectiveEngine (rs_Engine (re_Spec restore)), LabelKind \<mapsto> KindRestore])"

section \<open>Runtime roles\<close>

definition RuntimeRoleVolumeHolder :: string where [go_const]:
  "RuntimeRoleVolumeHolder = ''volume-holder''"
definition volumeHolderNameSuffix :: string where [go_const]: "volumeHolderNameSuffix = ''-holder''"
definition kubernetesHostnameLabel :: string where [go_const]:
  "kubernetesHostnameLabel = ''kubernetes.io/hostname''"
definition dns1035LabelMax :: nat where [go_const]: "dns1035LabelMax = 63"

definition NeedsVolumeHolder :: "RuntimeSpec option \<Rightarrow> bool" where
  "NeedsVolumeHolder runtime = (EffectiveMode runtime = RuntimeModeCronJobWithVolumeHolder)"

definition VolumeHolderName :: "string \<Rightarrow> string" where
  "VolumeHolderName owned =
     (if length owned + length volumeHolderNameSuffix \<le> dns1035LabelMax
      then owned @ volumeHolderNameSuffix
      else let keep = dns1035LabelMax - length volumeHolderNameSuffix
           in strings_TrimRight (take keep owned) ''-'' @ volumeHolderNameSuffix)"

definition VolumeHolderMatchLabels :: "string \<Rightarrow> string \<Rightarrow> strmap" where
  "VolumeHolderMatchLabels kind crName =
     [LabelKind \<mapsto> kind, LabelRuntimeRole \<mapsto> RuntimeRoleVolumeHolder]
       ((if kind = KindRestore then LabelRestoreName else LabelBackupName) \<mapsto> crName)"

text \<open>A fresh map with every entry of \<^verbatim>\<open>labels\<close>, then the role.\<close>

definition WithRuntimeRole :: "strmap \<Rightarrow> string \<Rightarrow> strmap" where
  "WithRuntimeRole labels role = labels(LabelRuntimeRole \<mapsto> role)"

definition VolumeHolderAffinityTerm :: "strmap \<Rightarrow> affinity_term" where
  "VolumeHolderAffinityTerm matchLabels =
     \<lparr>at_LabelSelector = \<lparr>ls_MatchLabels = matchLabels, ls_MatchExpressions = []\<rparr>,
      at_TopologyKey = kubernetesHostnameLabel\<rparr>"

definition RequiredPodAffinity :: "affinity_term list \<Rightarrow> affinity_term list option" where
  "RequiredPodAffinity terms = (if terms = [] then None else Some terms)"

section \<open>The contract between a kind and what it owns\<close>

lemma labels_distinct [simp]:
  "LabelRuntimeRole \<noteq> LabelAppName" "LabelRuntimeRole \<noteq> LabelAppInstance"
  "LabelRuntimeRole \<noteq> LabelAppComponent" "LabelRuntimeRole \<noteq> LabelAppManagedBy"
  "LabelRuntimeRole \<noteq> LabelAppPartOf" "LabelRuntimeRole \<noteq> LabelBackupName"
  "LabelRuntimeRole \<noteq> LabelRestoreName" "LabelRuntimeRole \<noteq> LabelEngine"
  "LabelBackupName \<noteq> LabelRuntimeRole" "LabelRestoreName \<noteq> LabelRuntimeRole"
  "LabelRuntimeRole \<noteq> LabelKind" "LabelKind \<noteq> LabelRuntimeRole"
  "LabelKind \<noteq> LabelBackupName" "LabelKind \<noteq> LabelRestoreName"
  "LabelBackupName \<noteq> LabelKind" "LabelRestoreName \<noteq> LabelKind"
  "LabelBackupName \<noteq> LabelRestoreName" "LabelRestoreName \<noteq> LabelBackupName"
  "KindBackup \<noteq> KindRestore" "KindRestore \<noteq> KindBackup"
  by (simp_all add: go_const)

text \<open>
  Pod selection by equality labels, as Kubernetes does it: a selector matches an object that
  carries every pair of the selector.
\<close>

definition selects :: "strmap \<Rightarrow> strmap \<Rightarrow> bool" where
  "selects sel labels \<longleftrightarrow> sel \<subseteq>\<^sub>m labels"

locale owned_kind =
  fixes cr_name :: "'cr \<Rightarrow> string"
    and owned_name :: "'cr \<Rightarrow> string"
    and labels :: "'cr \<Rightarrow> strmap"
    and kind :: string
    and name_label :: string
  assumes owned_inj: "owned_name c = owned_name d \<longleftrightarrow> cr_name c = cr_name d"
    and labels_kind: "labels c LabelKind = Some kind"
    and labels_name: "labels c name_label = Some (cr_name c)"
    and labels_managed: "labels c LabelAppManagedBy = Some ManagedBy"
    and labels_role: "labels c LabelRuntimeRole = None"
    and name_label_key: "name_label = (if kind = KindRestore then LabelRestoreName else LabelBackupName)"
begin

lemma holder_labels_index:
  "VolumeHolderMatchLabels kind n =
     [LabelKind \<mapsto> kind, LabelRuntimeRole \<mapsto> RuntimeRoleVolumeHolder, name_label \<mapsto> n]"
  by (simp add: VolumeHolderMatchLabels_def name_label_key)

text \<open>The holder's selector selects the holder's pods of the same resource, and only those.\<close>

lemma holder_selected_iff:
  "selects (VolumeHolderMatchLabels kind (cr_name c)) (WithRuntimeRole (labels d) RuntimeRoleVolumeHolder)
     \<longleftrightarrow> cr_name c = cr_name d"
  by (auto simp: selects_def holder_labels_index WithRuntimeRole_def map_le_def labels_kind labels_name
      name_label_key labels_name [unfolded name_label_key])

lemma job_pod_not_selected: "\<not> selects (VolumeHolderMatchLabels kind n) (labels d)"
proof
  assume "selects (VolumeHolderMatchLabels kind n) (labels d)"
  then have "VolumeHolderMatchLabels kind n LabelRuntimeRole = labels d LabelRuntimeRole"
    by (auto simp: selects_def map_le_def holder_labels_index)
  then show False
    by (simp add: labels_role holder_labels_index name_label_key split: if_splits)
qed

end

lemma BackupLabels_index [simp]:
  "BackupLabels b LabelKind = Some KindBackup"
  "BackupLabels b LabelBackupName = Some (om_Name (bk_Meta b))"
  "BackupLabels b LabelAppManagedBy = Some ManagedBy"
  "BackupLabels b LabelRuntimeRole = None"
  "BackupLabels b LabelRestoreName = None"
  by (simp_all add: BackupLabels_def go_const Let_def)

lemma RestoreLabels_index [simp]:
  "RestoreLabels r LabelKind = Some KindRestore"
  "RestoreLabels r LabelRestoreName = Some (om_Name (re_Meta r))"
  "RestoreLabels r LabelAppManagedBy = Some ManagedBy"
  "RestoreLabels r LabelRuntimeRole = None"
  "RestoreLabels r LabelBackupName = None"
  by (simp_all add: RestoreLabels_def go_const Let_def)

interpretation backup_kind: owned_kind "\<lambda>b. om_Name (bk_Meta b)" BackupOwnedName BackupLabels
  KindBackup LabelBackupName
  by unfold_locales (simp_all add: BackupOwnedName_def)

interpretation restore_kind: owned_kind "\<lambda>r. om_Name (re_Meta r)" RestoreOwnedName RestoreLabels
  KindRestore LabelRestoreName
  by unfold_locales (simp_all add: RestoreOwnedName_def)

section \<open>Names stay apart\<close>

lemma owned_prefixes_apart: "BackupNamePrefix @ m \<noteq> RestoreNamePrefix @ n"
  by (simp add: go_const)

text \<open>
  The pre-0.0.4 name of a Backup called \<^verbatim>\<open>backup-x\<close> is the current name of the Backup
  \<^verbatim>\<open>x\<close>: the cleanup of legacy objects must not go by the name alone.
\<close>

lemma legacy_name_overlaps_current:
  "om_Name (bk_Meta b) = x \<Longrightarrow> LegacyOwnedName (''backup-'' @ x) = BackupOwnedName b"
  by (simp add: LegacyOwnedName_def BackupOwnedName_def go_const)

section \<open>The volume holder's name\<close>

lemma VolumeHolderName_short:
  "length owned \<le> 56 \<Longrightarrow> VolumeHolderName owned = owned @ volumeHolderNameSuffix"
  by (simp add: VolumeHolderName_def go_const)

lemma VolumeHolderName_long:
  "56 < length owned \<Longrightarrow>
   VolumeHolderName owned = strings_TrimRight (take 56 owned) ''-'' @ volumeHolderNameSuffix"
  by (simp add: VolumeHolderName_def go_const)

text \<open>
  The name of the volume-holder Deployment is always a prefix of the owned name followed by
  \<^verbatim>\<open>-holder\<close>, at most 63 bytes long (the limit of a DNS label), whatever the length of the
  resource's name, and a name cut short never ends in a dash before the suffix.
\<close>

theorem VolumeHolderName_fits:
  "length (VolumeHolderName owned) \<le> 63 \<and>
   (\<exists>p. prefix p owned \<and> VolumeHolderName owned = p @ ''-holder'' \<and>
      (if p = owned \<or> p = [] then True else last p \<noteq> CHR ''-''))"
proof (cases "length owned \<le> 56")
  case True
  then show ?thesis by (auto simp: VolumeHolderName_short go_const)
next
  case False
  let ?p = "strings_TrimRight (take 56 owned) ''-''"
  have "length ?p \<le> 56"
    using strings_TrimRight_length [of "take 56 owned" "''-''"] by simp
  moreover have "prefix ?p owned"
    using strings_TrimRight_prefix take_is_prefix by (rule prefix_order.trans)
  moreover have "?p = [] \<or> last ?p \<noteq> CHR ''-''"
    using strings_TrimRight_last [of "take 56 owned" "''-''"] by auto
  moreover have "VolumeHolderName owned = ?p @ ''-holder''"
    using False by (simp add: VolumeHolderName_long go_const)
  ultimately show ?thesis by auto
qed

text \<open>
  As long as the owned names leave room for the suffix (at most 56 bytes), two resources get the same
  holder name only if they own the same name; names that are longer and agree on their first 56 bytes
  are cut to the same one.
\<close>

lemma VolumeHolderName_injective:
  "length a \<le> 56 \<Longrightarrow> length b \<le> 56 \<Longrightarrow> VolumeHolderName a = VolumeHolderName b \<longleftrightarrow> a = b"
  by (simp add: VolumeHolderName_short)

lemma VolumeHolderName_cut:
  "56 < length a \<Longrightarrow> 56 < length b \<Longrightarrow> take 56 a = take 56 b \<Longrightarrow> VolumeHolderName a = VolumeHolderName b"
  by (simp add: VolumeHolderName_long)

text \<open>The cut never reaches the prefix of the kind.\<close>

lemma strings_TrimRight_keeps:
  assumes "last p \<notin> set cutset" and "p \<noteq> []"
  shows "\<exists>q. strings_TrimRight (p @ s) cutset = p @ q"
proof -
  have stop: "dropWhile (\<lambda>c. c \<in> set cutset) (rev p) = rev p"
    using assms by (subst dropWhile_eq_self_iff) (simp add: hd_rev)
  show ?thesis
    by (cases "\<forall>c\<in>set s. c \<in> set cutset")
      (auto simp: strings_TrimRight_def dropWhile_append stop)
qed

lemma VolumeHolderName_kind:
  "\<exists>s. VolumeHolderName (BackupOwnedName b) = ''karkive-backup'' @ s"
  "\<exists>s. VolumeHolderName (RestoreOwnedName r) = ''karkive-restore'' @ s"
proof -
  have "\<exists>s. VolumeHolderName (p @ n) = p @ s" if "last p \<notin> set ''-''" "p \<noteq> []" "length p \<le> 56" for p n
    using strings_TrimRight_keeps [OF that(1,2), of "take (56 - length p) n"] that(3)
    by (auto simp: VolumeHolderName_def volumeHolderNameSuffix_def dns1035LabelMax_def)
  from this [of "''karkive-backup''" "CHR ''-'' # om_Name (bk_Meta b)"]
    this [of "''karkive-restore''" "CHR ''-'' # om_Name (re_Meta r)"]
  show "\<exists>s. VolumeHolderName (BackupOwnedName b) = ''karkive-backup'' @ s"
    "\<exists>s. VolumeHolderName (RestoreOwnedName r) = ''karkive-restore'' @ s"
    by (simp_all add: BackupOwnedName_def RestoreOwnedName_def BackupNamePrefix_def RestoreNamePrefix_def)
qed

text \<open>
  C34: which names the objects of two custom resources can share.  Two Backups (or two Restores) with
  different names own different ConfigMap, claim and CronJob names, and no Backup shares such a name
  with a Restore, even when the two resources have the same name (the collision that the prefix by kind
  was introduced for).  The holder Deployment, whose name is cut to 63 bytes, is told apart less far:
  a Backup and a Restore never share it; two Backups whose names have at most 41 bytes (two Restores, 40
  bytes) share it only if they have the same name; but two longer names that agree on their first 41
  (40) bytes always share it, whatever follows.
\<close>

theorem owned_names_collisions:
  "(BackupOwnedName b = BackupOwnedName b' \<longleftrightarrow> om_Name (bk_Meta b) = om_Name (bk_Meta b')) \<and>
   (RestoreOwnedName r = RestoreOwnedName r' \<longleftrightarrow> om_Name (re_Meta r) = om_Name (re_Meta r')) \<and>
   BackupOwnedName b \<noteq> RestoreOwnedName r \<and>
   VolumeHolderName (BackupOwnedName b) \<noteq> VolumeHolderName (RestoreOwnedName r) \<and>
   (length (om_Name (bk_Meta b)) \<le> 41 \<and> length (om_Name (bk_Meta b')) \<le> 41 \<longrightarrow>
      (VolumeHolderName (BackupOwnedName b) = VolumeHolderName (BackupOwnedName b') \<longleftrightarrow>
       om_Name (bk_Meta b) = om_Name (bk_Meta b'))) \<and>
   (length (om_Name (re_Meta r)) \<le> 40 \<and> length (om_Name (re_Meta r')) \<le> 40 \<longrightarrow>
      (VolumeHolderName (RestoreOwnedName r) = VolumeHolderName (RestoreOwnedName r') \<longleftrightarrow>
       om_Name (re_Meta r) = om_Name (re_Meta r'))) \<and>
   (41 < length (om_Name (bk_Meta b)) \<and> 41 < length (om_Name (bk_Meta b')) \<and>
      take 41 (om_Name (bk_Meta b)) = take 41 (om_Name (bk_Meta b')) \<longrightarrow>
      VolumeHolderName (BackupOwnedName b) = VolumeHolderName (BackupOwnedName b')) \<and>
   (40 < length (om_Name (re_Meta r)) \<and> 40 < length (om_Name (re_Meta r')) \<and>
      take 40 (om_Name (re_Meta r)) = take 40 (om_Name (re_Meta r')) \<longrightarrow>
      VolumeHolderName (RestoreOwnedName r) = VolumeHolderName (RestoreOwnedName r'))"
proof (intro conjI)
  show "BackupOwnedName b \<noteq> RestoreOwnedName r"
    by (simp add: BackupOwnedName_def RestoreOwnedName_def owned_prefixes_apart)
  show "VolumeHolderName (BackupOwnedName b) \<noteq> VolumeHolderName (RestoreOwnedName r)"
    using VolumeHolderName_kind(1) [of b] VolumeHolderName_kind(2) [of r] by auto
qed (auto simp: BackupOwnedName_def RestoreOwnedName_def BackupNamePrefix_def RestoreNamePrefix_def
    VolumeHolderName_injective intro!: VolumeHolderName_cut)

definition backup_named :: "Backup \<Rightarrow> string \<Rightarrow> Backup" where
  "backup_named b n = b\<lparr>bk_Meta := (bk_Meta b)\<lparr>om_Name := n\<rparr>\<rparr>"

definition restore_named :: "Restore \<Rightarrow> string \<Rightarrow> Restore" where
  "restore_named r n = r\<lparr>re_Meta := (re_Meta r)\<lparr>om_Name := n\<rparr>\<rparr>"

theorem owned_names_collisions_witness:
  "\<forall>b r. VolumeHolderName (BackupOwnedName (backup_named b ''orders'')) \<noteq>
       VolumeHolderName (BackupOwnedName (backup_named b ''orders-2'')) \<and>
     VolumeHolderName (RestoreOwnedName (restore_named r ''orders'')) \<noteq>
       VolumeHolderName (RestoreOwnedName (restore_named r ''orders-2'')) \<and>
     VolumeHolderName (BackupOwnedName (backup_named b ''a-database-of-orders-in-the-first-region-of-eu'')) =
       VolumeHolderName (BackupOwnedName (backup_named b ''a-database-of-orders-in-the-first-region-of-us'')) \<and>
     VolumeHolderName (RestoreOwnedName (restore_named r ''a-database-of-orders-in-the-first-region-of-eu'')) =
       VolumeHolderName (RestoreOwnedName (restore_named r ''a-database-of-orders-in-the-first-region-of-us''))"
proof (intro allI)
  fix b :: Backup and r :: Restore
  let ?eu = "''a-database-of-orders-in-the-first-region-of-eu''"
  let ?us = "''a-database-of-orders-in-the-first-region-of-us''"
  show "VolumeHolderName (BackupOwnedName (backup_named b ''orders'')) \<noteq>
           VolumeHolderName (BackupOwnedName (backup_named b ''orders-2'')) \<and>
         VolumeHolderName (RestoreOwnedName (restore_named r ''orders'')) \<noteq>
           VolumeHolderName (RestoreOwnedName (restore_named r ''orders-2'')) \<and>
         VolumeHolderName (BackupOwnedName (backup_named b ''a-database-of-orders-in-the-first-region-of-eu'')) =
           VolumeHolderName (BackupOwnedName (backup_named b ''a-database-of-orders-in-the-first-region-of-us'')) \<and>
         VolumeHolderName (RestoreOwnedName (restore_named r ''a-database-of-orders-in-the-first-region-of-eu'')) =
           VolumeHolderName (RestoreOwnedName (restore_named r ''a-database-of-orders-in-the-first-region-of-us''))"
    using owned_names_collisions [of "backup_named b ''orders''" "backup_named b ''orders-2''"
        "restore_named r ''orders''" "restore_named r ''orders-2''"]
      owned_names_collisions [of "backup_named b ?eu" "backup_named b ?us" "restore_named r ?eu" "restore_named r ?us"]
    by (simp add: backup_named_def restore_named_def)
qed

text \<open>
  The volume holder and the Job pods are never confused: the selector of a Backup's (or
  Restore's) holder selects the pods of that resource's holder and of no other, and it never
  selects the pipeline's Job pods, which carry the same labels without the runtime role.
\<close>

theorem holder_selector_exact:
  "(selects (VolumeHolderMatchLabels KindBackup (om_Name (bk_Meta b)))
      (WithRuntimeRole (BackupLabels b') RuntimeRoleVolumeHolder)
      \<longleftrightarrow> om_Name (bk_Meta b) = om_Name (bk_Meta b')) \<and>
   (selects (VolumeHolderMatchLabels KindRestore (om_Name (re_Meta r)))
      (WithRuntimeRole (RestoreLabels r') RuntimeRoleVolumeHolder)
      \<longleftrightarrow> om_Name (re_Meta r) = om_Name (re_Meta r')) \<and>
   \<not> selects (VolumeHolderMatchLabels KindBackup n) (BackupLabels b) \<and>
   \<not> selects (VolumeHolderMatchLabels KindRestore n) (RestoreLabels r)"
  by (intro conjI backup_kind.holder_selected_iff restore_kind.holder_selected_iff
      backup_kind.job_pod_not_selected restore_kind.job_pod_not_selected)

end
