(* ===== verification/K8s_Lib.thy ===== *)
theory K8s_Lib
  imports Api_Types
begin

text \<open>
  The third-party functions the operator calls.  They are not part of the repository: they are
  the fields of the parameter record \<^verbatim>\<open>k8slib\<close>, and what the code relies on is stated by the
  predicates \<^verbatim>\<open>..._laws\<close>, each the documented behaviour of one library.  The theory
  \<^verbatim>\<open>Doc_Lib\<close> gives a reference library that satisfies all of them.
\<close>

section \<open>The functions\<close>

text \<open>
  \<^verbatim>\<open>cron.ParseStandard\<close> and \<^verbatim>\<open>metav1.LabelSelectorAsSelector\<close> are used for their error
  only.  \<^verbatim>\<open>SetStatusCondition\<close> gives the new list and whether it changed; the clock it
  reads is part of the parameter.  \<^verbatim>\<open>SetControllerReference\<close> takes the owner's kind (which
  the source's scheme looks up by type), the owner and the object.
\<close>

record k8slib =
  cron_ParseStandard :: "string \<Rightarrow> goerror option"
  metav1_LabelSelectorAsSelector :: "label_selector \<Rightarrow> goerror option"
  resource_MustParse :: "string \<Rightarrow> quantity"
  quantity_Cmp :: "quantity \<Rightarrow> quantity \<Rightarrow> int"
  quantity_IsZero :: "quantity \<Rightarrow> bool"
  meta_SetStatusCondition :: "condition list \<Rightarrow> condition \<Rightarrow> condition list \<times> bool"
  semantic_DeepEqual_time :: "gotime option \<Rightarrow> gotime option \<Rightarrow> bool"
  semantic_DeepEqual_lastJob :: "LastJobStatus option \<Rightarrow> LastJobStatus option \<Rightarrow> bool"
  apierrors_IsNotFound :: "goerror \<Rightarrow> bool"
  apierrors_IsConflict :: "goerror \<Rightarrow> bool"
  controllerutil_SetControllerReference :: "string \<Rightarrow> objectmeta \<Rightarrow> objectmeta \<Rightarrow> goerror + objectmeta"
  metav1_IsControlledBy :: "objectmeta \<Rightarrow> objectmeta \<Rightarrow> bool"

text \<open>\<^verbatim>\<open>client.IgnoreNotFound(err)\<close>: nil on NotFound errors, every other error unchanged.\<close>

definition client_IgnoreNotFound :: "k8slib \<Rightarrow> goerror \<Rightarrow> goerror option" where
  "client_IgnoreNotFound K e = (if apierrors_IsNotFound K e then None else Some e)"

definition quantity_laws :: "k8slib \<Rightarrow> bool" where
  "quantity_laws K \<longleftrightarrow>
     (\<forall>a b. quantity_Cmp K a b \<le> 0 \<longleftrightarrow> a \<le> b) \<and> (\<forall>a. quantity_IsZero K a \<longleftrightarrow> a = 0)"

definition apierrors_laws :: "k8slib \<Rightarrow> bool" where
  "apierrors_laws K \<longleftrightarrow>
     (\<forall>e. apierrors_IsNotFound K e \<longleftrightarrow> status_reason e = Some ReasonNotFound) \<and>
     (\<forall>e. apierrors_IsConflict K e \<longleftrightarrow> status_reason e = Some ReasonConflict)"

definition deepequal_laws :: "k8slib \<Rightarrow> bool" where
  "deepequal_laws K \<longleftrightarrow>
     (\<forall>a b. semantic_DeepEqual_time K a b \<longleftrightarrow> a = b) \<and>
     (\<forall>a b. semantic_DeepEqual_lastJob K a b \<longleftrightarrow> a = b)"

text \<open>
  \<^verbatim>\<open>meta.SetStatusCondition\<close>: at most one condition per type; a new type is appended;
  an existing condition takes the new status, reason, message and observed generation; the
  result tells whether anything changed, and an unchanged list is returned as it is.
\<close>

definition find_condition :: "condition list \<Rightarrow> string \<Rightarrow> condition option" where
  "find_condition cs ty = find (\<lambda>c. co_Type c = ty) cs"

definition same_condition :: "condition \<Rightarrow> condition \<Rightarrow> bool" where
  "same_condition c d \<longleftrightarrow>
     co_Status c = co_Status d \<and> co_Reason c = co_Reason d \<and> co_Message c = co_Message d \<and>
     co_ObservedGeneration c = co_ObservedGeneration d"

definition condition_laws :: "k8slib \<Rightarrow> bool" where
  "condition_laws K \<longleftrightarrow>
     (\<forall>cs c. \<exists>d. find_condition (fst (meta_SetStatusCondition K cs c)) (co_Type c) = Some d \<and>
               same_condition d c) \<and>
     (\<forall>cs c ty. ty \<noteq> co_Type c \<longrightarrow>
        find_condition (fst (meta_SetStatusCondition K cs c)) ty = find_condition cs ty) \<and>
     (\<forall>cs c. \<not> snd (meta_SetStatusCondition K cs c) \<longleftrightarrow>
        (\<exists>d. find_condition cs (co_Type c) = Some d \<and> same_condition d c)) \<and>
     (\<forall>cs c. \<not> snd (meta_SetStatusCondition K cs c) \<longrightarrow>
        fst (meta_SetStatusCondition K cs c) = cs)"

text \<open>
  \<^verbatim>\<open>SetControllerReference\<close> refuses an object whose controlling reference names another kind
  or another name; on success the owner is the controller, nothing but the owner references has changed,
  and setting the same owner again changes nothing.  (It does not compare UIDs: a resource created again under the same name takes over what its
  predecessor controlled.)
  \<^verbatim>\<open>IsControlledBy\<close> compares the UID of the controlling reference.
\<close>

definition controller_of :: "objectmeta \<Rightarrow> ownerref option" where
  "controller_of m = find or_Controller (om_OwnerReferences m)"

definition ownership_laws :: "k8slib \<Rightarrow> bool" where
  "ownership_laws K \<longleftrightarrow>
     (\<forall>obj owner. metav1_IsControlledBy K obj owner \<longleftrightarrow>
        (\<exists>r. controller_of obj = Some r \<and> or_UID r = om_UID owner)) \<and>
     (\<forall>kind owner obj r. controller_of obj = Some r \<and> (or_Kind r, or_Name r) \<noteq> (kind, om_Name owner) \<longrightarrow>
        (\<exists>e. controllerutil_SetControllerReference K kind owner obj = Inl e)) \<and>
     (\<forall>kind owner obj obj'. controllerutil_SetControllerReference K kind owner obj = Inr obj' \<longrightarrow>
        (\<exists>r. controller_of obj' = Some r \<and> or_UID r = om_UID owner \<and> or_Kind r = kind \<and> or_Name r = om_Name owner) \<and>
        obj'\<lparr>om_OwnerReferences := om_OwnerReferences obj\<rparr> = obj \<and>
        controllerutil_SetControllerReference K kind owner obj' = Inr obj')"

end
