(* ===== verification/Defaults.thy ===== *)
theory Defaults
  imports Naming K8s_Lib
begin

text \<open>
  \<^verbatim>\<open>internal/resources/defaults.go\<close>: per-stage resources and their overrides, images, S3,
  retention and directory defaults, and the target secret of a Restore.
\<close>

section \<open>Resources\<close>

definition reslist :: "k8slib \<Rightarrow> string \<Rightarrow> string \<Rightarrow> string \<Rightarrow> resource_list" where
  "reslist K cpu mem eph =
     [ResourceCPU \<mapsto> resource_MustParse K cpu, ResourceMemory \<mapsto> resource_MustParse K mem,
      ResourceEphemeralStorage \<mapsto> resource_MustParse K eph]"

definition DefaultCleanupResources :: "k8slib \<Rightarrow> resource_requirements" where
  "DefaultCleanupResources K =
     \<lparr>rr_Requests = reslist K ''20m'' ''32Mi'' ''10Mi'', rr_Limits = reslist K ''100m'' ''64Mi'' ''50Mi''\<rparr>"

definition DefaultDumpResources :: "k8slib \<Rightarrow> resource_requirements" where
  "DefaultDumpResources K =
     \<lparr>rr_Requests = reslist K ''100m'' ''128Mi'' ''50Mi'', rr_Limits = reslist K ''150m'' ''192Mi'' ''2Gi''\<rparr>"

definition DefaultCompressEncryptResources :: "k8slib \<Rightarrow> resource_requirements" where
  "DefaultCompressEncryptResources K =
     \<lparr>rr_Requests = reslist K ''100m'' ''128Mi'' ''10Mi'', rr_Limits = reslist K ''500m'' ''256Mi'' ''100Mi''\<rparr>"

definition DefaultS3SyncResources :: "k8slib \<Rightarrow> resource_requirements" where
  "DefaultS3SyncResources K =
     \<lparr>rr_Requests = reslist K ''50m'' ''64Mi'' ''10Mi'', rr_Limits = reslist K ''100m'' ''128Mi'' ''100Mi''\<rparr>"

definition DefaultFetchResources :: "k8slib \<Rightarrow> resource_requirements" where
  "DefaultFetchResources K =
     \<lparr>rr_Requests = reslist K ''50m'' ''64Mi'' ''10Mi'', rr_Limits = reslist K ''200m'' ''128Mi'' ''2Gi''\<rparr>"

definition DefaultDecryptExtractResources :: "k8slib \<Rightarrow> resource_requirements" where
  "DefaultDecryptExtractResources K =
     \<lparr>rr_Requests = reslist K ''100m'' ''128Mi'' ''10Mi'', rr_Limits = reslist K ''500m'' ''256Mi'' ''2Gi''\<rparr>"

definition DefaultRestoreStageResources :: "k8slib \<Rightarrow> resource_requirements" where
  "DefaultRestoreStageResources K =
     \<lparr>rr_Requests = reslist K ''100m'' ''256Mi'' ''10Mi'', rr_Limits = reslist K ''1'' ''1Gi'' ''2Gi''\<rparr>"

text \<open>
  Writing every entry of the override over a deep copy of the base is the map override
  \<open>base ++ override\<close>.
\<close>

definition mergeResources ::
  "resource_requirements \<Rightarrow> resource_requirements option \<Rightarrow> resource_requirements" where
  "mergeResources base override =
     (case override of
        None \<Rightarrow> base
      | Some o' \<Rightarrow>
          \<lparr>rr_Requests = (if rr_Requests o' \<noteq> Map.empty then rr_Requests base ++ rr_Requests o'
                          else rr_Requests base),
           rr_Limits = (if rr_Limits o' \<noteq> Map.empty then rr_Limits base ++ rr_Limits o'
                        else rr_Limits base)\<rparr>)"

definition BackupResources_zero :: BackupResources where
  "BackupResources_zero =
     \<lparr>br_Cleanup = None, br_Dump = None, br_Compress = None, br_Encrypt = None, br_S3Sync = None\<rparr>"

definition RestoreResources_zero :: RestoreResources where
  "RestoreResources_zero =
     \<lparr>rr_Cleanup = None, rr_Fetch = None, rr_Decrypt = None, rr_Extract = None, rr_Restore = None\<rparr>"

text \<open>The stages' resources in the order of the source's results.\<close>

definition restoreStageResources ::
  "k8slib \<Rightarrow> Restore \<Rightarrow> resource_requirements \<times> resource_requirements \<times> resource_requirements \<times>
     resource_requirements \<times> resource_requirements" where
  "restoreStageResources K restore =
     (let res = (case rs_Resources (re_Spec restore) of Some r \<Rightarrow> r | None \<Rightarrow> RestoreResources_zero) in
      (mergeResources (DefaultCleanupResources K) (rr_Cleanup res),
       mergeResources (DefaultFetchResources K) (rr_Fetch res),
       mergeResources (DefaultDecryptExtractResources K) (rr_Decrypt res),
       mergeResources (DefaultDecryptExtractResources K) (rr_Extract res),
       mergeResources (DefaultRestoreStageResources K) (rr_Restore res)))"

definition backupStageResources ::
  "k8slib \<Rightarrow> Backup \<Rightarrow> resource_requirements \<times> resource_requirements \<times> resource_requirements \<times>
     resource_requirements \<times> resource_requirements" where
  "backupStageResources K backup =
     (let res = (case bs_Resources (bk_Spec backup) of Some r \<Rightarrow> r | None \<Rightarrow> BackupResources_zero) in
      (mergeResources (DefaultCleanupResources K) (br_Cleanup res),
       mergeResources (DefaultDumpResources K) (br_Dump res),
       mergeResources (DefaultCompressEncryptResources K) (br_Compress res),
       mergeResources (DefaultCompressEncryptResources K) (br_Encrypt res),
       mergeResources (DefaultS3SyncResources K) (br_S3Sync res)))"

section \<open>Persistence\<close>

definition PersistenceEnabled :: "PersistenceSpec option \<Rightarrow> bool" where
  "PersistenceEnabled p =
     (case p of None \<Rightarrow> True
      | Some ps \<Rightarrow> (case ps_Enabled ps of None \<Rightarrow> True | Some b \<Rightarrow> b))"

definition persistenceSize :: "k8slib \<Rightarrow> PersistenceSpec option \<Rightarrow> quantity" where
  "persistenceSize K p =
     (case p of
        Some ps \<Rightarrow> if \<not> quantity_IsZero K (ps_Size ps) then ps_Size ps else resource_MustParse K ''1Gi''
      | None \<Rightarrow> resource_MustParse K ''1Gi'')"

section \<open>Images\<close>

fun firstNonEmpty :: "string list \<Rightarrow> string" where
  "firstNonEmpty [] = []"
| "firstNonEmpty (v # vs) = (if v \<noteq> [] then v else firstNonEmpty vs)"

definition resolveImage :: "ImageSpec option \<Rightarrow> string \<Rightarrow> string \<Rightarrow> string \<times> string" where
  "resolveImage override configured fallback =
     (let image = firstNonEmpty [configured, fallback]; pull = PullIfNotPresent in
      case override of
        None \<Rightarrow> (image, pull)
      | Some o' \<Rightarrow> (if im_Image o' \<noteq> [] then im_Image o' else image,
                   if im_PullPolicy o' \<noteq> [] then im_PullPolicy o' else pull))"

definition pipelineImage ::
  "ImageSet option \<Rightarrow> (ImageSet \<Rightarrow> ImageSpec option) \<Rightarrow> string \<Rightarrow> string \<Rightarrow> string \<times> string" where
  "pipelineImage images pick configured fallback =
     (let override = (case images of None \<Rightarrow> None | Some i \<Rightarrow> pick i)
      in resolveImage override configured fallback)"

definition postgresImage :: "ImageSet option \<Rightarrow> Config \<Rightarrow> string \<times> string" where
  "postgresImage images cfg =
     pipelineImage images is_Postgres (cfg_PostgresImage cfg) DefaultPostgresImage"
definition mcImage :: "ImageSet option \<Rightarrow> Config \<Rightarrow> string \<times> string" where
  "mcImage images cfg = pipelineImage images is_Mc (cfg_McImage cfg) DefaultMcImage"
definition busyBoxImage :: "ImageSet option \<Rightarrow> Config \<Rightarrow> string \<times> string" where
  "busyBoxImage images cfg =
     pipelineImage images is_BusyBox (cfg_BusyBoxImage cfg) DefaultBusyBoxImage"
definition gnuPGImage :: "ImageSet option \<Rightarrow> Config \<Rightarrow> string \<times> string" where
  "gnuPGImage images cfg = pipelineImage images is_GnuPG (cfg_GnuPGImage cfg) DefaultGnuPGImage"
definition mariadbImage :: "ImageSet option \<Rightarrow> Config \<Rightarrow> string \<times> string" where
  "mariadbImage images cfg =
     pipelineImage images is_MariaDB (cfg_MariaDBImage cfg) DefaultMariaDBImage"
definition redisImage :: "ImageSet option \<Rightarrow> Config \<Rightarrow> string \<times> string" where
  "redisImage images cfg = pipelineImage images is_Redis (cfg_RedisImage cfg) DefaultRedisImage"
definition tarImage :: "ImageSet option \<Rightarrow> Config \<Rightarrow> string \<times> string" where
  "tarImage images cfg = pipelineImage images is_Tar (cfg_TarImage cfg) DefaultTarImage"

section \<open>Backup and Restore defaults\<close>

definition s3Endpoint :: "Backup \<Rightarrow> Config \<Rightarrow> string" where
  "s3Endpoint backup cfg = firstNonEmpty [s3_Endpoint (bs_S3 (bk_Spec backup)), cfg_DefaultS3Endpoint cfg]"
definition s3Bucket :: "Backup \<Rightarrow> Config \<Rightarrow> string" where
  "s3Bucket backup cfg = firstNonEmpty [s3_Bucket (bs_S3 (bk_Spec backup)), cfg_DefaultS3Bucket cfg]"
definition localRetentionDays :: "Backup \<Rightarrow> int" where
  "localRetentionDays backup = ptr_Deref (bs_LocalRetentionDays (bk_Spec backup)) DefaultLocalRetentionDays"
definition s3RetentionDays :: "Backup \<Rightarrow> int" where
  "s3RetentionDays backup = ptr_Deref (s3_RetentionDays (bs_S3 (bk_Spec backup))) DefaultS3RetentionDays"
definition dataDir :: "Backup \<Rightarrow> string" where
  "dataDir backup = firstNonEmpty [bs_DataDir (bk_Spec backup), DefaultDataDir]"
definition mcConfigDir :: "Backup \<Rightarrow> string" where
  "mcConfigDir backup = firstNonEmpty [bs_McConfigDir (bk_Spec backup), DefaultMcConfigDir]"
definition secretName :: "Backup \<Rightarrow> string" where
  "secretName backup = bs_SecretRef (bk_Spec backup)"
definition BackupVolumeMountPath :: "Backup \<Rightarrow> string" where
  "BackupVolumeMountPath backup = dataDir backup"

definition restoreS3Endpoint :: "Restore \<Rightarrow> Config \<Rightarrow> string" where
  "restoreS3Endpoint restore cfg =
     firstNonEmpty [s3_Endpoint (rs_S3 (re_Spec restore)), cfg_DefaultS3Endpoint cfg]"
definition restoreS3Bucket :: "Restore \<Rightarrow> Config \<Rightarrow> string" where
  "restoreS3Bucket restore cfg =
     firstNonEmpty [s3_Bucket (rs_S3 (re_Spec restore)), cfg_DefaultS3Bucket cfg]"
definition restoreWorkdir :: "Restore \<Rightarrow> string" where
  "restoreWorkdir restore = firstNonEmpty [rs_Workdir (re_Spec restore), DefaultWorkdir]"
definition restoreMcConfigDir :: "Restore \<Rightarrow> string" where
  "restoreMcConfigDir restore = firstNonEmpty [rs_McConfigDir (re_Spec restore), DefaultMcConfigDir]"
definition restoreOwnerRole :: "Restore \<Rightarrow> string" where
  "restoreOwnerRole restore =
     firstNonEmpty [db_OwnerRole (rs_Database (re_Spec restore)), db_Name (rs_Database (re_Spec restore))]"
definition restoreSecretName :: "Restore \<Rightarrow> string" where
  "restoreSecretName restore = rs_SecretRef (re_Spec restore)"
definition RestoreVolumeMountPath :: "Restore \<Rightarrow> string" where
  "RestoreVolumeMountPath restore = restoreWorkdir restore"

definition restoreSecretKeys :: "SecretKeySelector option \<Rightarrow> string \<Rightarrow> string \<times> string \<times> string" where
  "restoreSecretKeys s defaultName =
     (case s of
        None \<Rightarrow> (defaultName, ''username'', ''password'')
      | Some k \<Rightarrow> (if sk_Name k \<noteq> [] then sk_Name k else defaultName,
                  if sk_UsernameKey k \<noteq> [] then sk_UsernameKey k else ''username'',
                  if sk_PasswordKey k \<noteq> [] then sk_PasswordKey k else ''password''))"

definition RestorePostgresSecret :: "Restore \<Rightarrow> string \<times> string \<times> string" where
  "RestorePostgresSecret restore = restoreSecretKeys (rs_PostgresSecret (re_Spec restore)) ''postgres''"
definition RestoreMariaDBSecret :: "Restore \<Rightarrow> string \<times> string \<times> string" where
  "RestoreMariaDBSecret restore = restoreSecretKeys (rs_MariaDBSecret (re_Spec restore)) ''mariadb''"
definition RestoreRedisSecret :: "Restore \<Rightarrow> string \<times> string \<times> string" where
  "RestoreRedisSecret restore = restoreSecretKeys (rs_RedisSecret (re_Spec restore)) ''redis''"

definition RestoreTargetSecret :: "Restore \<Rightarrow> string \<times> string \<times> string" where
  "RestoreTargetSecret restore =
     (let e = EffectiveEngine (rs_Engine (re_Spec restore)) in
      if e = EngineMariaDB then RestoreMariaDBSecret restore
      else if e = EngineRedis then RestoreRedisSecret restore
      else RestorePostgresSecret restore)"

definition boolEnv :: "bool option \<Rightarrow> bool \<Rightarrow> string" where
  "boolEnv p def = (let v = (case p of None \<Rightarrow> def | Some b \<Rightarrow> b) in if v then ''true'' else ''false'')"

section \<open>Precedence of overrides\<close>

lemma mergeResources_index:
  "rr_Requests (mergeResources base (Some o')) k =
     (case rr_Requests o' k of None \<Rightarrow> rr_Requests base k | Some q \<Rightarrow> Some q)"
  "rr_Limits (mergeResources base (Some o')) k =
     (case rr_Limits o' k of None \<Rightarrow> rr_Limits base k | Some q \<Rightarrow> Some q)"
  by (auto simp: mergeResources_def map_add_def)

text \<open>
  A per-stage resource override wins key by key and leaves every other default in place, for
  requests and for limits: overriding the memory limit of a stage never drops its CPU or its
  ephemeral-storage bounds, and no override leaves the defaults untouched.
\<close>

theorem mergeResources_overrides_pointwise:
  "mergeResources base None = base \<and>
   rr_Requests (mergeResources base (Some o')) = rr_Requests base ++ rr_Requests o' \<and>
   rr_Limits (mergeResources base (Some o')) = rr_Limits base ++ rr_Limits o'"
  by (auto simp: mergeResources_def)

lemma firstNonEmpty_Nil_iff: "firstNonEmpty vs = [] \<longleftrightarrow> (\<forall>v\<in>set vs. v = [])"
  by (induction vs) auto

lemma pipelineImage_not_empty: "fallback \<noteq> [] \<Longrightarrow> fst (pipelineImage images pick configured fallback) \<noteq> []"
  by (auto simp: pipelineImage_def resolveImage_def Let_def split: option.splits)

lemma stage_images_not_empty [simp]:
  "fst (postgresImage i cfg) \<noteq> []" "fst (mcImage i cfg) \<noteq> []" "fst (busyBoxImage i cfg) \<noteq> []"
  "fst (gnuPGImage i cfg) \<noteq> []" "fst (mariadbImage i cfg) \<noteq> []" "fst (redisImage i cfg) \<noteq> []"
  "fst (tarImage i cfg) \<noteq> []"
  by (simp_all add: postgresImage_def mcImage_def busyBoxImage_def gnuPGImage_def mariadbImage_def
      redisImage_def tarImage_def pipelineImage_not_empty go_const)

lemma boolEnv_EnabledOrDefault:
  "boolEnv (s3_Enabled s) True = (if EnabledOrDefault s then ''true'' else ''false'')"
  by (simp add: boolEnv_def EnabledOrDefault_def)

lemma dirs_not_empty [simp]:
  "dataDir b \<noteq> []" "restoreWorkdir r \<noteq> []" "mcConfigDir b \<noteq> []" "restoreMcConfigDir r \<noteq> []"
  by (simp_all add: dataDir_def restoreWorkdir_def mcConfigDir_def restoreMcConfigDir_def go_const)

end
