(* ===== verification/Doc_Lib.thy ===== *)
theory Doc_Lib
  imports K8s_Lib
begin

text \<open>
  A reference library: one concrete value of the parameter \<^typ>\<open>k8slib\<close>, written from the
  documentation of the libraries.  It shows that the laws of \<^verbatim>\<open>K8s_Lib\<close> can hold together,
  and the closed examples of the development run on it.  The model of the operator never uses
  it: every definition of the operator takes the library as an argument.
\<close>

text \<open>A five-field check stands for the cron grammar.\<close>

definition doc_ParseStandard :: "string \<Rightarrow> goerror option" where
  "doc_ParseStandard s =
     (if length (filter (\<lambda>f. f \<noteq> []) (strings_Split CHR '' '' s)) = 5 then None
      else Some (ErrorString ''expected exactly 5 fields''))"

text \<open>An integer with one of the suffixes the operator writes, in nano-units.\<close>

definition doc_scale :: "string \<Rightarrow> int" where
  "doc_scale u = (if u = ''m'' then 10 ^ 6 else if u = ''Mi'' then 2 ^ 20 * 10 ^ 9
     else if u = ''Gi'' then 2 ^ 30 * 10 ^ 9 else 10 ^ 9)"

definition is_digit :: "char \<Rightarrow> bool" where
  "is_digit c = (48 \<le> (of_char c :: nat) \<and> (of_char c :: nat) < 58)"

definition doc_MustParse :: "string \<Rightarrow> quantity" where
  "doc_MustParse s = int (text_nat (takeWhile is_digit s)) * doc_scale (dropWhile is_digit s)"

definition doc_SetStatusCondition :: "gotime \<Rightarrow> condition list \<Rightarrow> condition \<Rightarrow> condition list \<times> bool" where
  "doc_SetStatusCondition now cs c =
     (case find_condition cs (co_Type c) of
        None \<Rightarrow> (cs @ [c\<lparr>co_LastTransitionTime := now\<rparr>], True)
      | Some d \<Rightarrow>
          if same_condition d c then (cs, False)
          else (map (\<lambda>x. if co_Type x = co_Type c
                         then c\<lparr>co_LastTransitionTime :=
                                  (if co_Status x = co_Status c then co_LastTransitionTime x else now)\<rparr>
                         else x) cs, True))"

definition doc_SetControllerReference :: "string \<Rightarrow> objectmeta \<Rightarrow> objectmeta \<Rightarrow> goerror + objectmeta" where
  "doc_SetControllerReference kind owner obj =
     (let ref = \<lparr>or_UID = om_UID owner, or_Kind = kind, or_Name = om_Name owner, or_Controller = True\<rparr>
      in case controller_of obj of
           None \<Rightarrow> Inr (obj\<lparr>om_OwnerReferences := om_OwnerReferences obj @ [ref]\<rparr>)
         | Some r \<Rightarrow>
             if (or_Kind r, or_Name r) = (kind, om_Name owner)
             then Inr (obj\<lparr>om_OwnerReferences := map (\<lambda>x. if x = r then ref else x) (om_OwnerReferences obj)\<rparr>)
             else Inl (ErrorString ''already owned by another controller''))"

definition doc_lib :: k8slib where
  "doc_lib =
     \<lparr>cron_ParseStandard = doc_ParseStandard,
      metav1_LabelSelectorAsSelector = (\<lambda>_. None),
      resource_MustParse = doc_MustParse,
      quantity_Cmp = (\<lambda>a b. if a < b then -1 else if a = b then 0 else 1),
      quantity_IsZero = (\<lambda>a. a = 0),
      meta_SetStatusCondition = doc_SetStatusCondition 1,
      semantic_DeepEqual_time = (=), semantic_DeepEqual_lastJob = (=),
      apierrors_IsNotFound = (\<lambda>e. status_reason e = Some ReasonNotFound),
      apierrors_IsConflict = (\<lambda>e. status_reason e = Some ReasonConflict),
      controllerutil_SetControllerReference = doc_SetControllerReference,
      metav1_IsControlledBy =
        (\<lambda>obj owner. case controller_of obj of None \<Rightarrow> False | Some r \<Rightarrow> or_UID r = om_UID owner)\<rparr>"

lemma quantity_laws_doc: "quantity_laws doc_lib"
  by (simp add: quantity_laws_def doc_lib_def)

lemma apierrors_laws_doc: "apierrors_laws doc_lib"
  by (simp add: apierrors_laws_def doc_lib_def)

lemma deepequal_laws_doc: "deepequal_laws doc_lib"
  by (simp add: deepequal_laws_def doc_lib_def)

lemma find_condition_append:
  "find_condition (cs @ ds) ty =
     (case find_condition cs ty of None \<Rightarrow> find_condition ds ty | Some c \<Rightarrow> Some c)"
  by (induction cs) (auto simp: find_condition_def)

lemma find_condition_map_other:
  assumes "\<And>x. co_Type (f x) = co_Type x" and "\<And>x. co_Type x = ty \<Longrightarrow> f x = x"
  shows "find_condition (map f cs) ty = find_condition cs ty"
  using assms by (induction cs) (auto simp: find_condition_def)

lemma find_condition_map_same:
  assumes "\<And>x. co_Type (f x) = co_Type x" and "find_condition cs ty = Some d"
  shows "find_condition (map f cs) ty = Some (f d)"
  using assms(2) by (induction cs) (auto simp: find_condition_def assms(1) split: if_splits)

lemma find_condition_type: "find_condition cs ty = Some d \<Longrightarrow> co_Type d = ty"
  by (auto simp: find_condition_def find_Some_iff)

lemma condition_laws_doc: "condition_laws doc_lib"
proof -
  let ?S = "doc_SetStatusCondition 1"
  have "\<exists>d. find_condition (fst (?S cs c)) (co_Type c) = Some d \<and> same_condition d c" for cs c
  proof (cases "find_condition cs (co_Type c)")
    case None
    then show ?thesis
      by (simp add: doc_SetStatusCondition_def find_condition_append)
        (simp add: find_condition_def same_condition_def)
  next
    case (Some d)
    then show ?thesis
      by (auto simp: doc_SetStatusCondition_def find_condition_map_same [OF _ Some]
          find_condition_type [OF Some] same_condition_def)
  qed
  moreover have "ty \<noteq> co_Type c \<longrightarrow> find_condition (fst (?S cs c)) ty = find_condition cs ty" for cs c ty
    by (auto simp: doc_SetStatusCondition_def find_condition_append find_condition_map_other
        split: option.splits) (simp add: find_condition_def)
  moreover have "\<not> snd (?S cs c) \<longleftrightarrow>
      (\<exists>d. find_condition cs (co_Type c) = Some d \<and> same_condition d c)" for cs c
    by (auto simp: doc_SetStatusCondition_def split: option.splits)
  moreover have "\<not> snd (?S cs c) \<longrightarrow> fst (?S cs c) = cs" for cs c
    by (auto simp: doc_SetStatusCondition_def split: option.splits)
  ultimately show ?thesis
    by (simp add: condition_laws_def doc_lib_def)
qed

lemma controller_of_append:
  "controller_of (m\<lparr>om_OwnerReferences := om_OwnerReferences m @ [r]\<rparr>) =
     (case controller_of m of None \<Rightarrow> if or_Controller r then Some r else None | Some q \<Rightarrow> Some q)"
proof -
  have "find or_Controller (rs @ [r]) =
      (case find or_Controller rs of None \<Rightarrow> if or_Controller r then Some r else None | Some q \<Rightarrow> Some q)"
    for rs by (induction rs) auto
  then show ?thesis by (simp add: controller_of_def)
qed

lemma controller_of_replace:
  assumes "controller_of m = Some r" and "or_Controller ref"
  shows "controller_of (m\<lparr>om_OwnerReferences := map (\<lambda>x. if x = r then ref else x) (om_OwnerReferences m)\<rparr>) = Some ref"
proof -
  have "find or_Controller rs = Some r \<Longrightarrow> find or_Controller (map (\<lambda>x. if x = r then ref else x) rs) = Some ref" for rs
    using assms(2) by (induction rs) (auto split: if_splits)
  then show ?thesis using assms(1) by (simp add: controller_of_def)
qed

lemma if_replace: "(if x = r then r else x) = x"
  by simp

lemma ownership_laws_doc: "ownership_laws doc_lib"
  unfolding ownership_laws_def
proof (intro conjI allI impI)
  fix kind owner obj obj'
  assume "controllerutil_SetControllerReference doc_lib kind owner obj = Inr obj'"
  then show "\<exists>r. controller_of obj' = Some r \<and> or_UID r = om_UID owner \<and> or_Kind r = kind \<and> or_Name r = om_Name owner"
    by (auto simp: doc_lib_def doc_SetControllerReference_def controller_of_append controller_of_replace Let_def
        split: option.splits if_splits)
next
  fix kind owner obj obj'
  assume "controllerutil_SetControllerReference doc_lib kind owner obj = Inr obj'"
  then show "obj'\<lparr>om_OwnerReferences := om_OwnerReferences obj\<rparr> = obj"
    by (auto simp: doc_lib_def doc_SetControllerReference_def Let_def
        split: option.splits if_splits)
next
  fix kind owner obj obj'
  assume "controllerutil_SetControllerReference doc_lib kind owner obj = Inr obj'"
  then have "controller_of obj' = Some \<lparr>or_UID = om_UID owner, or_Kind = kind, or_Name = om_Name owner, or_Controller = True\<rparr>"
    by (auto simp: doc_lib_def doc_SetControllerReference_def controller_of_append controller_of_replace Let_def
        split: option.splits if_splits)
  then show "controllerutil_SetControllerReference doc_lib kind owner obj' = Inr obj'"
    by (simp add: doc_lib_def doc_SetControllerReference_def Let_def if_replace cong: if_cong)
qed (auto simp: doc_lib_def doc_SetControllerReference_def Let_def split: option.splits)

lemmas doc_lib_laws = quantity_laws_doc apierrors_laws_doc deepequal_laws_doc
  condition_laws_doc ownership_laws_doc

end
