(* ===== verification/Validation.thy ===== *)
theory Validation
  imports Doc_Lib
begin

text \<open>
  \<^verbatim>\<open>api/v1alpha1/validation.go\<close> and the two admission webhooks.  A check returns
  \<^const>\<open>None\<close> (nil) or the error.  The lemmas characterise what is accepted, and the locale
  \<^verbatim>\<open>admission\<close> states what a validating webhook promises: whatever history of creates,
  updates and deletes the API server goes through, a stored object has an accepted spec.
\<close>

section \<open>The checks\<close>

definition persistenceEnabled :: "PersistenceSpec option \<Rightarrow> bool" where
  "persistenceEnabled p =
     (case p of None \<Rightarrow> True
      | Some ps \<Rightarrow> (case ps_Enabled ps of None \<Rightarrow> True | Some b \<Rightarrow> b))"

definition validateSchedule :: "k8slib \<Rightarrow> string \<Rightarrow> goerror option" where
  "validateSchedule K schedule =
     (if strings_TrimSpace schedule = [] then Some (ErrorString ''spec.schedule is required'')
      else case cron_ParseStandard K schedule of
             Some err \<Rightarrow> Some (WrapError ''spec.schedule is not a valid cron expression: '' err)
           | None \<Rightarrow> None)"

definition validatePVCSource :: "k8slib \<Rightarrow> PVCSourceSpec option \<Rightarrow> goerror option" where
  "validatePVCSource K src =
     (case src of
        None \<Rightarrow> Some (ErrorString ''spec.pvc.claimName is required for engine pvc'')
      | Some s \<Rightarrow> first_error
         [fail_if (pv_ClaimName s = []) ''spec.pvc.claimName is required for engine pvc'',
          (let p = pv_Path s in
           if p \<noteq> [] then first_error
             [fail_if (strings_HasPrefix p ''/'' \<or> ''..'' \<in> set (strings_Split CHR ''/'' p))
                ''spec.pvc.path must be relative to the claim root without .. segments'',
              fail_if (strings_ContainsAny p [CHR 0x0A, CHR 0x0D])
                ''spec.pvc.path must not contain newlines'']
           else None),
          fail_if
            (list_ex (\<lambda>e. strings_TrimSpace e = [] \<or> strings_ContainsAny e [CHR 0x0A, CHR 0x0D])
               (pv_Excludes s))
            ''spec.pvc.excludes entries must be non-empty single-line patterns'',
          (case pv_ConsumerSelector s of
             None \<Rightarrow> None
           | Some sel \<Rightarrow> first_error
              [fail_if (ls_MatchLabels sel = Map.empty \<and> ls_MatchExpressions sel = [])
                 ''spec.pvc.consumerSelector must set matchLabels or matchExpressions (empty matches every pod)'',
               map_option (WrapError ''spec.pvc.consumerSelector is invalid: '')
                 (metav1_LabelSelectorAsSelector K sel)])])"

definition validateRuntime :: "RuntimeSpec option \<Rightarrow> PersistenceSpec option \<Rightarrow> goerror option" where
  "validateRuntime runtime persistence =
     (let mode = EffectiveMode runtime in
      if mode = RuntimeModeCronJob then None
      else if mode = RuntimeModeCronJobWithVolumeHolder then
        fail_if (\<not> persistenceEnabled persistence)
          ''spec.runtime.mode CronJobWithVolumeHolder requires spec.persistence.enabled''
      else if mode = RuntimeModePersistentPodWithTriggerJob then
        Some (ErrorString ''spec.runtime.mode PersistentPodWithTriggerJob is not implemented'')
      else if mode = RuntimeModePersistentPodWithInPodCron then
        Some (ErrorString ''spec.runtime.mode PersistentPodWithInPodCron is not implemented'')
      else Some (ErrorString (''spec.runtime.mode '' @ fmt_q mode @ '' is invalid'')))"

definition validateJobPolicy :: "JobPolicy option \<Rightarrow> goerror option" where
  "validateJobPolicy job =
     (case job of
        None \<Rightarrow> None
      | Some j \<Rightarrow> first_error
         [fail_if (jp_ConcurrencyPolicy j \<notin> {[], ''Allow'', ''Forbid'', ''Replace''})
            ''spec.job.concurrencyPolicy must be Allow, Forbid, or Replace'',
          fail_if (jp_RestartPolicy j \<notin> {[], RestartPolicyAlways, RestartPolicyOnFailure, RestartPolicyNever})
            ''spec.job.restartPolicy must be Always, OnFailure, or Never''])"

definition ValidateBackupSpec :: "k8slib \<Rightarrow> BackupSpec \<Rightarrow> goerror option" where
  "ValidateBackupSpec K spec = first_error
     [validateSchedule K (bs_Schedule spec),
      (if bs_Engine spec = EnginePVC then validatePVCSource K (bs_PVC spec)
       else first_error
         [(case bs_PVC spec of
             None \<Rightarrow> None
           | Some _ \<Rightarrow> Some (ErrorString ''spec.pvc is only valid with engine pvc'')),
          fail_if (db_Host (bs_Database spec) = []) ''spec.database.host is required'',
          fail_if (db_Name (bs_Database spec) = []) ''spec.database.name is required'']),
      (if EnabledOrDefault (bs_S3 spec) then
         fail_if (s3_Path (bs_S3 spec) = []) ''spec.s3.path is required''
       else fail_if
         (case bs_Persistence spec of
            None \<Rightarrow> False
          | Some p \<Rightarrow> (case ps_Enabled p of None \<Rightarrow> False | Some b \<Rightarrow> \<not> b))
         ''spec.persistence.enabled must be true when spec.s3.enabled is false (dumps stay in retained/ on the PVC)''),
      fail_if (bs_SecretRef spec = []) ''spec.secretRef.name is required'',
      validateJobPolicy (bs_Job spec),
      validateRuntime (bs_Runtime spec) (bs_Persistence spec)]"

text \<open>The per-engine target secret of a Restore.\<close>

definition secret_unnamed :: "SecretKeySelector option \<Rightarrow> bool" where
  "secret_unnamed s = (case s of None \<Rightarrow> True | Some k \<Rightarrow> sk_Name k = [])"

definition ValidateRestoreSpec :: "k8slib \<Rightarrow> RestoreSpec \<Rightarrow> goerror option" where
  "ValidateRestoreSpec K spec = first_error
     [validateSchedule K (rs_Schedule spec),
      fail_if (rs_Engine spec = EnginePVC)
        ''engine pvc is backup-only; restore a PVC archive manually (gpg --decrypt | tar -x)'',
      fail_if (db_Host (rs_Database spec) = []) ''spec.database.host is required'',
      fail_if (db_Name (rs_Database spec) = []) ''spec.database.name is required'',
      fail_if (\<not> EnabledOrDefault (rs_S3 spec))
        ''spec.s3.enabled cannot be false; restore from local retained dumps is not implemented'',
      fail_if (s3_Path (rs_S3 spec) = []) ''spec.s3.path is required'',
      fail_if (rs_SecretRef spec = []) ''spec.secretRef.name is required'',
      (if rs_Engine spec = EngineMariaDB then
         fail_if (secret_unnamed (rs_MariaDBSecret spec)) ''spec.mariadbSecret.name is required''
       else if rs_Engine spec = EngineRedis then
         fail_if (secret_unnamed (rs_RedisSecret spec)) ''spec.redisSecret.name is required''
       else
         fail_if (secret_unnamed (rs_PostgresSecret spec)) ''spec.postgresSecret.name is required''),
      validateJobPolicy (rs_Job spec),
      validateRuntime (rs_Runtime spec) (rs_Persistence spec)]"

section \<open>The admission webhooks\<close>

text \<open>
  A \<^verbatim>\<open>runtime.Object\<close> as the webhook server hands it over: one of the two kinds, or
  something else with the Go type name \<^verbatim>\<open>%T\<close> prints.  The warnings are always nil.
\<close>

datatype runtime_object = ObjBackup Backup | ObjRestore Restore | ObjOther string

fun go_type :: "runtime_object \<Rightarrow> string" where
  "go_type (ObjBackup b) = ''*v1alpha1.Backup''"
| "go_type (ObjRestore r) = ''*v1alpha1.Restore''"
| "go_type (ObjOther t) = t"

fun asBackup :: "runtime_object \<Rightarrow> goerror + Backup" where
  "asBackup (ObjBackup b) = Inr b"
| "asBackup obj = Inl (ErrorString (''expected Backup, got '' @ go_type obj))"

fun asRestore :: "runtime_object \<Rightarrow> goerror + Restore" where
  "asRestore (ObjRestore r) = Inr r"
| "asRestore obj = Inl (ErrorString (''expected Restore, got '' @ go_type obj))"

definition Backup_ValidateCreate :: "k8slib \<Rightarrow> runtime_object \<Rightarrow> goerror option" where
  "Backup_ValidateCreate K obj =
     (case asBackup obj of Inl err \<Rightarrow> Some err | Inr b \<Rightarrow> ValidateBackupSpec K (bk_Spec b))"

definition Backup_ValidateUpdate :: "k8slib \<Rightarrow> runtime_object \<Rightarrow> runtime_object \<Rightarrow> goerror option" where
  "Backup_ValidateUpdate K old new =
     (case asBackup new of Inl err \<Rightarrow> Some err | Inr b \<Rightarrow> ValidateBackupSpec K (bk_Spec b))"

definition Backup_ValidateDelete :: "k8slib \<Rightarrow> runtime_object \<Rightarrow> goerror option" where
  "Backup_ValidateDelete K obj = None"

definition Restore_ValidateCreate :: "k8slib \<Rightarrow> runtime_object \<Rightarrow> goerror option" where
  "Restore_ValidateCreate K obj =
     (case asRestore obj of Inl err \<Rightarrow> Some err | Inr r \<Rightarrow> ValidateRestoreSpec K (re_Spec r))"

definition Restore_ValidateUpdate :: "k8slib \<Rightarrow> runtime_object \<Rightarrow> runtime_object \<Rightarrow> goerror option" where
  "Restore_ValidateUpdate K old new =
     (case asRestore new of Inl err \<Rightarrow> Some err | Inr r \<Rightarrow> ValidateRestoreSpec K (re_Spec r))"

definition Restore_ValidateDelete :: "k8slib \<Rightarrow> runtime_object \<Rightarrow> goerror option" where
  "Restore_ValidateDelete K obj = None"

section \<open>What the checks accept\<close>

definition schedule_ok :: "k8slib \<Rightarrow> string \<Rightarrow> bool" where
  "schedule_ok K s \<longleftrightarrow> strings_TrimSpace s \<noteq> [] \<and> cron_ParseStandard K s = None"

definition single_line :: "string \<Rightarrow> bool" where
  "single_line s \<longleftrightarrow> CHR 0x0A \<notin> set s \<and> CHR 0x0D \<notin> set s"

definition pvc_source_ok :: "k8slib \<Rightarrow> PVCSourceSpec \<Rightarrow> bool" where
  "pvc_source_ok K s \<longleftrightarrow>
     pv_ClaimName s \<noteq> [] \<and>
     \<not> strings_HasPrefix (pv_Path s) ''/'' \<and>
     ''..'' \<notin> set (strings_Split CHR ''/'' (pv_Path s)) \<and> single_line (pv_Path s) \<and>
     (\<forall>e\<in>set (pv_Excludes s). strings_TrimSpace e \<noteq> [] \<and> single_line e) \<and>
     (\<forall>sel. pv_ConsumerSelector s = Some sel \<longrightarrow>
        (ls_MatchLabels sel \<noteq> Map.empty \<or> ls_MatchExpressions sel \<noteq> []) \<and>
        metav1_LabelSelectorAsSelector K sel = None)"

definition job_policy_ok :: "JobPolicy option \<Rightarrow> bool" where
  "job_policy_ok job \<longleftrightarrow>
     (\<forall>j. job = Some j \<longrightarrow>
        jp_ConcurrencyPolicy j \<in> {[], ''Allow'', ''Forbid'', ''Replace''} \<and>
        jp_RestartPolicy j \<in> {[], ''Always'', ''OnFailure'', ''Never''})"

definition runtime_ok :: "RuntimeSpec option \<Rightarrow> PersistenceSpec option \<Rightarrow> bool" where
  "runtime_ok r p \<longleftrightarrow>
     EffectiveMode r = RuntimeModeCronJob \<or>
     EffectiveMode r = RuntimeModeCronJobWithVolumeHolder \<and> persistenceEnabled p"

definition backup_source_ok :: "k8slib \<Rightarrow> BackupSpec \<Rightarrow> bool" where
  "backup_source_ok K spec \<longleftrightarrow>
     (if bs_Engine spec = EnginePVC then \<exists>s. bs_PVC spec = Some s \<and> pvc_source_ok K s
      else bs_PVC spec = None \<and> db_Host (bs_Database spec) \<noteq> [] \<and> db_Name (bs_Database spec) \<noteq> [])"

definition restore_target_secret_ok :: "RestoreSpec \<Rightarrow> bool" where
  "restore_target_secret_ok spec \<longleftrightarrow>
     (\<exists>k. sk_Name k \<noteq> [] \<and>
        Some k = (if rs_Engine spec = EngineMariaDB then rs_MariaDBSecret spec
                  else if rs_Engine spec = EngineRedis then rs_RedisSecret spec
                  else rs_PostgresSecret spec))"

lemma strings_ContainsAny_newline:
  "strings_ContainsAny s [CHR 0x0A, CHR 0x0D] \<longleftrightarrow> \<not> single_line s"
  by (auto simp: strings_ContainsAny_def single_line_def list_ex_iff)

lemma validateSchedule_None: "validateSchedule K s = None \<longleftrightarrow> schedule_ok K s"
  by (auto simp: validateSchedule_def schedule_ok_def split: option.splits)

lemma validatePVCSource_None:
  "validatePVCSource K src = None \<longleftrightarrow> (\<exists>s. src = Some s \<and> pvc_source_ok K s)"
proof (cases src)
  case None
  then show ?thesis by (simp add: validatePVCSource_def)
next
  case (Some s)
  have "\<not> strings_HasPrefix [] ''/''" and "''..'' \<notin> set (strings_Split CHR ''/'' [])"
    and "single_line []"
    by (simp_all add: strings_HasPrefix_def single_line_def)
  with Some show ?thesis
    by (cases "pv_Path s = []")
      (auto simp: validatePVCSource_def pvc_source_ok_def Let_def
        strings_ContainsAny_newline list_ex_iff split: option.splits)
qed

lemma validateJobPolicy_None: "validateJobPolicy job = None \<longleftrightarrow> job_policy_ok job"
  by (auto simp: validateJobPolicy_def job_policy_ok_def
      simp del: insert_iff split: option.splits)

lemma validateRuntime_None: "validateRuntime r p = None \<longleftrightarrow> runtime_ok r p"
  by (auto simp: validateRuntime_def runtime_ok_def Let_def go_const)

lemmas validate_None = validateSchedule_None validatePVCSource_None validateJobPolicy_None
  validateRuntime_None

lemma persistence_disabled:
  "(case p of None \<Rightarrow> False | Some q \<Rightarrow> (case ps_Enabled q of None \<Rightarrow> False | Some b \<Rightarrow> \<not> b))
     \<longleftrightarrow> \<not> persistenceEnabled p"
  by (simp add: persistenceEnabled_def split: option.split)

lemma backup_source_None:
  "(if bs_Engine spec = EnginePVC then validatePVCSource K (bs_PVC spec)
    else first_error
      [(case bs_PVC spec of
          None \<Rightarrow> None
        | Some _ \<Rightarrow> Some (ErrorString ''spec.pvc is only valid with engine pvc'')),
       fail_if (db_Host (bs_Database spec) = []) ''spec.database.host is required'',
       fail_if (db_Name (bs_Database spec) = []) ''spec.database.name is required'']) = None
   \<longleftrightarrow> backup_source_ok K spec"
  by (simp add: backup_source_ok_def validatePVCSource_None split: option.split)

lemma restore_target_secret_None:
  "(if rs_Engine spec = EngineMariaDB then
      fail_if (secret_unnamed (rs_MariaDBSecret spec)) ''spec.mariadbSecret.name is required''
    else if rs_Engine spec = EngineRedis then
      fail_if (secret_unnamed (rs_RedisSecret spec)) ''spec.redisSecret.name is required''
    else
      fail_if (secret_unnamed (rs_PostgresSecret spec)) ''spec.postgresSecret.name is required'') = None
   \<longleftrightarrow> restore_target_secret_ok spec"
  by (auto simp: restore_target_secret_ok_def secret_unnamed_def split: option.splits if_splits)

lemma ValidateBackupSpec_None:
  "ValidateBackupSpec K spec = None \<longleftrightarrow>
     schedule_ok K (bs_Schedule spec) \<and> backup_source_ok K spec \<and>
     (if EnabledOrDefault (bs_S3 spec) then s3_Path (bs_S3 spec) \<noteq> []
      else persistenceEnabled (bs_Persistence spec)) \<and>
     bs_SecretRef spec \<noteq> [] \<and>
     job_policy_ok (bs_Job spec) \<and> runtime_ok (bs_Runtime spec) (bs_Persistence spec)"
  unfolding ValidateBackupSpec_def first_error_None_iff list.set ball_simps(5) ball_simps(7)
    validate_None backup_source_None persistence_disabled
  by simp

lemma ValidateRestoreSpec_None:
  "ValidateRestoreSpec K spec = None \<longleftrightarrow>
     schedule_ok K (rs_Schedule spec) \<and> rs_Engine spec \<noteq> EnginePVC \<and>
     db_Host (rs_Database spec) \<noteq> [] \<and> db_Name (rs_Database spec) \<noteq> [] \<and>
     EnabledOrDefault (rs_S3 spec) \<and> s3_Path (rs_S3 spec) \<noteq> [] \<and> rs_SecretRef spec \<noteq> [] \<and>
     restore_target_secret_ok spec \<and>
     job_policy_ok (rs_Job spec) \<and> runtime_ok (rs_Runtime spec) (rs_Persistence spec)"
  unfolding ValidateRestoreSpec_def first_error_None_iff list.set ball_simps(5) ball_simps(7)
    validate_None restore_target_secret_None
  by simp

section \<open>Acceptance, characterised\<close>

text \<open>
  C22: \<^verbatim>\<open>ValidateBackupSpec\<close> returns nil exactly when the schedule parses, the source fits
  the engine (a well-formed claim for \<^verbatim>\<open>pvc\<close>; otherwise no claim, a host and a database
  name), the dumps have a place to stay (an S3 path, or with S3 off an enabled PVC), a Secret is
  named, and the Job policy and runtime mode are supported.
\<close>

theorem ValidateBackupSpec_accepts:
  "ValidateBackupSpec K spec = None \<longleftrightarrow>
     schedule_ok K (bs_Schedule spec) \<and>
     (if bs_Engine spec = EnginePVC then \<exists>s. bs_PVC spec = Some s \<and> pvc_source_ok K s
      else bs_PVC spec = None \<and> db_Host (bs_Database spec) \<noteq> [] \<and> db_Name (bs_Database spec) \<noteq> []) \<and>
     (if EnabledOrDefault (bs_S3 spec) then s3_Path (bs_S3 spec) \<noteq> []
      else persistenceEnabled (bs_Persistence spec)) \<and>
     bs_SecretRef spec \<noteq> [] \<and>
     job_policy_ok (bs_Job spec) \<and> runtime_ok (bs_Runtime spec) (bs_Persistence spec)"
  by (simp only: ValidateBackupSpec_None backup_source_ok_def)

text \<open>
  C23: \<^verbatim>\<open>ValidateRestoreSpec\<close> returns nil exactly when the schedule parses, the engine is not
  \<^verbatim>\<open>pvc\<close>, host, database name, S3 (enabled, with a path) and the Secret are given, the
  Secret of the engine's own target is named, and the Job policy and runtime mode are supported.
\<close>

theorem ValidateRestoreSpec_accepts:
  "ValidateRestoreSpec K spec = None \<longleftrightarrow>
     schedule_ok K (rs_Schedule spec) \<and> rs_Engine spec \<noteq> EnginePVC \<and>
     db_Host (rs_Database spec) \<noteq> [] \<and> db_Name (rs_Database spec) \<noteq> [] \<and>
     EnabledOrDefault (rs_S3 spec) \<and> s3_Path (rs_S3 spec) \<noteq> [] \<and> rs_SecretRef spec \<noteq> [] \<and>
     (\<exists>k. sk_Name k \<noteq> [] \<and>
        Some k = (if rs_Engine spec = EngineMariaDB then rs_MariaDBSecret spec
                  else if rs_Engine spec = EngineRedis then rs_RedisSecret spec
                  else rs_PostgresSecret spec)) \<and>
     job_policy_ok (rs_Job spec) \<and> runtime_ok (rs_Runtime spec) (rs_Persistence spec)"
  by (simp only: ValidateRestoreSpec_None restore_target_secret_ok_def)

section \<open>The contract of a validating webhook\<close>

text \<open>
  The objects the API server can hold when it asks the webhook before every write: nothing, an
  admitted object, its admitted replacements, and nothing again after an admitted delete.
\<close>

inductive stored ::
  "('o \<Rightarrow> goerror option) \<Rightarrow> ('o \<Rightarrow> 'o \<Rightarrow> goerror option) \<Rightarrow> ('o \<Rightarrow> goerror option) \<Rightarrow>
   'o option \<Rightarrow> bool"
  for create update delete where
  absent: "stored create update delete None"
| created: "stored create update delete None \<Longrightarrow> create obj = None \<Longrightarrow>
    stored create update delete (Some obj)"
| updated: "stored create update delete (Some old) \<Longrightarrow> update old obj = None \<Longrightarrow>
    stored create update delete (Some obj)"
| deleted: "stored create update delete (Some obj) \<Longrightarrow> delete obj = None \<Longrightarrow>
    stored create update delete None"

inductive_cases stored_SomeE: "stored create update delete (Some obj)"

locale admission =
  fixes create :: "'o \<Rightarrow> goerror option"
    and update :: "'o \<Rightarrow> 'o \<Rightarrow> goerror option"
    and delete :: "'o \<Rightarrow> goerror option"
    and accepted :: "'o \<Rightarrow> bool"
  assumes create_accepts: "create obj = None \<longleftrightarrow> accepted obj"
    and update_accepts: "update old obj = None \<longleftrightarrow> accepted obj"
    and delete_allowed: "delete obj = None"
begin

lemma stored_accepted: "stored create update delete (Some obj) \<Longrightarrow> accepted obj"
  by (erule stored_SomeE) (simp_all add: create_accepts update_accepts)

lemma stored_iff: "stored create update delete (Some obj) \<longleftrightarrow> accepted obj"
proof
  assume "accepted obj"
  then have "create obj = None" by (simp add: create_accepts)
  with stored.absent show "stored create update delete (Some obj)" by (rule stored.created)
qed (rule stored_accepted)

lemma stored_can_go: "stored create update delete (Some obj) \<Longrightarrow> stored create update delete None"
  by (rule stored.deleted) (simp_all add: delete_allowed)

end

interpretation backup_admission: admission "Backup_ValidateCreate K" "Backup_ValidateUpdate K"
  "Backup_ValidateDelete K" "\<lambda>obj. \<exists>b. obj = ObjBackup b \<and> ValidateBackupSpec K (bk_Spec b) = None" for K
proof
  fix obj old
  show "(Backup_ValidateCreate K obj = None) =
      (\<exists>b. obj = ObjBackup b \<and> ValidateBackupSpec K (bk_Spec b) = None)"
    by (cases obj) (simp_all add: Backup_ValidateCreate_def)
  show "(Backup_ValidateUpdate K old obj = None) =
      (\<exists>b. obj = ObjBackup b \<and> ValidateBackupSpec K (bk_Spec b) = None)"
    by (cases obj) (simp_all add: Backup_ValidateUpdate_def)
qed (simp add: Backup_ValidateDelete_def)

interpretation restore_admission: admission "Restore_ValidateCreate K" "Restore_ValidateUpdate K"
  "Restore_ValidateDelete K" "\<lambda>obj. \<exists>r. obj = ObjRestore r \<and> ValidateRestoreSpec K (re_Spec r) = None" for K
proof
  fix obj old
  show "(Restore_ValidateCreate K obj = None) =
      (\<exists>r. obj = ObjRestore r \<and> ValidateRestoreSpec K (re_Spec r) = None)"
    by (cases obj) (simp_all add: Restore_ValidateCreate_def)
  show "(Restore_ValidateUpdate K old obj = None) =
      (\<exists>r. obj = ObjRestore r \<and> ValidateRestoreSpec K (re_Spec r) = None)"
    by (cases obj) (simp_all add: Restore_ValidateUpdate_def)
qed (simp add: Restore_ValidateDelete_def)

text \<open>
  C21: with the webhooks registered, whatever sequence of creates, updates and deletes is admitted,
  the objects that can be stored are exactly the Backups (and, for the other webhook, Restores)
  whose spec the validator accepts: an object of another kind or an invalid spec is never stored.
\<close>

theorem webhook_stores_only_valid:
  "(stored (Backup_ValidateCreate K) (Backup_ValidateUpdate K) (Backup_ValidateDelete K) (Some obj)
      \<longleftrightarrow> (\<exists>b. obj = ObjBackup b \<and> ValidateBackupSpec K (bk_Spec b) = None)) \<and>
   (stored (Restore_ValidateCreate K) (Restore_ValidateUpdate K) (Restore_ValidateDelete K) (Some obj)
      \<longleftrightarrow> (\<exists>r. obj = ObjRestore r \<and> ValidateRestoreSpec K (re_Spec r) = None))"
  by (rule conjI [OF backup_admission.stored_iff restore_admission.stored_iff])

end
