(* ===== verification/Examples.thy ===== *)
theory Examples
  imports Validation Naming
begin

text \<open>
  Concrete custom resources, after \<^verbatim>\<open>README.md\<close> and \<^verbatim>\<open>config/samples\<close>: a Postgres
  Backup, a PVC Backup with a volume holder, and a Postgres Restore.  The closed instances of the
  theorems are about them.
\<close>

definition ex_meta :: "string \<Rightarrow> string \<Rightarrow> objectmeta" where
  "ex_meta name uid =
     (named_meta name ''backup'')\<lparr>om_UID := uid, om_Generation := 1, om_CreationTimestamp := 7\<rparr>"

definition ex_database :: DatabaseSpec where
  "ex_database = \<lparr>db_Host = ''postgres.example'', db_Port = 5432, db_Name = ''app'', db_OwnerRole = []\<rparr>"

definition ex_s3 :: S3Spec where
  "ex_s3 = \<lparr>s3_Enabled = None, s3_Endpoint = ''https://s3.example.com'', s3_Bucket = ''backups'',
            s3_Path = ''app/pgdump'', s3_RetentionDays = Some 14\<rparr>"

definition ex_backup_spec :: BackupSpec where
  "ex_backup_spec =
     \<lparr>bs_Engine = ''postgres'', bs_Schedule = ''0 2 * * *'', bs_Suspend = None,
      bs_Database = ex_database, bs_PVC = None, bs_S3 = ex_s3,
      bs_SecretRef = ''backup-app-postgres'', bs_Persistence = None,
      bs_LocalRetentionDays = None, bs_LogFileEnabled = None, bs_DataDir = [],
      bs_McConfigDir = [], bs_Images = None, bs_Resources = None, bs_Job = None,
      bs_Runtime = None, bs_Component = []\<rparr>"

definition ex_backup :: Backup where
  "ex_backup = \<lparr>bk_Meta = ex_meta ''app-postgres'' ''uid-1'', bk_Spec = ex_backup_spec,
                bk_Status = cr_status_zero\<rparr>"

definition ex_pvc_source :: PVCSourceSpec where
  "ex_pvc_source =
     \<lparr>pv_ClaimName = ''nextcloud-data'', pv_Path = ''./data//files'',
      pv_Excludes = [''*.part'', ''./cache''],
      pv_ConsumerSelector = Some \<lparr>ls_MatchLabels = [''app'' \<mapsto> ''nextcloud''], ls_MatchExpressions = []\<rparr>,
      pv_RunAsUser = None, pv_RunAsGroup = None\<rparr>"

definition ex_pvc_backup :: Backup where
  "ex_pvc_backup =
     \<lparr>bk_Meta = ex_meta ''nextcloud-data'' ''uid-2'',
      bk_Spec = ex_backup_spec
        \<lparr>bs_Engine := ''pvc'', bs_PVC := Some ex_pvc_source,
         bs_Runtime := Some \<lparr>rt_Mode = ''CronJobWithVolumeHolder''\<rparr>\<rparr>,
      bk_Status = cr_status_zero\<rparr>"

definition ex_restore_spec :: RestoreSpec where
  "ex_restore_spec =
     \<lparr>rs_Engine = ''postgres'', rs_Schedule = ''0 2 * * *'', rs_Suspend = Some True,
      rs_Database = ex_database, rs_S3 = ex_s3, rs_SecretRef = ''restore-app-postgres'',
      rs_PostgresSecret =
        Some \<lparr>sk_Name = ''postgres'', sk_UsernameKey = [], sk_PasswordKey = []\<rparr>,
      rs_MariaDBSecret = None, rs_RedisSecret = None, rs_Persistence = None,
      rs_LogFileEnabled = None, rs_Workdir = [], rs_McConfigDir = [], rs_BackupFile = [],
      rs_UseLatestBackupAsFallback = None, rs_DropDatabaseIfExists = None,
      rs_StripPgAuditExtension = None, rs_Images = None, rs_Resources = None, rs_Job = None,
      rs_Runtime = None, rs_Component = []\<rparr>"

definition ex_restore :: Restore where
  "ex_restore = \<lparr>re_Meta = ex_meta ''app-postgres'' ''uid-3'', re_Spec = ex_restore_spec,
                 re_Status = cr_status_zero\<rparr>"

definition ex_config :: Config where
  "ex_config =
     \<lparr>cfg_BusyBoxImage = DefaultBusyBoxImage, cfg_GnuPGImage = DefaultGnuPGImage,
      cfg_PostgresImage = DefaultPostgresImage, cfg_McImage = DefaultMcImage,
      cfg_MariaDBImage = DefaultMariaDBImage, cfg_RedisImage = DefaultRedisImage,
      cfg_TarImage = DefaultTarImage, cfg_DefaultS3Endpoint = [], cfg_DefaultS3Bucket = []\<rparr>"

lemmas ex_defs = ex_meta_def ex_database_def ex_s3_def ex_backup_spec_def ex_backup_def
  ex_pvc_source_def ex_pvc_backup_def ex_restore_spec_def ex_restore_def cr_status_zero_def
  named_meta_def objectmeta_zero_def

lemma doc_lib_sel [simp]:
  "cron_ParseStandard doc_lib = doc_ParseStandard"
  "metav1_LabelSelectorAsSelector doc_lib = (\<lambda>_. None)"
  "resource_MustParse doc_lib = doc_MustParse"
  "quantity_IsZero doc_lib = (\<lambda>a. a = 0)"
  "meta_SetStatusCondition doc_lib = doc_SetStatusCondition 1"
  "semantic_DeepEqual_time doc_lib = (=)"
  "semantic_DeepEqual_lastJob doc_lib = (=)"
  "apierrors_IsNotFound doc_lib = (\<lambda>e. status_reason e = Some ReasonNotFound)"
  "apierrors_IsConflict doc_lib = (\<lambda>e. status_reason e = Some ReasonConflict)"
  "controllerutil_SetControllerReference doc_lib = doc_SetControllerReference"
  by (simp_all add: doc_lib_def)

lemma ex_schedule_ok [simp]: "schedule_ok doc_lib ''0 2 * * *''"
proof -
  have "strings_TrimSpace ''0 2 * * *'' \<noteq> []" by code_simp
  moreover have "doc_ParseStandard ''0 2 * * *'' = None" by code_simp
  ultimately show ?thesis by (simp add: schedule_ok_def)
qed

lemma ex_excludes_not_blank [simp]:
  "strings_TrimSpace ''*.part'' \<noteq> []" "strings_TrimSpace ''./cache'' \<noteq> []"
  by code_simp+

lemma ex_backup_valid [simp]: "ValidateBackupSpec doc_lib (bk_Spec ex_backup) = None"
  by (unfold ValidateBackupSpec_None backup_source_ok_def)
    (simp add: ex_defs go_const EnabledOrDefault_def job_policy_ok_def runtime_ok_def EffectiveMode_def)

lemma ex_pvc_backup_valid [simp]: "ValidateBackupSpec doc_lib (bk_Spec ex_pvc_backup) = None"
  by (unfold ValidateBackupSpec_None backup_source_ok_def)
    (simp add: ex_defs go_const EnabledOrDefault_def job_policy_ok_def runtime_ok_def EffectiveMode_def
      pvc_source_ok_def persistenceEnabled_def strings_HasPrefix_def single_line_def)

lemma ex_restore_valid [simp]: "ValidateRestoreSpec doc_lib (re_Spec ex_restore) = None"
  by (unfold ValidateRestoreSpec_None restore_target_secret_ok_def)
    (simp add: ex_defs go_const EnabledOrDefault_def job_policy_ok_def runtime_ok_def EffectiveMode_def
      split: option.split)

end
