(* ===== verification/Claims.thy ===== *)
theory Claims
  imports Defaults Validation Examples
begin

text \<open>
  \<^verbatim>\<open>internal/resources/pvc.go\<close> (the scratch claim the operator owns) and the claim half of
  \<^verbatim>\<open>pvcsource.go\<close> (the source claim of engine \<^verbatim>\<open>pvc\<close>).  The lemmas show that an
  accepted source path stays inside the claim, and that a claim only ever grows.
\<close>

section \<open>The source claim\<close>

definition pvcSource :: "Backup \<Rightarrow> PVCSourceSpec" where
  "pvcSource backup =
     (case bs_PVC (bk_Spec backup) of None \<Rightarrow> PVCSourceSpec_zero | Some s \<Rightarrow> s)"

definition pvcSourcePath :: "PVCSourceSpec \<Rightarrow> string" where
  "pvcSourcePath src =
     (if pv_Path src = [] then []
      else let p = path_Clean (pv_Path src) in if p = ''.'' then [] else p)"

definition PVCConsumerAffinityTerms :: "Backup \<Rightarrow> affinity_term list" where
  "PVCConsumerAffinityTerms backup =
     (if \<not> IsPVCBackup backup then []
      else case bs_PVC (bk_Spec backup) of
             None \<Rightarrow> []
           | Some s \<Rightarrow>
               (case pv_ConsumerSelector s of
                  None \<Rightarrow> []
                | Some sel \<Rightarrow> [\<lparr>at_LabelSelector = sel, at_TopologyKey = kubernetesHostnameLabel\<rparr>]))"

text \<open>The elements of a relative path that name something.\<close>

definition path_names :: "string \<Rightarrow> string list" where
  "path_names p = filter (\<lambda>e. e \<noteq> [] \<and> e \<noteq> ''.'') (strings_Split CHR ''/'' p)"

lemma path_names_sep_free: "e \<in> set (path_names p) \<Longrightarrow> CHR ''/'' \<notin> set e"
  by (auto simp: path_names_def dest: strings_Split_sep_free)

lemma Split_Join_path_names:
  "path_names p \<noteq> [] \<Longrightarrow>
   strings_Split CHR ''/'' (strings_Join ''/'' (path_names p)) = path_names p"
  using strings_Split_Join [of "path_names p" "CHR ''/''"] path_names_sep_free by blast

lemma Join_path_names_not_dot:
  assumes "path_names p \<noteq> []"
  shows "strings_Join ''/'' (path_names p) \<noteq> ''.''" and "strings_Join ''/'' (path_names p) \<noteq> []"
proof -
  have names: "strings_Split CHR ''/'' (strings_Join ''/'' (path_names p)) = path_names p"
    using assms by (rule Split_Join_path_names)
  have "path_names p \<noteq> [''.'']" and "path_names p \<noteq> [[]]"
    by (auto simp: path_names_def filter_eq_Cons_iff)
  then show "strings_Join ''/'' (path_names p) \<noteq> ''.''" and "strings_Join ''/'' (path_names p) \<noteq> []"
    using names by auto
qed

lemma pvcSourcePath_valid:
  assumes "pvc_source_ok K s"
  shows "pvcSourcePath s = strings_Join ''/'' (path_names (pv_Path s))"
proof (cases "pv_Path s = []")
  case True
  then show ?thesis by (simp add: pvcSourcePath_def path_names_def)
next
  case False
  with assms have "path_Clean (pv_Path s) =
      (if path_names (pv_Path s) = [] then ''.'' else strings_Join ''/'' (path_names (pv_Path s)))"
    by (simp add: path_Clean_relative pvc_source_ok_def path_names_def Let_def)
  with False show ?thesis
    by (simp add: pvcSourcePath_def Let_def Join_path_names_not_dot)
qed

lemma single_line_Join:
  assumes "single_line p"
  shows "single_line (strings_Join ''/'' (path_names p))"
proof -
  have "set e \<subseteq> set p" if "e \<in> set (path_names p)" for e
    using that by (auto simp: path_names_def dest: strings_Split_chars)
  then have "set (strings_Join ''/'' (path_names p)) \<subseteq> {CHR ''/''} \<union> set p"
    using strings_Join_chars [of "''/''" "path_names p"] by auto
  with assms show ?thesis by (auto simp: single_line_def)
qed

text \<open>
  C30: the path handed to the tar stage never leaves the claim.  For an accepted Backup of engine
  \<^verbatim>\<open>pvc\<close> the cleaned path is empty (the claim's root) or a sequence of non-empty names
  separated by single slashes, none of them \<^verbatim>\<open>.\<close> or \<^verbatim>\<open>..\<close>, so it is relative and cannot
  climb; it has no line break; and it names the directory the user wrote: its names are those of
  \<^verbatim>\<open>spec.pvc.path\<close> in order.
\<close>

theorem pvcSourcePath_inside_claim:
  assumes "ValidateBackupSpec K (bk_Spec b) = None" and "IsPVCBackup b"
  shows "path_names (pvcSourcePath (pvcSource b)) = path_names (pv_Path (pvcSource b)) \<and>
    ''..'' \<notin> set (strings_Split CHR ''/'' (pvcSourcePath (pvcSource b))) \<and>
    \<not> strings_HasPrefix (pvcSourcePath (pvcSource b)) ''/'' \<and>
    single_line (pvcSourcePath (pvcSource b)) \<and>
    (pvcSourcePath (pvcSource b) = [] \<or>
     strings_Split CHR ''/'' (pvcSourcePath (pvcSource b)) = path_names (pv_Path (pvcSource b)))"
proof -
  obtain s where s: "bs_PVC (bk_Spec b) = Some s" and ok: "pvc_source_ok K s"
    using assms by (auto simp: ValidateBackupSpec_None backup_source_ok_def IsPVCBackup_def)
  let ?ns = "path_names (pv_Path s)"
  have p: "pvcSourcePath s = strings_Join ''/'' ?ns" and src: "pvcSource b = s"
    using pvcSourcePath_valid [OF ok] s by (simp_all add: pvcSource_def)
  have line: "single_line (strings_Join ''/'' ?ns)"
    using ok by (intro single_line_Join) (simp add: pvc_source_ok_def)
  have dots: "''..'' \<notin> set ?ns" using ok by (simp add: path_names_def pvc_source_ok_def)
  show ?thesis
  proof (cases "?ns = []")
    case True
    then show ?thesis
      by (simp add: src p single_line_def strings_HasPrefix_def) (simp add: path_names_def)
  next
    case False
    have split: "strings_Split CHR ''/'' (strings_Join ''/'' ?ns) = ?ns"
      using False by (rule Split_Join_path_names)
    have "\<not> strings_HasPrefix (strings_Join ''/'' ?ns) ''/''"
    proof
      assume "strings_HasPrefix (strings_Join ''/'' ?ns) ''/''"
      then have "hd (strings_Split CHR ''/'' (strings_Join ''/'' ?ns)) = []"
        by (auto simp: strings_HasPrefix_def prefix_def)
      with split False have "[] \<in> set ?ns" by (cases ?ns) auto
      then show False by (simp add: path_names_def)
    qed
    with dots line split show ?thesis
      by (simp add: p src) (simp add: path_names_def split)
  qed
qed

theorem pvcSourcePath_inside_claim_witness:
  "pvcSourcePath (pvcSource ex_pvc_backup) = ''data/files'' \<and>
   path_names (pvcSourcePath (pvcSource ex_pvc_backup)) = [''data'', ''files''] \<and>
   ''..'' \<notin> set (strings_Split CHR ''/'' (pvcSourcePath (pvcSource ex_pvc_backup)))"
proof -
  have pvc: "IsPVCBackup ex_pvc_backup" by (simp add: IsPVCBackup_def ex_defs EnginePVC_def EffectiveEngine_def)
  have "pvcSourcePath (pvcSource ex_pvc_backup) = ''data/files''"
    by (simp add: pvcSourcePath_def pvcSource_def ex_defs path_Clean_def clean_step_def
        strings_HasPrefix_def)
  moreover have "path_names (pv_Path (pvcSource ex_pvc_backup)) = [''data'', ''files'']"
    by (simp add: path_names_def pvcSource_def ex_defs)
  ultimately show ?thesis
    using pvcSourcePath_inside_claim [OF ex_pvc_backup_valid pvc] by simp
qed

section \<open>The scratch claim\<close>

definition MutatePVC :: "k8slib \<Rightarrow> pvc \<Rightarrow> PersistenceSpec option \<Rightarrow> strmap \<Rightarrow> pvc" where
  "MutatePVC K claim persistence labels =
     (let accessModes = (case persistence of
            Some p \<Rightarrow> if ps_AccessModes p \<noteq> [] then ps_AccessModes p else [ReadWriteOnce]
          | None \<Rightarrow> [ReadWriteOnce]);
          meta = (pvc_Meta claim)\<lparr>om_Labels := labels\<rparr>;
          meta' = (case persistence of
            Some p \<Rightarrow> if ps_Annotations p \<noteq> Map.empty then meta\<lparr>om_Annotations := ps_Annotations p\<rparr> else meta
          | None \<Rightarrow> meta);
          class = (case persistence of
            Some p \<Rightarrow> if ps_StorageClassName p \<noteq> [] then Some (ps_StorageClassName p) else None
          | None \<Rightarrow> None)
      in \<lparr>pvc_Meta = meta',
          pvc_Spec = \<lparr>pv_AccessModes = accessModes,
                      pv_Requests = [ResourceStorage \<mapsto> persistenceSize K persistence],
                      pv_StorageClassName = class\<rparr>\<rparr>)"

definition ExpandPVC :: "k8slib \<Rightarrow> pvc \<Rightarrow> PersistenceSpec option \<Rightarrow> pvc" where
  "ExpandPVC K claim persistence =
     (let want = persistenceSize K persistence;
          grow = claim\<lparr>pvc_Spec := (pvc_Spec claim)
                   \<lparr>pv_Requests := (pv_Requests (pvc_Spec claim))(ResourceStorage \<mapsto> want)\<rparr>\<rparr>
      in case pv_Requests (pvc_Spec claim) ResourceStorage of
           Some cur \<Rightarrow> if quantity_Cmp K want cur \<le> 0 then claim else grow
         | None \<Rightarrow> grow)"

text \<open>The storage a claim requests, nothing when it requests none.\<close>

definition storage_request :: "pvc \<Rightarrow> quantity option" where
  "storage_request claim = pv_Requests (pvc_Spec claim) ResourceStorage"

text \<open>
  Reconciling an existing scratch claim never shrinks it.  With quantities compared as
  numbers, the storage request after \<^verbatim>\<open>ExpandPVC\<close> is the larger of the current request and
  \<^verbatim>\<open>spec.persistence.size\<close> (the size itself where the claim had none); nothing else of the
  claim changes, and expanding again changes nothing.
\<close>

theorem ExpandPVC_only_grows:
  assumes "quantity_laws K"
  shows "storage_request (ExpandPVC K claim p) =
      Some (case storage_request claim of None \<Rightarrow> persistenceSize K p
            | Some cur \<Rightarrow> max cur (persistenceSize K p)) \<and>
    pvc_Meta (ExpandPVC K claim p) = pvc_Meta claim \<and>
    pv_AccessModes (pvc_Spec (ExpandPVC K claim p)) = pv_AccessModes (pvc_Spec claim) \<and>
    pv_StorageClassName (pvc_Spec (ExpandPVC K claim p)) = pv_StorageClassName (pvc_Spec claim) \<and>
    ExpandPVC K (ExpandPVC K claim p) p = ExpandPVC K claim p"
  using assms
  by (auto simp: ExpandPVC_def storage_request_def quantity_laws_def Let_def max_def split: option.splits)

theorem ExpandPVC_only_grows_witness:
  "quantity_laws doc_lib \<and>
   storage_request (ExpandPVC doc_lib (MutatePVC doc_lib
       \<lparr>pvc_Meta = objectmeta_zero,
        pvc_Spec = \<lparr>pv_AccessModes = [], pv_Requests = Map.empty, pv_StorageClassName = None\<rparr>\<rparr>
       (Some \<lparr>ps_Enabled = None, ps_StorageClassName = [], ps_AccessModes = [], ps_Size = 5,
              ps_Annotations = Map.empty\<rparr>) Map.empty)
     (Some \<lparr>ps_Enabled = None, ps_StorageClassName = [], ps_AccessModes = [], ps_Size = 3,
            ps_Annotations = Map.empty\<rparr>)) = Some 5"
  using quantity_laws_doc
  by (simp add: ExpandPVC_only_grows [OF quantity_laws_doc])
    (simp add: storage_request_def MutatePVC_def persistenceSize_def)

lemma PersistenceEnabled_validation: "PersistenceEnabled p = persistenceEnabled p"
  by (simp add: PersistenceEnabled_def persistenceEnabled_def)

end
