(* ===== verification/ConfigMaps.thy ===== *)
theory ConfigMaps
  imports Claims
begin

text \<open>
  \<^verbatim>\<open>internal/resources/configmap.go\<close> and \<^verbatim>\<open>restore_configmap.go\<close>: the environment of
  the pipeline.  A mutator gives the changed ConfigMap and the error (nil is \<^const>\<open>None\<close>); as
  in the source the object is changed before the S3 checks run.
\<close>

section \<open>Backup\<close>

definition backupBaseData :: "Backup \<Rightarrow> Config \<Rightarrow> strmap" where
  "backupBaseData backup cfg =
     (let engine = EffectiveEngine (bs_Engine (bk_Spec backup));
          d = [''ENGINE'' \<mapsto> engine, ''DUMP_PREFIX'' \<mapsto> DumpPrefix engine,
               ''DATA_DIR'' \<mapsto> dataDir backup, ''MC_CONFIG_DIR'' \<mapsto> mcConfigDir backup,
               ''LOCAL_RETENTION_DAYS'' \<mapsto> strconv_Itoa (localRetentionDays backup),
               ''S3_ENABLED'' \<mapsto> boolEnv (s3_Enabled (bs_S3 (bk_Spec backup))) True,
               ''LOG_FILE_ENABLED'' \<mapsto> boolEnv (bs_LogFileEnabled (bk_Spec backup)) False]
      in if EnabledOrDefault (bs_S3 (bk_Spec backup)) then
           d(''S3_ENDPOINT'' \<mapsto> s3Endpoint backup cfg, ''S3_BUCKET'' \<mapsto> s3Bucket backup cfg,
             ''S3_PATH'' \<mapsto> s3_Path (bs_S3 (bk_Spec backup)),
             ''S3_RETENTION_DAYS'' \<mapsto> strconv_Itoa (s3RetentionDays backup))
         else d)"

definition backupEngineData :: "Backup \<Rightarrow> strmap \<Rightarrow> strmap" where
  "backupEngineData backup d =
     (let engine = EffectiveEngine (bs_Engine (bk_Spec backup));
          db = bs_Database (bk_Spec backup);
          port = DatabasePort db engine
      in if engine = EngineMariaDB then
           d(''MYSQL_HOST'' \<mapsto> db_Host db, ''MYSQL_PORT'' \<mapsto> strconv_Itoa port,
             ''MYSQL_DATABASE'' \<mapsto> db_Name db)
         else if engine = EngineRedis then
           d(''REDIS_HOST'' \<mapsto> db_Host db, ''REDIS_PORT'' \<mapsto> strconv_Itoa port,
             ''REDIS_NAME'' \<mapsto> db_Name db)
         else if engine = EnginePVC then
           (let src = pvcSource backup in
            d(''PVC_CLAIM_NAME'' \<mapsto> pv_ClaimName src, ''PVC_SOURCE_DIR'' \<mapsto> DefaultPVCSourceDir,
              ''PVC_PATH'' \<mapsto> pvcSourcePath src,
              ''PVC_EXCLUDES'' \<mapsto> strings_Join [CHR 0x0A] (pv_Excludes src)))
         else
           d(''PGHOST'' \<mapsto> db_Host db, ''PGPORT'' \<mapsto> strconv_Itoa port, ''PGDATABASE'' \<mapsto> db_Name db))"

text \<open>The two checks on the finished data.\<close>

definition s3DataError :: "strmap \<Rightarrow> goerror option" where
  "s3DataError d = first_error
     [fail_if (map_index d ''S3_ENDPOINT'' = [])
        ''s3.endpoint is empty (set spec.s3.endpoint or --default-s3-endpoint)'',
      fail_if (map_index d ''S3_BUCKET'' = [])
        ''s3.bucket is empty (set spec.s3.bucket or --default-s3-bucket)'']"

definition MutateBackupConfigMap ::
  "configmap \<Rightarrow> Backup \<Rightarrow> Config \<Rightarrow> configmap \<times> goerror option" where
  "MutateBackupConfigMap cm backup cfg =
     (let d = backupEngineData backup (backupBaseData backup cfg);
          cm' = cm\<lparr>cm_Meta := (cm_Meta cm)\<lparr>om_Labels := BackupLabels backup\<rparr>, cm_Data := d\<rparr>
      in (cm', if EnabledOrDefault (bs_S3 (bk_Spec backup)) then s3DataError d else None))"

section \<open>Restore\<close>

definition restoreBaseData :: "Restore \<Rightarrow> Config \<Rightarrow> strmap" where
  "restoreBaseData restore cfg =
     (let engine = EffectiveEngine (rs_Engine (re_Spec restore)); spec = re_Spec restore in
      [''ENGINE'' \<mapsto> engine, ''DUMP_PREFIX'' \<mapsto> DumpPrefix engine,
       ''WORKDIR'' \<mapsto> restoreWorkdir restore, ''MC_CONFIG_DIR'' \<mapsto> restoreMcConfigDir restore,
       ''S3_ENDPOINT'' \<mapsto> restoreS3Endpoint restore cfg, ''S3_BUCKET'' \<mapsto> restoreS3Bucket restore cfg,
       ''S3_PATH'' \<mapsto> s3_Path (rs_S3 spec), ''BACKUP_FILE'' \<mapsto> rs_BackupFile spec,
       ''USE_LATEST_BACKUP_AS_FALLBACK'' \<mapsto> boolEnv (rs_UseLatestBackupAsFallback spec) True,
       ''DROP_DATABASE_IF_EXISTS'' \<mapsto> boolEnv (rs_DropDatabaseIfExists spec) True,
       ''LOG_FILE_ENABLED'' \<mapsto> boolEnv (rs_LogFileEnabled spec) False])"

definition restoreEngineData :: "Restore \<Rightarrow> strmap \<Rightarrow> strmap" where
  "restoreEngineData restore d =
     (let engine = EffectiveEngine (rs_Engine (re_Spec restore));
          db = rs_Database (re_Spec restore);
          port = DatabasePort db engine
      in if engine = EngineMariaDB then
           d(''MYSQL_HOST'' \<mapsto> db_Host db, ''MYSQL_PORT'' \<mapsto> strconv_Itoa port,
             ''MYSQL_DATABASE'' \<mapsto> db_Name db)
         else if engine = EngineRedis then
           d(''REDIS_HOST'' \<mapsto> db_Host db, ''REDIS_PORT'' \<mapsto> strconv_Itoa port,
             ''REDIS_NAME'' \<mapsto> db_Name db)
         else
           d(''PGHOST'' \<mapsto> db_Host db, ''PGPORT'' \<mapsto> strconv_Itoa port, ''PGDATABASE'' \<mapsto> db_Name db,
             ''PG_OWNER_ROLE'' \<mapsto> restoreOwnerRole restore,
             ''STRIP_PGAUDIT_EXTENSION'' \<mapsto> boolEnv (rs_StripPgAuditExtension (re_Spec restore)) True))"

definition MutateRestoreConfigMap ::
  "configmap \<Rightarrow> Restore \<Rightarrow> Config \<Rightarrow> configmap \<times> goerror option" where
  "MutateRestoreConfigMap cm restore cfg =
     (let d = restoreEngineData restore (restoreBaseData restore cfg);
          cm' = cm\<lparr>cm_Meta := (cm_Meta cm)\<lparr>om_Labels := RestoreLabels restore\<rparr>, cm_Data := d\<rparr>
      in (cm', s3DataError d))"

section \<open>What the environment holds\<close>

lemmas backup_data_defs = MutateBackupConfigMap_def backupEngineData_def backupBaseData_def Let_def
lemmas restore_data_defs = MutateRestoreConfigMap_def restoreEngineData_def restoreBaseData_def Let_def

definition common_backup_keys :: "string set" where
  "common_backup_keys = {''LOG_FILE_ENABLED'', ''S3_ENABLED'', ''LOCAL_RETENTION_DAYS'', ''MC_CONFIG_DIR'', ''DATA_DIR'', ''DUMP_PREFIX'', ''ENGINE''}"

definition backup_s3_keys :: "string set" where
  "backup_s3_keys = {''S3_RETENTION_DAYS'', ''S3_PATH'', ''S3_BUCKET'', ''S3_ENDPOINT''}"

definition engine_keys :: "engine \<Rightarrow> string set" where
  "engine_keys e =
     (if e = EngineMariaDB then {''MYSQL_DATABASE'', ''MYSQL_PORT'', ''MYSQL_HOST''}
      else if e = EngineRedis then {''REDIS_NAME'', ''REDIS_PORT'', ''REDIS_HOST''}
      else if e = EnginePVC then {''PVC_EXCLUDES'', ''PVC_PATH'', ''PVC_SOURCE_DIR'', ''PVC_CLAIM_NAME''}
      else {''PGDATABASE'', ''PGPORT'', ''PGHOST''})"

lemma dom_backupEngineData:
  "dom (backupEngineData b d) = engine_keys (EffectiveEngine (bs_Engine (bk_Spec b))) \<union> dom d"
  by (simp add: backupEngineData_def engine_keys_def Let_def)

lemma dom_backupBaseData:
  "dom (backupBaseData b cfg) =
     (if EnabledOrDefault (bs_S3 (bk_Spec b)) then backup_s3_keys else {}) \<union> common_backup_keys"
  by (simp add: backupBaseData_def common_backup_keys_def backup_s3_keys_def Let_def
      del: Un_insert_right)

lemma s3DataError_None:
  "s3DataError d = None \<longleftrightarrow> map_index d ''S3_ENDPOINT'' \<noteq> [] \<and> map_index d ''S3_BUCKET'' \<noteq> []"
  by (simp add: s3DataError_def)

lemma backup_data_s3 [simp]:
  assumes "EnabledOrDefault (bs_S3 (bk_Spec b))"
  shows "map_index (backupEngineData b (backupBaseData b cfg)) ''S3_ENDPOINT'' = s3Endpoint b cfg"
    and "map_index (backupEngineData b (backupBaseData b cfg)) ''S3_BUCKET'' = s3Bucket b cfg"
  using assms by (simp_all add: backupEngineData_def backupBaseData_def Let_def map_index_def)

lemma restore_data_s3 [simp]:
  "map_index (restoreEngineData r (restoreBaseData r cfg)) ''S3_ENDPOINT'' = restoreS3Endpoint r cfg"
  "map_index (restoreEngineData r (restoreBaseData r cfg)) ''S3_BUCKET'' = restoreS3Bucket r cfg"
  by (simp_all add: restoreEngineData_def restoreBaseData_def Let_def map_index_def)

text \<open>
  The environment a Backup's stages see has exactly the common keys, the S3 keys when and only
  when S3 is enabled, and the connection (or claim) keys of its own engine: stale entries of an
  earlier engine or of a disabled S3 target do not survive, whatever the ConfigMap held before.
  The mutator fails exactly when S3 is enabled and neither the spec nor the operator's flags give
  an endpoint and a bucket.
\<close>

theorem MutateBackupConfigMap_environment:
  "dom (cm_Data (fst (MutateBackupConfigMap cm b cfg))) =
     common_backup_keys \<union> (if EnabledOrDefault (bs_S3 (bk_Spec b)) then backup_s3_keys else {}) \<union>
     engine_keys (EffectiveEngine (bs_Engine (bk_Spec b))) \<and>
   (snd (MutateBackupConfigMap cm b cfg) = None \<longleftrightarrow>
     (if EnabledOrDefault (bs_S3 (bk_Spec b)) then s3Endpoint b cfg \<noteq> [] \<and> s3Bucket b cfg \<noteq> [] else True))"
proof
  show "dom (cm_Data (fst (MutateBackupConfigMap cm b cfg))) =
     common_backup_keys \<union> (if EnabledOrDefault (bs_S3 (bk_Spec b)) then backup_s3_keys else {}) \<union>
     engine_keys (EffectiveEngine (bs_Engine (bk_Spec b)))"
    by (simp add: MutateBackupConfigMap_def Let_def dom_backupEngineData dom_backupBaseData Un_ac)
  show "snd (MutateBackupConfigMap cm b cfg) = None \<longleftrightarrow>
     (if EnabledOrDefault (bs_S3 (bk_Spec b)) then s3Endpoint b cfg \<noteq> [] \<and> s3Bucket b cfg \<noteq> [] else True)"
    by (simp add: MutateBackupConfigMap_def Let_def s3DataError_None)
qed

text \<open>
  C31: the exclude patterns survive the trip through the environment.  For an accepted Backup of
  engine \<^verbatim>\<open>pvc\<close>, splitting \<^verbatim>\<open>PVC_EXCLUDES\<close> at the line breaks (how tar's
  \<^verbatim>\<open>--exclude-from\<close> reads it) gives back exactly the patterns of \<^verbatim>\<open>spec.pvc.excludes\<close>,
  or one empty line when there are none.
\<close>

theorem PVC_EXCLUDES_roundtrip:
  assumes "ValidateBackupSpec K (bk_Spec b) = None" and "IsPVCBackup b"
  shows "strings_Split CHR 0x0A
           (map_index (cm_Data (fst (MutateBackupConfigMap cm b cfg))) ''PVC_EXCLUDES'') =
         (if pv_Excludes (pvcSource b) = [] then [[]] else pv_Excludes (pvcSource b))"
proof -
  obtain s where s: "bs_PVC (bk_Spec b) = Some s" and ok: "pvc_source_ok K s"
    using assms by (auto simp: ValidateBackupSpec_None backup_source_ok_def IsPVCBackup_def)
  then have lines: "\<forall>e\<in>set (pv_Excludes s). CHR 0x0A \<notin> set e"
    by (simp add: pvc_source_ok_def single_line_def)
  have "map_index (cm_Data (fst (MutateBackupConfigMap cm b cfg))) ''PVC_EXCLUDES'' =
      strings_Join [CHR 0x0A] (pv_Excludes s)"
    using assms(2) s by (simp add: backup_data_defs IsPVCBackup_def pvcSource_def map_index_def)
  with s lines show ?thesis
    using strings_Split_Join [of "pv_Excludes s" "CHR 0x0A"]
    by (cases "pv_Excludes s = []") (simp_all add: pvcSource_def)
qed

theorem PVC_EXCLUDES_roundtrip_witness:
  "strings_Split CHR 0x0A
     (map_index (cm_Data (fst (MutateBackupConfigMap \<lparr>cm_Meta = objectmeta_zero, cm_Data = Map.empty\<rparr>
        ex_pvc_backup ex_config))) ''PVC_EXCLUDES'') = [''*.part'', ''./cache'']"
  using PVC_EXCLUDES_roundtrip [OF ex_pvc_backup_valid]
  by (simp add: IsPVCBackup_def pvcSource_def ex_defs EnginePVC_def EffectiveEngine_def)

text \<open>The keys a Restore's stages see.\<close>

definition common_restore_keys :: "string set" where
  "common_restore_keys =
     {''LOG_FILE_ENABLED'', ''DROP_DATABASE_IF_EXISTS'', ''USE_LATEST_BACKUP_AS_FALLBACK'', ''BACKUP_FILE'', ''S3_PATH'', ''S3_BUCKET'',
      ''S3_ENDPOINT'', ''MC_CONFIG_DIR'', ''WORKDIR'', ''DUMP_PREFIX'', ''ENGINE''}"

definition restore_engine_keys :: "engine \<Rightarrow> string set" where
  "restore_engine_keys e =
     (if e = EngineMariaDB then {''MYSQL_DATABASE'', ''MYSQL_PORT'', ''MYSQL_HOST''}
      else if e = EngineRedis then {''REDIS_NAME'', ''REDIS_PORT'', ''REDIS_HOST''}
      else {''STRIP_PGAUDIT_EXTENSION'', ''PG_OWNER_ROLE'', ''PGDATABASE'', ''PGPORT'', ''PGHOST''})"

lemma dom_restoreEngineData:
  "dom (restoreEngineData r d) = restore_engine_keys (EffectiveEngine (rs_Engine (re_Spec r))) \<union> dom d"
  by (simp add: restoreEngineData_def restore_engine_keys_def Let_def)

lemma dom_restoreBaseData: "dom (restoreBaseData r cfg) = common_restore_keys"
  by (simp add: restoreBaseData_def common_restore_keys_def Let_def)

text \<open>The keys that say where the backups are and what they are called.\<close>

definition shared_keys :: "string list" where
  "shared_keys = [''ENGINE'', ''DUMP_PREFIX'', ''S3_ENDPOINT'', ''S3_BUCKET'', ''S3_PATH'']"

text \<open>
  C32: a Restore looks for backups where a Backup puts them.  A Backup that uploads to S3 and a Restore
  with the same engine and the same \<^verbatim>\<open>spec.s3\<close>, reconciled by the same operator, get the same
  endpoint, bucket, path and file prefix, whatever came from the spec and what from the operator's flags; a
  Restore's environment has exactly its own keys and those of its engine, and its mutator fails
  exactly when that Backup's does.
\<close>

theorem restore_looks_where_backup_puts:
  assumes "rs_S3 (re_Spec r) = bs_S3 (bk_Spec b)" and "EnabledOrDefault (bs_S3 (bk_Spec b))"
    and "EffectiveEngine (rs_Engine (re_Spec r)) = EffectiveEngine (bs_Engine (bk_Spec b))"
  shows "map (cm_Data (fst (MutateRestoreConfigMap cm r cfg))) shared_keys =
      map (cm_Data (fst (MutateBackupConfigMap cm' b cfg))) shared_keys \<and>
    list_all (\<lambda>k. k \<in> dom (cm_Data (fst (MutateRestoreConfigMap cm r cfg)))) shared_keys \<and>
    dom (cm_Data (fst (MutateRestoreConfigMap cm r cfg))) =
      common_restore_keys \<union> restore_engine_keys (EffectiveEngine (rs_Engine (re_Spec r))) \<and>
    snd (MutateRestoreConfigMap cm r cfg) = snd (MutateBackupConfigMap cm' b cfg)"
proof (intro conjI)
  show "map (cm_Data (fst (MutateRestoreConfigMap cm r cfg))) shared_keys =
      map (cm_Data (fst (MutateBackupConfigMap cm' b cfg))) shared_keys"
    using assms by (simp add: shared_keys_def restore_data_defs backup_data_defs restoreS3Endpoint_def restoreS3Bucket_def
        s3Endpoint_def s3Bucket_def)
  show dom: "dom (cm_Data (fst (MutateRestoreConfigMap cm r cfg))) =
      common_restore_keys \<union> restore_engine_keys (EffectiveEngine (rs_Engine (re_Spec r)))"
    by (simp add: MutateRestoreConfigMap_def Let_def dom_restoreEngineData dom_restoreBaseData Un_commute)
  show "list_all (\<lambda>k. k \<in> dom (cm_Data (fst (MutateRestoreConfigMap cm r cfg)))) shared_keys"
    unfolding dom by (simp add: shared_keys_def common_restore_keys_def)
  show "snd (MutateRestoreConfigMap cm r cfg) = snd (MutateBackupConfigMap cm' b cfg)"
    using assms(1,2) by (simp add: MutateRestoreConfigMap_def MutateBackupConfigMap_def Let_def s3DataError_def
        restoreS3Endpoint_def restoreS3Bucket_def s3Endpoint_def s3Bucket_def)
qed

theorem restore_looks_where_backup_puts_witness:
  "map (cm_Data (fst (MutateRestoreConfigMap \<lparr>cm_Meta = objectmeta_zero, cm_Data = Map.empty\<rparr> ex_restore ex_config))) shared_keys =
   map (cm_Data (fst (MutateBackupConfigMap \<lparr>cm_Meta = objectmeta_zero, cm_Data = Map.empty\<rparr> ex_backup ex_config))) shared_keys"
proof -
  have "rs_S3 (re_Spec ex_restore) = bs_S3 (bk_Spec ex_backup)" "EnabledOrDefault (bs_S3 (bk_Spec ex_backup))"
      "EffectiveEngine (rs_Engine (re_Spec ex_restore)) = EffectiveEngine (bs_Engine (bk_Spec ex_backup))"
    by (simp_all add: ex_defs EnabledOrDefault_def)
  from restore_looks_where_backup_puts [OF this] show ?thesis by blast
qed

end
