(* ===== verification/Embed.thy ===== *)
theory Embed
  imports Prelude
begin

text \<open>
  \<^verbatim>\<open>internal/pipeline/embed.go\<close>: the stage scripts compiled into the operator.  The file
  names are those of the tree (\<^verbatim>\<open>internal/pipeline/scripts\<close>); the texts of the files are
  the parameter \<^verbatim>\<open>Scripts\<close>.  A panic of the \<^verbatim>\<open>Must\<close> functions is \<^const>\<open>None\<close>.
\<close>

record Scripts =
  commonScript :: string
  sh_cleanup :: string
  sh_pgdump :: string
  sh_mysqldump :: string
  sh_redisdump :: string
  sh_pvcdump :: string
  sh_compress :: string
  sh_encrypt :: string
  sh_s3_sync :: string
  sh_restore_cleanup :: string
  sh_fetch :: string
  sh_decrypt :: string
  sh_extract :: string
  sh_pgrestore :: string
  sh_mysqlrestore :: string
  sh_redisrestore :: string

definition backupScripts :: "Scripts \<Rightarrow> (string \<times> string) list" where
  "backupScripts S =
     [(''scripts/backup/cleanup.sh'', sh_cleanup S), (''scripts/backup/pgdump.sh'', sh_pgdump S),
      (''scripts/backup/mysqldump.sh'', sh_mysqldump S), (''scripts/backup/redisdump.sh'', sh_redisdump S),
      (''scripts/backup/pvcdump.sh'', sh_pvcdump S), (''scripts/backup/compress.sh'', sh_compress S),
      (''scripts/backup/encrypt.sh'', sh_encrypt S), (''scripts/backup/s3-sync.sh'', sh_s3_sync S)]"

definition restoreScripts :: "Scripts \<Rightarrow> (string \<times> string) list" where
  "restoreScripts S =
     [(''scripts/restore/cleanup.sh'', sh_restore_cleanup S), (''scripts/restore/fetch.sh'', sh_fetch S),
      (''scripts/restore/decrypt.sh'', sh_decrypt S), (''scripts/restore/extract.sh'', sh_extract S),
      (''scripts/restore/pgrestore.sh'', sh_pgrestore S),
      (''scripts/restore/mysqlrestore.sh'', sh_mysqlrestore S),
      (''scripts/restore/redisrestore.sh'', sh_redisrestore S)]"

text \<open>\<^verbatim>\<open>embed.FS.ReadFile\<close>.\<close>

definition fs_ReadFile :: "(string \<times> string) list \<Rightarrow> string \<Rightarrow> goerror + string" where
  "fs_ReadFile fs name =
     (case map_of fs name of
        None \<Rightarrow> Inl (ErrorString (''open '' @ name @ '': file does not exist''))
      | Some b \<Rightarrow> Inr b)"

definition composeStage :: "Scripts \<Rightarrow> string \<Rightarrow> string" where
  "composeStage S body =
     (let common = commonScript S;
          common' = (if \<not> strings_HasSuffix common [CHR 0x0A] then common @ [CHR 0x0A] else common)
      in common' @ body)"

definition BackupScript :: "Scripts \<Rightarrow> string \<Rightarrow> goerror + string" where
  "BackupScript S name =
     (case fs_ReadFile (backupScripts S) (''scripts/backup/'' @ name) of
        Inl err \<Rightarrow> Inl (WrapError (''embedded backup script '' @ name @ '': '') err)
      | Inr b \<Rightarrow> Inr (composeStage S b))"

definition MustBackupScript :: "Scripts \<Rightarrow> string \<Rightarrow> string option" where
  "MustBackupScript S name = (case BackupScript S name of Inl err \<Rightarrow> None | Inr s \<Rightarrow> Some s)"

definition RestoreScript :: "Scripts \<Rightarrow> string \<Rightarrow> goerror + string" where
  "RestoreScript S name =
     (case fs_ReadFile (restoreScripts S) (''scripts/restore/'' @ name) of
        Inl err \<Rightarrow> Inl (WrapError (''embedded restore script '' @ name @ '': '') err)
      | Inr b \<Rightarrow> Inr (composeStage S b))"

definition MustRestoreScript :: "Scripts \<Rightarrow> string \<Rightarrow> string option" where
  "MustRestoreScript S name = (case RestoreScript S name of Inl err \<Rightarrow> None | Inr s \<Rightarrow> Some s)"

lemmas script_defs = MustBackupScript_def BackupScript_def MustRestoreScript_def RestoreScript_def
  fs_ReadFile_def backupScripts_def restoreScripts_def

lemma MustBackupScript_tree [simp]:
  "MustBackupScript S ''cleanup.sh'' = Some (composeStage S (sh_cleanup S))"
  "MustBackupScript S ''pgdump.sh'' = Some (composeStage S (sh_pgdump S))"
  "MustBackupScript S ''mysqldump.sh'' = Some (composeStage S (sh_mysqldump S))"
  "MustBackupScript S ''redisdump.sh'' = Some (composeStage S (sh_redisdump S))"
  "MustBackupScript S ''pvcdump.sh'' = Some (composeStage S (sh_pvcdump S))"
  "MustBackupScript S ''compress.sh'' = Some (composeStage S (sh_compress S))"
  "MustBackupScript S ''encrypt.sh'' = Some (composeStage S (sh_encrypt S))"
  "MustBackupScript S ''s3-sync.sh'' = Some (composeStage S (sh_s3_sync S))"
  by (simp_all add: script_defs)

lemma MustRestoreScript_tree [simp]:
  "MustRestoreScript S ''cleanup.sh'' = Some (composeStage S (sh_restore_cleanup S))"
  "MustRestoreScript S ''fetch.sh'' = Some (composeStage S (sh_fetch S))"
  "MustRestoreScript S ''decrypt.sh'' = Some (composeStage S (sh_decrypt S))"
  "MustRestoreScript S ''extract.sh'' = Some (composeStage S (sh_extract S))"
  "MustRestoreScript S ''pgrestore.sh'' = Some (composeStage S (sh_pgrestore S))"
  "MustRestoreScript S ''mysqlrestore.sh'' = Some (composeStage S (sh_mysqlrestore S))"
  "MustRestoreScript S ''redisrestore.sh'' = Some (composeStage S (sh_redisrestore S))"
  by (simp_all add: script_defs)

text \<open>
  Every composed stage is the helper, then a line break, then the stage: the first line of the
  stage never runs into the last line of the helper.
\<close>

lemma composeStage_shape:
  "\<exists>pre. composeStage S body = pre @ [CHR 0x0A] @ body \<and> prefix (commonScript S) (pre @ [CHR 0x0A])"
proof (cases "strings_HasSuffix (commonScript S) [CHR 0x0A]")
  case True
  then obtain pre where "commonScript S = pre @ [CHR 0x0A]"
    by (auto simp: strings_HasSuffix_def suffix_def)
  with True show ?thesis by (auto simp: composeStage_def)
next
  case False
  then show ?thesis by (auto simp: composeStage_def)
qed

end
