(* ===== verification/Security.thy ===== *)
theory Security
  imports Naming
begin

text \<open>
  \<^verbatim>\<open>internal/resources/security.go\<close>: the security contexts of the pods and stages, and the
  lemmas that bound what a stage may do: no privilege escalation, a read-only root file system,
  every capability dropped, and a named non-root user for everything but the tar stage of a PVC
  backup.
\<close>

definition PostgresUID :: int where [go_const]: "PostgresUID = 26"
definition MariaDBUID :: int where [go_const]: "MariaDBUID = 999"
definition RedisUID :: int where [go_const]: "RedisUID = 999"
definition McUID :: int where [go_const]: "McUID = 1000"
definition ToolsUID :: int where [go_const]: "ToolsUID = 65532"

definition PodSecurityContext :: pod_security_context where
  "PodSecurityContext =
     \<lparr>psc_FSGroup = Some PostgresUID, psc_FSGroupChangePolicy = Some ''OnRootMismatch''\<rparr>"

definition unixUserSecurityContext :: "int \<Rightarrow> security_context" where
  "unixUserSecurityContext uid =
     \<lparr>sc_AllowPrivilegeEscalation = Some False, sc_CapDrop = [''ALL''], sc_CapAdd = [],
      sc_Privileged = Some False, sc_ReadOnlyRootFilesystem = Some True,
      sc_RunAsGroup = Some uid, sc_RunAsNonRoot = Some True, sc_RunAsUser = Some uid,
      sc_SeccompType = Some ''RuntimeDefault''\<rparr>"

definition PostgresSecurityContext :: security_context where
  "PostgresSecurityContext = unixUserSecurityContext PostgresUID"
definition MariaDBSecurityContext :: security_context where
  "MariaDBSecurityContext = unixUserSecurityContext MariaDBUID"
definition RedisSecurityContext :: security_context where
  "RedisSecurityContext = unixUserSecurityContext RedisUID"
definition McSecurityContext :: security_context where
  "McSecurityContext = unixUserSecurityContext McUID"
definition ToolsSecurityContext :: security_context where
  "ToolsSecurityContext = unixUserSecurityContext ToolsUID"

definition PVCDumpSecurityContext :: "PVCSourceSpec option \<Rightarrow> security_context" where
  "PVCDumpSecurityContext src =
     (let uid = (case src of
                   Some s \<Rightarrow> (case pv_RunAsUser s of Some u \<Rightarrow> u | None \<Rightarrow> 0)
                 | None \<Rightarrow> 0);
          gid = (case src of
                   Some s \<Rightarrow> (case pv_RunAsGroup s of Some g \<Rightarrow> g | None \<Rightarrow> uid)
                 | None \<Rightarrow> uid)
      in if uid \<noteq> 0 then (unixUserSecurityContext uid)\<lparr>sc_RunAsGroup := Some gid\<rparr>
         else \<lparr>sc_AllowPrivilegeEscalation = Some False, sc_CapDrop = [''ALL''],
               sc_CapAdd = [''DAC_OVERRIDE''], sc_Privileged = Some False,
               sc_ReadOnlyRootFilesystem = Some True, sc_RunAsGroup = Some gid,
               sc_RunAsNonRoot = Some False, sc_RunAsUser = Some 0,
               sc_SeccompType = Some ''RuntimeDefault''\<rparr>)"

definition DumpSecurityContext :: "engine \<Rightarrow> security_context" where
  "DumpSecurityContext e =
     (let eff = EffectiveEngine e in
      if eff = EngineMariaDB then MariaDBSecurityContext
      else if eff = EngineRedis then RedisSecurityContext
      else PostgresSecurityContext)"

section \<open>What a context allows\<close>

text \<open>What the operator promises of every container it writes: the user is named, and is root only for the one
  capability that reading foreign files takes.\<close>

definition confined :: "security_context \<Rightarrow> bool" where
  "confined c \<longleftrightarrow>
     sc_AllowPrivilegeEscalation c = Some False \<and> sc_Privileged c = Some False \<and>
     sc_ReadOnlyRootFilesystem c = Some True \<and> sc_CapDrop c = [''ALL''] \<and>
     sc_SeccompType c = Some ''RuntimeDefault'' \<and>
     (sc_RunAsNonRoot c = Some True \<and> sc_CapAdd c = [] \<and> sc_RunAsUser c \<notin> {None, Some 0} \<or>
      sc_RunAsUser c = Some 0 \<and> sc_CapAdd c = [''DAC_OVERRIDE''])"

definition non_root :: "security_context \<Rightarrow> bool" where
  "non_root c \<longleftrightarrow> sc_RunAsNonRoot c = Some True \<and> sc_RunAsUser c \<notin> {None, Some 0} \<and> sc_CapAdd c = []"

lemma unixUser_confined: "uid \<noteq> 0 \<Longrightarrow> confined (unixUserSecurityContext uid)"
  by (simp add: confined_def unixUserSecurityContext_def)

lemma stage_contexts_confined [simp]:
  "confined PostgresSecurityContext" "confined MariaDBSecurityContext"
  "confined RedisSecurityContext" "confined McSecurityContext" "confined ToolsSecurityContext"
  "confined (PVCDumpSecurityContext src)"
  by (simp_all add: PostgresSecurityContext_def MariaDBSecurityContext_def RedisSecurityContext_def
      McSecurityContext_def ToolsSecurityContext_def PVCDumpSecurityContext_def go_const
      confined_def unixUserSecurityContext_def Let_def)

lemma stage_contexts_non_root [simp]:
  "non_root PostgresSecurityContext" "non_root MariaDBSecurityContext"
  "non_root RedisSecurityContext" "non_root McSecurityContext" "non_root ToolsSecurityContext"
  by (simp_all add: PostgresSecurityContext_def MariaDBSecurityContext_def RedisSecurityContext_def
      McSecurityContext_def ToolsSecurityContext_def go_const non_root_def unixUserSecurityContext_def)

lemma PVCDump_non_root_iff:
  "non_root (PVCDumpSecurityContext src) \<longleftrightarrow>
     (\<exists>s u. src = Some s \<and> pv_RunAsUser s = Some u \<and> u \<noteq> 0)"
  by (auto simp: non_root_def PVCDumpSecurityContext_def unixUserSecurityContext_def Let_def
      split: option.splits)

end
