(* ===== verification/CronJobs.thy ===== *)
theory CronJobs
  imports ConfigMaps Embed Security
begin

text \<open>
  \<^verbatim>\<open>internal/resources/cronjob.go\<close>, \<^verbatim>\<open>restore_cronjob.go\<close> and the container half of
  \<^verbatim>\<open>pvcsource.go\<close>: the pods of the pipeline.  A builder that reads an
  embedded script gives \<^const>\<open>None\<close> where the \<^verbatim>\<open>Must\<close> function would panic.
\<close>

definition volumeDataDir :: string where [go_const]: "volumeDataDir = ''datadir''"
definition volumeWorkdir :: string where [go_const]: "volumeWorkdir = ''workdir''"
definition volumeTmp :: string where [go_const]: "volumeTmp = ''empty-dir''"
definition volumeGPG :: string where [go_const]: "volumeGPG = ''gpg-credentials''"
definition volumeSource :: string where [go_const]: "volumeSource = ''source''"
definition mountDataDir :: string where [go_const]: "mountDataDir = ''/backup/data''"
definition mountTmp :: string where [go_const]: "mountTmp = ''/tmp''"
definition mountGPG :: string where [go_const]: "mountGPG = ''/run/secrets/gpg''"

section \<open>Containers\<close>

record scriptOpts =
  so_Name :: string
  so_Image :: string
  so_Pull :: string
  so_Script :: string
  so_ConfigMap :: string
  so_Resources :: resource_requirements
  so_Security :: "security_context option"
  so_TmpSubPath :: string
  so_Volume :: string
  so_MountPath :: string

definition newScriptContainer :: "scriptOpts \<Rightarrow> container" where
  "newScriptContainer opts =
     (let vol = (if so_Volume opts = [] then volumeDataDir else so_Volume opts);
          mount = (if so_MountPath opts = [] then mountDataDir else so_MountPath opts)
      in \<lparr>ct_Name = so_Name opts, ct_Image = so_Image opts, ct_ImagePullPolicy = so_Pull opts,
          ct_Command = [''/bin/sh'', ''-c'', so_Script opts], ct_EnvFrom = [so_ConfigMap opts],
          ct_Env = [], ct_Resources = so_Resources opts, ct_SecurityContext = so_Security opts,
          ct_VolumeMounts =
            [\<lparr>vm_Name = vol, vm_MountPath = mount, vm_SubPath = [], vm_ReadOnly = False\<rparr>,
             \<lparr>vm_Name = volumeTmp, vm_MountPath = mountTmp, vm_SubPath = so_TmpSubPath opts,
              vm_ReadOnly = False\<rparr>]\<rparr>)"

definition secretEnv :: "string \<Rightarrow> string \<Rightarrow> string \<Rightarrow> env_var" where
  "secretEnv envName secret key =
     \<lparr>ev_Name = envName, ev_SecretName = secret, ev_SecretKey = key\<rparr>"

text \<open>\<^verbatim>\<open>c.Env = append(c.Env, ...)\<close> and \<^verbatim>\<open>c.VolumeMounts = append(c.VolumeMounts, ...)\<close>.\<close>

definition append_env :: "env_var list \<Rightarrow> container \<Rightarrow> container" where
  "append_env es c = c\<lparr>ct_Env := ct_Env c @ es\<rparr>"

definition append_mount :: "volume_mount \<Rightarrow> container \<Rightarrow> container" where
  "append_mount m c = c\<lparr>ct_VolumeMounts := ct_VolumeMounts c @ [m]\<rparr>"

definition pvcDumpContainer ::
  "Scripts \<Rightarrow> Backup \<Rightarrow> Config \<Rightarrow> resource_requirements \<Rightarrow> string \<Rightarrow> container option" where
  "pvcDumpContainer S backup cfg res cmName = do {
     let (img, pull) = tarImage (bs_Images (bk_Spec backup)) cfg;
     script \<leftarrow> MustBackupScript S ''pvcdump.sh'';
     Some (append_mount
       \<lparr>vm_Name = volumeSource, vm_MountPath = DefaultPVCSourceDir, vm_SubPath = [], vm_ReadOnly = True\<rparr>
       (newScriptContainer
         \<lparr>so_Name = ''pvcdump'', so_Image = img, so_Pull = pull, so_Script = script,
          so_ConfigMap = cmName, so_Resources = res,
          so_Security = Some (PVCDumpSecurityContext (bs_PVC (bk_Spec backup))),
          so_TmpSubPath = ''tmp-dir'', so_Volume = [], so_MountPath = []\<rparr>))
   }"

definition dumpContainer ::
  "Scripts \<Rightarrow> Backup \<Rightarrow> Config \<Rightarrow> resource_requirements \<Rightarrow> string \<Rightarrow> string \<Rightarrow> container option" where
  "dumpContainer S backup cfg res cmName secret =
     (let engine = EffectiveEngine (bs_Engine (bk_Spec backup)); images = bs_Images (bk_Spec backup) in
      if engine = EngineMariaDB then do {
        let (img, pull) = mariadbImage images cfg;
        script \<leftarrow> MustBackupScript S ''mysqldump.sh'';
        Some (append_env
          [secretEnv ''MYSQL_USER'' secret ''username'', secretEnv ''MYSQL_PASSWORD'' secret ''password'']
          (newScriptContainer
            \<lparr>so_Name = ''mysqldump'', so_Image = img, so_Pull = pull, so_Script = script,
             so_ConfigMap = cmName, so_Resources = res, so_Security = Some MariaDBSecurityContext,
             so_TmpSubPath = ''tmp-dir'', so_Volume = [], so_MountPath = []\<rparr>))
      }
      else if engine = EngineRedis then do {
        let (img, pull) = redisImage images cfg;
        script \<leftarrow> MustBackupScript S ''redisdump.sh'';
        Some (append_env
          [secretEnv ''REDIS_USERNAME'' secret ''username'', secretEnv ''REDIS_PASSWORD'' secret ''password'']
          (newScriptContainer
            \<lparr>so_Name = ''redisdump'', so_Image = img, so_Pull = pull, so_Script = script,
             so_ConfigMap = cmName, so_Resources = res, so_Security = Some RedisSecurityContext,
             so_TmpSubPath = ''tmp-dir'', so_Volume = [], so_MountPath = []\<rparr>))
      }
      else if engine = EnginePVC then pvcDumpContainer S backup cfg res cmName
      else do {
        let (img, pull) = postgresImage images cfg;
        script \<leftarrow> MustBackupScript S ''pgdump.sh'';
        Some (append_env
          [secretEnv ''PGUSER'' secret ''username'', secretEnv ''PGPASSWORD'' secret ''password'']
          (newScriptContainer
            \<lparr>so_Name = ''pgdump'', so_Image = img, so_Pull = pull, so_Script = script,
             so_ConfigMap = cmName, so_Resources = res, so_Security = Some PostgresSecurityContext,
             so_TmpSubPath = ''tmp-dir'', so_Volume = [], so_MountPath = []\<rparr>))
      })"

text \<open>The read-only mount of the passphrase, and the S3 credentials.\<close>

definition gpgMount :: volume_mount where
  "gpgMount = \<lparr>vm_Name = volumeGPG, vm_MountPath = mountGPG, vm_SubPath = [], vm_ReadOnly = True\<rparr>"

definition s3Env :: "string \<Rightarrow> env_var list" where
  "s3Env secret = [secretEnv ''S3_ACCESS_KEY'' secret ''s3_access_key'',
                   secretEnv ''S3_SECRET_KEY'' secret ''s3_secret_key'']"

definition encryptContainer ::
  "Scripts \<Rightarrow> string \<Rightarrow> string \<Rightarrow> resource_requirements \<Rightarrow> string \<Rightarrow> container option" where
  "encryptContainer S img pull res cmName = do {
     script \<leftarrow> MustBackupScript S ''encrypt.sh'';
     Some (append_mount gpgMount (newScriptContainer
       \<lparr>so_Name = ''encrypt'', so_Image = img, so_Pull = pull, so_Script = script,
        so_ConfigMap = cmName, so_Resources = res, so_Security = Some ToolsSecurityContext,
        so_TmpSubPath = ''encrypt-tmp-dir'', so_Volume = [], so_MountPath = []\<rparr>))
   }"

definition s3SyncContainer ::
  "Scripts \<Rightarrow> string \<Rightarrow> string \<Rightarrow> resource_requirements \<Rightarrow> string \<Rightarrow> string \<Rightarrow> container option" where
  "s3SyncContainer S img pull res cmName secret = do {
     script \<leftarrow> MustBackupScript S ''s3-sync.sh'';
     Some (append_env (s3Env secret) (newScriptContainer
       \<lparr>so_Name = ''s3-sync'', so_Image = img, so_Pull = pull, so_Script = script,
        so_ConfigMap = cmName, so_Resources = res, so_Security = Some McSecurityContext,
        so_TmpSubPath = ''mc-tmp-dir'', so_Volume = [], so_MountPath = []\<rparr>))
   }"

section \<open>Volumes\<close>

definition pvcSourceVolume :: "Backup \<Rightarrow> volume" where
  "pvcSourceVolume backup =
     \<lparr>vo_Name = volumeSource, vo_Source = VSClaim (pv_ClaimName (pvcSource backup)) True\<rparr>"

definition tmpVolume :: volume where
  "tmpVolume = \<lparr>vo_Name = volumeTmp, vo_Source = VSEmptyDir None\<rparr>"

definition gpgVolume :: "string \<Rightarrow> volume" where
  "gpgVolume secret =
     \<lparr>vo_Name = volumeGPG, vo_Source = VSSecret secret [(''gpg_passphrase'', ''gpg_passphrase'')]\<rparr>"

definition backupVolumes :: "k8slib \<Rightarrow> Backup \<Rightarrow> string \<Rightarrow> volume list" where
  "backupVolumes K backup secret =
     (let persistence = bs_Persistence (bk_Spec backup);
          datadir = (if PersistenceEnabled persistence then VSClaim (BackupOwnedName backup) False
                     else VSEmptyDir (Some (persistenceSize K persistence)));
          volumes = [\<lparr>vo_Name = volumeDataDir, vo_Source = datadir\<rparr>, tmpVolume, gpgVolume secret]
      in if IsPVCBackup backup then volumes @ [pvcSourceVolume backup] else volumes)"

definition restoreVolumes :: "k8slib \<Rightarrow> Restore \<Rightarrow> string \<Rightarrow> volume list" where
  "restoreVolumes K restore secret =
     (let persistence = rs_Persistence (re_Spec restore);
          workdir = (if PersistenceEnabled persistence then VSClaim (RestoreOwnedName restore) False
                     else VSEmptyDir (Some (persistenceSize K persistence)))
      in [\<lparr>vo_Name = volumeWorkdir, vo_Source = workdir\<rparr>, tmpVolume, gpgVolume secret])"

section \<open>The backup CronJob\<close>

definition backupContainers ::
  "k8slib \<Rightarrow> Scripts \<Rightarrow> Backup \<Rightarrow> Config \<Rightarrow> container list option" where
  "backupContainers K S backup cfg = do {
     let images = bs_Images (bk_Spec backup);
     let (busyImg, busyPull) = busyBoxImage images cfg;
     let (gpgImg, gpgPull) = gnuPGImage images cfg;
     let (cleanupRes, dumpRes, compressRes, encryptRes, s3Res) = backupStageResources K backup;
     let secret = secretName backup;
     let cmName = BackupOwnedName backup;
     cleanupScript \<leftarrow> MustBackupScript S ''cleanup.sh'';
     let cleanup = newScriptContainer
       \<lparr>so_Name = ''cleanup'', so_Image = busyImg, so_Pull = busyPull, so_Script = cleanupScript,
        so_ConfigMap = cmName, so_Resources = cleanupRes, so_Security = Some ToolsSecurityContext,
        so_TmpSubPath = ''cleanup-tmp'', so_Volume = [], so_MountPath = []\<rparr>;
     dump \<leftarrow> dumpContainer S backup cfg dumpRes cmName secret;
     compressScript \<leftarrow> MustBackupScript S ''compress.sh'';
     let compress = newScriptContainer
       \<lparr>so_Name = ''compress'', so_Image = busyImg, so_Pull = busyPull, so_Script = compressScript,
        so_ConfigMap = cmName, so_Resources = compressRes, so_Security = Some ToolsSecurityContext,
        so_TmpSubPath = ''compress-tmp-dir'', so_Volume = [], so_MountPath = []\<rparr>;
     encrypt \<leftarrow> encryptContainer S gpgImg gpgPull encryptRes cmName;
     if EnabledOrDefault (bs_S3 (bk_Spec backup)) then do {
       let (mcImg, mcPull) = mcImage images cfg;
       s3sync \<leftarrow> s3SyncContainer S mcImg mcPull s3Res cmName secret;
       Some [cleanup, dump, compress, encrypt, s3sync]
     } else Some [cleanup, dump, compress, encrypt]
   }"

definition jobRestartPolicy :: "JobPolicy \<Rightarrow> string" where
  "jobRestartPolicy job = (if jp_RestartPolicy job \<noteq> [] then jp_RestartPolicy job else RestartPolicyNever)"

definition backupAffinity :: "Backup \<Rightarrow> affinity_term list" where
  "backupAffinity backup =
     (if NeedsVolumeHolder (bs_Runtime (bk_Spec backup))
      then [VolumeHolderAffinityTerm (VolumeHolderMatchLabels KindBackup (om_Name (bk_Meta backup)))]
      else []) @ PVCConsumerAffinityTerms backup"

definition backupPodSpec :: "k8slib \<Rightarrow> Scripts \<Rightarrow> Backup \<Rightarrow> Config \<Rightarrow> pod_spec option" where
  "backupPodSpec K S backup cfg = do {
     containers \<leftarrow> backupContainers K S backup cfg;
     let job = ptr_Deref (bs_Job (bk_Spec backup)) JobPolicy_zero;
     Some \<lparr>po_RestartPolicy = jobRestartPolicy job, po_SecurityContext = Some PodSecurityContext,
           po_Affinity = RequiredPodAffinity (backupAffinity backup), po_Containers = containers,
           po_Volumes = backupVolumes K backup (secretName backup),
           po_AutomountServiceAccountToken = None, po_TerminationGracePeriodSeconds = None\<rparr>
   }"

text \<open>
  The spec both CronJobs share: schedule, Job policy with its defaults, suspension, labels on the
  Job and pod templates.  The backoff limit's default is 3 for a Backup and 1 for a Restore.
\<close>

definition cronJobSpec ::
  "string \<Rightarrow> JobPolicy \<Rightarrow> bool option \<Rightarrow> strmap \<Rightarrow> int \<Rightarrow> pod_spec \<Rightarrow> cronjob_spec" where
  "cronJobSpec schedule job suspend labels backoff podSpec =
     \<lparr>cs_Schedule = schedule,
      cs_TimeZone = (if jp_TimeZone job \<noteq> [] then ptr_To (jp_TimeZone job) else None),
      cs_ConcurrencyPolicy =
        (if jp_ConcurrencyPolicy job \<noteq> [] then jp_ConcurrencyPolicy job else ForbidConcurrent),
      cs_FailedJobsHistoryLimit = ptr_To (ptr_Deref (jp_FailedJobsHistoryLimit job) 3),
      cs_SuccessfulJobsHistoryLimit = ptr_To (ptr_Deref (jp_SuccessfulJobsHistoryLimit job) 3),
      cs_StartingDeadlineSeconds = ptr_To (ptr_Deref (jp_StartingDeadlineSeconds job) 86400),
      cs_Suspend = suspend, cs_JobLabels = labels,
      cs_BackoffLimit = ptr_To (ptr_Deref (jp_BackoffLimit job) backoff),
      cs_TTLSecondsAfterFinished = ptr_To (ptr_Deref (jp_TTLSecondsAfterFinished job) 86400),
      cs_PodLabels = labels, cs_PodSpec = podSpec\<rparr>"

definition MutateBackupCronJob ::
  "k8slib \<Rightarrow> Scripts \<Rightarrow> cronjob \<Rightarrow> Backup \<Rightarrow> Config \<Rightarrow> cronjob option" where
  "MutateBackupCronJob K S cj backup cfg = do {
     let job = ptr_Deref (bs_Job (bk_Spec backup)) JobPolicy_zero;
     let labels = BackupLabels backup;
     podSpec \<leftarrow> backupPodSpec K S backup cfg;
     Some (cj\<lparr>cj_Meta := (cj_Meta cj)\<lparr>om_Labels := labels\<rparr>,
              cj_Spec := Some (cronJobSpec (bs_Schedule (bk_Spec backup)) job
                (bs_Suspend (bk_Spec backup)) labels 3 podSpec)\<rparr>)
   }"

section \<open>The restore CronJob\<close>

definition restoreFetchContainer ::
  "Scripts \<Rightarrow> string \<Rightarrow> string \<Rightarrow> resource_requirements \<Rightarrow> string \<Rightarrow> string \<Rightarrow> string \<Rightarrow> container option" where
  "restoreFetchContainer S img pull res cmName secret workdir = do {
     script \<leftarrow> MustRestoreScript S ''fetch.sh'';
     Some (append_env (s3Env secret) (newScriptContainer
       \<lparr>so_Name = ''fetch'', so_Image = img, so_Pull = pull, so_Script = script,
        so_ConfigMap = cmName, so_Resources = res, so_Security = Some McSecurityContext,
        so_TmpSubPath = ''mc-tmp'', so_Volume = volumeWorkdir, so_MountPath = workdir\<rparr>))
   }"

definition restoreDecryptContainer ::
  "Scripts \<Rightarrow> string \<Rightarrow> string \<Rightarrow> resource_requirements \<Rightarrow> string \<Rightarrow> string \<Rightarrow> container option" where
  "restoreDecryptContainer S img pull res cmName workdir = do {
     script \<leftarrow> MustRestoreScript S ''decrypt.sh'';
     Some (append_mount gpgMount (newScriptContainer
       \<lparr>so_Name = ''decrypt'', so_Image = img, so_Pull = pull, so_Script = script,
        so_ConfigMap = cmName, so_Resources = res, so_Security = Some ToolsSecurityContext,
        so_TmpSubPath = ''gpg-tmp'', so_Volume = volumeWorkdir, so_MountPath = workdir\<rparr>))
   }"

definition restoreEngineContainer ::
  "Scripts \<Rightarrow> Restore \<Rightarrow> Config \<Rightarrow> resource_requirements \<Rightarrow> string \<Rightarrow> string \<Rightarrow> container option" where
  "restoreEngineContainer S restore cfg res cmName workdir =
     (let engine = EffectiveEngine (rs_Engine (re_Spec restore)); images = rs_Images (re_Spec restore) in
      if engine = EngineMariaDB then do {
        let (img, pull) = mariadbImage images cfg;
        let (name, userKey, passKey) = RestoreMariaDBSecret restore;
        script \<leftarrow> MustRestoreScript S ''mysqlrestore.sh'';
        Some (append_env
          [secretEnv ''MYSQL_USER'' name userKey, secretEnv ''MYSQL_PASSWORD'' name passKey]
          (newScriptContainer
            \<lparr>so_Name = ''mysqlrestore'', so_Image = img, so_Pull = pull, so_Script = script,
             so_ConfigMap = cmName, so_Resources = res, so_Security = Some MariaDBSecurityContext,
             so_TmpSubPath = ''mysqlrestore-tmp'', so_Volume = volumeWorkdir, so_MountPath = workdir\<rparr>))
      }
      else if engine = EngineRedis then do {
        let (img, pull) = redisImage images cfg;
        let (name, userKey, passKey) = RestoreRedisSecret restore;
        script \<leftarrow> MustRestoreScript S ''redisrestore.sh'';
        Some (append_env
          [secretEnv ''REDIS_USERNAME'' name userKey, secretEnv ''REDIS_PASSWORD'' name passKey]
          (newScriptContainer
            \<lparr>so_Name = ''redisrestore'', so_Image = img, so_Pull = pull, so_Script = script,
             so_ConfigMap = cmName, so_Resources = res, so_Security = Some RedisSecurityContext,
             so_TmpSubPath = ''redisrestore-tmp'', so_Volume = volumeWorkdir, so_MountPath = workdir\<rparr>))
      }
      else do {
        let (img, pull) = postgresImage images cfg;
        let (name, userKey, passKey) = RestorePostgresSecret restore;
        script \<leftarrow> MustRestoreScript S ''pgrestore.sh'';
        Some (append_env
          [secretEnv ''PGUSER'' name userKey, secretEnv ''PGPASSWORD'' name passKey]
          (newScriptContainer
            \<lparr>so_Name = ''pgrestore'', so_Image = img, so_Pull = pull, so_Script = script,
             so_ConfigMap = cmName, so_Resources = res, so_Security = Some PostgresSecurityContext,
             so_TmpSubPath = ''pgrestore-tmp'', so_Volume = volumeWorkdir, so_MountPath = workdir\<rparr>))
      })"

definition restoreContainers ::
  "k8slib \<Rightarrow> Scripts \<Rightarrow> Restore \<Rightarrow> Config \<Rightarrow> container list option" where
  "restoreContainers K S restore cfg = do {
     let images = rs_Images (re_Spec restore);
     let (busyImg, busyPull) = busyBoxImage images cfg;
     let (gpgImg, gpgPull) = gnuPGImage images cfg;
     let (mcImg, mcPull) = mcImage images cfg;
     let (cleanupRes, fetchRes, decryptRes, extractRes, restoreRes) = restoreStageResources K restore;
     let secret = restoreSecretName restore;
     let cmName = RestoreOwnedName restore;
     let workdir = restoreWorkdir restore;
     cleanupScript \<leftarrow> MustRestoreScript S ''cleanup.sh'';
     let cleanup = newScriptContainer
       \<lparr>so_Name = ''cleanup'', so_Image = busyImg, so_Pull = busyPull, so_Script = cleanupScript,
        so_ConfigMap = cmName, so_Resources = cleanupRes, so_Security = Some ToolsSecurityContext,
        so_TmpSubPath = ''cleanup-tmp'', so_Volume = volumeWorkdir, so_MountPath = workdir\<rparr>;
     fetch \<leftarrow> restoreFetchContainer S mcImg mcPull fetchRes cmName secret workdir;
     decrypt \<leftarrow> restoreDecryptContainer S gpgImg gpgPull decryptRes cmName workdir;
     extractScript \<leftarrow> MustRestoreScript S ''extract.sh'';
     let extract = newScriptContainer
       \<lparr>so_Name = ''extract'', so_Image = busyImg, so_Pull = busyPull, so_Script = extractScript,
        so_ConfigMap = cmName, so_Resources = extractRes, so_Security = Some ToolsSecurityContext,
        so_TmpSubPath = ''extract-tmp'', so_Volume = volumeWorkdir, so_MountPath = workdir\<rparr>;
     engine \<leftarrow> restoreEngineContainer S restore cfg restoreRes cmName workdir;
     Some [cleanup, fetch, decrypt, extract, engine]
   }"

definition restorePodSpec :: "k8slib \<Rightarrow> Scripts \<Rightarrow> Restore \<Rightarrow> Config \<Rightarrow> pod_spec option" where
  "restorePodSpec K S restore cfg = do {
     containers \<leftarrow> restoreContainers K S restore cfg;
     let job = ptr_Deref (rs_Job (re_Spec restore)) JobPolicy_zero;
     Some \<lparr>po_RestartPolicy = jobRestartPolicy job, po_SecurityContext = Some PodSecurityContext,
           po_Affinity =
             (if NeedsVolumeHolder (rs_Runtime (re_Spec restore))
              then RequiredPodAffinity
                [VolumeHolderAffinityTerm (VolumeHolderMatchLabels KindRestore (om_Name (re_Meta restore)))]
              else None),
           po_Containers = containers, po_Volumes = restoreVolumes K restore (restoreSecretName restore),
           po_AutomountServiceAccountToken = None, po_TerminationGracePeriodSeconds = None\<rparr>
   }"

definition MutateRestoreCronJob ::
  "k8slib \<Rightarrow> Scripts \<Rightarrow> cronjob \<Rightarrow> Restore \<Rightarrow> Config \<Rightarrow> cronjob option" where
  "MutateRestoreCronJob K S cj restore cfg = do {
     let job = ptr_Deref (rs_Job (re_Spec restore)) JobPolicy_zero;
     let labels = RestoreLabels restore;
     podSpec \<leftarrow> restorePodSpec K S restore cfg;
     Some (cj\<lparr>cj_Meta := (cj_Meta cj)\<lparr>om_Labels := labels\<rparr>,
              cj_Spec := Some (cronJobSpec (rs_Schedule (re_Spec restore)) job
                (rs_Suspend (re_Spec restore)) labels 1 podSpec)\<rparr>)
   }"

section \<open>The shape of a pod\<close>

text \<open>
  The lemmas below describe the stages a builder produces by their names, mounts, environment and
  security contexts; the properties of the pods follow from these descriptions.
\<close>

definition dumpStage :: "engine \<Rightarrow> string" where
  "dumpStage e =
     (if e = EngineMariaDB then ''mysqldump'' else if e = EngineRedis then ''redisdump''
      else if e = EnginePVC then ''pvcdump'' else ''pgdump'')"

definition restoreStage :: "engine \<Rightarrow> string" where
  "restoreStage e =
     (if e = EngineMariaDB then ''mysqlrestore'' else if e = EngineRedis then ''redisrestore''
      else ''pgrestore'')"

text \<open>The environment variables that carry a user name and a password to an engine's client.\<close>

definition userEnv :: "engine \<Rightarrow> string" where
  "userEnv e = (if e = EngineMariaDB then ''MYSQL_USER'' else if e = EngineRedis then ''REDIS_USERNAME''
     else ''PGUSER'')"

definition passEnv :: "engine \<Rightarrow> string" where
  "passEnv e = (if e = EngineMariaDB then ''MYSQL_PASSWORD'' else if e = EngineRedis then ''REDIS_PASSWORD''
     else ''PGPASSWORD'')"

definition stageMounts :: "string \<Rightarrow> string \<Rightarrow> string \<Rightarrow> volume_mount list" where
  "stageMounts vol path sub =
     [\<lparr>vm_Name = vol, vm_MountPath = path, vm_SubPath = [], vm_ReadOnly = False\<rparr>,
      \<lparr>vm_Name = volumeTmp, vm_MountPath = mountTmp, vm_SubPath = sub, vm_ReadOnly = False\<rparr>]"

definition sourceMount :: volume_mount where
  "sourceMount =
     \<lparr>vm_Name = volumeSource, vm_MountPath = DefaultPVCSourceDir, vm_SubPath = [], vm_ReadOnly = True\<rparr>"

lemma newScriptContainer_sel [simp]:
  "ct_Name (newScriptContainer so) = so_Name so"
  "ct_Image (newScriptContainer so) = so_Image so"
  "ct_Env (newScriptContainer so) = []"
  "ct_EnvFrom (newScriptContainer so) = [so_ConfigMap so]"
  "ct_SecurityContext (newScriptContainer so) = so_Security so"
  "ct_Resources (newScriptContainer so) = so_Resources so"
  "ct_VolumeMounts (newScriptContainer so) =
     stageMounts (if so_Volume so = [] then volumeDataDir else so_Volume so)
       (if so_MountPath so = [] then mountDataDir else so_MountPath so) (so_TmpSubPath so)"
  by (simp_all add: newScriptContainer_def Let_def stageMounts_def)

lemma append_sel [simp]:
  "ct_Name (append_env es c) = ct_Name c" "ct_Name (append_mount m c) = ct_Name c"
  "ct_Image (append_env es c) = ct_Image c" "ct_Image (append_mount m c) = ct_Image c"
  "ct_Env (append_env es c) = ct_Env c @ es" "ct_Env (append_mount m c) = ct_Env c"
  "ct_EnvFrom (append_env es c) = ct_EnvFrom c" "ct_EnvFrom (append_mount m c) = ct_EnvFrom c"
  "ct_SecurityContext (append_env es c) = ct_SecurityContext c"
  "ct_SecurityContext (append_mount m c) = ct_SecurityContext c"
  "ct_VolumeMounts (append_env es c) = ct_VolumeMounts c"
  "ct_VolumeMounts (append_mount m c) = ct_VolumeMounts c @ [m]"
  by (simp_all add: append_env_def append_mount_def)

lemma dumpContainer_shape:
  "\<exists>c. dumpContainer S b cfg res cm sec = Some c \<and>
     ct_Name c = dumpStage (bs_Engine (bk_Spec b)) \<and> ct_Image c \<noteq> [] \<and> ct_EnvFrom c = [cm] \<and>
     ct_Env c = (if IsPVCBackup b then []
       else [secretEnv (userEnv (bs_Engine (bk_Spec b))) sec ''username'',
             secretEnv (passEnv (bs_Engine (bk_Spec b))) sec ''password'']) \<and>
     ct_VolumeMounts c = stageMounts volumeDataDir mountDataDir ''tmp-dir'' @
       (if IsPVCBackup b then [sourceMount] else []) \<and>
     (\<exists>sc. ct_SecurityContext c = Some sc \<and> confined sc \<and> (\<not> IsPVCBackup b \<longrightarrow> non_root sc))"
proof -
  have img: "fst p \<noteq> []" if "p = f i cfg" "f = postgresImage \<or> f = mariadbImage \<or> f = redisImage \<or> f = tarImage"
    for p f i using that by auto
  show ?thesis
    by (simp add: dumpContainer_def pvcDumpContainer_def IsPVCBackup_def dumpStage_def userEnv_def
        passEnv_def sourceMount_def Let_def split: prod.split)
      (use stage_images_not_empty in \<open>metis fst_conv\<close>)
qed

text \<open>What a stage is called, which secrets it is given, and what it mounts.\<close>

definition stage_view :: "container \<Rightarrow> string \<times> env_var list \<times> volume_mount list" where
  "stage_view c = (ct_Name c, ct_Env c, ct_VolumeMounts c)"

text \<open>What every stage has, whatever its engine.\<close>

definition stage_ok :: "string \<Rightarrow> container \<Rightarrow> bool" where
  "stage_ok cm c \<longleftrightarrow>
     ct_Image c \<noteq> [] \<and> ct_EnvFrom c = [cm] \<and>
     (\<exists>sc. ct_SecurityContext c = Some sc \<and> confined sc \<and> (ct_Name c \<noteq> ''pvcdump'' \<longrightarrow> non_root sc))"

definition dumpEnv :: "Backup \<Rightarrow> env_var list" where
  "dumpEnv b =
     (if IsPVCBackup b then []
      else [secretEnv (userEnv (bs_Engine (bk_Spec b))) (secretName b) ''username'',
            secretEnv (passEnv (bs_Engine (bk_Spec b))) (secretName b) ''password''])"

definition backupStages :: "Backup \<Rightarrow> (string \<times> env_var list \<times> volume_mount list) list" where
  "backupStages b =
     (let m = stageMounts volumeDataDir mountDataDir in
      [(''cleanup'', [], m ''cleanup-tmp''),
       (dumpStage (bs_Engine (bk_Spec b)), dumpEnv b,
        m ''tmp-dir'' @ (if IsPVCBackup b then [sourceMount] else [])),
       (''compress'', [], m ''compress-tmp-dir''),
       (''encrypt'', [], m ''encrypt-tmp-dir'' @ [gpgMount])] @
      (if EnabledOrDefault (bs_S3 (bk_Spec b))
       then [(''s3-sync'', s3Env (secretName b), m ''mc-tmp-dir'')] else []))"

lemma dumpStage_pvc: "dumpStage e = ''pvcdump'' \<longleftrightarrow> e = EnginePVC"
  by (simp add: dumpStage_def)

lemma stage_images_not_empty_pair:
  "p = postgresImage i cfg \<or> p = mcImage i cfg \<or> p = busyBoxImage i cfg \<or> p = gnuPGImage i cfg \<or>
   p = mariadbImage i cfg \<or> p = redisImage i cfg \<or> p = tarImage i cfg \<Longrightarrow> fst p \<noteq> []"
  by auto

lemma dumpContainer_view:
  assumes "dumpContainer S b cfg res cm (secretName b) = Some c"
  shows "stage_view c = (dumpStage (bs_Engine (bk_Spec b)), dumpEnv b,
           stageMounts volumeDataDir mountDataDir ''tmp-dir'' @ (if IsPVCBackup b then [sourceMount] else []))"
    and "stage_ok cm c"
  using dumpContainer_shape [of S b cfg res cm "secretName b"] assms
  by (auto simp: stage_view_def dumpEnv_def stage_ok_def dumpStage_pvc IsPVCBackup_def)

lemma simple_stage:
  "img \<noteq> [] \<Longrightarrow> name \<noteq> ''pvcdump'' \<Longrightarrow> non_root sc \<Longrightarrow> confined sc \<Longrightarrow>
   stage_ok cm (newScriptContainer
     \<lparr>so_Name = name, so_Image = img, so_Pull = p, so_Script = s, so_ConfigMap = cm, so_Resources = r,
      so_Security = Some sc, so_TmpSubPath = t, so_Volume = v, so_MountPath = mp\<rparr>)"
  by (simp add: stage_ok_def)

lemma stage_ok_append [simp]:
  "stage_ok cm (append_env es c) = stage_ok cm c" "stage_ok cm (append_mount m c) = stage_ok cm c"
  by (simp_all add: stage_ok_def)

lemma stage_view_simps [simp]:
  "stage_view (newScriptContainer so) = (so_Name so, [],
     stageMounts (if so_Volume so = [] then volumeDataDir else so_Volume so)
       (if so_MountPath so = [] then mountDataDir else so_MountPath so) (so_TmpSubPath so))"
  "stage_view (append_env es c) = (fst (stage_view c), fst (snd (stage_view c)) @ es, snd (snd (stage_view c)))"
  "stage_view (append_mount m c) = (fst (stage_view c), fst (snd (stage_view c)), snd (snd (stage_view c)) @ [m])"
  by (simp_all add: stage_view_def)

lemma backupContainers_shape:
  "\<exists>cs. backupContainers K S b cfg = Some cs \<and> map stage_view cs = backupStages b \<and>
     (\<forall>c\<in>set cs. stage_ok (BackupOwnedName b) c)"
proof -
  let ?i = "bs_Images (bk_Spec b)"
  obtain bi bp gi gp mi mp where img:
    "busyBoxImage ?i cfg = (bi, bp)" "gnuPGImage ?i cfg = (gi, gp)" "mcImage ?i cfg = (mi, mp)"
    by (metis prod.exhaust)
  then have ne: "bi \<noteq> []" "gi \<noteq> []" "mi \<noteq> []"
    using stage_images_not_empty by (metis fst_conv)+
  obtain r1 r2 r3 r4 r5 where res: "backupStageResources K b = (r1, r2, r3, r4, r5)"
    by (metis prod.exhaust)
  obtain c where c: "dumpContainer S b cfg r2 (BackupOwnedName b) (secretName b) = Some c"
    using dumpContainer_shape by blast
  note view = dumpContainer_view [OF c]
  show ?thesis
    by (simp add: backupContainers_def img res c encryptContainer_def s3SyncContainer_def
        backupStages_def view ne simple_stage Let_def)
qed

definition targetEnv :: "Restore \<Rightarrow> env_var list" where
  "targetEnv r =
     (case RestoreTargetSecret r of
        (name, userKey, passKey) \<Rightarrow>
          [secretEnv (userEnv (rs_Engine (re_Spec r))) name userKey,
           secretEnv (passEnv (rs_Engine (re_Spec r))) name passKey])"

definition restoreStages :: "Restore \<Rightarrow> (string \<times> env_var list \<times> volume_mount list) list" where
  "restoreStages r =
     (let m = stageMounts volumeWorkdir (restoreWorkdir r); e = restoreStage (rs_Engine (re_Spec r)) in
      [(''cleanup'', [], m ''cleanup-tmp''), (''fetch'', s3Env (restoreSecretName r), m ''mc-tmp''),
       (''decrypt'', [], m ''gpg-tmp'' @ [gpgMount]), (''extract'', [], m ''extract-tmp''),
       (e, targetEnv r, m (e @ ''-tmp''))])"

lemma volumeWorkdir_not_empty [simp]: "volumeWorkdir \<noteq> []"
  by (simp add: go_const)

lemma restoreEngineContainer_view:
  "\<exists>c. restoreEngineContainer S r cfg res cm (restoreWorkdir r) = Some c \<and> stage_ok cm c \<and>
     stage_view c = (restoreStage (rs_Engine (re_Spec r)), targetEnv r,
       stageMounts volumeWorkdir (restoreWorkdir r) (restoreStage (rs_Engine (re_Spec r)) @ ''-tmp''))"
proof -
  let ?i = "rs_Images (re_Spec r)"
  obtain pi pp di dp ei ep where img:
    "postgresImage ?i cfg = (pi, pp)" "mariadbImage ?i cfg = (di, dp)" "redisImage ?i cfg = (ei, ep)"
    by (metis prod.exhaust)
  then have ne: "pi \<noteq> []" "di \<noteq> []" "ei \<noteq> []"
    using stage_images_not_empty by (metis fst_conv)+
  show ?thesis
    by (simp add: restoreEngineContainer_def img ne simple_stage Let_def restoreStage_def targetEnv_def
        RestoreTargetSecret_def userEnv_def passEnv_def split: prod.split)
qed

lemma restoreContainers_shape:
  "\<exists>cs. restoreContainers K S r cfg = Some cs \<and> map stage_view cs = restoreStages r \<and>
     (\<forall>c\<in>set cs. stage_ok (RestoreOwnedName r) c)"
proof -
  let ?i = "rs_Images (re_Spec r)"
  obtain bi bp gi gp mi mp where img:
    "busyBoxImage ?i cfg = (bi, bp)" "gnuPGImage ?i cfg = (gi, gp)" "mcImage ?i cfg = (mi, mp)"
    by (metis prod.exhaust)
  then have ne: "bi \<noteq> []" "gi \<noteq> []" "mi \<noteq> []"
    using stage_images_not_empty by (metis fst_conv)+
  obtain r1 r2 r3 r4 r5 where res: "restoreStageResources K r = (r1, r2, r3, r4, r5)"
    by (metis prod.exhaust)
  obtain c where c: "restoreEngineContainer S r cfg r5 (RestoreOwnedName r) (restoreWorkdir r) = Some c"
      "stage_ok (RestoreOwnedName r) c"
      "stage_view c = (restoreStage (rs_Engine (re_Spec r)), targetEnv r,
         stageMounts volumeWorkdir (restoreWorkdir r) (restoreStage (rs_Engine (re_Spec r)) @ ''-tmp''))"
    using restoreEngineContainer_view by blast
  show ?thesis
    by (simp add: restoreContainers_def img res c restoreFetchContainer_def restoreDecryptContainer_def
        restoreStages_def ne simple_stage Let_def)
qed

section \<open>What the stages run\<close>

text \<open>
  What a stage executes: its name, image and command, and the user it runs as.  The tables below list it
  for each stage; the program of an engine is its own client.
\<close>

definition stage_run :: "container \<Rightarrow> string \<times> string \<times> string list \<times> int option" where
  "stage_run c = (ct_Name c, ct_Image c, ct_Command c, Option.bind (ct_SecurityContext c) sc_RunAsUser)"

definition runs :: "Scripts \<Rightarrow> (string \<times> string \<times> string) \<times> int \<Rightarrow> string \<times> string \<times> string list \<times> int option" where
  "runs S t = (case t of ((name, img, body), uid) \<Rightarrow>
     (name, img, [''/bin/sh'', ''-c'', composeStage S body], Some uid))"

definition dumpClient :: "Scripts \<Rightarrow> Backup \<Rightarrow> Config \<Rightarrow> string \<times> string \<times> string" where
  "dumpClient S b cfg =
     (let e = bs_Engine (bk_Spec b); i = bs_Images (bk_Spec b) in
      if e = EngineMariaDB then (''mysqldump'', fst (mariadbImage i cfg), sh_mysqldump S)
      else if e = EngineRedis then (''redisdump'', fst (redisImage i cfg), sh_redisdump S)
      else if e = EnginePVC then (''pvcdump'', fst (tarImage i cfg), sh_pvcdump S)
      else (''pgdump'', fst (postgresImage i cfg), sh_pgdump S))"

definition restoreClient :: "Scripts \<Rightarrow> Restore \<Rightarrow> Config \<Rightarrow> string \<times> string \<times> string" where
  "restoreClient S r cfg =
     (let e = rs_Engine (re_Spec r); i = rs_Images (re_Spec r) in
      if e = EngineMariaDB then (''mysqlrestore'', fst (mariadbImage i cfg), sh_mysqlrestore S)
      else if e = EngineRedis then (''redisrestore'', fst (redisImage i cfg), sh_redisrestore S)
      else (''pgrestore'', fst (postgresImage i cfg), sh_pgrestore S))"

text \<open>The user of an engine's image; a PVC backup runs as the user its spec names, or as root.\<close>

definition engineUser :: "engine \<Rightarrow> int" where
  "engineUser e = (if e = EngineMariaDB \<or> e = EngineRedis then 999 else 26)"

definition dumpUser :: "Backup \<Rightarrow> int" where
  "dumpUser b =
     (if IsPVCBackup b then ptr_Deref (Option.bind (bs_PVC (bk_Spec b)) pv_RunAsUser) 0
      else engineUser (bs_Engine (bk_Spec b)))"

definition backupRuns :: "Scripts \<Rightarrow> Backup \<Rightarrow> Config \<Rightarrow> ((string \<times> string \<times> string) \<times> int) list" where
  "backupRuns S b cfg =
     (let i = bs_Images (bk_Spec b) in
      [((''cleanup'', fst (busyBoxImage i cfg), sh_cleanup S), 65532), (dumpClient S b cfg, dumpUser b),
       ((''compress'', fst (busyBoxImage i cfg), sh_compress S), 65532),
       ((''encrypt'', fst (gnuPGImage i cfg), sh_encrypt S), 65532)] @
      (if EnabledOrDefault (bs_S3 (bk_Spec b)) then [((''s3-sync'', fst (mcImage i cfg), sh_s3_sync S), 1000)] else []))"

definition restoreRuns :: "Scripts \<Rightarrow> Restore \<Rightarrow> Config \<Rightarrow> ((string \<times> string \<times> string) \<times> int) list" where
  "restoreRuns S r cfg =
     (let i = rs_Images (re_Spec r) in
      [((''cleanup'', fst (busyBoxImage i cfg), sh_restore_cleanup S), 65532),
       ((''fetch'', fst (mcImage i cfg), sh_fetch S), 1000),
       ((''decrypt'', fst (gnuPGImage i cfg), sh_decrypt S), 65532),
       ((''extract'', fst (busyBoxImage i cfg), sh_extract S), 65532),
       (restoreClient S r cfg, engineUser (rs_Engine (re_Spec r)))])"

lemma stage_contexts_user [simp]:
  "sc_RunAsUser PostgresSecurityContext = Some 26" "sc_RunAsUser MariaDBSecurityContext = Some 999"
  "sc_RunAsUser RedisSecurityContext = Some 999" "sc_RunAsUser McSecurityContext = Some 1000"
  "sc_RunAsUser ToolsSecurityContext = Some 65532"
  "sc_RunAsUser (PVCDumpSecurityContext src) = Some (ptr_Deref (Option.bind src pv_RunAsUser) 0)"
  by (simp_all add: PostgresSecurityContext_def MariaDBSecurityContext_def RedisSecurityContext_def
      McSecurityContext_def ToolsSecurityContext_def PVCDumpSecurityContext_def unixUserSecurityContext_def
      ptr_Deref_def go_const Let_def split: option.split)

lemma stage_run_simps [simp]:
  "stage_run (newScriptContainer so) =
     (so_Name so, so_Image so, [''/bin/sh'', ''-c'', so_Script so], Option.bind (so_Security so) sc_RunAsUser)"
  "stage_run (append_env es c) = stage_run c" "stage_run (append_mount m c) = stage_run c"
  by (simp_all add: stage_run_def newScriptContainer_def append_env_def append_mount_def Let_def)

lemmas run_tables = backupRuns_def restoreRuns_def dumpClient_def restoreClient_def engineUser_def dumpUser_def
  runs_def IsPVCBackup_def

lemma dumpContainer_run:
  "map_option stage_run (dumpContainer S b cfg res cm sec) = Some (runs S (dumpClient S b cfg, dumpUser b))"
  by (simp add: dumpContainer_def pvcDumpContainer_def run_tables Let_def split: prod.split)

lemma restoreEngineContainer_run:
  "map_option stage_run (restoreEngineContainer S r cfg res cm wd) =
     Some (runs S (restoreClient S r cfg, engineUser (rs_Engine (re_Spec r))))"
  by (simp add: restoreEngineContainer_def run_tables Let_def split: prod.split)

lemma backupContainers_run:
  "map_option (map stage_run) (backupContainers K S b cfg) = Some (map (runs S) (backupRuns S b cfg))"
proof -
  obtain r1 r2 r3 r4 r5 where res: "backupStageResources K b = (r1, r2, r3, r4, r5)"
    by (metis prod.exhaust)
  obtain c where c: "dumpContainer S b cfg r2 (BackupOwnedName b) (secretName b) = Some c"
      "stage_run c = runs S (dumpClient S b cfg, dumpUser b)"
    using dumpContainer_run [of S b cfg r2] by blast
  show ?thesis
    by (simp add: backupContainers_def res c encryptContainer_def s3SyncContainer_def backupRuns_def
        runs_def [of _ "((_, _, _), _)"] Let_def split: prod.split)
qed

lemma restoreContainers_run:
  "map_option (map stage_run) (restoreContainers K S r cfg) = Some (map (runs S) (restoreRuns S r cfg))"
proof -
  obtain r1 r2 r3 r4 r5 where res: "restoreStageResources K r = (r1, r2, r3, r4, r5)"
    by (metis prod.exhaust)
  obtain c where c: "restoreEngineContainer S r cfg r5 (RestoreOwnedName r) (restoreWorkdir r) = Some c"
      "stage_run c = runs S (restoreClient S r cfg, engineUser (rs_Engine (re_Spec r)))"
    using restoreEngineContainer_run [of S r cfg r5] by blast
  show ?thesis
    by (simp add: restoreContainers_def res c restoreFetchContainer_def restoreDecryptContainer_def restoreRuns_def
        runs_def [of _ "((_, _, _), _)"] Let_def split: prod.split)
qed

end
