(* ===== verification/Holder.thy ===== *)
theory Holder
  imports CronJobs
begin

text \<open>
  \<^verbatim>\<open>internal/resources/holder.go\<close>: the pause Deployment that keeps the scratch claim attached
  to one node, and the two ways the controllers fill its \<^verbatim>\<open>VolumeHolderSpec\<close>.
\<close>

definition volumeHolderContainer :: string where [go_const]:
  "volumeHolderContainer = ''volume-holder''"

definition volumeHolderCommand :: string where
  "volumeHolderCommand =
     ''echo '' @ [CHR 0x22] @
     ''[volume-holder $(date '+%Y-%m-%dT%H:%M:%S%z')] INFO keeping PVC attached on this node'' @
     [CHR 0x22] @ '' >&2'' @ [CHR 0x0A] @ ''while true; do sleep 3600; done''"

record VolumeHolderSpec =
  vh_Name :: string
  vh_Labels :: strmap
  vh_Selector :: strmap
  vh_ClaimName :: string
  vh_MountPath :: string
  vh_Images :: "ImageSet option"
  vh_Affinity :: "affinity_term list option"

definition DefaultVolumeHolderResources :: "k8slib \<Rightarrow> resource_requirements" where
  "DefaultVolumeHolderResources K =
     \<lparr>rr_Requests = reslist K ''1m'' ''8Mi'' ''1Mi'', rr_Limits = reslist K ''10m'' ''16Mi'' ''10Mi''\<rparr>"

definition MutateVolumeHolderDeployment ::
  "k8slib \<Rightarrow> deployment \<Rightarrow> VolumeHolderSpec \<Rightarrow> Config \<Rightarrow> deployment" where
  "MutateVolumeHolderDeployment K deploy spec cfg =
     (let (image, pull) = busyBoxImage (vh_Images spec) cfg;
          labels = vh_Labels spec;
          selector = vh_Selector spec;
          mount = (if vh_MountPath spec = [] then mountDataDir else vh_MountPath spec)
      in deploy\<lparr>de_Meta := (de_Meta deploy)\<lparr>om_Labels := labels\<rparr>,
           de_Spec := Some
             \<lparr>ds_Replicas = ptr_To 1, ds_Selector = selector, ds_StrategyType = ''Recreate'',
              ds_PodLabels = labels,
              ds_PodSpec =
                \<lparr>po_RestartPolicy = RestartPolicyAlways, po_SecurityContext = Some PodSecurityContext,
                 po_Affinity = vh_Affinity spec,
                 po_Containers =
                   [\<lparr>ct_Name = volumeHolderContainer, ct_Image = image, ct_ImagePullPolicy = pull,
                     ct_Command = [''/bin/sh'', ''-c'', volumeHolderCommand], ct_EnvFrom = [],
                     ct_Env = [], ct_Resources = DefaultVolumeHolderResources K,
                     ct_SecurityContext = Some ToolsSecurityContext,
                     ct_VolumeMounts =
                       [\<lparr>vm_Name = volumeDataDir, vm_MountPath = mount, vm_SubPath = [],
                         vm_ReadOnly = False\<rparr>]\<rparr>],
                 po_Volumes =
                   [\<lparr>vo_Name = volumeDataDir, vo_Source = VSClaim (vh_ClaimName spec) False\<rparr>],
                 po_AutomountServiceAccountToken = ptr_To False,
                 po_TerminationGracePeriodSeconds = ptr_To 5\<rparr>\<rparr>\<rparr>)"

text \<open>The \<^verbatim>\<open>VolumeHolderSpec\<close> literals of the two reconcilers.\<close>

definition backupHolderSpec :: "Backup \<Rightarrow> VolumeHolderSpec" where
  "backupHolderSpec backup =
     \<lparr>vh_Name = VolumeHolderName (BackupOwnedName backup),
      vh_Labels = WithRuntimeRole (BackupLabels backup) RuntimeRoleVolumeHolder,
      vh_Selector = VolumeHolderMatchLabels KindBackup (om_Name (bk_Meta backup)),
      vh_ClaimName = BackupOwnedName backup, vh_MountPath = BackupVolumeMountPath backup,
      vh_Images = bs_Images (bk_Spec backup),
      vh_Affinity = RequiredPodAffinity (PVCConsumerAffinityTerms backup)\<rparr>"

definition restoreHolderSpec :: "Restore \<Rightarrow> VolumeHolderSpec" where
  "restoreHolderSpec restore =
     \<lparr>vh_Name = VolumeHolderName (RestoreOwnedName restore),
      vh_Labels = WithRuntimeRole (RestoreLabels restore) RuntimeRoleVolumeHolder,
      vh_Selector = VolumeHolderMatchLabels KindRestore (om_Name (re_Meta restore)),
      vh_ClaimName = RestoreOwnedName restore, vh_MountPath = RestoreVolumeMountPath restore,
      vh_Images = rs_Images (re_Spec restore), vh_Affinity = None\<rparr>"

lemma holder_deployment:
  "\<exists>sp ct. de_Spec (MutateVolumeHolderDeployment K d spec cfg) = Some sp \<and>
     ds_Selector sp = vh_Selector spec \<and> ds_PodLabels sp = vh_Labels spec \<and>
     ds_Replicas sp = Some 1 \<and> ds_StrategyType sp = ''Recreate'' \<and>
     po_Affinity (ds_PodSpec sp) = vh_Affinity spec \<and>
     po_Volumes (ds_PodSpec sp) =
       [\<lparr>vo_Name = volumeDataDir, vo_Source = VSClaim (vh_ClaimName spec) False\<rparr>] \<and>
     po_Containers (ds_PodSpec sp) = [ct] \<and> ct_Image ct \<noteq> [] \<and> ct_Env ct = [] \<and> ct_EnvFrom ct = [] \<and>
     ct_SecurityContext ct = Some ToolsSecurityContext \<and>
     map vm_Name (ct_VolumeMounts ct) = [volumeDataDir]"
proof -
  obtain i p where img: "busyBoxImage (vh_Images spec) cfg = (i, p)" by (metis prod.exhaust)
  then have "i \<noteq> []" using stage_images_not_empty(3) by (metis fst_conv)
  with img show ?thesis by (simp add: MutateVolumeHolderDeployment_def Let_def ptr_To_def)
qed

lemma holder_meta [simp]:
  "om_Name (de_Meta (MutateVolumeHolderDeployment K d spec cfg)) = om_Name (de_Meta d)"
  "om_Namespace (de_Meta (MutateVolumeHolderDeployment K d spec cfg)) = om_Namespace (de_Meta d)"
  by (simp_all add: MutateVolumeHolderDeployment_def Let_def split: prod.split)

end
