(* ===== verification/Pods.thy ===== *)
theory Pods
  imports Holder
begin

text \<open>
  What the pods of the pipeline guarantee: each stage runs its own script, the pod is well formed, a
  stage holds no more privileges and secrets than its work needs, an accepted Backup with the default
  data directory keeps its dumps, and the Job runs where its volume holder keeps the claim attached.
\<close>

section \<open>The pod a mutator writes\<close>

definition pod_of :: "cronjob option \<Rightarrow> pod_spec option" where
  "pod_of cj = Option.bind cj (\<lambda>c. map_option cs_PodSpec (cj_Spec c))"

lemma MutateBackupCronJob_pod:
  "\<exists>p. pod_of (MutateBackupCronJob K S cj b cfg) = Some p \<and>
     backupContainers K S b cfg = Some (po_Containers p) \<and>
     map stage_view (po_Containers p) = backupStages b \<and>
     (\<forall>c\<in>set (po_Containers p). stage_ok (BackupOwnedName b) c) \<and>
     po_Volumes p = backupVolumes K b (secretName b) \<and>
     po_Affinity p = RequiredPodAffinity (backupAffinity b)"
  using backupContainers_shape [of K S b cfg]
  by (auto simp: MutateBackupCronJob_def backupPodSpec_def pod_of_def cronJobSpec_def Let_def)

lemma MutateRestoreCronJob_pod:
  "\<exists>p. pod_of (MutateRestoreCronJob K S cj r cfg) = Some p \<and>
     restoreContainers K S r cfg = Some (po_Containers p) \<and>
     map stage_view (po_Containers p) = restoreStages r \<and>
     (\<forall>c\<in>set (po_Containers p). stage_ok (RestoreOwnedName r) c) \<and>
     po_Volumes p = restoreVolumes K r (restoreSecretName r) \<and>
     po_Affinity p = (if NeedsVolumeHolder (rs_Runtime (re_Spec r))
       then Some [VolumeHolderAffinityTerm (VolumeHolderMatchLabels KindRestore (om_Name (re_Meta r)))]
       else None)"
  using restoreContainers_shape [of K S r cfg]
  by (auto simp: MutateRestoreCronJob_def restorePodSpec_def pod_of_def cronJobSpec_def Let_def
      RequiredPodAffinity_def)

text \<open>Of the metadata a mutator changes the labels only.\<close>

lemma MutateCronJob_meta:
  "\<exists>cj'. MutateBackupCronJob K S cj b cfg = Some cj' \<and> cj_Meta cj' = (cj_Meta cj)\<lparr>om_Labels := BackupLabels b\<rparr>"
  "\<exists>cj'. MutateRestoreCronJob K S cj r cfg = Some cj' \<and> cj_Meta cj' = (cj_Meta cj)\<lparr>om_Labels := RestoreLabels r\<rparr>"
  using backupContainers_shape [of K S b cfg] restoreContainers_shape [of K S r cfg]
  by (auto simp: MutateBackupCronJob_def backupPodSpec_def MutateRestoreCronJob_def restorePodSpec_def Let_def)

lemma map_stage_view:
  assumes "map stage_view cs = vs"
  shows "map ct_Name cs = map fst vs" and "map ct_Env cs = map (\<lambda>v. fst (snd v)) vs"
    and "map ct_VolumeMounts cs = map (\<lambda>v. snd (snd v)) vs"
  using assms by (auto simp: stage_view_def)

text \<open>What the stages of a pod run.\<close>

lemma backup_pod_runs:
  "map_option (\<lambda>p. map stage_run (po_Containers p)) (pod_of (MutateBackupCronJob K S cj b cfg)) =
     Some (map (runs S) (backupRuns S b cfg))"
  using MutateBackupCronJob_pod [of K S cj b cfg] backupContainers_run [of K S b cfg] by auto

lemma restore_pod_runs:
  "map_option (\<lambda>p. map stage_run (po_Containers p)) (pod_of (MutateRestoreCronJob K S cj r cfg)) =
     Some (map (runs S) (restoreRuns S r cfg))"
  using MutateRestoreCronJob_pod [of K S cj r cfg] restoreContainers_run [of K S r cfg] by auto

text \<open>The view of a list of pairs, and its parts.\<close>

lemma map_stage_run:
  assumes "map stage_run cs = map (runs S) ts"
  shows "map (\<lambda>c. (ct_Name c, ct_Image c, ct_Command c)) cs =
      map (\<lambda>((n, img, body), uid). (n, img, [''/bin/sh'', ''-c'', composeStage S body])) ts"
    and "map (\<lambda>c. (ct_Name c, Option.bind (ct_SecurityContext c) sc_RunAsUser)) cs =
      map (\<lambda>((n, img, body), uid). (n, Some uid)) ts"
  using arg_cong [OF assms, of "map (\<lambda>(n, img, cmd, uid). (n, img, cmd))"]
    arg_cong [OF assms, of "map (\<lambda>(n, img, cmd, uid). (n, uid))"]
  by (simp_all add: stage_run_def [abs_def] runs_def [abs_def] comp_def case_prod_beta)

text \<open>
  C27: building a CronJob never panics on a missing script, and gives each stage of the pipeline its own
  program.  The containers of a Backup are clean-up, dump, compression and encryption, and the upload
  exactly when S3 is enabled; those of a Restore are clean-up, fetch, decryption, extraction and
  restoration.  Each has the image of its tool and runs, with \<^verbatim>\<open>/bin/sh -c\<close>, the common helper
  followed by the script of that stage; the dump and the restoration have the image, the script and the
  name of the engine's own client.  (The containers of a pod start together: their list is no order of
  execution, which is the business of the scripts.)
\<close>

theorem pipeline_stages_run_their_scripts:
  "map_option (\<lambda>p. map (\<lambda>c. (ct_Name c, ct_Image c, ct_Command c)) (po_Containers p))
       (pod_of (MutateBackupCronJob K S cj b cfg)) =
     Some (let i = bs_Images (bk_Spec b); e = bs_Engine (bk_Spec b);
               sh = (\<lambda>body. [''/bin/sh'', ''-c'', composeStage S body]) in
       [(''cleanup'', fst (busyBoxImage i cfg), sh (sh_cleanup S)),
        (if e = ''mariadb'' then (''mysqldump'', fst (mariadbImage i cfg), sh (sh_mysqldump S))
         else if e = ''redis'' then (''redisdump'', fst (redisImage i cfg), sh (sh_redisdump S))
         else if e = ''pvc'' then (''pvcdump'', fst (tarImage i cfg), sh (sh_pvcdump S))
         else (''pgdump'', fst (postgresImage i cfg), sh (sh_pgdump S))),
        (''compress'', fst (busyBoxImage i cfg), sh (sh_compress S)),
        (''encrypt'', fst (gnuPGImage i cfg), sh (sh_encrypt S))] @
       (if EnabledOrDefault (bs_S3 (bk_Spec b)) then [(''s3-sync'', fst (mcImage i cfg), sh (sh_s3_sync S))] else [])) \<and>
   map_option (\<lambda>p. map (\<lambda>c. (ct_Name c, ct_Image c, ct_Command c)) (po_Containers p))
       (pod_of (MutateRestoreCronJob K S cj r cfg)) =
     Some (let i = rs_Images (re_Spec r); e = rs_Engine (re_Spec r);
               sh = (\<lambda>body. [''/bin/sh'', ''-c'', composeStage S body]) in
       [(''cleanup'', fst (busyBoxImage i cfg), sh (sh_restore_cleanup S)),
        (''fetch'', fst (mcImage i cfg), sh (sh_fetch S)),
        (''decrypt'', fst (gnuPGImage i cfg), sh (sh_decrypt S)),
        (''extract'', fst (busyBoxImage i cfg), sh (sh_extract S)),
        (if e = ''mariadb'' then (''mysqlrestore'', fst (mariadbImage i cfg), sh (sh_mysqlrestore S))
         else if e = ''redis'' then (''redisrestore'', fst (redisImage i cfg), sh (sh_redisrestore S))
         else (''pgrestore'', fst (postgresImage i cfg), sh (sh_pgrestore S)))])"
proof -
  obtain p where p: "pod_of (MutateBackupCronJob K S cj b cfg) = Some p"
      "map stage_run (po_Containers p) = map (runs S) (backupRuns S b cfg)"
    using backup_pod_runs by fastforce
  obtain q where q: "pod_of (MutateRestoreCronJob K S cj r cfg) = Some q"
      "map stage_run (po_Containers q) = map (runs S) (restoreRuns S r cfg)"
    using restore_pod_runs by fastforce
  show ?thesis
    by (simp add: p(1) q(1) map_stage_run(1) [OF p(2)] map_stage_run(1) [OF q(2)] backupRuns_def restoreRuns_def
        dumpClient_def restoreClient_def EngineMariaDB_def EngineRedis_def EnginePVC_def Let_def)
qed

section \<open>Well-formed pods\<close>



lemma volumes_distinct [simp]:
  "volumeDataDir \<noteq> volumeTmp" "volumeTmp \<noteq> volumeDataDir" "volumeWorkdir \<noteq> volumeTmp"
  "volumeTmp \<noteq> volumeWorkdir" "volumeGPG \<noteq> volumeTmp" "volumeTmp \<noteq> volumeGPG"
  "volumeSource \<noteq> volumeTmp" "volumeTmp \<noteq> volumeSource" "volumeDataDir \<noteq> volumeGPG"
  "volumeGPG \<noteq> volumeDataDir" "volumeWorkdir \<noteq> volumeGPG" "volumeGPG \<noteq> volumeWorkdir"
  "volumeDataDir \<noteq> volumeSource" "volumeSource \<noteq> volumeDataDir"
  "volumeGPG \<noteq> volumeSource" "volumeSource \<noteq> volumeGPG"
  by (simp_all add: go_const)




section \<open>Least privilege\<close>

text \<open>The keys of Secrets a container can read: its environment, then the Secret volumes it mounts.\<close>

definition volume_keys :: "volume_source \<Rightarrow> (string \<times> string) list" where
  "volume_keys src = (case src of VSSecret s items \<Rightarrow> map (\<lambda>i. (s, fst i)) items | _ \<Rightarrow> [])"

definition secret_keys :: "pod_spec \<Rightarrow> container \<Rightarrow> (string \<times> string) list" where
  "secret_keys p c =
     map (\<lambda>e. (ev_SecretName e, ev_SecretKey e)) (ct_Env c) @
     concat (map (\<lambda>m. concat (map (\<lambda>v. if vo_Name v = vm_Name m then volume_keys (vo_Source v) else [])
                                (po_Volumes p))) (ct_VolumeMounts c))"

definition stage_keys :: "pod_spec \<Rightarrow> (string \<times> (string \<times> string) list) list" where
  "stage_keys p = map (\<lambda>c. (ct_Name c, secret_keys p c)) (po_Containers p)"

lemma stage_keys_view:
  "map stage_view (po_Containers p) = vs \<Longrightarrow>
   stage_keys p = map (\<lambda>(n, es, ms). (n, map (\<lambda>e. (ev_SecretName e, ev_SecretKey e)) es @
     concat (map (\<lambda>m. concat (map (\<lambda>v. if vo_Name v = vm_Name m then volume_keys (vo_Source v) else [])
                                (po_Volumes p))) ms))) vs"
  by (auto simp: stage_keys_def secret_keys_def stage_view_def)

lemma backup_stage_keys:
  assumes "map stage_view (po_Containers p) = backupStages b"
    and "po_Volumes p = backupVolumes K b (secretName b)"
  shows "stage_keys p =
    (let s = secretName b in
     [(''cleanup'', []),
      (dumpStage (bs_Engine (bk_Spec b)), if IsPVCBackup b then [] else [(s, ''username''), (s, ''password'')]),
      (''compress'', []), (''encrypt'', [(s, ''gpg_passphrase'')])] @
     (if EnabledOrDefault (bs_S3 (bk_Spec b))
      then [(''s3-sync'', [(s, ''s3_access_key''), (s, ''s3_secret_key'')])] else []))"
  by (simp add: stage_keys_view [OF assms(1)] assms(2) backupStages_def dumpEnv_def secretEnv_def
      s3Env_def stageMounts_def gpgMount_def sourceMount_def backupVolumes_def tmpVolume_def
      gpgVolume_def pvcSourceVolume_def volume_keys_def Let_def)

lemma restore_stage_keys:
  assumes "map stage_view (po_Containers p) = restoreStages r"
    and "po_Volumes p = restoreVolumes K r (restoreSecretName r)"
  shows "stage_keys p =
    (let s = restoreSecretName r; (target, userKey, passKey) = RestoreTargetSecret r in
     [(''cleanup'', []), (''fetch'', [(s, ''s3_access_key''), (s, ''s3_secret_key'')]),
      (''decrypt'', [(s, ''gpg_passphrase'')]), (''extract'', []),
      (restoreStage (rs_Engine (re_Spec r)), [(target, userKey), (target, passKey)])])"
  by (simp add: stage_keys_view [OF assms(1)] assms(2) restoreStages_def targetEnv_def secretEnv_def
      s3Env_def stageMounts_def gpgMount_def restoreVolumes_def tmpVolume_def
      gpgVolume_def volume_keys_def Let_def split: prod.split)

text \<open>
  C20: each stage reads exactly the Secret keys its work needs.  In a Backup the passphrase goes to
  the encrypt stage only, the S3 keys to the upload only, the database login to the dump only (and to
  no stage of a PVC backup); in a Restore the S3 keys go to the fetch, the passphrase to the
  decryption and the target's login to the stage that restores.
\<close>

theorem stages_read_only_their_secrets:
  "map_option stage_keys (pod_of (MutateBackupCronJob K S cj b cfg)) = Some
    (let s = secretName b in
     [(''cleanup'', []),
      (dumpStage (bs_Engine (bk_Spec b)), if IsPVCBackup b then [] else [(s, ''username''), (s, ''password'')]),
      (''compress'', []), (''encrypt'', [(s, ''gpg_passphrase'')])] @
     (if EnabledOrDefault (bs_S3 (bk_Spec b))
      then [(''s3-sync'', [(s, ''s3_access_key''), (s, ''s3_secret_key'')])] else [])) \<and>
   map_option stage_keys (pod_of (MutateRestoreCronJob K S cj r cfg)) = Some
    (let s = restoreSecretName r; (target, userKey, passKey) = RestoreTargetSecret r in
     [(''cleanup'', []), (''fetch'', [(s, ''s3_access_key''), (s, ''s3_secret_key'')]),
      (''decrypt'', [(s, ''gpg_passphrase'')]), (''extract'', []),
      (restoreStage (rs_Engine (re_Spec r)), [(target, userKey), (target, passKey)])])"
proof -
  obtain p where "pod_of (MutateBackupCronJob K S cj b cfg) = Some p"
      "map stage_view (po_Containers p) = backupStages b"
      "po_Volumes p = backupVolumes K b (secretName b)"
    using MutateBackupCronJob_pod by blast
  moreover obtain q where "pod_of (MutateRestoreCronJob K S cj r cfg) = Some q"
      "map stage_view (po_Containers q) = restoreStages r"
      "po_Volumes q = restoreVolumes K r (restoreSecretName r)"
    using MutateRestoreCronJob_pod by blast
  ultimately show ?thesis by (simp only: backup_stage_keys restore_stage_keys option.map)
qed

text \<open>The mounts of one volume over all stages: which stage, where, and whether it may write.\<close>

definition mounts_of :: "string \<Rightarrow> pod_spec \<Rightarrow> (string \<times> string \<times> bool) list" where
  "mounts_of vol p =
     concat (map (\<lambda>c. map (\<lambda>m. (ct_Name c, vm_MountPath m, vm_ReadOnly m))
       (filter (\<lambda>m. vm_Name m = vol) (ct_VolumeMounts c))) (po_Containers p))"

lemma mounts_of_view:
  "map stage_view (po_Containers p) = vs \<Longrightarrow>
   mounts_of vol p = concat (map (\<lambda>(n, es, ms). map (\<lambda>m. (n, vm_MountPath m, vm_ReadOnly m))
     (filter (\<lambda>m. vm_Name m = vol) ms)) vs)"
  by (auto simp: mounts_of_def stage_view_def comp_def)

lemma backup_source_mounts:
  assumes "map stage_view (po_Containers p) = backupStages b"
  shows "mounts_of volumeSource p = (if IsPVCBackup b then [(''pvcdump'', ''/source'', True)] else [])"
  by (simp add: mounts_of_view [OF assms] backupStages_def stageMounts_def gpgMount_def sourceMount_def
      DefaultPVCSourceDir_def dumpStage_def IsPVCBackup_def Let_def)

text \<open>The claims a pod mounts: under which volume name, and whether read-only.\<close>

definition claim_volumes :: "pod_spec \<Rightarrow> (string \<times> string \<times> bool) list" where
  "claim_volumes p =
     concat (map (\<lambda>v. case vo_Source v of VSClaim c ro \<Rightarrow> [(vo_Name v, c, ro)] | _ \<Rightarrow> []) (po_Volumes p))"

definition stage_users :: "pod_spec \<Rightarrow> (string \<times> int option) list" where
  "stage_users p = map (\<lambda>c. (ct_Name c, Option.bind (ct_SecurityContext c) sc_RunAsUser)) (po_Containers p)"

text \<open>
  C26: no stage of either pipeline can gain privileges: every container forbids privilege escalation,
  drops all capabilities, has a read-only root file system and the default seccomp profile, and runs as
  a user fixed for its stage: 65532 for clean-up, compression, encryption, decryption and extraction,
  1000 for the transfers to and from S3, 26, 999 and 999 for the clients of Postgres, MariaDB and Redis,
  all of them with \<^verbatim>\<open>runAsNonRoot\<close> and no added capability.  The one exception is the tar stage of a
  PVC backup: it runs as the user the spec names, and as root, with \<^verbatim>\<open>DAC_OVERRIDE\<close> added, when the
  spec names none or 0.  The claims a Backup's pod has are the Backup's own, if it is persistent, and the
  user's claim, for a PVC backup only, under the volume \<^verbatim>\<open>source\<close>; that volume is read-only and is
  mounted by the tar stage alone, read-only.  A Restore's pod has its own claim at most.
\<close>

theorem pipeline_stages_confined:
  "(\<exists>p. pod_of (MutateBackupCronJob K S cj b cfg) = Some p \<and>
      list_all (stage_ok (BackupOwnedName b)) (po_Containers p) \<and>
      stage_users p =
        [(''cleanup'', Some 65532), (dumpStage (bs_Engine (bk_Spec b)), Some (dumpUser b)),
         (''compress'', Some 65532), (''encrypt'', Some 65532)] @
        (if EnabledOrDefault (bs_S3 (bk_Spec b)) then [(''s3-sync'', Some 1000)] else []) \<and>
      claim_volumes p =
        (if PersistenceEnabled (bs_Persistence (bk_Spec b)) then [(''datadir'', BackupOwnedName b, False)] else []) @
        (if IsPVCBackup b then [(''source'', pv_ClaimName (pvcSource b), True)] else []) \<and>
      mounts_of ''source'' p = (if IsPVCBackup b then [(''pvcdump'', ''/source'', True)] else [])) \<and>
   (\<exists>p. pod_of (MutateRestoreCronJob K S cj r cfg) = Some p \<and>
      list_all (stage_ok (RestoreOwnedName r)) (po_Containers p) \<and>
      list_all (\<lambda>c. map_option non_root (ct_SecurityContext c) = Some True) (po_Containers p) \<and>
      stage_users p =
        [(''cleanup'', Some 65532), (''fetch'', Some 1000), (''decrypt'', Some 65532), (''extract'', Some 65532),
         (restoreStage (rs_Engine (re_Spec r)), Some (engineUser (rs_Engine (re_Spec r))))] \<and>
      claim_volumes p =
        (if PersistenceEnabled (rs_Persistence (re_Spec r)) then [(''workdir'', RestoreOwnedName r, False)] else []))"
proof
  obtain p where p: "pod_of (MutateBackupCronJob K S cj b cfg) = Some p"
      and v: "map stage_view (po_Containers p) = backupStages b"
      and ok: "\<forall>c\<in>set (po_Containers p). stage_ok (BackupOwnedName b) c"
      and vol: "po_Volumes p = backupVolumes K b (secretName b)"
    using MutateBackupCronJob_pod by blast
  have "map stage_run (po_Containers p) = map (runs S) (backupRuns S b cfg)"
    using backup_pod_runs [of K S cj b cfg] p by simp
  note users = map_stage_run(2) [OF this]
  show "\<exists>p. pod_of (MutateBackupCronJob K S cj b cfg) = Some p \<and>
      list_all (stage_ok (BackupOwnedName b)) (po_Containers p) \<and>
      stage_users p =
        [(''cleanup'', Some 65532), (dumpStage (bs_Engine (bk_Spec b)), Some (dumpUser b)),
         (''compress'', Some 65532), (''encrypt'', Some 65532)] @
        (if EnabledOrDefault (bs_S3 (bk_Spec b)) then [(''s3-sync'', Some 1000)] else []) \<and>
      claim_volumes p =
        (if PersistenceEnabled (bs_Persistence (bk_Spec b)) then [(''datadir'', BackupOwnedName b, False)] else []) @
        (if IsPVCBackup b then [(''source'', pv_ClaimName (pvcSource b), True)] else []) \<and>
      mounts_of ''source'' p = (if IsPVCBackup b then [(''pvcdump'', ''/source'', True)] else [])"
  proof (intro exI [of _ p] conjI p)
    show "list_all (stage_ok (BackupOwnedName b)) (po_Containers p)" using ok by (simp add: list_all_iff)
    show "stage_users p =
        [(''cleanup'', Some 65532), (dumpStage (bs_Engine (bk_Spec b)), Some (dumpUser b)),
         (''compress'', Some 65532), (''encrypt'', Some 65532)] @
        (if EnabledOrDefault (bs_S3 (bk_Spec b)) then [(''s3-sync'', Some 1000)] else [])"
      by (simp add: stage_users_def users backupRuns_def dumpClient_def dumpStage_def Let_def)
    show "claim_volumes p =
        (if PersistenceEnabled (bs_Persistence (bk_Spec b)) then [(''datadir'', BackupOwnedName b, False)] else []) @
        (if IsPVCBackup b then [(''source'', pv_ClaimName (pvcSource b), True)] else [])"
      by (simp add: claim_volumes_def vol backupVolumes_def tmpVolume_def gpgVolume_def pvcSourceVolume_def
          go_const Let_def)
    show "mounts_of ''source'' p = (if IsPVCBackup b then [(''pvcdump'', ''/source'', True)] else [])"
      using backup_source_mounts [OF v] by (simp add: volumeSource_def)
  qed
next
  obtain p where p: "pod_of (MutateRestoreCronJob K S cj r cfg) = Some p"
      and v: "map stage_view (po_Containers p) = restoreStages r"
      and ok: "\<forall>c\<in>set (po_Containers p). stage_ok (RestoreOwnedName r) c"
      and vol: "po_Volumes p = restoreVolumes K r (restoreSecretName r)"
    using MutateRestoreCronJob_pod by blast
  have "map stage_run (po_Containers p) = map (runs S) (restoreRuns S r cfg)"
    using restore_pod_runs [of K S cj r cfg] p by simp
  note users = map_stage_run(2) [OF this]
  have "stage_users p =
        [(''cleanup'', Some 65532), (''fetch'', Some 1000), (''decrypt'', Some 65532), (''extract'', Some 65532),
         (restoreStage (rs_Engine (re_Spec r)), Some (engineUser (rs_Engine (re_Spec r))))]"
    by (simp add: stage_users_def users restoreRuns_def restoreClient_def restoreStage_def Let_def)
  moreover have "claim_volumes p =
        (if PersistenceEnabled (rs_Persistence (re_Spec r)) then [(''workdir'', RestoreOwnedName r, False)] else [])"
    by (simp add: claim_volumes_def vol restoreVolumes_def tmpVolume_def gpgVolume_def go_const Let_def)
  moreover have "ct_Name c \<noteq> ''pvcdump''" if "c \<in> set (po_Containers p)" for c
  proof -
    have "ct_Name c \<in> set (map ct_Name (po_Containers p))" using that by simp
    then show ?thesis
      by (auto simp: map_stage_view(1) [OF v] restoreStages_def restoreStage_def Let_def
          simp del: set_map split: if_splits)
  qed
  ultimately show "\<exists>p. pod_of (MutateRestoreCronJob K S cj r cfg) = Some p \<and>
      list_all (stage_ok (RestoreOwnedName r)) (po_Containers p) \<and>
      list_all (\<lambda>c. map_option non_root (ct_SecurityContext c) = Some True) (po_Containers p) \<and>
      stage_users p =
        [(''cleanup'', Some 65532), (''fetch'', Some 1000), (''decrypt'', Some 65532), (''extract'', Some 65532),
         (restoreStage (rs_Engine (re_Spec r)), Some (engineUser (rs_Engine (re_Spec r))))] \<and>
      claim_volumes p =
        (if PersistenceEnabled (rs_Persistence (re_Spec r)) then [(''workdir'', RestoreOwnedName r, False)] else [])"
    using p ok by (fastforce simp: list_all_iff stage_ok_def)
qed

section \<open>Where the data lives\<close>

text \<open>The pods' data volumes: every stage mounts them, writable, at one path.\<close>

definition all_stages_at :: "string \<Rightarrow> pod_spec \<Rightarrow> (string \<times> string \<times> bool) list" where
  "all_stages_at d p = map (\<lambda>c. (ct_Name c, d, False)) (po_Containers p)"

lemma all_stages_at_view:
  "map stage_view (po_Containers p) = vs \<Longrightarrow> all_stages_at d p = map (\<lambda>v. (fst v, d, False)) vs"
  by (auto simp: all_stages_at_def stage_view_def comp_def)

lemma restore_data_mounts:
  assumes "map stage_view (po_Containers p) = restoreStages r"
  shows "mounts_of volumeWorkdir p = all_stages_at (restoreWorkdir r) p"
  by (simp add: mounts_of_view [OF assms] all_stages_at_view [OF assms] restoreStages_def
      stageMounts_def gpgMount_def Let_def)









text \<open>
  Every stage of a Restore mounts the work volume at the directory that \<^verbatim>\<open>WORKDIR\<close> in its
  environment names, writable, whatever \<^verbatim>\<open>spec.workdir\<close> is.
\<close>

theorem restore_stages_mount_workdir:
  "\<exists>p. pod_of (MutateRestoreCronJob K S cj r cfg) = Some p \<and>
     mounts_of volumeWorkdir p =
       all_stages_at (map_index (cm_Data (fst (MutateRestoreConfigMap cm r cfg))) ''WORKDIR'') p"
proof -
  have "map_index (cm_Data (fst (MutateRestoreConfigMap cm r cfg))) ''WORKDIR'' = restoreWorkdir r"
    by (simp add: restore_data_defs map_index_def)
  then show ?thesis
    using MutateRestoreCronJob_pod [of K S cj r cfg] restore_data_mounts by metis
qed


section \<open>The Job follows its volume holder\<close>



lemma holder_selects_itself [simp]:
  "selects (VolumeHolderMatchLabels KindBackup (om_Name (bk_Meta b)))
     (WithRuntimeRole (BackupLabels b) RuntimeRoleVolumeHolder)"
  "selects (VolumeHolderMatchLabels KindRestore (om_Name (re_Meta r)))
     (WithRuntimeRole (RestoreLabels r) RuntimeRoleVolumeHolder)"
  by (simp_all only: backup_kind.holder_selected_iff restore_kind.holder_selected_iff)






end
