(* ===== verification/Job_Status.thy ===== *)
theory Job_Status
  imports Pods
begin

text \<open>
  \<^verbatim>\<open>internal/jobstatus/jobstatus.go\<close> and the pure half of
  \<^verbatim>\<open>internal/controller/last_job.go\<close>: which Job of a resource finished last, how it ended, and
  which resource a Job belongs to.
\<close>

section \<open>Finished Jobs\<close>

text \<open>The first condition of a list that is true, complete or failed, and has a transition time.\<close>

fun finishedCondition :: "job_condition list \<Rightarrow> gotime option" where
  "finishedCondition [] = None"
| "finishedCondition (c # cs) =
     (if jc_Status c \<noteq> ConditionTrue then finishedCondition cs
      else if (jc_Type c = JobComplete \<or> jc_Type c = JobFailed) \<and> \<not> time_IsZero (jc_LastTransitionTime c)
           then Some (jc_LastTransitionTime c)
      else finishedCondition cs)"

definition FinishedAt :: "job \<Rightarrow> gotime option" where
  "FinishedAt j =
     (if js_CompletionTime (jb_Status j) \<noteq> None \<and> \<not> timep_IsZero (js_CompletionTime (jb_Status j))
      then js_CompletionTime (jb_Status j)
      else finishedCondition (js_Conditions (jb_Status j)))"

definition Failed :: "job \<Rightarrow> bool" where
  "Failed j =
     (js_Failed (jb_Status j) > 0 \<or>
      list_ex (\<lambda>c. jc_Type c = JobFailed \<and> jc_Status c = ConditionTrue) (js_Conditions (jb_Status j)))"

fun condition_in :: "string \<Rightarrow> job_condition list \<Rightarrow> string \<times> string" where
  "condition_in ty [] = ([], [])"
| "condition_in ty (c # cs) =
     (if jc_Type c = ty \<and> jc_Status c = ConditionTrue then (jc_Reason c, jc_Message c)
      else condition_in ty cs)"

definition job_condition_text :: "job \<Rightarrow> string \<Rightarrow> string \<times> string" where
  "job_condition_text j ty = condition_in ty (js_Conditions (jb_Status j))"

text \<open>The loop of \<^verbatim>\<open>LastFinished\<close>; the accumulator is \<^verbatim>\<open>best\<close> with \<^verbatim>\<open>bestAt\<close>.\<close>

fun lastFinishedLoop ::
  "string \<Rightarrow> string \<Rightarrow> string \<Rightarrow> string \<Rightarrow> job list \<Rightarrow> (job \<times> gotime) option \<Rightarrow> (job \<times> gotime) option" where
  "lastFinishedLoop ns nameLabel name kind [] best = best"
| "lastFinishedLoop ns nameLabel name kind (j # js) best =
     (if om_Namespace (jb_Meta j) \<noteq> ns then lastFinishedLoop ns nameLabel name kind js best
      else if map_index (om_Labels (jb_Meta j)) nameLabel \<noteq> name
           then lastFinishedLoop ns nameLabel name kind js best
      else if kind \<noteq> [] \<and> map_index (om_Labels (jb_Meta j)) LabelKind \<noteq> kind
           then lastFinishedLoop ns nameLabel name kind js best
      else case FinishedAt j of
             None \<Rightarrow> lastFinishedLoop ns nameLabel name kind js best
           | Some end \<Rightarrow>
               if (case best of None \<Rightarrow> True | Some (b, bestAt) \<Rightarrow> end > bestAt)
               then lastFinishedLoop ns nameLabel name kind js (Some (j, end))
               else lastFinishedLoop ns nameLabel name kind js best)"

definition LastFinished :: "job list \<Rightarrow> string \<Rightarrow> string \<Rightarrow> string \<Rightarrow> string \<Rightarrow> job option" where
  "LastFinished jobs ns nameLabel name kind =
     map_option fst (lastFinishedLoop ns nameLabel name kind jobs None)"

definition Summarize :: "job option \<Rightarrow> LastJobStatus option" where
  "Summarize jp =
     (case jp of
        None \<Rightarrow> None
      | Some j \<Rightarrow>
          let start = (if js_StartTime (jb_Status j) \<noteq> None \<and> \<not> timep_IsZero (js_StartTime (jb_Status j))
                       then js_StartTime (jb_Status j) else None);
              (outcome, reason, message) =
                (if Failed j then (LastJobOutcomeFailed, job_condition_text j JobFailed)
                 else (LastJobOutcomeSucceeded, job_condition_text j JobComplete))
          in Some \<lparr>lj_Name = om_Name (jb_Meta j), lj_Outcome = outcome, lj_Reason = reason,
                   lj_Message = message, lj_StartTime = start, lj_CompletionTime = FinishedAt j\<rparr>)"

section \<open>From a Job to its owner\<close>

text \<open>A reconcile request: name and namespace.\<close>

record request =
  rq_Name :: string
  rq_Namespace :: string

definition mapJobToOwner :: "string \<Rightarrow> string \<Rightarrow> objectmeta \<Rightarrow> request list" where
  "mapJobToOwner kind nameLabel obj =
     (if map_index (om_Labels obj) LabelKind \<noteq> kind then []
      else let name = map_index (om_Labels obj) nameLabel in
           if name = [] then [] else [\<lparr>rq_Name = name, rq_Namespace = om_Namespace obj\<rparr>])"

text \<open>The labels \<^verbatim>\<open>lastJobStatus\<close> lists Jobs by.\<close>

definition lastJobSelector :: "string \<Rightarrow> string \<Rightarrow> string \<Rightarrow> strmap" where
  "lastJobSelector nameLabel name kind =
     [LabelAppManagedBy \<mapsto> ManagedBy, LabelKind \<mapsto> kind, nameLabel \<mapsto> name]"

section \<open>The last finished Job\<close>

text \<open>A Job of the resource that has finished, and the latest of a list (reference definition).\<close>

definition finished_of :: "string \<Rightarrow> string \<Rightarrow> string \<Rightarrow> string \<Rightarrow> job \<Rightarrow> bool" where
  "finished_of ns nameLabel name kind j \<longleftrightarrow>
     om_Namespace (jb_Meta j) = ns \<and> map_index (om_Labels (jb_Meta j)) nameLabel = name \<and>
     (kind = [] \<or> map_index (om_Labels (jb_Meta j)) LabelKind = kind) \<and> FinishedAt j \<noteq> None"

definition is_latest :: "(job \<Rightarrow> bool) \<Rightarrow> job list \<Rightarrow> job \<Rightarrow> bool" where
  "is_latest P js j \<longleftrightarrow> P j \<and> (\<forall>k\<in>set js. P k \<longrightarrow> the (FinishedAt k) \<le> the (FinishedAt j))"

text \<open>One turn of the loop, and the loop as a fold.\<close>

definition later :: "(job \<Rightarrow> bool) \<Rightarrow> (job \<times> gotime) option \<Rightarrow> job \<Rightarrow> (job \<times> gotime) option" where
  "later P best j =
     (if P j \<and> (case best of None \<Rightarrow> True | Some (b, t) \<Rightarrow> the (FinishedAt j) > t)
      then Some (j, the (FinishedAt j)) else best)"

lemma lastFinishedLoop_foldl:
  "lastFinishedLoop ns l n k js best = foldl (later (finished_of ns l n k)) best js"
  by (induction js arbitrary: best) (auto simp: later_def finished_of_def split: option.split)

lemma find_cong_set: "(\<And>x. x \<in> set xs \<Longrightarrow> P x \<longleftrightarrow> Q x) \<Longrightarrow> find P xs = find Q xs"
  by (induction xs) auto

lemma find_append: "find P (xs @ ys) = (case find P xs of None \<Rightarrow> find P ys | Some x \<Rightarrow> Some x)"
  by (induction xs) auto

lemma foldl_later:
  "(case foldl (later P) None js of
      None \<Rightarrow> \<forall>k\<in>set js. \<not> P k
    | Some (j, t) \<Rightarrow> t = the (FinishedAt j) \<and> find (is_latest P js) js = Some j)"
proof (induction js rule: rev_induct)
  case Nil
  then show ?case by simp
next
  case (snoc x js)
  let ?r = "foldl (later P) None js"
  have step: "foldl (later P) None (js @ [x]) = later P ?r x" by simp
  show ?case
  proof (cases ?r)
    case None
    with snoc have none: "\<forall>k\<in>set js. \<not> P k" by simp
    then have "find (is_latest P (js @ [x])) js = None" by (auto simp: find_None_iff is_latest_def)
    with none show ?thesis unfolding step None by (simp add: later_def find_append is_latest_def)
  next
    case (Some p)
    then obtain j where r: "?r = Some (j, the (FinishedAt j))" and f: "find (is_latest P js) js = Some j"
      using snoc by (cases p) auto
    then have j: "is_latest P js j" and jin: "j \<in> set js" by (auto simp: find_Some_iff)
    show ?thesis
    proof (cases "P x \<and> the (FinishedAt j) < the (FinishedAt x)")
      case True
      have "find (is_latest P (js @ [x])) js = None"
        using True j by (auto simp: find_None_iff is_latest_def)
      moreover have "is_latest P (js @ [x]) x"
        using True j by (auto simp: is_latest_def)
      ultimately show ?thesis unfolding step r using True by (simp add: later_def find_append)
    next
      case False
      have "is_latest P (js @ [x]) k \<longleftrightarrow> is_latest P js k" if "k \<in> set js" for k
        using False j jin that by (auto simp: is_latest_def)
      then have "find (is_latest P (js @ [x])) js = Some j" using f find_cong_set by metis
      with False show ?thesis unfolding step r by (auto simp: later_def find_append)
    qed
  qed
qed

text \<open>
  C29: \<^verbatim>\<open>LastFinished\<close> returns the first of the Jobs with the latest finish time among the
  finished Jobs that carry the resource's namespace, name and kind, and nil exactly when no Job of
  the resource has finished; running Jobs and the Jobs of other resources never count.
\<close>

theorem LastFinished_latest:
  "LastFinished jobs ns nameLabel name kind =
     find (is_latest (finished_of ns nameLabel name kind) jobs) jobs"
  using foldl_later [where P = "finished_of ns nameLabel name kind" and js = jobs]
  by (auto simp: LastFinished_def lastFinishedLoop_foldl find_None_iff find_None_iff2 is_latest_def
      split: option.splits)

section \<open>How it ended\<close>

lemma Summarize_Some:
  "\<exists>s. Summarize (Some j) = Some s \<and> lj_Name s = om_Name (jb_Meta j) \<and>
     lj_CompletionTime s = FinishedAt j \<and>
     lj_Outcome s = (if Failed j then LastJobOutcomeFailed else LastJobOutcomeSucceeded) \<and>
     (lj_Reason s, lj_Message s) = job_condition_text j (if Failed j then JobFailed else JobComplete)"
  by (cases "job_condition_text j (if Failed j then JobFailed else JobComplete)")
    (auto simp: Summarize_def Let_def split: if_splits)

lemma Summarize_None_iff [simp]: "Summarize jp = None \<longleftrightarrow> jp = None"
  by (simp add: Summarize_def Let_def split: option.split prod.split)

text \<open>A Job that Kubernetes reports as complete.\<close>

definition completed :: "job \<Rightarrow> bool" where
  "completed j \<longleftrightarrow>
     list_ex (\<lambda>c. jc_Type c = JobComplete \<and> jc_Status c = ConditionTrue) (js_Conditions (jb_Status j)) \<and>
     \<not> list_ex (\<lambda>c. jc_Type c = JobFailed \<and> jc_Status c = ConditionTrue) (js_Conditions (jb_Status j))"

lemma condition_in_none:
  "\<not> list_ex (\<lambda>c. jc_Type c = ty \<and> jc_Status c = ConditionTrue) cs \<Longrightarrow> condition_in ty cs = ([], [])"
  by (induction cs) auto

text \<open>
  C37: a completed Job is summarised as succeeded exactly when none of its pods failed.  A Job that
  Kubernetes reports complete after a retry (its failed-pod counter is positive) is summarised as
  failed, with an empty reason and message.
\<close>

theorem completed_job_outcome:
  assumes "completed j"
  shows "map_option lj_Outcome (Summarize (Some j)) =
      Some (if js_Failed (jb_Status j) > 0 then ''Failed'' else ''Succeeded'') \<and>
    (js_Failed (jb_Status j) > 0 \<longrightarrow>
      map_option (\<lambda>s. (lj_Reason s, lj_Message s)) (Summarize (Some j)) = Some ([], []))"
proof -
  have failed: "Failed j \<longleftrightarrow> js_Failed (jb_Status j) > 0"
    using assms by (simp add: Failed_def completed_def)
  have "job_condition_text j JobFailed = ([], [])"
    using assms by (simp add: job_condition_text_def completed_def condition_in_none)
  then show ?thesis
    using Summarize_Some [of j] failed by (auto simp: go_const)
qed

text \<open>The backup Job of the README after one failed pod and a successful retry.\<close>

definition ex_retried_job :: job where
  "ex_retried_job =
     \<lparr>jb_Meta = (named_meta ''karkive-backup-app-28'' ''backup'')\<lparr>om_Labels := BackupLabels ex_backup\<rparr>,
      jb_Status =
        \<lparr>js_StartTime = Some 100, js_CompletionTime = Some 200, js_Failed = 1,
         js_Conditions =
           [\<lparr>jc_Type = JobComplete, jc_Status = ConditionTrue, jc_Reason = ''CompletionsReached'',
             jc_Message = [], jc_LastTransitionTime = 200\<rparr>]\<rparr>\<rparr>"

theorem completed_job_outcome_witness:
  "completed ex_retried_job \<and>
   map_option lj_Outcome (Summarize (Some ex_retried_job)) = Some ''Failed'' \<and>
   map_option (\<lambda>s. (lj_Reason s, lj_Message s)) (Summarize (Some ex_retried_job)) = Some ([], [])"
proof -
  have ok: "completed ex_retried_job" by (simp add: completed_def ex_retried_job_def)
  moreover have "js_Failed (jb_Status ex_retried_job) > 0" by (simp add: ex_retried_job_def)
  ultimately show ?thesis using completed_job_outcome [OF ok] by simp
qed

section \<open>Whose Job it is\<close>

text \<open>The Jobs a CronJob creates carry the labels of its Job template.\<close>

definition job_labels :: "cronjob option \<Rightarrow> strmap option" where
  "job_labels cj = Option.bind cj (\<lambda>c. map_option cs_JobLabels (cj_Spec c))"

lemma job_labels_template [simp]:
  "job_labels (MutateBackupCronJob K S cj b cfg) = Some (BackupLabels b)"
  "job_labels (MutateRestoreCronJob K S cj r cfg) = Some (RestoreLabels r)"
  using backupContainers_shape [of K S b cfg] restoreContainers_shape [of K S r cfg]
  by (auto simp: job_labels_def MutateBackupCronJob_def MutateRestoreCronJob_def backupPodSpec_def
      restorePodSpec_def cronJobSpec_def Let_def)

lemma map_index_labels [simp]:
  "map_index (BackupLabels b) LabelKind = KindBackup"
  "map_index (BackupLabels b) LabelBackupName = om_Name (bk_Meta b)"
  "map_index (RestoreLabels r) LabelKind = KindRestore"
  "map_index (RestoreLabels r) LabelRestoreName = om_Name (re_Meta r)"
  by (simp_all add: map_index_def)

lemma lastJobSelector_selects:
  "selects (lastJobSelector LabelBackupName n KindBackup) (BackupLabels b) \<longleftrightarrow> n = om_Name (bk_Meta b)"
  "selects (lastJobSelector LabelRestoreName n KindRestore) (RestoreLabels r) \<longleftrightarrow> n = om_Name (re_Meta r)"
  "\<not> selects (lastJobSelector LabelBackupName n KindBackup) (RestoreLabels r)"
  "\<not> selects (lastJobSelector LabelRestoreName n KindRestore) (BackupLabels b)"
proof -
  have "LabelAppManagedBy \<noteq> LabelKind" "LabelAppManagedBy \<noteq> LabelBackupName"
      "LabelAppManagedBy \<noteq> LabelRestoreName"
    by (simp_all add: go_const)
  then show "selects (lastJobSelector LabelBackupName n KindBackup) (BackupLabels b) \<longleftrightarrow> n = om_Name (bk_Meta b)"
    "selects (lastJobSelector LabelRestoreName n KindRestore) (RestoreLabels r) \<longleftrightarrow> n = om_Name (re_Meta r)"
    "\<not> selects (lastJobSelector LabelBackupName n KindBackup) (RestoreLabels r)"
    "\<not> selects (lastJobSelector LabelRestoreName n KindRestore) (BackupLabels b)"
    by (auto simp: selects_def lastJobSelector_def map_le_def)
qed

text \<open>
  A Job of a pipeline is attributed to the resource whose CronJob created it and to no other.
  With the labels of the Job template, the Backup watch maps the Job back to exactly its Backup (and
  the Restore watch to nothing), and the label selector under which \<^verbatim>\<open>lastJobStatus\<close> lists the
  Jobs of a Backup matches exactly the Jobs of the Backup of that name; likewise for Restores.
\<close>

theorem job_attributed_to_its_owner:
  "\<exists>bl rl. job_labels (MutateBackupCronJob K S cj b cfg) = Some bl \<and>
     job_labels (MutateRestoreCronJob K S cj r cfg) = Some rl \<and>
     mapJobToOwner KindBackup LabelBackupName (m\<lparr>om_Labels := bl\<rparr>) =
       (if om_Name (bk_Meta b) = [] then []
        else [\<lparr>rq_Name = om_Name (bk_Meta b), rq_Namespace = om_Namespace m\<rparr>]) \<and>
     mapJobToOwner KindRestore LabelRestoreName (m\<lparr>om_Labels := bl\<rparr>) = [] \<and>
     mapJobToOwner KindRestore LabelRestoreName (m\<lparr>om_Labels := rl\<rparr>) =
       (if om_Name (re_Meta r) = [] then []
        else [\<lparr>rq_Name = om_Name (re_Meta r), rq_Namespace = om_Namespace m\<rparr>]) \<and>
     mapJobToOwner KindBackup LabelBackupName (m\<lparr>om_Labels := rl\<rparr>) = [] \<and>
     (selects (lastJobSelector LabelBackupName n KindBackup) bl \<longleftrightarrow> n = om_Name (bk_Meta b)) \<and>
     (selects (lastJobSelector LabelRestoreName n KindRestore) rl \<longleftrightarrow> n = om_Name (re_Meta r)) \<and>
     \<not> selects (lastJobSelector LabelBackupName n KindBackup) rl \<and>
     \<not> selects (lastJobSelector LabelRestoreName n KindRestore) bl"
  by (simp add: mapJobToOwner_def lastJobSelector_selects)

end
