(* ===== verification/Status.thy ===== *)
theory Status
  imports Job_Status
begin

text \<open>
  \<^verbatim>\<open>internal/controller/status.go\<close> and the computation both \<^verbatim>\<open>setStatus\<close> methods share:
  which status to write, whether to record an event, and whether an update is needed at all.
\<close>

section \<open>status.go\<close>

definition lastJobEqual :: "k8slib \<Rightarrow> LastJobStatus option \<Rightarrow> LastJobStatus option \<Rightarrow> bool" where
  "lastJobEqual K a b = semantic_DeepEqual_lastJob K a b"

definition metaTimeEqual :: "k8slib \<Rightarrow> gotime option \<Rightarrow> gotime option \<Rightarrow> bool" where
  "metaTimeEqual K a b = semantic_DeepEqual_time K a b"

text \<open>The condition written for a last Job; its transition time is the library's to set.\<close>

definition jobSucceededCondition :: "string \<Rightarrow> int \<Rightarrow> LastJobStatus option \<Rightarrow> condition" where
  "jobSucceededCondition condType generation lastJob =
     (let mk = (\<lambda>st reason message. \<lparr>co_Type = condType, co_Status = st, co_ObservedGeneration = generation,
                  co_LastTransitionTime = 0, co_Reason = reason, co_Message = message\<rparr>)
      in case lastJob of
           None \<Rightarrow> mk ConditionUnknown ''NoFinishedJob'' ''No finished Job yet''
         | Some j \<Rightarrow>
             if lj_Outcome j = LastJobOutcomeSucceeded then
               mk ConditionTrue ''JobSucceeded''
                 (if lj_Name j \<noteq> [] then ''Job '' @ lj_Name j @ '' succeeded'' else ''Last Job succeeded'')
             else
               mk ConditionFalse (if lj_Reason j = [] then ''JobFailed'' else lj_Reason j)
                 (if lj_Message j \<noteq> [] then lj_Message j
                  else if lj_Name j \<noteq> [] then ''Job '' @ lj_Name j @ '' failed''
                  else ''Last Job failed''))"

definition setJobSucceededCondition ::
  "k8slib \<Rightarrow> condition list \<Rightarrow> string \<Rightarrow> int \<Rightarrow> LastJobStatus option \<Rightarrow> condition list \<times> bool" where
  "setJobSucceededCondition K conditions condType generation lastJob =
     meta_SetStatusCondition K conditions (jobSucceededCondition condType generation lastJob)"

definition generationChanged :: "int \<Rightarrow> int \<Rightarrow> string \<Rightarrow> bool" where
  "generationChanged generation observed currentPhase =
     (if observed \<noteq> generation then True
      else generation = 0 \<and> observed = 0 \<and> currentPhase = [])"

definition shouldRecordEvent :: "string \<Rightarrow> bool \<Rightarrow> bool \<Rightarrow> bool \<Rightarrow> bool" where
  "shouldRecordEvent eventType specChanged phaseChanged condChanged =
     (if eventType = EventTypeNormal then specChanged else specChanged \<or> phaseChanged \<or> condChanged)"

definition statusNeedsPatch :: "bool \<Rightarrow> bool \<Rightarrow> bool \<Rightarrow> bool \<Rightarrow> bool \<Rightarrow> bool" where
  "statusNeedsPatch specChanged phaseChanged condChanged lastJobChanged cronChanged =
     (specChanged \<or> phaseChanged \<or> condChanged \<or> lastJobChanged \<or> cronChanged)"

section \<open>The next status\<close>

text \<open>
  The body of \<^verbatim>\<open>setStatus\<close> between the listing of the Jobs and the two effects: the new status,
  whether to record an event, and whether to write the status.  It is the same text for Backups
  (condition \<^verbatim>\<open>BackupSucceeded\<close>) and Restores (\<^verbatim>\<open>RestoreSucceeded\<close>).
\<close>

record status_request =
  sr_Phase :: string
  sr_Ready :: string
  sr_Reason :: string
  sr_Message :: string
  sr_EventType :: string
  sr_Cron :: "cronjob option"
  sr_HolderName :: string

definition readyCondition :: "int \<Rightarrow> status_request \<Rightarrow> condition" where
  "readyCondition generation q =
     \<lparr>co_Type = ConditionReady, co_Status = sr_Ready q, co_ObservedGeneration = generation,
      co_LastTransitionTime = 0, co_Reason = sr_Reason q, co_Message = sr_Message q\<rparr>"

definition nextStatus ::
  "k8slib \<Rightarrow> string \<Rightarrow> int \<Rightarrow> cr_status \<Rightarrow> status_request \<Rightarrow> LastJobStatus option \<Rightarrow>
     cr_status \<times> bool \<times> bool" where
  "nextStatus K condType generation st q newLastJob =
     (let specChanged = generationChanged generation (st_ObservedGeneration st) (st_Phase st);
          phaseChanged = (st_Phase st \<noteq> sr_Phase q);
          lastJobChanged = (\<not> lastJobEqual K (st_LastJob st) newLastJob);
          cronChanged = (case sr_Cron q of
             None \<Rightarrow> False
           | Some cron \<Rightarrow>
               st_CronJobName st \<noteq> om_Name (cj_Meta cron) \<or>
               \<not> metaTimeEqual K (st_LastScheduleTime st) (cst_LastScheduleTime (cj_Status cron)) \<or>
               \<not> metaTimeEqual K (st_LastSuccessfulTime st) (cst_LastSuccessfulTime (cj_Status cron)));
          st1 = (case sr_Cron q of
             None \<Rightarrow> st
           | Some cron \<Rightarrow> st\<lparr>st_CronJobName := om_Name (cj_Meta cron),
                            st_LastScheduleTime := cst_LastScheduleTime (cj_Status cron),
                            st_LastSuccessfulTime := cst_LastSuccessfulTime (cj_Status cron)\<rparr>);
          holderChanged = (st_VolumeHolderName st1 \<noteq> sr_HolderName q);
          st2 = st1\<lparr>st_VolumeHolderName := sr_HolderName q\<rparr>;
          (conds1, readyChanged) = meta_SetStatusCondition K (st_Conditions st2) (readyCondition generation q);
          (conds2, succeededChanged) = setJobSucceededCondition K conds1 condType generation newLastJob;
          condChanged = (readyChanged \<or> succeededChanged);
          st3 = st2\<lparr>st_Conditions := conds2, st_LastJob := newLastJob, st_Phase := sr_Phase q,
                    st_ObservedGeneration := generation\<rparr>
      in (st3, shouldRecordEvent (sr_EventType q) specChanged phaseChanged readyChanged,
          statusNeedsPatch specChanged phaseChanged condChanged lastJobChanged (cronChanged \<or> holderChanged)))"

lemma jobSucceededCondition_type [simp]: "co_Type (jobSucceededCondition ty g lj) = ty"
  by (simp add: jobSucceededCondition_def Let_def split: option.split)

lemma readyCondition_sel [simp]:
  "co_Type (readyCondition g q) = ConditionReady" "co_Status (readyCondition g q) = sr_Ready q"
  "co_Reason (readyCondition g q) = sr_Reason q" "co_Message (readyCondition g q) = sr_Message q"
  "co_ObservedGeneration (readyCondition g q) = g"
  by (simp_all add: readyCondition_def)

lemma condition_types [simp]:
  "ConditionBackupSucceeded \<noteq> ConditionReady" "ConditionReady \<noteq> ConditionBackupSucceeded"
  "ConditionRestoreSucceeded \<noteq> ConditionReady" "ConditionReady \<noteq> ConditionRestoreSucceeded"
  by (simp_all add: go_const)

text \<open>The parts of the new status.\<close>

lemma nextStatus_fields [simp]:
  "st_Phase (fst (nextStatus K ty g st q lj)) = sr_Phase q"
  "st_ObservedGeneration (fst (nextStatus K ty g st q lj)) = g"
  "st_LastJob (fst (nextStatus K ty g st q lj)) = lj"
  "st_VolumeHolderName (fst (nextStatus K ty g st q lj)) = sr_HolderName q"
  "st_CronJobName (fst (nextStatus K ty g st q lj)) =
     (case sr_Cron q of None \<Rightarrow> st_CronJobName st | Some c \<Rightarrow> om_Name (cj_Meta c))"
  "st_LastScheduleTime (fst (nextStatus K ty g st q lj)) =
     (case sr_Cron q of None \<Rightarrow> st_LastScheduleTime st | Some c \<Rightarrow> cst_LastScheduleTime (cj_Status c))"
  "st_LastSuccessfulTime (fst (nextStatus K ty g st q lj)) =
     (case sr_Cron q of None \<Rightarrow> st_LastSuccessfulTime st | Some c \<Rightarrow> cst_LastSuccessfulTime (cj_Status c))"
  "st_Conditions (fst (nextStatus K ty g st q lj)) =
     fst (setJobSucceededCondition K
       (fst (meta_SetStatusCondition K (st_Conditions st) (readyCondition g q))) ty g lj)"
  by (simp_all add: nextStatus_def Let_def case_prod_beta split: option.split)

lemma nextStatus_event:
  "fst (snd (nextStatus K ty g st q lj)) =
     shouldRecordEvent (sr_EventType q) (generationChanged g (st_ObservedGeneration st) (st_Phase st))
       (st_Phase st \<noteq> sr_Phase q)
       (snd (meta_SetStatusCondition K (st_Conditions st) (readyCondition g q)))"
  by (simp add: nextStatus_def Let_def case_prod_beta split: option.split)

lemma nextStatus_patch:
  "snd (snd (nextStatus K ty g st q lj)) =
     statusNeedsPatch (generationChanged g (st_ObservedGeneration st) (st_Phase st)) (st_Phase st \<noteq> sr_Phase q)
       (snd (meta_SetStatusCondition K (st_Conditions st) (readyCondition g q)) \<or>
        snd (setJobSucceededCondition K
          (fst (meta_SetStatusCondition K (st_Conditions st) (readyCondition g q))) ty g lj))
       (\<not> lastJobEqual K (st_LastJob st) lj)
       ((case sr_Cron q of
           None \<Rightarrow> False
         | Some cron \<Rightarrow>
             st_CronJobName st \<noteq> om_Name (cj_Meta cron) \<or>
             \<not> metaTimeEqual K (st_LastScheduleTime st) (cst_LastScheduleTime (cj_Status cron)) \<or>
             \<not> metaTimeEqual K (st_LastSuccessfulTime st) (cst_LastSuccessfulTime (cj_Status cron))) \<or>
        st_VolumeHolderName st \<noteq> sr_HolderName q)"
  by (simp add: nextStatus_def Let_def case_prod_beta split: option.split)

section \<open>Conditions under the library's laws\<close>

lemma SetStatusCondition_find:
  assumes "condition_laws K"
  shows "\<exists>d. find_condition (fst (meta_SetStatusCondition K cs c)) (co_Type c) = Some d \<and> same_condition d c"
  using assms by (simp add: condition_laws_def)

lemma SetStatusCondition_other:
  "condition_laws K \<Longrightarrow> ty \<noteq> co_Type c \<Longrightarrow>
   find_condition (fst (meta_SetStatusCondition K cs c)) ty = find_condition cs ty"
  by (simp add: condition_laws_def)

lemma SetStatusCondition_unchanged:
  "condition_laws K \<Longrightarrow> find_condition cs (co_Type c) = Some d \<Longrightarrow> same_condition d c \<Longrightarrow>
   meta_SetStatusCondition K cs c = (cs, False)"
  by (rule prod_eqI) (auto simp: condition_laws_def)

lemma SetStatusCondition_same:
  "condition_laws K \<Longrightarrow> \<not> snd (meta_SetStatusCondition K cs c) \<Longrightarrow>
   fst (meta_SetStatusCondition K cs c) = cs"
  by (simp add: condition_laws_def)

text \<open>After \<^verbatim>\<open>setStatus\<close> both conditions of the resource say what was asked.\<close>

lemma nextStatus_conditions:
  assumes "condition_laws K" and "ty \<noteq> ConditionReady"
  shows "\<exists>r s. find_condition (st_Conditions (fst (nextStatus K ty g st q lj))) ConditionReady = Some r \<and>
      same_condition r (readyCondition g q) \<and>
      find_condition (st_Conditions (fst (nextStatus K ty g st q lj))) ty = Some s \<and>
      same_condition s (jobSucceededCondition ty g lj)"
proof -
  let ?cs = "fst (meta_SetStatusCondition K (st_Conditions st) (readyCondition g q))"
  let ?js = "jobSucceededCondition ty g lj"
  obtain r where "find_condition ?cs ConditionReady = Some r" "same_condition r (readyCondition g q)"
    using SetStatusCondition_find [OF assms(1)] by (metis readyCondition_sel(1))
  moreover obtain s where "find_condition (fst (meta_SetStatusCondition K ?cs ?js)) ty = Some s"
      "same_condition s ?js"
    using SetStatusCondition_find [OF assms(1), of ?cs ?js] by auto
  moreover have "find_condition (fst (meta_SetStatusCondition K ?cs ?js)) ConditionReady =
      find_condition ?cs ConditionReady"
    using assms by (intro SetStatusCondition_other) auto
  ultimately show ?thesis by (simp add: setJobSucceededCondition_def)
qed

text \<open>
  No needed status update is skipped: when \<^verbatim>\<open>setStatus\<close> decides not to write, the status it
  would have written is the status that is stored, field by field (phase, observed generation,
  CronJob and holder names, times, last Job and all conditions).
\<close>

theorem skipped_update_changes_nothing:
  assumes "condition_laws K" and "deepequal_laws K"
    and "\<not> snd (snd (nextStatus K ty g st q lj))"
  shows "fst (nextStatus K ty g st q lj) = st"
proof (rule cr_status.equality)
  let ?r = "readyCondition g q"
  have ready: "\<not> snd (meta_SetStatusCondition K (st_Conditions st) ?r)"
    using assms(3) by (simp add: nextStatus_patch statusNeedsPatch_def)
  then have same: "fst (meta_SetStatusCondition K (st_Conditions st) ?r) = st_Conditions st"
    by (rule SetStatusCondition_same [OF assms(1)])
  have "\<not> snd (setJobSucceededCondition K (st_Conditions st) ty g lj)"
    using assms(3) same by (simp add: nextStatus_patch statusNeedsPatch_def)
  then show "st_Conditions (fst (nextStatus K ty g st q lj)) = st_Conditions st"
    using same SetStatusCondition_same [OF assms(1)] by (simp add: setJobSucceededCondition_def)
qed (use assms in \<open>auto simp: nextStatus_patch statusNeedsPatch_def generationChanged_def lastJobEqual_def
      metaTimeEqual_def deepequal_laws_def split: option.splits if_splits\<close>)

text \<open>A resource settles: asked again for the status that is stored, the operator neither writes nor
  records an event.\<close>

lemma nextStatus_settles:
  assumes "condition_laws K" and "deepequal_laws K" and "ty \<noteq> ConditionReady" and "sr_Phase q \<noteq> []"
  shows "snd (nextStatus K ty g (fst (nextStatus K ty g st q lj)) q lj) = (False, False)"
proof -
  let ?st = "fst (nextStatus K ty g st q lj)"
  obtain r s where
    r: "find_condition (st_Conditions ?st) ConditionReady = Some r" "same_condition r (readyCondition g q)"
    and s: "find_condition (st_Conditions ?st) ty = Some s" "same_condition s (jobSucceededCondition ty g lj)"
    using nextStatus_conditions [OF assms(1) assms(3)] by blast
  have ready: "meta_SetStatusCondition K (st_Conditions ?st) (readyCondition g q) = (st_Conditions ?st, False)"
    using r by (intro SetStatusCondition_unchanged [OF assms(1)]) simp_all
  have succ: "meta_SetStatusCondition K (st_Conditions ?st) (jobSucceededCondition ty g lj) = (st_Conditions ?st, False)"
    using s by (intro SetStatusCondition_unchanged [OF assms(1)]) simp_all
  have "fst (snd (nextStatus K ty g ?st q lj)) = False"
    using ready assms(4)
    by (simp add: nextStatus_event generationChanged_def shouldRecordEvent_def del: nextStatus_fields(8))
  moreover have "snd (snd (nextStatus K ty g ?st q lj)) = False"
    using ready succ assms(2,4)
    by (auto simp add: nextStatus_patch statusNeedsPatch_def generationChanged_def lastJobEqual_def
        metaTimeEqual_def deepequal_laws_def setJobSucceededCondition_def
        simp del: nextStatus_fields(8) split: option.split)
  ultimately show ?thesis by (simp add: prod_eq_iff)
qed

text \<open>A request of the kind a synced Backup makes.\<close>

definition ex_ready_request :: status_request where
  "ex_ready_request =
     \<lparr>sr_Phase = BackupPhaseReady, sr_Ready = ConditionTrue, sr_Reason = ''Synced'',
      sr_Message = ''CronJob karkive-backup-app-postgres is synced'', sr_EventType = EventTypeNormal,
      sr_Cron = None, sr_HolderName = []\<rparr>"

theorem skipped_update_changes_nothing_witness:
  "fst (nextStatus doc_lib ConditionBackupSucceeded 1
      (fst (nextStatus doc_lib ConditionBackupSucceeded 1 cr_status_zero ex_ready_request None))
      ex_ready_request None) =
   fst (nextStatus doc_lib ConditionBackupSucceeded 1 cr_status_zero ex_ready_request None)"
proof (rule skipped_update_changes_nothing [OF condition_laws_doc deepequal_laws_doc])
  show "\<not> snd (snd (nextStatus doc_lib ConditionBackupSucceeded 1
      (fst (nextStatus doc_lib ConditionBackupSucceeded 1 cr_status_zero ex_ready_request None))
      ex_ready_request None))"
    by (subst nextStatus_settles [OF condition_laws_doc deepequal_laws_doc])
      (simp_all add: ex_ready_request_def BackupPhaseReady_def)
qed

end
