(* ===== verification/Kube_Client.thy ===== *)
theory Kube_Client
  imports Status
begin

text \<open>
  The API client of controller-runtime, as the controllers use it.  It is third-party code, so it is
  a parameter: a record of the typed operations, each of which answers as a function of the history
  of calls made so far.  A server with any state, and any activity of other clients between two
  calls, is one such record.  Every call is logged with its answer, so the theorems can speak of
  what a reconciler asked, wrote and deleted, and in which order.
\<close>

section \<open>Calls\<close>

text \<open>
  \<^verbatim>\<open>Apply...\<close> is \<^verbatim>\<open>controllerutil.CreateOrUpdate\<close>: the object it was given, the
  mutate function, and the object afterwards or the error.  It is logged as one call, although the
  library gets the object and then creates or updates it: what other clients do in between shows in the
  answer, as a conflict or as an object that exists already.
\<close>

datatype kcall =
    GetBackup string string "goerror + Backup" \<comment> \<open>namespace, name, answer\<close>
  | GetRestore string string "goerror + Restore"
  | GetSecret string string "goerror + secret"
  | GetConfigMap string string "goerror + configmap"
  | GetPVC string string "goerror + pvc"
  | GetDeployment string string "goerror + deployment"
  | GetCronJob string string "goerror + cronjob"
  | ListJobs string strmap "goerror + job list" \<comment> \<open>namespace, labels, answer\<close>
  | ApplyConfigMap configmap "configmap \<Rightarrow> goerror + configmap" "goerror + configmap"
  | ApplyPVC pvc "pvc \<Rightarrow> goerror + pvc" "goerror + pvc"
  | ApplyDeployment deployment "deployment \<Rightarrow> goerror + deployment" "goerror + deployment"
  | ApplyCronJob cronjob "cronjob \<Rightarrow> goerror + cronjob" "goerror + cronjob"
  | DeleteConfigMap configmap "goerror option"
  | DeleteCronJob cronjob "goerror option"
  | DeleteDeployment deployment "goerror option"
  | UpdateBackupStatus Backup "goerror option"
  | UpdateRestoreStatus Restore "goerror option"
  | RecordEvent objectmeta string string string \<comment> \<open>object, type, reason, message\<close>

type_synonym history = "kcall list"
type_synonym 'a kprog = "(history, 'a) state"

record client =
  cl_GetBackup :: "history \<Rightarrow> string \<Rightarrow> string \<Rightarrow> goerror + Backup"
  cl_GetRestore :: "history \<Rightarrow> string \<Rightarrow> string \<Rightarrow> goerror + Restore"
  cl_GetSecret :: "history \<Rightarrow> string \<Rightarrow> string \<Rightarrow> goerror + secret"
  cl_GetConfigMap :: "history \<Rightarrow> string \<Rightarrow> string \<Rightarrow> goerror + configmap"
  cl_GetPVC :: "history \<Rightarrow> string \<Rightarrow> string \<Rightarrow> goerror + pvc"
  cl_GetDeployment :: "history \<Rightarrow> string \<Rightarrow> string \<Rightarrow> goerror + deployment"
  cl_GetCronJob :: "history \<Rightarrow> string \<Rightarrow> string \<Rightarrow> goerror + cronjob"
  cl_ListJobs :: "history \<Rightarrow> string \<Rightarrow> strmap \<Rightarrow> goerror + job list"
  cl_ApplyConfigMap :: "history \<Rightarrow> configmap \<Rightarrow> (configmap \<Rightarrow> goerror + configmap) \<Rightarrow> goerror + configmap"
  cl_ApplyPVC :: "history \<Rightarrow> pvc \<Rightarrow> (pvc \<Rightarrow> goerror + pvc) \<Rightarrow> goerror + pvc"
  cl_ApplyDeployment ::
    "history \<Rightarrow> deployment \<Rightarrow> (deployment \<Rightarrow> goerror + deployment) \<Rightarrow> goerror + deployment"
  cl_ApplyCronJob :: "history \<Rightarrow> cronjob \<Rightarrow> (cronjob \<Rightarrow> goerror + cronjob) \<Rightarrow> goerror + cronjob"
  cl_DeleteConfigMap :: "history \<Rightarrow> configmap \<Rightarrow> goerror option"
  cl_DeleteCronJob :: "history \<Rightarrow> cronjob \<Rightarrow> goerror option"
  cl_DeleteDeployment :: "history \<Rightarrow> deployment \<Rightarrow> goerror option"
  cl_UpdateBackupStatus :: "history \<Rightarrow> Backup \<Rightarrow> goerror option"
  cl_UpdateRestoreStatus :: "history \<Rightarrow> Restore \<Rightarrow> goerror option"

definition get_Backup :: "client \<Rightarrow> string \<Rightarrow> string \<Rightarrow> (goerror + Backup) kprog" where
  "get_Backup c ns n = call (\<lambda>h. cl_GetBackup c h ns n) (GetBackup ns n)"
definition get_Restore :: "client \<Rightarrow> string \<Rightarrow> string \<Rightarrow> (goerror + Restore) kprog" where
  "get_Restore c ns n = call (\<lambda>h. cl_GetRestore c h ns n) (GetRestore ns n)"
definition get_Secret :: "client \<Rightarrow> string \<Rightarrow> string \<Rightarrow> (goerror + secret) kprog" where
  "get_Secret c ns n = call (\<lambda>h. cl_GetSecret c h ns n) (GetSecret ns n)"
definition get_ConfigMap :: "client \<Rightarrow> string \<Rightarrow> string \<Rightarrow> (goerror + configmap) kprog" where
  "get_ConfigMap c ns n = call (\<lambda>h. cl_GetConfigMap c h ns n) (GetConfigMap ns n)"
definition get_PVC :: "client \<Rightarrow> string \<Rightarrow> string \<Rightarrow> (goerror + pvc) kprog" where
  "get_PVC c ns n = call (\<lambda>h. cl_GetPVC c h ns n) (GetPVC ns n)"
definition get_Deployment :: "client \<Rightarrow> string \<Rightarrow> string \<Rightarrow> (goerror + deployment) kprog" where
  "get_Deployment c ns n = call (\<lambda>h. cl_GetDeployment c h ns n) (GetDeployment ns n)"
definition get_CronJob :: "client \<Rightarrow> string \<Rightarrow> string \<Rightarrow> (goerror + cronjob) kprog" where
  "get_CronJob c ns n = call (\<lambda>h. cl_GetCronJob c h ns n) (GetCronJob ns n)"
definition list_Jobs :: "client \<Rightarrow> string \<Rightarrow> strmap \<Rightarrow> (goerror + job list) kprog" where
  "list_Jobs c ns sel = call (\<lambda>h. cl_ListJobs c h ns sel) (ListJobs ns sel)"
definition apply_ConfigMap ::
  "client \<Rightarrow> configmap \<Rightarrow> (configmap \<Rightarrow> goerror + configmap) \<Rightarrow> (goerror + configmap) kprog" where
  "apply_ConfigMap c x f = call (\<lambda>h. cl_ApplyConfigMap c h x f) (ApplyConfigMap x f)"
definition apply_PVC :: "client \<Rightarrow> pvc \<Rightarrow> (pvc \<Rightarrow> goerror + pvc) \<Rightarrow> (goerror + pvc) kprog" where
  "apply_PVC c x f = call (\<lambda>h. cl_ApplyPVC c h x f) (ApplyPVC x f)"
definition apply_Deployment ::
  "client \<Rightarrow> deployment \<Rightarrow> (deployment \<Rightarrow> goerror + deployment) \<Rightarrow> (goerror + deployment) kprog" where
  "apply_Deployment c x f = call (\<lambda>h. cl_ApplyDeployment c h x f) (ApplyDeployment x f)"
definition apply_CronJob ::
  "client \<Rightarrow> cronjob \<Rightarrow> (cronjob \<Rightarrow> goerror + cronjob) \<Rightarrow> (goerror + cronjob) kprog" where
  "apply_CronJob c x f = call (\<lambda>h. cl_ApplyCronJob c h x f) (ApplyCronJob x f)"
definition delete_ConfigMap :: "client \<Rightarrow> configmap \<Rightarrow> goerror option kprog" where
  "delete_ConfigMap c x = call (\<lambda>h. cl_DeleteConfigMap c h x) (DeleteConfigMap x)"
definition delete_CronJob :: "client \<Rightarrow> cronjob \<Rightarrow> goerror option kprog" where
  "delete_CronJob c x = call (\<lambda>h. cl_DeleteCronJob c h x) (DeleteCronJob x)"
definition delete_Deployment :: "client \<Rightarrow> deployment \<Rightarrow> goerror option kprog" where
  "delete_Deployment c x = call (\<lambda>h. cl_DeleteDeployment c h x) (DeleteDeployment x)"
definition update_BackupStatus :: "client \<Rightarrow> Backup \<Rightarrow> goerror option kprog" where
  "update_BackupStatus c b = call (\<lambda>h. cl_UpdateBackupStatus c h b) (UpdateBackupStatus b)"
definition update_RestoreStatus :: "client \<Rightarrow> Restore \<Rightarrow> goerror option kprog" where
  "update_RestoreStatus c r = call (\<lambda>h. cl_UpdateRestoreStatus c h r) (UpdateRestoreStatus r)"
definition record_Event :: "objectmeta \<Rightarrow> string \<Rightarrow> string \<Rightarrow> string \<Rightarrow> unit kprog" where
  "record_Event obj ty reason message = call (\<lambda>h. ()) (\<lambda>_. RecordEvent obj ty reason message)"

lemmas client_defs = get_Backup_def get_Restore_def get_Secret_def get_ConfigMap_def get_PVC_def
  get_Deployment_def get_CronJob_def list_Jobs_def apply_ConfigMap_def apply_PVC_def
  apply_Deployment_def apply_CronJob_def delete_ConfigMap_def delete_CronJob_def
  delete_Deployment_def update_BackupStatus_def update_RestoreStatus_def record_Event_def

lemma appends_client [simp]:
  "appends (get_Backup c ns n)" "appends (get_Restore c ns n)" "appends (get_Secret c ns n)"
  "appends (get_ConfigMap c ns n)" "appends (get_PVC c ns n)" "appends (get_Deployment c ns n)"
  "appends (get_CronJob c ns n)" "appends (list_Jobs c ns sel)" "appends (apply_ConfigMap c cm fc)"
  "appends (apply_PVC c pv fp)" "appends (apply_Deployment c d fd)" "appends (apply_CronJob c cj fj)"
  "appends (delete_ConfigMap c cm)" "appends (delete_CronJob c cj)" "appends (delete_Deployment c d)"
  "appends (update_BackupStatus c b)" "appends (update_RestoreStatus c r)"
  "appends (record_Event m ty reason msg)"
  by (simp_all add: client_defs)

section \<open>Classes of calls\<close>

fun is_apply :: "kcall \<Rightarrow> bool" where
  "is_apply (ApplyConfigMap x f r) = True" | "is_apply (ApplyPVC x f r) = True"
| "is_apply (ApplyDeployment x f r) = True" | "is_apply (ApplyCronJob x f r) = True"
| "is_apply c = False"

fun is_status_update :: "kcall \<Rightarrow> bool" where
  "is_status_update (UpdateBackupStatus b r) = True" | "is_status_update (UpdateRestoreStatus x r) = True"
| "is_status_update c = False"

text \<open>The metadata of a deleted object.\<close>

fun deleted_meta :: "kcall \<Rightarrow> objectmeta option" where
  "deleted_meta (DeleteConfigMap x r) = Some (cm_Meta x)"
| "deleted_meta (DeleteCronJob x r) = Some (cj_Meta x)"
| "deleted_meta (DeleteDeployment x r) = Some (de_Meta x)"
| "deleted_meta c = None"

text \<open>The error a write was answered with.\<close>

fun apply_error :: "kcall \<Rightarrow> goerror option" where
  "apply_error (ApplyConfigMap x f r) = err_of r" | "apply_error (ApplyPVC x f p) = err_of p"
| "apply_error (ApplyDeployment x f d) = err_of d" | "apply_error (ApplyCronJob x f j) = err_of j"
| "apply_error c = None"

lemma apply_error_is_apply: "apply_error k = Some e \<Longrightarrow> is_apply k"
  by (cases k) auto

end
