(* ===== verification/Owned.thy ===== *)
theory Owned
  imports Kube_Client
begin

text \<open>
  \<^verbatim>\<open>internal/controller/owned.go\<close> and \<^verbatim>\<open>lastJobStatus\<close> of \<^verbatim>\<open>last_job.go\<close>: applying
  the objects a resource owns, cleaning up what it no longer needs, and the treatment of write
  conflicts.
\<close>

section \<open>Results and errors\<close>

text \<open>A \<^verbatim>\<open>ctrl.Result\<close>: after how many nanoseconds to reconcile again, 0 for never.\<close>

record ctrlResult =
  res_RequeueAfter :: int

definition Result_zero :: ctrlResult where "Result_zero = \<lparr>res_RequeueAfter = 0\<rparr>"

definition time_Second :: int where [go_const]: "time_Second = 1000000000"
definition secretRequeue :: int where [go_const]: "secretRequeue = 30 * time_Second"
definition sourceRequeue :: int where [go_const]: "sourceRequeue = 30 * time_Second"
definition holderRequeue :: int where [go_const]: "holderRequeue = 10 * time_Second"
definition conflictRequeue :: int where [go_const]: "conflictRequeue = time_Second"

fun ownedReason :: "goerror \<Rightarrow> string" where
  "ownedReason (OwnedApplyError reason e) = reason"
| "ownedReason (WrapError pre e) = ownedReason e"
| "ownedReason e = ''OwnedResourceError''"

definition requeueOnConflict ::
  "k8slib \<Rightarrow> ctrlResult \<times> goerror option \<Rightarrow> ctrlResult \<times> goerror option" where
  "requeueOnConflict K re =
     (case re of
        (res, Some err) \<Rightarrow>
          if apierrors_IsConflict K err then (\<lparr>res_RequeueAfter = conflictRequeue\<rparr>, None) else (res, Some err)
      | (res, None) \<Rightarrow> (res, None))"

definition applyOwnedError :: "string \<Rightarrow> goerror option \<Rightarrow> goerror option" where
  "applyOwnedError reason err =
     (case err of None \<Rightarrow> None | Some e \<Rightarrow> Some (OwnedApplyError reason e))"

section \<open>Applying what a resource owns\<close>

text \<open>
  The owner is its metadata and, for the scheme's lookup, the kind of its Go type.
\<close>

record ownedResources =
  ow_Owner :: objectmeta
  ow_Kind :: string
  ow_Name :: string
  ow_Persistence :: "PersistenceSpec option"
  ow_Labels :: strmap
  ow_VolumeHolder :: bool
  ow_HolderName :: string
  ow_MutateConfigMap :: "configmap \<Rightarrow> configmap \<times> goerror option"
  ow_MutateCronJob :: "cronjob \<Rightarrow> cronjob option" \<comment> \<open>\<^const>\<open>None\<close> is a panic\<close>
  ow_MutateVolumeHolder :: "deployment \<Rightarrow> deployment"

text \<open>The fresh objects, with a name and a namespace only.\<close>

definition newConfigMap :: "string \<Rightarrow> string \<Rightarrow> configmap" where
  "newConfigMap name ns = \<lparr>cm_Meta = named_meta name ns, cm_Data = Map.empty\<rparr>"
definition newPVC :: "string \<Rightarrow> string \<Rightarrow> pvc" where
  "newPVC name ns = \<lparr>pvc_Meta = named_meta name ns,
     pvc_Spec = \<lparr>pv_AccessModes = [], pv_Requests = Map.empty, pv_StorageClassName = None\<rparr>\<rparr>"
definition newDeployment :: "string \<Rightarrow> string \<Rightarrow> deployment" where
  "newDeployment name ns = \<lparr>de_Meta = named_meta name ns, de_Spec = None, de_AvailableReplicas = 0\<rparr>"
definition newCronJob :: "string \<Rightarrow> string \<Rightarrow> cronjob" where
  "newCronJob name ns = \<lparr>cj_Meta = named_meta name ns, cj_Spec = None,
     cj_Status = \<lparr>cst_LastScheduleTime = None, cst_LastSuccessfulTime = None\<rparr>\<rparr>"

text \<open>
  The four mutate functions handed to \<^verbatim>\<open>CreateOrUpdate\<close>, each ending in \<^verbatim>\<open>setOwner\<close>.  A
  panic inside one unwinds through \<^verbatim>\<open>CreateOrUpdate\<close>; the mutators of both reconcilers never
  panic, so it is an error value here.
\<close>

definition configMapFn :: "k8slib \<Rightarrow> ownedResources \<Rightarrow> configmap \<Rightarrow> goerror + configmap" where
  "configMapFn K spec cm =
     (case ow_MutateConfigMap spec cm of
        (_, Some err) \<Rightarrow> Inl err
      | (cm', None) \<Rightarrow>
          (case controllerutil_SetControllerReference K (ow_Kind spec) (ow_Owner spec) (cm_Meta cm') of
             Inl err \<Rightarrow> Inl err
           | Inr m \<Rightarrow> Inr (cm'\<lparr>cm_Meta := m\<rparr>)))"

definition pvcFn :: "k8slib \<Rightarrow> ownedResources \<Rightarrow> pvc \<Rightarrow> goerror + pvc" where
  "pvcFn K spec claim =
     (let claim' =
        (if \<not> time_IsZero (om_CreationTimestamp (pvc_Meta claim))
         then ExpandPVC K (claim\<lparr>pvc_Meta := (pvc_Meta claim)\<lparr>om_Labels := ow_Labels spec\<rparr>\<rparr>) (ow_Persistence spec)
         else MutatePVC K claim (ow_Persistence spec) (ow_Labels spec))
      in case controllerutil_SetControllerReference K (ow_Kind spec) (ow_Owner spec) (pvc_Meta claim') of
           Inl err \<Rightarrow> Inl err
         | Inr m \<Rightarrow> Inr (claim'\<lparr>pvc_Meta := m\<rparr>))"

definition holderFn :: "k8slib \<Rightarrow> ownedResources \<Rightarrow> deployment \<Rightarrow> goerror + deployment" where
  "holderFn K spec deploy =
     (let deploy' = ow_MutateVolumeHolder spec deploy in
      case controllerutil_SetControllerReference K (ow_Kind spec) (ow_Owner spec) (de_Meta deploy') of
        Inl err \<Rightarrow> Inl err
      | Inr m \<Rightarrow> Inr (deploy'\<lparr>de_Meta := m\<rparr>))"

definition cronJobFn :: "k8slib \<Rightarrow> ownedResources \<Rightarrow> cronjob \<Rightarrow> goerror + cronjob" where
  "cronJobFn K spec cj =
     (case ow_MutateCronJob spec cj of
        None \<Rightarrow> Inl (ErrorString ''panic'')
      | Some cj' \<Rightarrow>
          (case controllerutil_SetControllerReference K (ow_Kind spec) (ow_Owner spec) (cj_Meta cj') of
             Inl err \<Rightarrow> Inl err
           | Inr m \<Rightarrow> Inr (cj'\<lparr>cj_Meta := m\<rparr>)))"

text \<open>
  \<^verbatim>\<open>deleteIfController\<close> for one kind of object: how to get it, its metadata, how to delete it.
  The result is the error, or whether the object was deleted.
\<close>

definition ignoreNotFound :: "k8slib \<Rightarrow> goerror \<Rightarrow> goerror + bool" where
  "ignoreNotFound K e = (case client_IgnoreNotFound K e of None \<Rightarrow> Inr False | Some err \<Rightarrow> Inl err)"

definition deleteIfController ::
  "k8slib \<Rightarrow> objectmeta \<Rightarrow> (goerror + 'o) kprog \<Rightarrow> ('o \<Rightarrow> objectmeta) \<Rightarrow>
     ('o \<Rightarrow> goerror option kprog) \<Rightarrow> (goerror + bool) kprog" where
  "deleteIfController K owner get metaOf del = do {
     r \<leftarrow> get;
     case r of
       Inl err \<Rightarrow> State_Monad.return (ignoreNotFound K err)
     | Inr obj \<Rightarrow>
         if \<not> metav1_IsControlledBy K (metaOf obj) owner then State_Monad.return (Inr False)
         else do {
           e \<leftarrow> del obj;
           State_Monad.return (case e of Some err \<Rightarrow> ignoreNotFound K err | None \<Rightarrow> Inr True)
         }
   }"

definition ensureOwned :: "k8slib \<Rightarrow> client \<Rightarrow> ownedResources \<Rightarrow> (goerror + cronjob) kprog" where
  "ensureOwned K c spec = do {
     let ns = om_Namespace (ow_Owner spec);
     cm \<leftarrow> apply_ConfigMap c (newConfigMap (ow_Name spec) ns) (configMapFn K spec);
     case applyOwnedError ''ConfigMapError'' (err_of cm) of
       Some err \<Rightarrow> State_Monad.return (Inl err)
     | None \<Rightarrow> do {
         pvcErr \<leftarrow>
           (if PersistenceEnabled (ow_Persistence spec) then do {
              p \<leftarrow> apply_PVC c (newPVC (ow_Name spec) ns) (pvcFn K spec);
              State_Monad.return (applyOwnedError ''PVCError'' (err_of p))
            } else State_Monad.return None);
         case pvcErr of
           Some err \<Rightarrow> State_Monad.return (Inl err)
         | None \<Rightarrow> do {
             holderErr \<leftarrow>
               (if ow_VolumeHolder spec then do {
                  d \<leftarrow> apply_Deployment c (newDeployment (ow_HolderName spec) ns) (holderFn K spec);
                  State_Monad.return (applyOwnedError ''VolumeHolderError'' (err_of d))
                } else if ow_HolderName spec \<noteq> [] then do {
                  d \<leftarrow> deleteIfController K (ow_Owner spec)
                    (get_Deployment c ns (ow_HolderName spec)) de_Meta (delete_Deployment c);
                  State_Monad.return (applyOwnedError ''VolumeHolderCleanupError'' (err_of d))
                } else State_Monad.return None);
             case holderErr of
               Some err \<Rightarrow> State_Monad.return (Inl err)
             | None \<Rightarrow> do {
                 cj \<leftarrow> apply_CronJob c (newCronJob (ow_Name spec) ns) (cronJobFn K spec);
                 State_Monad.return
                   (case applyOwnedError ''CronJobError'' (err_of cj) of Some err \<Rightarrow> Inl err | None \<Rightarrow> cj)
               }
           }
       }
   }"

text \<open>The log lines of the source are not modelled; the read of the legacy PVC is.\<close>

definition deleteLegacyOwned ::
  "k8slib \<Rightarrow> client \<Rightarrow> objectmeta \<Rightarrow> string \<Rightarrow> goerror option kprog" where
  "deleteLegacyOwned K c owner currentName = do {
     let legacy = LegacyOwnedName (om_Name owner);
     if legacy = currentName then State_Monad.return None
     else do {
       let ns = om_Namespace owner;
       cmDeleted \<leftarrow> deleteIfController K owner (get_ConfigMap c ns legacy) cm_Meta (delete_ConfigMap c);
       case cmDeleted of
         Inl err \<Rightarrow> State_Monad.return (Some err)
       | Inr _ \<Rightarrow> do {
           cjDeleted \<leftarrow> deleteIfController K owner (get_CronJob c ns legacy) cj_Meta (delete_CronJob c);
           case cjDeleted of
             Inl err \<Rightarrow> State_Monad.return (Some err)
           | Inr _ \<Rightarrow> do {
               _ \<leftarrow> get_PVC c ns legacy;
               State_Monad.return None
             }
         }
     }
   }"

definition volumeHolderAvailable :: "deployment \<Rightarrow> bool" where
  "volumeHolderAvailable deploy = (de_AvailableReplicas deploy \<ge> 1)"

definition lastJobStatus ::
  "client \<Rightarrow> string \<Rightarrow> string \<Rightarrow> string \<Rightarrow> string \<Rightarrow> LastJobStatus option kprog" where
  "lastJobStatus c namespace nameLabel name kind = do {
     jobs \<leftarrow> list_Jobs c namespace (lastJobSelector nameLabel name kind);
     State_Monad.return
       (case jobs of
          Inl _ \<Rightarrow> None
        | Inr js \<Rightarrow> Summarize (LastFinished js namespace nameLabel name kind))
   }"

lemma appends_deleteIfController [simp]:
  "appends get \<Longrightarrow> (\<And>x. appends (del x)) \<Longrightarrow> appends (deleteIfController K owner get metaOf del)"
  by (simp add: deleteIfController_def)

lemma appends_ensureOwned [simp]: "appends (ensureOwned K c spec)"
  by (simp add: ensureOwned_def)

lemma appends_deleteLegacyOwned [simp]: "appends (deleteLegacyOwned K c owner cur)"
  by (simp add: deleteLegacyOwned_def)

lemma appends_lastJobStatus [simp]: "appends (lastJobStatus c ns l n k)"
  by (simp add: lastJobStatus_def)

section \<open>The contract of a deletable kind\<close>

text \<open>
  A kind of object the operator can get and delete: the two programs are single calls, the log
  entry of a get deletes nothing and the one of a delete carries the object's metadata.
\<close>

locale deletable_kind =
  fixes get :: "(goerror + 'o) kprog"
    and metaOf :: "'o \<Rightarrow> objectmeta"
    and del :: "'o \<Rightarrow> goerror option kprog"
    and got :: "goerror + 'o \<Rightarrow> kcall"
    and deleted :: "'o \<Rightarrow> goerror option \<Rightarrow> kcall"
  assumes get_call: "\<exists>answer. get = call answer got"
    and del_call: "\<exists>answer. del x = call answer (deleted x)"
    and got_meta: "deleted_meta (got r) = None"
    and deleted_meta_of: "deleted_meta (deleted x e) = Some (metaOf x)"
begin

lemma appends_get: "appends get" and appends_del: "appends (del x)"
  using get_call del_call appends_call by metis+

text \<open>A run of \<^verbatim>\<open>deleteIfController\<close>: the calls it makes and what it returns.\<close>

definition delete_run :: "k8slib \<Rightarrow> objectmeta \<Rightarrow> history \<Rightarrow> goerror + bool \<Rightarrow> bool" where
  "delete_run K owner cs res \<longleftrightarrow>
     (\<exists>e. cs = [got (Inl e)] \<and> res = ignoreNotFound K e) \<or>
     (\<exists>x. cs = [got (Inr x)] \<and> \<not> metav1_IsControlledBy K (metaOf x) owner \<and> res = Inr False) \<or>
     (\<exists>x e. cs = [got (Inr x), deleted x e] \<and> metav1_IsControlledBy K (metaOf x) owner \<and>
        res = (case e of Some err \<Rightarrow> ignoreNotFound K err | None \<Rightarrow> Inr True))"

lemma deleteIfController_runs:
  "does (deleteIfController K owner get metaOf del) h (delete_run K owner)"
proof -
  obtain a where a: "get = call a got" using get_call by blast
  have d: "\<exists>b. del x = call b (deleted x)" for x using del_call by blast
  show ?thesis
  proof (cases "a h")
    case (Inl e)
    then show ?thesis
      by (auto simp: deleteIfController_def a run_simps appends_del delete_run_def)
  next
    case (Inr x)
    obtain b where b: "del x = call b (deleted x)" using d by blast
    show ?thesis
      by (auto simp: deleteIfController_def a b Inr run_simps appends_del delete_run_def)
  qed
qed

text \<open>What is deleted is controlled by the owner and was just read.\<close>

lemma delete_run_safe:
  "delete_run K owner cs res \<Longrightarrow> k \<in> set cs \<Longrightarrow> deleted_meta k = Some m \<Longrightarrow>
   metav1_IsControlledBy K m owner \<and> (\<exists>x. metaOf x = m \<and> got (Inr x) \<in> set cs)"
  by (fastforce simp: delete_run_def got_meta deleted_meta_of)

end

interpretation configmap_kind: deletable_kind "get_ConfigMap c ns n" cm_Meta "delete_ConfigMap c"
  "GetConfigMap ns n" DeleteConfigMap for c ns n
  by unfold_locales (auto simp: client_defs)

interpretation cronjob_kind: deletable_kind "get_CronJob c ns n" cj_Meta "delete_CronJob c"
  "GetCronJob ns n" DeleteCronJob for c ns n
  by unfold_locales (auto simp: client_defs)

interpretation deployment_kind: deletable_kind "get_Deployment c ns n" de_Meta "delete_Deployment c"
  "GetDeployment ns n" DeleteDeployment for c ns n
  by unfold_locales (auto simp: client_defs)

section \<open>The calls of ensureOwned\<close>

abbreviation applied_cm :: "k8slib \<Rightarrow> ownedResources \<Rightarrow> goerror + configmap \<Rightarrow> kcall" where
  "applied_cm K spec r \<equiv>
     ApplyConfigMap (newConfigMap (ow_Name spec) (om_Namespace (ow_Owner spec))) (configMapFn K spec) r"

abbreviation applied_pvc :: "k8slib \<Rightarrow> ownedResources \<Rightarrow> goerror + pvc \<Rightarrow> kcall" where
  "applied_pvc K spec r \<equiv>
     ApplyPVC (newPVC (ow_Name spec) (om_Namespace (ow_Owner spec))) (pvcFn K spec) r"

abbreviation applied_holder :: "k8slib \<Rightarrow> ownedResources \<Rightarrow> goerror + deployment \<Rightarrow> kcall" where
  "applied_holder K spec r \<equiv>
     ApplyDeployment (newDeployment (ow_HolderName spec) (om_Namespace (ow_Owner spec))) (holderFn K spec) r"

abbreviation applied_cj :: "k8slib \<Rightarrow> ownedResources \<Rightarrow> goerror + cronjob \<Rightarrow> kcall" where
  "applied_cj K spec r \<equiv>
     ApplyCronJob (newCronJob (ow_Name spec) (om_Namespace (ow_Owner spec))) (cronJobFn K spec) r"

text \<open>The part of the holder: applied when it is needed, cleaned up when it is not.\<close>

definition holder_calls :: "k8slib \<Rightarrow> ownedResources \<Rightarrow> history \<Rightarrow> goerror option \<Rightarrow> bool" where
  "holder_calls K spec cs err \<longleftrightarrow>
     (let ns = om_Namespace (ow_Owner spec); n = ow_HolderName spec in
      if ow_VolumeHolder spec then
        \<exists>d. cs = [applied_holder K spec d] \<and>
          err = applyOwnedError ''VolumeHolderError'' (err_of d)
      else if n = [] then cs = [] \<and> err = None
      else \<exists>r. deployment_kind.delete_run ns n K (ow_Owner spec) cs r \<and>
          err = applyOwnedError ''VolumeHolderCleanupError'' (err_of r))"

definition pvc_calls :: "k8slib \<Rightarrow> ownedResources \<Rightarrow> history \<Rightarrow> goerror option \<Rightarrow> bool" where
  "pvc_calls K spec cs err \<longleftrightarrow>
     (if PersistenceEnabled (ow_Persistence spec) then
        \<exists>p. cs = [applied_pvc K spec p] \<and>
          err = applyOwnedError ''PVCError'' (err_of p)
      else cs = [] \<and> err = None)"

text \<open>The four ways a run of \<^verbatim>\<open>ensureOwned\<close> can go.\<close>

inductive owned_run :: "k8slib \<Rightarrow> ownedResources \<Rightarrow> history \<Rightarrow> goerror + cronjob \<Rightarrow> bool"
  for K spec where
  configmap_fails:
    "owned_run K spec [applied_cm K spec (Inl e)]
       (Inl (OwnedApplyError ''ConfigMapError'' e))"
| pvc_fails:
    "pvc_calls K spec ps (Some e) \<Longrightarrow>
     owned_run K spec (applied_cm K spec (Inr cm) # ps)
       (Inl e)"
| holder_fails:
    "pvc_calls K spec ps None \<Longrightarrow> holder_calls K spec hs (Some e) \<Longrightarrow>
     owned_run K spec (applied_cm K spec (Inr cm) # ps @ hs)
       (Inl e)"
| cronjob_applied:
    "pvc_calls K spec ps None \<Longrightarrow> holder_calls K spec hs None \<Longrightarrow>
     res = (case cj of Inl e \<Rightarrow> Inl (OwnedApplyError ''CronJobError'' e) | Inr x \<Rightarrow> Inr x) \<Longrightarrow>
     owned_run K spec
       (applied_cm K spec (Inr cm) # ps @ hs @
        [applied_cj K spec cj]) res"

lemma applyOwnedError_simps [simp]:
  "applyOwnedError r None = None" "applyOwnedError r (Some e) = Some (OwnedApplyError r e)"
  by (simp_all add: applyOwnedError_def)

lemma applyOwnedError_err_of [simp]:
  "applyOwnedError reason (err_of r) = None \<longleftrightarrow> (\<exists>x. r = Inr x)"
  "None = applyOwnedError reason (err_of r) \<longleftrightarrow> (\<exists>x. r = Inr x)"
  "Some e = applyOwnedError reason (err_of r) \<longleftrightarrow> (\<exists>e'. r = Inl e' \<and> e = OwnedApplyError reason e')"
  by (cases r; auto)+

lemma pvc_part:
  "does (if PersistenceEnabled (ow_Persistence spec) then do {
           p \<leftarrow> apply_PVC c (newPVC (ow_Name spec) (om_Namespace (ow_Owner spec))) (pvcFn K spec);
           State_Monad.return (applyOwnedError ''PVCError'' (err_of p))
         } else State_Monad.return None) h (pvc_calls K spec)"
  by (auto simp: run_simps client_defs pvc_calls_def)

lemma holder_part:
  "does (if ow_VolumeHolder spec then do {
           d \<leftarrow> apply_Deployment c (newDeployment (ow_HolderName spec) (om_Namespace (ow_Owner spec))) (holderFn K spec);
           State_Monad.return (applyOwnedError ''VolumeHolderError'' (err_of d))
         } else if ow_HolderName spec \<noteq> [] then do {
           d \<leftarrow> deleteIfController K (ow_Owner spec)
             (get_Deployment c (om_Namespace (ow_Owner spec)) (ow_HolderName spec)) de_Meta (delete_Deployment c);
           State_Monad.return (applyOwnedError ''VolumeHolderCleanupError'' (err_of d))
         } else State_Monad.return None) h (holder_calls K spec)"
proof (cases "\<not> ow_VolumeHolder spec \<and> ow_HolderName spec \<noteq> []")
  case True
  have "does (do {
      d \<leftarrow> deleteIfController K (ow_Owner spec)
        (get_Deployment c (om_Namespace (ow_Owner spec)) (ow_HolderName spec)) de_Meta (delete_Deployment c);
      State_Monad.return (applyOwnedError ''VolumeHolderCleanupError'' (err_of d))
    }) h (holder_calls K spec)"
    using True
    by (intro does_bindI [OF _ _ deployment_kind.deleteIfController_runs])
      (auto simp: run_simps holder_calls_def Let_def)
  with True show ?thesis by simp
next
  case False
  then show ?thesis by (auto simp: run_simps client_defs holder_calls_def Let_def)
qed

lemma ensureOwned_runs: "does (ensureOwned K c spec) h (owned_run K spec)"
  unfolding ensureOwned_def Let_def
proof (rule does_bindI [where P = "\<lambda>cs r. cs = [applied_cm K spec r]"], goal_cases)
  case (4 cs cm)
  show ?case
  proof (cases cm)
    case (Inl e)
    with 4 show ?thesis by (simp add: run_simps owned_run.configmap_fails)
  next
    case (Inr x)
    show ?thesis
      unfolding 4 Inr err_of_simps applyOwnedError_simps option.case
    proof (rule does_bindI [OF _ _ pvc_part], goal_cases)
      case (3 ps pe)
      show ?case
      proof (cases pe)
        case None
        show ?thesis
          unfolding None option.case
        proof (rule does_bindI [OF _ _ holder_part], goal_cases)
          case (3 hs he)
          show ?case
          proof (cases he)
            case None
            with \<open>pvc_calls K spec ps pe\<close> \<open>pe = None\<close> 3 show ?thesis
              by (auto simp: run_simps client_defs intro!: owned_run.cronjob_applied [simplified] split: sum.split)
          next
            case (Some e)
            with \<open>pvc_calls K spec ps pe\<close> \<open>pe = None\<close> 3 show ?thesis
              by (simp add: run_simps owned_run.holder_fails)
          qed
        qed simp_all
      next
        case (Some e)
        with 3 show ?thesis by (simp add: run_simps owned_run.pvc_fails)
      qed
    qed simp_all
  qed
qed (simp_all add: run_simps client_defs)

section \<open>The calls of deleteLegacyOwned\<close>

text \<open>The legacy ConfigMap, then the legacy CronJob, then a look at the legacy claim.\<close>

inductive legacy_run :: "k8slib \<Rightarrow> objectmeta \<Rightarrow> string \<Rightarrow> history \<Rightarrow> goerror option \<Rightarrow> bool"
  for K owner cur where
  same_name: "LegacyOwnedName (om_Name owner) = cur \<Longrightarrow> legacy_run K owner cur [] None"
| configmap_fails:
    "configmap_kind.delete_run (om_Namespace owner) (LegacyOwnedName (om_Name owner)) K owner cs (Inl e) \<Longrightarrow>
     legacy_run K owner cur cs (Some e)"
| cronjob_fails:
    "configmap_kind.delete_run (om_Namespace owner) (LegacyOwnedName (om_Name owner)) K owner cs (Inr b) \<Longrightarrow>
     cronjob_kind.delete_run (om_Namespace owner) (LegacyOwnedName (om_Name owner)) K owner ds (Inl e) \<Longrightarrow>
     legacy_run K owner cur (cs @ ds) (Some e)"
| cleaned:
    "configmap_kind.delete_run (om_Namespace owner) (LegacyOwnedName (om_Name owner)) K owner cs (Inr b) \<Longrightarrow>
     cronjob_kind.delete_run (om_Namespace owner) (LegacyOwnedName (om_Name owner)) K owner ds (Inr d) \<Longrightarrow>
     legacy_run K owner cur (cs @ ds @ [GetPVC (om_Namespace owner) (LegacyOwnedName (om_Name owner)) r]) None"

lemma deleteLegacyOwned_runs: "does (deleteLegacyOwned K c owner cur) h (legacy_run K owner cur)"
proof (cases "LegacyOwnedName (om_Name owner) = cur")
  case True
  then show ?thesis by (simp add: deleteLegacyOwned_def run_simps legacy_run.same_name)
next
  case False
  then show ?thesis
    unfolding deleteLegacyOwned_def Let_def if_not_P [OF False]
  proof (intro does_bindI [OF _ _ configmap_kind.deleteIfController_runs], goal_cases)
    case (3 cs r)
    show ?case
    proof (cases r)
      case (Inl e)
      with 3 show ?thesis by (simp add: run_simps legacy_run.configmap_fails)
    next
      case (Inr b)
      show ?thesis
        unfolding Inr sum.case
      proof (intro does_bindI [OF _ _ cronjob_kind.deleteIfController_runs], goal_cases)
        case (3 ds r')
        with \<open>configmap_kind.delete_run _ _ K owner cs r\<close> Inr show ?case
          by (cases r') (auto simp: run_simps client_defs intro: legacy_run.cronjob_fails
              legacy_run.cleaned)
      qed simp_all
    qed
  qed simp_all
qed

section \<open>What a run can do\<close>

lemmas run_defs = holder_calls_def pvc_calls_def Let_def

lemma holder_calls_deletes:
  "holder_calls K spec hs err \<Longrightarrow> k \<in> set hs \<Longrightarrow> deleted_meta k = Some m \<Longrightarrow>
   metav1_IsControlledBy K m (ow_Owner spec)"
  by (auto simp: run_defs split: if_splits dest: deployment_kind.delete_run_safe)

text \<open>Only objects the owner controls are ever deleted, and never a claim.\<close>

lemma owned_run_deletes:
  "owned_run K spec cs res \<Longrightarrow> k \<in> set cs \<Longrightarrow> deleted_meta k = Some m \<Longrightarrow>
   metav1_IsControlledBy K m (ow_Owner spec)"
  by (induction rule: owned_run.induct)
    (auto simp: pvc_calls_def split: if_splits dest: holder_calls_deletes)

lemma legacy_run_deletes:
  "legacy_run K owner cur cs e \<Longrightarrow> k \<in> set cs \<Longrightarrow> deleted_meta k = Some m \<Longrightarrow>
   metav1_IsControlledBy K m owner"
  by (induction rule: legacy_run.induct)
    (auto dest: configmap_kind.delete_run_safe cronjob_kind.delete_run_safe)

lemma delete_runs_no_write:
  "deployment_kind.delete_run ns n K o' cs r \<Longrightarrow> k \<in> set cs \<Longrightarrow> \<not> is_apply k \<and> \<not> is_status_update k"
  "configmap_kind.delete_run ns n K o' cs r2 \<Longrightarrow> k \<in> set cs \<Longrightarrow> \<not> is_apply k \<and> \<not> is_status_update k"
  "cronjob_kind.delete_run ns n K o' cs r3 \<Longrightarrow> k \<in> set cs \<Longrightarrow> \<not> is_apply k \<and> \<not> is_status_update k"
  by (auto simp: deployment_kind.delete_run_def configmap_kind.delete_run_def cronjob_kind.delete_run_def)

lemma holder_calls_no_status: "holder_calls K spec hs err \<Longrightarrow> k \<in> set hs \<Longrightarrow> \<not> is_status_update k"
  by (auto simp: run_defs split: if_splits dest: delete_runs_no_write)

lemma owned_run_no_status: "owned_run K spec cs res \<Longrightarrow> k \<in> set cs \<Longrightarrow> \<not> is_status_update k"
  by (induction rule: owned_run.induct)
    (auto simp: pvc_calls_def split: if_splits dest: holder_calls_no_status)

lemma legacy_run_no_write:
  "legacy_run K owner cur cs e \<Longrightarrow> k \<in> set cs \<Longrightarrow> \<not> is_apply k \<and> \<not> is_status_update k"
  by (induction rule: legacy_run.induct) (auto dest: delete_runs_no_write)

text \<open>An error of a write ends the run and is the error it reports, wrapped.\<close>

lemma holder_calls_error:
  "holder_calls K spec hs err \<Longrightarrow> k \<in> set hs \<Longrightarrow> apply_error k = Some e \<Longrightarrow>
   err = Some (OwnedApplyError ''VolumeHolderError'' e)"
  by (auto simp: run_defs split: if_splits dest: delete_runs_no_write apply_error_is_apply)

lemma pvc_calls_error:
  "pvc_calls K spec ps err \<Longrightarrow> k \<in> set ps \<Longrightarrow> apply_error k = Some e \<Longrightarrow>
   err = Some (OwnedApplyError ''PVCError'' e)"
  by (auto simp: run_defs split: if_splits)

lemma owned_run_error:
  "owned_run K spec cs res \<Longrightarrow> k \<in> set cs \<Longrightarrow> apply_error k = Some e \<Longrightarrow>
   \<exists>reason. res = Inl (OwnedApplyError reason e)"
  by (induction rule: owned_run.induct)
    (auto simp: err_of_def split: sum.splits dest: pvc_calls_error holder_calls_error)

text \<open>Every error of a run is wrapped with the reason the status reports.\<close>

lemma owned_run_reason:
  "owned_run K spec cs (Inl e) \<Longrightarrow>
   \<exists>e'. e = OwnedApplyError (ownedReason e) e' \<and>
     ownedReason e \<in> {''ConfigMapError'', ''PVCError'', ''VolumeHolderError'', ''VolumeHolderCleanupError'', ''CronJobError''}"
  by (cases rule: owned_run.cases)
    (auto simp: run_defs split: if_splits sum.splits)

text \<open>
  A successful run: ConfigMap, claim (when persistence is on), holder and CronJob, in this order, and
  every write succeeded.
\<close>

lemma owned_run_success:
  "owned_run K spec cs (Inr x) \<Longrightarrow>
   \<exists>cm ps hs. cs = applied_cm K spec (Inr cm) # ps @ hs @ [applied_cj K spec (Inr x)] \<and>
     pvc_calls K spec ps None \<and> holder_calls K spec hs None"
  by (cases rule: owned_run.cases) (auto split: sum.splits)

lemma pvc_calls_success:
  "pvc_calls K spec ps None \<longleftrightarrow>
     (if PersistenceEnabled (ow_Persistence spec) then \<exists>p. ps = [applied_pvc K spec (Inr p)] else ps = [])"
  by (auto simp: pvc_calls_def)

lemma holder_calls_success:
  "holder_calls K spec hs None \<Longrightarrow> ow_VolumeHolder spec \<Longrightarrow> \<exists>d. hs = [applied_holder K spec (Inr d)]"
  by (auto simp: holder_calls_def Let_def)

end
