(* ===== verification/Reconciler.thy ===== *)
theory Reconciler
  imports Owned
begin

text \<open>
  What the two reconcilers share: their fields, the arguments of a status update, and the
  description of a run from the owned objects to the final status.  The source has this code twice,
  once per kind; the locale \<^verbatim>\<open>reconciled_kind\<close> states what each copy does and proves the
  consequences once.
\<close>

section \<open>Fields and arguments\<close>

text \<open>
  \<^verbatim>\<open>BackupReconciler\<close> and \<^verbatim>\<open>RestoreReconciler\<close> have the same fields.  The scheme is only
  handed on to the library; of the recorder it matters whether it is nil.
\<close>

record Reconciler =
  rc_Client :: client
  rc_HasRecorder :: bool
  rc_Config :: Config

text \<open>The loop over required keys: the error for the first one missing.\<close>

definition missingKey :: "string \<Rightarrow> secret \<Rightarrow> string list \<Rightarrow> goerror option" where
  "missingKey what s keys =
     (case find (\<lambda>k. se_Data s k = None) keys of
        None \<Rightarrow> None
      | Some k \<Rightarrow> Some (ErrorString (what @ '' '' @ fmt_q (om_Name (se_Meta s)) @ '' is missing key '' @ fmt_q k)))"

text \<open>\<^verbatim>\<open>setStatus\<close> with its arguments in the order of the source.\<close>

definition status_args ::
  "string \<Rightarrow> string \<Rightarrow> string \<Rightarrow> string \<Rightarrow> string \<Rightarrow> cronjob option \<Rightarrow> string \<Rightarrow> status_request" where
  "status_args phase ready reason message eventType cron holderName =
     \<lparr>sr_Phase = phase, sr_Ready = ready, sr_Reason = reason, sr_Message = message,
      sr_EventType = eventType, sr_Cron = cron, sr_HolderName = holderName\<rparr>"

text \<open>
  Returning after a status update: its error if it has one, else the requeue interval (0 where the
  source returns \<^verbatim>\<open>ctrl.Result{}\<close> with the result of \<^verbatim>\<open>setStatus\<close>).
\<close>

definition after_status :: "int \<Rightarrow> goerror option \<Rightarrow> ctrlResult \<times> goerror option" where
  "after_status requeue statusErr =
     (case statusErr of Some e \<Rightarrow> (Result_zero, Some e) | None \<Rightarrow> (\<lparr>res_RequeueAfter = requeue\<rparr>, None))"

lemma missingKey_None: "missingKey what s ks = None \<longleftrightarrow> (\<forall>k\<in>set ks. se_Data s k \<noteq> None)"
  by (auto simp: missingKey_def find_None_iff find_Some_iff split: option.split)

text \<open>The request of a run that ends before anything is applied.\<close>

definition early_request :: "string \<Rightarrow> string \<Rightarrow> string \<Rightarrow> status_request" where
  "early_request phase reason message =
     status_args phase ConditionFalse reason message EventTypeWarning None []"

lemma early_phase [simp]: "sr_Phase (early_request phase reason m) = phase"
  by (simp add: early_request_def status_args_def)

section \<open>Runs of setStatus and fail\<close>

text \<open>
  The calls of one \<^verbatim>\<open>setStatus\<close>: the Jobs are listed, an event is recorded when there is
  a recorder and the event is due, and the status is written when it changed.
\<close>

definition last_job_of :: "string \<Rightarrow> string \<Rightarrow> string \<Rightarrow> string \<Rightarrow> goerror + job list \<Rightarrow> LastJobStatus option" where
  "last_job_of ns nameLabel name kind jobs =
     (case jobs of Inl _ \<Rightarrow> None | Inr js \<Rightarrow> Summarize (LastFinished js ns nameLabel name kind))"

definition status_run ::
  "k8slib \<Rightarrow> bool \<Rightarrow> string \<Rightarrow> string \<Rightarrow> string \<Rightarrow> objectmeta \<Rightarrow> cr_status \<Rightarrow>
     (cr_status \<Rightarrow> goerror option \<Rightarrow> kcall) \<Rightarrow> status_request \<Rightarrow> history \<Rightarrow> goerror option \<Rightarrow> bool" where
  "status_run K hasRecorder condType nameLabel kind meta st update q cs err \<longleftrightarrow>
     (\<exists>jobs. let (st', event, patch) = nextStatus K condType (om_Generation meta) st q
                   (last_job_of (om_Namespace meta) nameLabel (om_Name meta) kind jobs)
             in cs = ListJobs (om_Namespace meta) (lastJobSelector nameLabel (om_Name meta) kind) jobs #
                  (if hasRecorder \<and> event
                   then [RecordEvent meta (sr_EventType q) (sr_Reason q) (sr_Message q)] else []) @
                  (if patch then [update st' err] else []) \<and>
                (patch \<or> err = None))"

text \<open>The request of \<^verbatim>\<open>fail\<close>, and its run: a conflict is passed on without a trace.\<close>

definition fail_request :: "string \<Rightarrow> goerror \<Rightarrow> status_request" where
  "fail_request reason err =
     status_args ''Error'' ConditionFalse reason (error_text err) EventTypeWarning None []"

definition fail_run ::
  "k8slib \<Rightarrow> (status_request \<Rightarrow> history \<Rightarrow> goerror option \<Rightarrow> bool) \<Rightarrow> string \<Rightarrow> goerror \<Rightarrow> history \<Rightarrow>
     goerror option \<Rightarrow> bool" where
  "fail_run K status reason err cs res \<longleftrightarrow>
     (if apierrors_IsConflict K err then cs = [] \<and> res = Some err
      else \<exists>statusErr. status (fail_request reason err) cs statusErr \<and>
             res = (case statusErr of Some e \<Rightarrow> Some e | None \<Rightarrow> Some err))"

section \<open>Runs from the owned objects on\<close>

definition waiting_request :: "ownedResources \<Rightarrow> cronjob \<Rightarrow> status_request" where
  "waiting_request spec cron =
     status_args ''Pending'' ConditionFalse ''VolumeHolderNotReady''
       (''waiting for volume holder Deployment '' @ ow_HolderName spec) EventTypeNormal (Some cron)
       (ow_HolderName spec)"

definition synced_request :: "ownedResources \<Rightarrow> cronjob \<Rightarrow> status_request" where
  "synced_request spec cron =
     status_args ''Ready'' ConditionTrue ''Synced'' (''CronJob '' @ om_Name (cj_Meta cron) @ '' is synced'')
       EventTypeNormal (Some cron) (if ow_VolumeHolder spec then ow_HolderName spec else [])"

inductive finish_run ::
  "k8slib \<Rightarrow> (status_request \<Rightarrow> history \<Rightarrow> goerror option \<Rightarrow> bool) \<Rightarrow> ownedResources \<Rightarrow> cronjob \<Rightarrow> history \<Rightarrow>
     ctrlResult \<times> goerror option \<Rightarrow> bool"
  for K status spec cron where
  holder_unreadable:
    "ow_VolumeHolder spec \<Longrightarrow> fail_run K status ''VolumeHolderError'' e cs err \<Longrightarrow>
     finish_run K status spec cron
       (GetDeployment (om_Namespace (ow_Owner spec)) (ow_HolderName spec) (Inl e) # cs) (Result_zero, err)"
| holder_waiting:
    "ow_VolumeHolder spec \<Longrightarrow> \<not> volumeHolderAvailable d \<Longrightarrow> status (waiting_request spec cron) cs err \<Longrightarrow>
     finish_run K status spec cron
       (GetDeployment (om_Namespace (ow_Owner spec)) (ow_HolderName spec) (Inr d) # cs)
       (after_status holderRequeue err)"
| holder_ready:
    "ow_VolumeHolder spec \<Longrightarrow> volumeHolderAvailable d \<Longrightarrow> status (synced_request spec cron) cs err \<Longrightarrow>
     finish_run K status spec cron
       (GetDeployment (om_Namespace (ow_Owner spec)) (ow_HolderName spec) (Inr d) # cs) (after_status 0 err)"
| no_holder:
    "\<not> ow_VolumeHolder spec \<Longrightarrow> status (synced_request spec cron) cs err \<Longrightarrow>
     finish_run K status spec cron cs (after_status 0 err)"

inductive sync_run ::
  "k8slib \<Rightarrow> (status_request \<Rightarrow> history \<Rightarrow> goerror option \<Rightarrow> bool) \<Rightarrow> ownedResources \<Rightarrow> history \<Rightarrow>
     ctrlResult \<times> goerror option \<Rightarrow> bool"
  for K status spec where
  owned_fails:
    "owned_run K spec cs (Inl e) \<Longrightarrow> fail_run K status (ownedReason e) e ds err \<Longrightarrow>
     sync_run K status spec (cs @ ds) (Result_zero, err)"
| legacy_fails:
    "owned_run K spec cs (Inr cron) \<Longrightarrow> legacy_run K (ow_Owner spec) (ow_Name spec) ls (Some e) \<Longrightarrow>
     fail_run K status ''LegacyCleanupError'' e ds err \<Longrightarrow>
     sync_run K status spec (cs @ ls @ ds) (Result_zero, err)"
| finishes:
    "owned_run K spec cs (Inr cron) \<Longrightarrow> legacy_run K (ow_Owner spec) (ow_Name spec) ls None \<Longrightarrow>
     finish_run K status spec cron fs res \<Longrightarrow>
     sync_run K status spec (cs @ ls @ fs) res"

inductive_cases sync_runE: "sync_run K status spec cs res"
inductive_cases finish_runE: "finish_run K status spec cron cs res"

lemma status_update_harmless: "is_status_update k \<Longrightarrow> deleted_meta k = None \<and> \<not> is_apply k \<and> apply_error k = None"
  by (cases k) auto

text \<open>What must have happened before a resource may be called Ready.\<close>

definition synced_calls :: "k8slib \<Rightarrow> ownedResources \<Rightarrow> cronjob \<Rightarrow> history \<Rightarrow> bool" where
  "synced_calls K spec cron cs \<longleftrightarrow>
     (\<exists>cm. applied_cm K spec (Inr cm) \<in> set cs) \<and>
     (PersistenceEnabled (ow_Persistence spec) \<longrightarrow> (\<exists>p. applied_pvc K spec (Inr p) \<in> set cs)) \<and>
     (ow_VolumeHolder spec \<longrightarrow> (\<exists>d. applied_holder K spec (Inr d) \<in> set cs) \<and>
        (\<exists>d. GetDeployment (om_Namespace (ow_Owner spec)) (ow_HolderName spec) (Inr d) \<in> set cs \<and>
             volumeHolderAvailable d)) \<and>
     applied_cj K spec (Inr cron) \<in> set cs"

lemma owned_run_synced:
  assumes "owned_run K spec cs (Inr cron)"
    and "ow_VolumeHolder spec \<Longrightarrow>
      \<exists>d. GetDeployment (om_Namespace (ow_Owner spec)) (ow_HolderName spec) (Inr d) \<in> set fs \<and> volumeHolderAvailable d"
  shows "synced_calls K spec cron (cs @ ls @ fs)"
proof -
  obtain cm ps hs where cs: "cs = applied_cm K spec (Inr cm) # ps @ hs @ [applied_cj K spec (Inr cron)]"
      and ps: "pvc_calls K spec ps None" and hs: "holder_calls K spec hs None"
    using owned_run_success [OF assms(1)] by blast
  have "PersistenceEnabled (ow_Persistence spec) \<Longrightarrow> \<exists>p. applied_pvc K spec (Inr p) \<in> set cs"
    using ps by (auto simp: cs pvc_calls_success)
  moreover have "ow_VolumeHolder spec \<Longrightarrow> \<exists>d. applied_holder K spec (Inr d) \<in> set cs"
    using holder_calls_success [OF hs] by (auto simp: cs)
  moreover have "applied_cm K spec (Inr cm) \<in> set cs" "applied_cj K spec (Inr cron) \<in> set cs"
    by (simp_all add: cs)
  ultimately show ?thesis using assms(2) by (simp add: synced_calls_def) blast
qed

lemma after_status_simps [simp]:
  "snd (after_status t e) = e" "after_status t None = (\<lparr>res_RequeueAfter = t\<rparr>, None)"
  "after_status t (Some err) = (Result_zero, Some err)"
  by (auto simp: after_status_def split: option.split)

lemma legacy_run_no_error: "legacy_run K owner cur cs e \<Longrightarrow> k \<in> set cs \<Longrightarrow> apply_error k = None"
  using legacy_run_no_write apply_error_is_apply by (cases "apply_error k") blast+

section \<open>What a call may do\<close>

text \<open>
  Calls a reconciler may make for the objects described by \<^verbatim>\<open>spec\<close>: it applies nothing but
  the four objects of the spec, a claim only when persistence is on, a holder only when it is needed,
  and deletes nothing the owner does not control.
\<close>

definition safe_call :: "k8slib \<Rightarrow> ownedResources \<Rightarrow> kcall \<Rightarrow> bool" where
  "safe_call K spec k \<longleftrightarrow>
     (\<forall>m. deleted_meta k = Some m \<longrightarrow> metav1_IsControlledBy K m (ow_Owner spec)) \<and>
     (is_apply k \<longrightarrow>
        (\<exists>r. k = applied_cm K spec r) \<or>
        (\<exists>r. PersistenceEnabled (ow_Persistence spec) \<and> k = applied_pvc K spec r) \<or>
        (\<exists>r. ow_VolumeHolder spec \<and> k = applied_holder K spec r) \<or>
        (\<exists>r. k = applied_cj K spec r))"

lemma owned_run_applies:
  "owned_run K spec cs res \<Longrightarrow> k \<in> set cs \<Longrightarrow> is_apply k \<Longrightarrow>
     (\<exists>r. k = applied_cm K spec r) \<or>
     (\<exists>r. PersistenceEnabled (ow_Persistence spec) \<and> k = applied_pvc K spec r) \<or>
     (\<exists>r. ow_VolumeHolder spec \<and> k = applied_holder K spec r) \<or>
     (\<exists>r. k = applied_cj K spec r)"
  by (induction rule: owned_run.induct)
    (auto simp: run_defs split: if_splits dest: delete_runs_no_write)

lemma owned_run_safe: "owned_run K spec cs res \<Longrightarrow> k \<in> set cs \<Longrightarrow> safe_call K spec k"
  using owned_run_applies owned_run_deletes by (simp add: safe_call_def)

lemma legacy_run_safe:
  "legacy_run K (ow_Owner spec) cur cs e \<Longrightarrow> k \<in> set cs \<Longrightarrow> safe_call K spec k"
  using legacy_run_no_write legacy_run_deletes by (simp add: safe_call_def)

lemma harmless_safe: "deleted_meta k = None \<and> \<not> is_apply k \<and> apply_error k = None \<Longrightarrow> safe_call K spec k"
  by (simp add: safe_call_def)

section \<open>The contract of a reconciled kind\<close>

locale reconciled_kind =
  fixes metaOf :: "'cr \<Rightarrow> objectmeta"
    and statusOf :: "'cr \<Rightarrow> cr_status"
    and condType :: string
    and nameLabel :: string
    and kind :: string
    and update :: "'cr \<Rightarrow> cr_status \<Rightarrow> goerror option \<Rightarrow> kcall"
    and setStatus :: "k8slib \<Rightarrow> Reconciler \<Rightarrow> 'cr \<Rightarrow> status_request \<Rightarrow> goerror option kprog"
    and fail :: "k8slib \<Rightarrow> Reconciler \<Rightarrow> 'cr \<Rightarrow> string \<Rightarrow> goerror \<Rightarrow> goerror option kprog"
    and owned :: "k8slib \<Rightarrow> Scripts \<Rightarrow> Reconciler \<Rightarrow> 'cr \<Rightarrow> ownedResources"
    and finish :: "k8slib \<Rightarrow> Reconciler \<Rightarrow> 'cr \<Rightarrow> cronjob \<Rightarrow> (ctrlResult \<times> goerror option) kprog"
    and sync :: "k8slib \<Rightarrow> Scripts \<Rightarrow> Reconciler \<Rightarrow> 'cr \<Rightarrow> (ctrlResult \<times> goerror option) kprog"
  assumes not_ready: "condType \<noteq> ConditionReady"
    and update_status: "is_status_update (update x st err)"
    and update_inject: "update x st err = update x st' err' \<longleftrightarrow> st = st' \<and> err = err'"
    and appends_setStatus: "appends (setStatus K R x q)"
    and setStatus_runs: "does (setStatus K R x q) h
      (status_run K (rc_HasRecorder R) condType nameLabel kind (metaOf x) (statusOf x) (update x) q)"
    and fail_eq: "fail K R x reason e =
      (if apierrors_IsConflict K e then State_Monad.return (Some e)
       else do {
         statusErr \<leftarrow> setStatus K R x (fail_request reason e);
         State_Monad.return (case statusErr of Some e' \<Rightarrow> Some e' | None \<Rightarrow> Some e)
       })"
    and owned_of: "ow_Owner (owned K S R x) = metaOf x"
    and finish_eq: "finish K R x cron =
      (let spec = owned K S R x in
       if ow_VolumeHolder spec then do {
         d \<leftarrow> get_Deployment (rc_Client R) (om_Namespace (metaOf x)) (ow_HolderName spec);
         case d of
           Inl err \<Rightarrow> do {
             e \<leftarrow> fail K R x ''VolumeHolderError'' err;
             State_Monad.return (Result_zero, e)
           }
         | Inr deploy \<Rightarrow>
             if \<not> volumeHolderAvailable deploy then do {
               e \<leftarrow> setStatus K R x (waiting_request spec cron);
               State_Monad.return (after_status holderRequeue e)
             } else do {
               e \<leftarrow> setStatus K R x (synced_request spec cron);
               State_Monad.return (after_status 0 e)
             }
       } else do {
         e \<leftarrow> setStatus K R x (synced_request spec cron);
         State_Monad.return (after_status 0 e)
       })"
    and sync_eq: "sync K S R x = do {
       cron \<leftarrow> ensureOwned K (rc_Client R) (owned K S R x);
       case cron of
         Inl err \<Rightarrow> do {
           e \<leftarrow> fail K R x (ownedReason err) err;
           State_Monad.return (Result_zero, e)
         }
       | Inr cj \<Rightarrow> do {
           legacy \<leftarrow> deleteLegacyOwned K (rc_Client R) (metaOf x) (ow_Name (owned K S R x));
           case legacy of
             Some err \<Rightarrow> do {
               e \<leftarrow> fail K R x ''LegacyCleanupError'' err;
               State_Monad.return (Result_zero, e)
             }
           | None \<Rightarrow> finish K R x cj
         }
     }"
begin

abbreviation status_of :: "k8slib \<Rightarrow> Reconciler \<Rightarrow> 'cr \<Rightarrow> status_request \<Rightarrow> history \<Rightarrow> goerror option \<Rightarrow> bool" where
  "status_of K R x \<equiv>
     status_run K (rc_HasRecorder R) condType nameLabel kind (metaOf x) (statusOf x) (update x)"

lemma appends_fail: "appends (fail K R x reason e)"
  by (simp add: fail_eq appends_setStatus)

lemma appends_finish: "appends (finish K R x cron)"
  by (simp add: finish_eq [of K R x cron undefined] Let_def appends_setStatus appends_fail)

lemma fail_runs: "does (fail K R x reason e) h (fail_run K (status_of K R x) reason e)"
proof (cases "apierrors_IsConflict K e")
  case True
  then show ?thesis by (simp add: fail_eq run_simps fail_run_def)
next
  case False
  have "does (setStatus K R x (fail_request reason e)) h
      (\<lambda>cs err. does (State_Monad.return (case err of Some e' \<Rightarrow> Some e' | None \<Rightarrow> Some e)) (h @ cs)
         (\<lambda>ds r. fail_run K (status_of K R x) reason e (cs @ ds) r))"
    by (rule does_mono [OF setStatus_runs]) (use False in \<open>auto simp: run_simps fail_run_def\<close>)
  with False show ?thesis by (simp add: fail_eq run_simps appends_setStatus)
qed

lemma setStatus_then:
  assumes "\<And>cs err. status_of K R x q cs err \<Longrightarrow> Q cs (f err)"
  shows "does (do { e \<leftarrow> setStatus K R x q; State_Monad.return (f e) }) h Q"
  by (rule does_bindI [OF appends_setStatus _ setStatus_runs]) (simp_all add: run_simps assms)

lemma fail_then:
  assumes "\<And>cs err. fail_run K (status_of K R x) reason e cs err \<Longrightarrow> Q cs (f err)"
  shows "does (do { r \<leftarrow> fail K R x reason e; State_Monad.return (f r) }) h Q"
  by (rule does_bindI [OF appends_fail _ fail_runs]) (simp_all add: run_simps assms)

lemma finish_runs:
  "does (finish K R x cron) h (finish_run K (status_of K R x) (owned K S R x) cron)"
proof (cases "ow_VolumeHolder (owned K S R x)")
  case False
  then show ?thesis
    by (simp add: finish_eq [of K R x cron S] Let_def)
      (rule setStatus_then, rule finish_run.no_holder)
next
  case True
  let ?P = "\<lambda>cs r. cs = [GetDeployment (om_Namespace (metaOf x)) (ow_HolderName (owned K S R x)) r]"
  show ?thesis
    unfolding finish_eq [of K R x cron S] Let_def if_P [OF True]
  proof (rule does_bindI [where P = ?P], goal_cases)
    case (4 cs r)
    show ?case
    proof (cases r)
      case (Inl e)
      show ?thesis
        unfolding Inl sum.case 4
        by (rule fail_then) (use True in \<open>auto intro: finish_run.holder_unreadable simp: owned_of [symmetric, of _ K S R]\<close>)
    next
      case (Inr d)
      show ?thesis
      proof (cases "volumeHolderAvailable d")
        case True
        with \<open>ow_VolumeHolder _\<close> show ?thesis
          unfolding Inr 4
          by simp (rule setStatus_then, simp add: finish_run.holder_ready owned_of [symmetric, of _ K S R])
      next
        case False
        with \<open>ow_VolumeHolder _\<close> show ?thesis
          unfolding Inr 4
          by simp (rule setStatus_then, simp add: finish_run.holder_waiting owned_of [symmetric, of _ K S R])
      qed
    qed
  qed (simp_all add: run_simps client_defs appends_setStatus appends_fail split: sum.split)
qed

lemma sync_runs: "does (sync K S R x) h (sync_run K (status_of K R x) (owned K S R x))"
  unfolding sync_eq
proof (rule does_bindI [OF _ _ ensureOwned_runs], goal_cases)
  case (3 cs r)
  show ?case
  proof (cases r)
    case (Inl e)
    with 3 show ?thesis by simp (rule fail_then, rule sync_run.owned_fails)
  next
    case (Inr cj)
    show ?thesis
      unfolding Inr sum.case
    proof (rule does_bindI [OF _ _ deleteLegacyOwned_runs], goal_cases)
      case (3 ls l)
      note run = \<open>owned_run K _ cs r\<close> [unfolded Inr] 3 [folded owned_of [of K S R]]
      show ?case
      proof (cases l)
        case None
        with run show ?thesis
          by (auto intro!: does_mono [OF finish_runs] sync_run.finishes)
      next
        case (Some e)
        with run show ?thesis
          by (auto intro!: fail_then sync_run.legacy_fails)
      qed
    qed (simp_all add: appends_fail appends_finish)
  qed
qed (simp_all add: appends_fail appends_finish)

text \<open>A status run writes the requested status of this resource and nothing else.\<close>

lemma status_of_harmless:
  "status_of K R x q cs err \<Longrightarrow> k \<in> set cs \<Longrightarrow> deleted_meta k = None \<and> \<not> is_apply k \<and> apply_error k = None"
  using status_update_harmless [OF update_status]
  by (auto simp: status_run_def Let_def split: if_splits prod.splits)

lemma status_of_updates:
  "status_of K R x q cs err \<Longrightarrow> k \<in> set cs \<Longrightarrow> is_status_update k \<Longrightarrow>
   \<exists>lj. k = update x (fst (nextStatus K condType (om_Generation (metaOf x)) (statusOf x) q lj)) err"
  by (auto simp: status_run_def Let_def split: if_splits prod.splits) (metis fst_conv)+

lemma status_of_writes:
  assumes "status_of K R x q cs err" and "update x st u \<in> set cs"
  shows "st_Phase st = sr_Phase q \<and> u = err \<and>
    (\<exists>lj. st = fst (nextStatus K condType (om_Generation (metaOf x)) (statusOf x) q lj))"
  using status_of_updates [OF assms update_status] by (auto simp: update_inject)

lemma runs_no_update:
  "owned_run K spec cs r \<Longrightarrow> update x st u \<notin> set cs"
  "legacy_run K owner cur cs e \<Longrightarrow> update x st u \<notin> set cs"
  using owned_run_no_status legacy_run_no_write update_status by blast+

lemma fail_run_harmless:
  "fail_run K (status_of K R x) reason e cs err \<Longrightarrow> k \<in> set cs \<Longrightarrow>
   deleted_meta k = None \<and> \<not> is_apply k \<and> apply_error k = None"
  by (auto simp: fail_run_def split: if_splits dest: status_of_harmless)

lemma finish_run_harmless:
  "finish_run K (status_of K R x) spec cron cs res \<Longrightarrow> k \<in> set cs \<Longrightarrow>
   deleted_meta k = None \<and> \<not> is_apply k \<and> apply_error k = None"
  by (erule finish_runE) (auto dest: status_of_harmless fail_run_harmless)

lemma sync_run_safe:
  assumes "sync_run K (status_of K R x) spec cs res" and "k \<in> set cs"
  shows "safe_call K spec k"
  using assms
  by (cases rule: sync_run.cases)
    (auto dest: owned_run_safe legacy_run_safe fail_run_harmless finish_run_harmless intro: harmless_safe)

text \<open>A write conflict leaves the status alone and is the error of the run.\<close>

lemma sync_run_conflict:
  assumes "sync_run K (status_of K R x) spec cs res" and laws: "apierrors_laws K"
    and k: "k \<in> set cs" "apply_error k = Some e" and c: "apierrors_IsConflict K e"
  shows "(\<forall>k\<in>set cs. \<not> is_status_update k) \<and> (\<exists>e'. snd res = Some e' \<and> apierrors_IsConflict K e')"
  using assms(1)
proof (cases rule: sync_run.cases)
  case (owned_fails cs' e' ds err)
  have "k \<in> set cs'" using k owned_fails by (auto dest: fail_run_harmless)
  then obtain reason where "e' = OwnedApplyError reason e"
    using owned_run_error [OF owned_fails(3) _ k(2)] by auto
  then have e': "apierrors_IsConflict K e'" using c laws by (simp add: apierrors_laws_def)
  with owned_fails have "ds = []" "err = Some e'" by (simp_all add: fail_run_def)
  with owned_fails e' show ?thesis by (auto dest: owned_run_no_status)
next
  case (legacy_fails cs' cron ls e' ds err)
  then have "k \<in> set cs'"
    using k legacy_run_no_error [OF legacy_fails(4)] by (auto dest: fail_run_harmless)
  then show ?thesis using owned_run_error [OF legacy_fails(3) _ k(2)] by auto
next
  case (finishes cs' cron ls fs)
  then have "k \<in> set cs'"
    using k legacy_run_no_error [OF finishes(3)] by (auto dest: finish_run_harmless)
  then show ?thesis using owned_run_error [OF finishes(2) _ k(2)] by auto
qed

text \<open>Ready is written only after everything it stands for has happened.\<close>

lemma fail_run_not_ready:
  "fail_run K (status_of K R x) reason e cs err \<Longrightarrow> update x st u \<in> set cs \<Longrightarrow> st_Phase st = ''Error''"
  by (auto simp: fail_run_def fail_request_def status_args_def split: if_splits dest!: status_of_writes)

lemma finish_run_ready:
  assumes "finish_run K (status_of K R x) spec cron fs res" and "update x st u \<in> set fs"
    and "st_Phase st = ''Ready''"
  shows "(ow_VolumeHolder spec \<longrightarrow> (\<exists>d. GetDeployment (om_Namespace (ow_Owner spec)) (ow_HolderName spec) (Inr d) \<in> set fs \<and>
           volumeHolderAvailable d)) \<and>
    (\<exists>lj. st = fst (nextStatus K condType (om_Generation (metaOf x)) (statusOf x) (synced_request spec cron) lj)) \<and>
    res = after_status 0 u"
  using assms(1)
proof (cases rule: finish_run.cases)
  case (holder_unreadable e cs err)
  then have "update x st u \<in> set cs" using assms(2) update_status [of x st u] by auto
  then show ?thesis using fail_run_not_ready [OF holder_unreadable(4)] assms(3) by simp
next
  case (holder_waiting d cs err)
  then have "update x st u \<in> set cs" using assms(2) update_status [of x st u] by auto
  then have "st_Phase st = ''Pending''"
    using status_of_writes [OF holder_waiting(5)] by (simp add: waiting_request_def status_args_def)
  with assms(3) show ?thesis by simp
next
  case (holder_ready d cs err)
  then have "update x st u \<in> set cs" using assms(2) update_status [of x st u] by auto
  with holder_ready show ?thesis using status_of_writes [OF holder_ready(5)] by auto
next
  case (no_holder err)
  then show ?thesis using status_of_writes [OF no_holder(3) assms(2)] by auto
qed

lemma sync_run_ready:
  assumes "sync_run K (status_of K R x) spec cs res" and "update x st u \<in> set cs"
    and "st_Phase st = ''Ready''"
  shows "\<exists>cron lj. synced_calls K spec cron cs \<and> res = after_status 0 u \<and>
    st = fst (nextStatus K condType (om_Generation (metaOf x)) (statusOf x) (synced_request spec cron) lj)"
  using assms(1)
proof (cases rule: sync_run.cases)
  case (owned_fails cs' e ds err)
  then have "update x st u \<in> set ds" using assms(2) runs_no_update by auto
  then show ?thesis using fail_run_not_ready [OF owned_fails(4)] assms(3) by simp
next
  case (legacy_fails cs' cron ls e ds err)
  then have "update x st u \<in> set ds"
    using assms(2) runs_no_update by auto
  then show ?thesis using fail_run_not_ready [OF legacy_fails(5)] assms(3) by simp
next
  case (finishes cs' cron ls fs)
  then have "update x st u \<in> set fs"
    using assms(2) runs_no_update by auto
  note ready = finish_run_ready [OF finishes(4) this assms(3)]
  with finishes owned_run_synced [OF finishes(2), of fs ls] show ?thesis by blast
qed

text \<open>
  Asked again for the status it has just written, with the same last Job, a resource lists its Jobs
  and does nothing else.
\<close>

lemma settled_run:
  assumes "condition_laws K" and "deepequal_laws K" and "sr_Phase q \<noteq> []"
    and "metaOf y = metaOf x"
    and "statusOf y = fst (nextStatus K condType (om_Generation (metaOf x)) (statusOf x) q lj)"
    and "status_of K R y q cs err"
    and "\<And>jobs. ListJobs (om_Namespace (metaOf x)) (lastJobSelector nameLabel (om_Name (metaOf x)) kind) jobs \<in> set cs \<Longrightarrow>
      last_job_of (om_Namespace (metaOf x)) nameLabel (om_Name (metaOf x)) kind jobs = lj"
  shows "err = None \<and>
    (\<exists>jobs. cs = [ListJobs (om_Namespace (metaOf x)) (lastJobSelector nameLabel (om_Name (metaOf x)) kind) jobs])"
proof -
  obtain jobs where run:
    "case nextStatus K condType (om_Generation (metaOf x)) (statusOf y) q
        (last_job_of (om_Namespace (metaOf x)) nameLabel (om_Name (metaOf x)) kind jobs) of
       (st', event, patch) \<Rightarrow>
         cs = ListJobs (om_Namespace (metaOf x)) (lastJobSelector nameLabel (om_Name (metaOf x)) kind) jobs #
           (if rc_HasRecorder R \<and> event
            then [RecordEvent (metaOf x) (sr_EventType q) (sr_Reason q) (sr_Message q)] else []) @
           (if patch then [update y st' err] else []) \<and> (patch \<or> err = None)"
    using assms(6) by (auto simp: status_run_def assms(4) Let_def)
  have "last_job_of (om_Namespace (metaOf x)) nameLabel (om_Name (metaOf x)) kind jobs = lj"
    using run by (intro assms(7)) (auto split: prod.splits)
  moreover have "snd (nextStatus K condType (om_Generation (metaOf x)) (statusOf y) q lj) = (False, False)"
    unfolding assms(5) by (rule nextStatus_settles [OF assms(1,2) not_ready assms(3)])
  ultimately show ?thesis
    using run by (cases "nextStatus K condType (om_Generation (metaOf x)) (statusOf y) q lj") auto
qed

end

end
