(* ===== verification/Example_Client.thy ===== *)
theory Example_Client
  imports Reconciler
begin

text \<open>
  A concrete API server for the closed instances: a namespace in which nothing is owned yet, the
  example resources and their Secrets exist, and every write succeeds.
\<close>

definition ex_secret :: secret where
  "ex_secret = \<lparr>se_Meta = named_meta ''backup-app-postgres'' ''backup'',
     se_Data = [''username'' \<mapsto> ''app'', ''password'' \<mapsto> ''pw'', ''gpg_passphrase'' \<mapsto> ''pass'',
                ''s3_access_key'' \<mapsto> ''ak'', ''s3_secret_key'' \<mapsto> ''sk'']\<rparr>"

definition not_found :: goerror where
  "not_found = StatusError ReasonNotFound ''not found''"

definition conflict :: goerror where
  "conflict = StatusError ReasonConflict ''the object has been modified''"

definition ex_client :: client where
  "ex_client =
     \<lparr>cl_GetBackup = (\<lambda>h ns n. Inr ex_backup), cl_GetRestore = (\<lambda>h ns n. Inr ex_restore),
      cl_GetSecret = (\<lambda>h ns n. Inr ex_secret), cl_GetConfigMap = (\<lambda>h ns n. Inl not_found),
      cl_GetPVC = (\<lambda>h ns n. Inl not_found), cl_GetDeployment = (\<lambda>h ns n. Inl not_found),
      cl_GetCronJob = (\<lambda>h ns n. Inl not_found), cl_ListJobs = (\<lambda>h ns sel. Inr [ex_retried_job]),
      cl_ApplyConfigMap = (\<lambda>h x f. f x), cl_ApplyPVC = (\<lambda>h x f. f x),
      cl_ApplyDeployment = (\<lambda>h x f. f x), cl_ApplyCronJob = (\<lambda>h x f. f x),
      cl_DeleteConfigMap = (\<lambda>h x. None), cl_DeleteCronJob = (\<lambda>h x. None),
      cl_DeleteDeployment = (\<lambda>h x. None), cl_UpdateBackupStatus = (\<lambda>h b. None),
      cl_UpdateRestoreStatus = (\<lambda>h r. None)\<rparr>"

text \<open>The same server when somebody else has just changed the CronJob.\<close>

definition ex_busy_client :: client where
  "ex_busy_client = ex_client\<lparr>cl_ApplyCronJob := (\<lambda>h x f. Inl conflict)\<rparr>"

definition ex_reconciler :: "client \<Rightarrow> Reconciler" where
  "ex_reconciler c = \<lparr>rc_Client = c, rc_HasRecorder = True, rc_Config = ex_config\<rparr>"

definition ex_request :: request where
  "ex_request = \<lparr>rq_Name = ''app-postgres'', rq_Namespace = ''backup''\<rparr>"

lemma SetControllerReference_fresh [simp]:
  "om_OwnerReferences m = [] \<Longrightarrow>
   \<exists>m'. doc_SetControllerReference kind owner m = Inr m' \<and> om_Name m' = om_Name m"
  by (simp add: doc_SetControllerReference_def controller_of_def Let_def)

lemma ex_reconciler_sel [simp]:
  "rc_Client (ex_reconciler c) = c" "rc_HasRecorder (ex_reconciler c) = True"
  "rc_Config (ex_reconciler c) = ex_config"
  by (simp_all add: ex_reconciler_def)

lemma ex_client_sel [simp]:
  "cl_GetBackup ex_client h ns n = Inr ex_backup" "cl_GetRestore ex_client h ns n = Inr ex_restore"
  "cl_GetSecret ex_client h ns n = Inr ex_secret" "cl_GetConfigMap ex_client h ns n = Inl not_found"
  "cl_GetPVC ex_client h ns n = Inl not_found" "cl_GetDeployment ex_client h ns n = Inl not_found"
  "cl_GetCronJob ex_client h ns n = Inl not_found" "cl_ListJobs ex_client h ns sel = Inr [ex_retried_job]"
  "cl_ApplyConfigMap ex_client h xc fc = fc xc" "cl_ApplyPVC ex_client h xp fp = fp xp"
  "cl_ApplyDeployment ex_client h xd fd = fd xd" "cl_ApplyCronJob ex_client h xj fj = fj xj"
  "cl_UpdateBackupStatus ex_client h b = None" "cl_UpdateRestoreStatus ex_client h r = None"
  by (simp_all add: ex_client_def)

lemma ex_busy_client_sel [simp]:
  "cl_GetBackup ex_busy_client h ns n = Inr ex_backup" "cl_GetRestore ex_busy_client h ns n = Inr ex_restore"
  "cl_GetSecret ex_busy_client h ns n = Inr ex_secret"
  "cl_GetDeployment ex_busy_client h ns n = Inl not_found"
  "cl_ApplyConfigMap ex_busy_client h xc fc = fc xc" "cl_ApplyPVC ex_busy_client h xp fp = fp xp"
  "cl_ApplyCronJob ex_busy_client h xj fj = Inl conflict"
  by (simp_all add: ex_busy_client_def ex_client_def)

lemma ex_errors [simp]:
  "status_reason not_found = Some ReasonNotFound" "status_reason conflict = Some ReasonConflict"
  by (simp_all add: not_found_def conflict_def)

lemma ignoreNotFound_doc [simp]: "ignoreNotFound doc_lib not_found = Inr False"
  by (simp add: ignoreNotFound_def client_IgnoreNotFound_def)

text \<open>Fresh objects go through the mutate functions.\<close>

lemma configMapFn_fresh:
  assumes "snd (ow_MutateConfigMap spec (newConfigMap n ns)) = None"
    and "om_OwnerReferences (cm_Meta (fst (ow_MutateConfigMap spec (newConfigMap n ns)))) = []"
  shows "\<exists>x. configMapFn doc_lib spec (newConfigMap n ns) = Inr x"
proof -
  obtain m' where "doc_SetControllerReference (ow_Kind spec) (ow_Owner spec)
      (cm_Meta (fst (ow_MutateConfigMap spec (newConfigMap n ns)))) = Inr m'"
    using SetControllerReference_fresh [OF assms(2)] by blast
  with assms(1) show ?thesis
    by (cases "ow_MutateConfigMap spec (newConfigMap n ns)") (auto simp: configMapFn_def)
qed

lemma pvcFn_fresh: "\<exists>x. pvcFn doc_lib spec (newPVC n ns) = Inr x"
proof -
  have "om_OwnerReferences (pvc_Meta (MutatePVC doc_lib (newPVC n ns) (ow_Persistence spec) (ow_Labels spec))) = []"
    by (simp add: MutatePVC_def newPVC_def named_meta_def objectmeta_zero_def Let_def split: option.split)
  then obtain m' where "doc_SetControllerReference (ow_Kind spec) (ow_Owner spec)
      (pvc_Meta (MutatePVC doc_lib (newPVC n ns) (ow_Persistence spec) (ow_Labels spec))) = Inr m'"
    using SetControllerReference_fresh by blast
  moreover have "time_IsZero (om_CreationTimestamp (pvc_Meta (newPVC n ns)))"
    by (simp add: newPVC_def named_meta_def objectmeta_zero_def time_IsZero_def)
  ultimately show ?thesis by (simp add: pvcFn_def Let_def)
qed

lemma cronJobFn_fresh:
  assumes "ow_MutateCronJob spec (newCronJob n ns) = Some cj" and "om_OwnerReferences (cj_Meta cj) = []"
  shows "\<exists>x. cronJobFn doc_lib spec (newCronJob n ns) = Inr x"
  using SetControllerReference_fresh [OF assms(2), of "ow_Kind spec" "ow_Owner spec"] assms(1) by (auto simp: cronJobFn_def)

end
