(* ===== verification/Backup_Controller.thy ===== *)
theory Backup_Controller
  imports Example_Client
begin

text \<open>
  \<^verbatim>\<open>internal/controller/backup_controller.go\<close>: the reconciler of Backups.  A method is a program
  over the history of API calls; the log lines are left out.  The second half describes every run of
  \<^verbatim>\<open>reconcile\<close> by the rules of \<^verbatim>\<open>backup_run\<close>, one per way the source can return.
\<close>

section \<open>The reconciler\<close>

definition requiredBackupSecretKeys :: "string list" where
  "requiredBackupSecretKeys = [''gpg_passphrase'']"
definition requiredBackupDBSecretKeys :: "string list" where
  "requiredBackupDBSecretKeys = [''username'', ''password'']"
definition requiredBackupS3SecretKeys :: "string list" where
  "requiredBackupS3SecretKeys = [''s3_access_key'', ''s3_secret_key'']"

definition Backup_ensureSecret :: "Reconciler \<Rightarrow> Backup \<Rightarrow> goerror option kprog" where
  "Backup_ensureSecret R backup = do {
     r \<leftarrow> get_Secret (rc_Client R) (om_Namespace (bk_Meta backup)) (bs_SecretRef (bk_Spec backup));
     State_Monad.return
       (case r of
          Inl err \<Rightarrow> Some err
        | Inr s \<Rightarrow>
            let required = (if \<not> IsPVCBackup backup then requiredBackupDBSecretKeys @ requiredBackupSecretKeys
                            else requiredBackupSecretKeys)
            in first_error
                 [missingKey ''secret'' s required,
                  if EnabledOrDefault (bs_S3 (bk_Spec backup))
                  then missingKey ''secret'' s requiredBackupS3SecretKeys else None])
   }"

text \<open>
  Reached only for an accepted spec of engine \<^verbatim>\<open>pvc\<close>, whose \<^verbatim>\<open>spec.pvc\<close> is not nil (the
  source dereferences it).
\<close>

definition Backup_checkSourcePVC :: "Reconciler \<Rightarrow> Backup \<Rightarrow> string \<Rightarrow> goerror option kprog" where
  "Backup_checkSourcePVC R backup owned = do {
     let claim = pv_ClaimName (the (bs_PVC (bk_Spec backup)));
     if claim = owned then State_Monad.return
       (Some (ErrorString (''spec.pvc.claimName '' @ fmt_q claim @ '' is this Backup's own scratch PVC'')))
     else do {
       r \<leftarrow> get_PVC (rc_Client R) (om_Namespace (bk_Meta backup)) claim;
       State_Monad.return
         (case r of
            Inl err \<Rightarrow> Some err
          | Inr p \<Rightarrow>
              fail_if (ReadWriteOncePod \<in> set (pv_AccessModes (pvc_Spec p)))
                (''source PVC '' @ fmt_q claim @ '' is ReadWriteOncePod; a backup pod cannot mount it next to its consumer''))
     }
   }"

definition Backup_setStatus :: "k8slib \<Rightarrow> Reconciler \<Rightarrow> Backup \<Rightarrow> status_request \<Rightarrow> goerror option kprog" where
  "Backup_setStatus K R backup q = do {
     newLastJob \<leftarrow> lastJobStatus (rc_Client R) (om_Namespace (bk_Meta backup)) LabelBackupName
       (om_Name (bk_Meta backup)) KindBackup;
     let (status, event, patch) = nextStatus K ConditionBackupSucceeded (om_Generation (bk_Meta backup))
       (bk_Status backup) q newLastJob;
     _ \<leftarrow> (if rc_HasRecorder R \<and> event
          then record_Event (bk_Meta backup) (sr_EventType q) (sr_Reason q) (sr_Message q)
          else State_Monad.return ());
     if \<not> patch then State_Monad.return None
     else update_BackupStatus (rc_Client R) (backup\<lparr>bk_Status := status\<rparr>)
   }"

definition Backup_return ::
  "k8slib \<Rightarrow> Reconciler \<Rightarrow> Backup \<Rightarrow> status_request \<Rightarrow> int \<Rightarrow> (ctrlResult \<times> goerror option) kprog" where
  "Backup_return K R backup q requeue = do {
     statusErr \<leftarrow> Backup_setStatus K R backup q;
     State_Monad.return (after_status requeue statusErr)
   }"

definition Backup_fail ::
  "k8slib \<Rightarrow> Reconciler \<Rightarrow> Backup \<Rightarrow> string \<Rightarrow> goerror \<Rightarrow> goerror option kprog" where
  "Backup_fail K R backup reason err =
     (if apierrors_IsConflict K err then State_Monad.return (Some err)
      else do {
        statusErr \<leftarrow> Backup_setStatus K R backup
          (status_args BackupPhaseError ConditionFalse reason (error_text err) EventTypeWarning None []);
        State_Monad.return (case statusErr of Some e \<Rightarrow> Some e | None \<Rightarrow> Some err)
      })"

definition Backup_owned :: "k8slib \<Rightarrow> Scripts \<Rightarrow> Reconciler \<Rightarrow> Backup \<Rightarrow> ownedResources" where
  "Backup_owned K S R backup =
     \<lparr>ow_Owner = bk_Meta backup, ow_Kind = ''Backup'', ow_Name = BackupOwnedName backup,
      ow_Persistence = bs_Persistence (bk_Spec backup), ow_Labels = BackupLabels backup,
      ow_VolumeHolder = NeedsVolumeHolder (bs_Runtime (bk_Spec backup)),
      ow_HolderName = VolumeHolderName (BackupOwnedName backup),
      ow_MutateConfigMap = (\<lambda>cm. MutateBackupConfigMap cm backup (rc_Config R)),
      ow_MutateCronJob = (\<lambda>cj. MutateBackupCronJob K S cj backup (rc_Config R)),
      ow_MutateVolumeHolder =
        (\<lambda>d. MutateVolumeHolderDeployment K d (backupHolderSpec backup) (rc_Config R))\<rparr>"

text \<open>The end of \<^verbatim>\<open>reconcile\<close>: the holder must be available before the phase is Ready.\<close>

definition Backup_finish ::
  "k8slib \<Rightarrow> Reconciler \<Rightarrow> Backup \<Rightarrow> cronjob \<Rightarrow> (ctrlResult \<times> goerror option) kprog" where
  "Backup_finish K R backup cron = (
     let holderName = VolumeHolderName (BackupOwnedName backup);
         synced = status_args BackupPhaseReady ConditionTrue ''Synced''
           (''CronJob '' @ om_Name (cj_Meta cron) @ '' is synced'') EventTypeNormal (Some cron)
     in if NeedsVolumeHolder (bs_Runtime (bk_Spec backup)) then do {
          d \<leftarrow> get_Deployment (rc_Client R) (om_Namespace (bk_Meta backup)) holderName;
          case d of
            Inl err \<Rightarrow> do {
              e \<leftarrow> Backup_fail K R backup ''VolumeHolderError'' err;
              State_Monad.return (Result_zero, e)
            }
          | Inr deploy \<Rightarrow>
              if \<not> volumeHolderAvailable deploy then
                Backup_return K R backup
                  (status_args BackupPhasePending ConditionFalse ''VolumeHolderNotReady''
                     (''waiting for volume holder Deployment '' @ holderName) EventTypeNormal (Some cron) holderName)
                  holderRequeue
              else Backup_return K R backup (synced holderName) 0
        } else Backup_return K R backup (synced []) 0)"

text \<open>From the owned objects on.\<close>

definition Backup_sync ::
  "k8slib \<Rightarrow> Scripts \<Rightarrow> Reconciler \<Rightarrow> Backup \<Rightarrow> (ctrlResult \<times> goerror option) kprog" where
  "Backup_sync K S R backup = do {
     cron \<leftarrow> ensureOwned K (rc_Client R) (Backup_owned K S R backup);
     case cron of
       Inl err \<Rightarrow> do {
         e \<leftarrow> Backup_fail K R backup (ownedReason err) err;
         State_Monad.return (Result_zero, e)
       }
     | Inr cj \<Rightarrow> do {
         legacy \<leftarrow> deleteLegacyOwned K (rc_Client R) (bk_Meta backup) (BackupOwnedName backup);
         case legacy of
           Some err \<Rightarrow> do {
             e \<leftarrow> Backup_fail K R backup ''LegacyCleanupError'' err;
             State_Monad.return (Result_zero, e)
           }
         | None \<Rightarrow> Backup_finish K R backup cj
       }
   }"

text \<open>The source claim of engine \<^verbatim>\<open>pvc\<close>, then the owned objects.\<close>

definition Backup_source ::
  "k8slib \<Rightarrow> Scripts \<Rightarrow> Reconciler \<Rightarrow> Backup \<Rightarrow> (ctrlResult \<times> goerror option) kprog" where
  "Backup_source K S R backup =
     (if IsPVCBackup backup then do {
        sourceErr \<leftarrow> Backup_checkSourcePVC R backup (BackupOwnedName backup);
        case sourceErr of
          None \<Rightarrow> Backup_sync K S R backup
        | Some err \<Rightarrow>
            if apierrors_IsNotFound K err then
              Backup_return K R backup
                (status_args BackupPhasePending ConditionFalse ''SourcePVCNotFound''
                   (''source PVC '' @ fmt_q (pv_ClaimName (the (bs_PVC (bk_Spec backup)))) @ '' not found'')
                   EventTypeWarning None []) sourceRequeue
            else
              Backup_return K R backup
                (status_args BackupPhaseError ConditionFalse ''SourcePVCInvalid'' (error_text err)
                   EventTypeWarning None []) 0
      } else Backup_sync K S R backup)"

definition Backup_reconcile ::
  "k8slib \<Rightarrow> Scripts \<Rightarrow> Reconciler \<Rightarrow> request \<Rightarrow> (ctrlResult \<times> goerror option) kprog" where
  "Backup_reconcile K S R req = do {
     r \<leftarrow> get_Backup (rc_Client R) (rq_Namespace req) (rq_Name req);
     case r of
       Inl err \<Rightarrow> State_Monad.return (Result_zero, client_IgnoreNotFound K err)
     | Inr backup \<Rightarrow>
         if \<not> timep_IsZero (om_DeletionTimestamp (bk_Meta backup)) then State_Monad.return (Result_zero, None)
         else if \<not> EngineImplemented (bs_Engine (bk_Spec backup)) then
           Backup_return K R backup
             (status_args BackupPhaseUnsupported ConditionFalse ''UnsupportedEngine''
                (''engine '' @ fmt_q (EffectiveEngine (bs_Engine (bk_Spec backup))) @ '' is not implemented'')
                EventTypeWarning None []) 0
         else case ValidateBackupSpec K (bk_Spec backup) of
           Some err \<Rightarrow>
             Backup_return K R backup
               (status_args BackupPhaseError ConditionFalse ''InvalidSpec'' (error_text err) EventTypeWarning None []) 0
         | None \<Rightarrow> do {
             secretErr \<leftarrow> Backup_ensureSecret R backup;
             case secretErr of
               None \<Rightarrow> Backup_source K S R backup
             | Some err \<Rightarrow>
                 if apierrors_IsNotFound K err then
                   Backup_return K R backup
                     (status_args BackupPhasePending ConditionFalse ''SecretNotFound''
                        (''secret '' @ fmt_q (bs_SecretRef (bk_Spec backup)) @ '' not found'') EventTypeWarning None [])
                     secretRequeue
                 else
                   Backup_return K R backup
                     (status_args BackupPhaseError ConditionFalse ''SecretInvalid'' (error_text err)
                        EventTypeWarning None []) 0
           }
   }"

definition Backup_Reconcile ::
  "k8slib \<Rightarrow> Scripts \<Rightarrow> Reconciler \<Rightarrow> request \<Rightarrow> (ctrlResult \<times> goerror option) kprog" where
  "Backup_Reconcile K S R req = do {
     re \<leftarrow> Backup_reconcile K S R req;
     State_Monad.return (requeueOnConflict K re)
   }"

lemma appends_backup [simp]:
  "appends (Backup_ensureSecret R b)" "appends (Backup_checkSourcePVC R b o')"
  "appends (Backup_setStatus K R b q)"
  by (simp_all add: Backup_ensureSecret_def Backup_checkSourcePVC_def Backup_setStatus_def)

lemma appends_backup' [simp]:
  "appends (Backup_return K R b q t)" "appends (Backup_fail K R b reason e)"
  by (simp_all add: Backup_return_def Backup_fail_def)

lemma appends_backup'' [simp]: "appends (Backup_finish K R b cj)"
  by (simp add: Backup_finish_def)

lemma appends_backup3 [simp]: "appends (Backup_sync K S R b)"
  by (simp add: Backup_sync_def)

lemma appends_backup4 [simp]: "appends (Backup_source K S R b)"
  by (simp add: Backup_source_def)

lemma appends_backup5 [simp]: "appends (Backup_reconcile K S R req)"
  by (simp add: Backup_reconcile_def)

lemma Backup_owned_sel [simp]:
  "ow_Owner (Backup_owned K S R b) = bk_Meta b" "ow_Kind (Backup_owned K S R b) = ''Backup''"
  "ow_Name (Backup_owned K S R b) = BackupOwnedName b"
  "ow_Persistence (Backup_owned K S R b) = bs_Persistence (bk_Spec b)"
  "ow_Labels (Backup_owned K S R b) = BackupLabels b"
  "ow_VolumeHolder (Backup_owned K S R b) = NeedsVolumeHolder (bs_Runtime (bk_Spec b))"
  "ow_HolderName (Backup_owned K S R b) = VolumeHolderName (BackupOwnedName b)"
  by (simp_all add: Backup_owned_def)

section \<open>The shared contract\<close>

abbreviation backup_update :: "Backup \<Rightarrow> cr_status \<Rightarrow> goerror option \<Rightarrow> kcall" where
  "backup_update b st err \<equiv> UpdateBackupStatus (b\<lparr>bk_Status := st\<rparr>) err"

abbreviation backup_status :: "k8slib \<Rightarrow> Reconciler \<Rightarrow> Backup \<Rightarrow> status_request \<Rightarrow> history \<Rightarrow> goerror option \<Rightarrow> bool" where
  "backup_status K R b \<equiv> status_run K (rc_HasRecorder R) ConditionBackupSucceeded LabelBackupName KindBackup
     (bk_Meta b) (bk_Status b) (backup_update b)"

lemma bk_Status_update_inject: "b\<lparr>bk_Status := s\<rparr> = b\<lparr>bk_Status := t\<rparr> \<longleftrightarrow> s = t"
  by (metis Backup.select_convs(3) Backup.surjective Backup.update_convs(3))

lemma Backup_setStatus_runs: "does (Backup_setStatus K R b q) h (backup_status K R b q)"
  by (simp add: Backup_setStatus_def lastJobStatus_def client_defs run_simps status_run_def
      last_job_of_def Let_def case_prod_beta)

interpretation backup_rec: reconciled_kind bk_Meta bk_Status ConditionBackupSucceeded LabelBackupName KindBackup
  backup_update Backup_setStatus Backup_fail Backup_owned Backup_finish Backup_sync
proof (unfold_locales, goal_cases)
  case (6 K R x reason e)
  then show ?case by (simp add: Backup_fail_def fail_request_def BackupPhaseError_def)
next
  case (8 K R x cron S)
  show ?case
    unfolding Backup_finish_def Backup_owned_def Backup_return_def waiting_request_def synced_request_def
      BackupPhasePending_def BackupPhaseReady_def Let_def ownedResources.select_convs
    by (cases "NeedsVolumeHolder (bs_Runtime (bk_Spec x))") simp_all
next
  case (9 K S R x)
  show ?case unfolding Backup_sync_def Backup_owned_def ownedResources.select_convs by (rule refl)
qed (simp_all add: bk_Status_update_inject Backup_setStatus_runs Backup_owned_def)

section \<open>All runs of reconcile\<close>

text \<open>The check of the Secret, given the answer to the read.\<close>

definition backup_secret_error :: "Backup \<Rightarrow> goerror + secret \<Rightarrow> goerror option" where
  "backup_secret_error b r =
     (case r of
        Inl err \<Rightarrow> Some err
      | Inr s \<Rightarrow> first_error
          [missingKey ''secret'' s
             (if \<not> IsPVCBackup b then requiredBackupDBSecretKeys @ requiredBackupSecretKeys
              else requiredBackupSecretKeys),
           if EnabledOrDefault (bs_S3 (bk_Spec b))
           then missingKey ''secret'' s requiredBackupS3SecretKeys else None])"

abbreviation got_backup_secret :: "Backup \<Rightarrow> goerror + secret \<Rightarrow> kcall" where
  "got_backup_secret b \<equiv> GetSecret (om_Namespace (bk_Meta b)) (bs_SecretRef (bk_Spec b))"

text \<open>The check of the source claim: its calls and its error.\<close>

definition source_run :: "Backup \<Rightarrow> history \<Rightarrow> goerror option \<Rightarrow> bool" where
  "source_run b cs err \<longleftrightarrow>
     (let claim = pv_ClaimName (the (bs_PVC (bk_Spec b))) in
      if claim = BackupOwnedName b then cs = [] \<and> (\<exists>m. err = Some (ErrorString m))
      else \<exists>r. cs = [GetPVC (om_Namespace (bk_Meta b)) claim r] \<and>
        (case r of
           Inl e \<Rightarrow> err = Some e
         | Inr p \<Rightarrow> if ReadWriteOncePod \<in> set (pv_AccessModes (pvc_Spec p))
                     then \<exists>m. err = Some (ErrorString m) else err = None))"

inductive backup_run ::
  "k8slib \<Rightarrow> Scripts \<Rightarrow> Reconciler \<Rightarrow> request \<Rightarrow> history \<Rightarrow> ctrlResult \<times> goerror option \<Rightarrow> bool"
  for K S R req where
  unreadable:
    "backup_run K S R req [GetBackup (rq_Namespace req) (rq_Name req) (Inl e)]
       (Result_zero, client_IgnoreNotFound K e)"
| deleting:
    "\<not> timep_IsZero (om_DeletionTimestamp (bk_Meta b)) \<Longrightarrow>
     backup_run K S R req [GetBackup (rq_Namespace req) (rq_Name req) (Inr b)] (Result_zero, None)"
| unsupported:
    "timep_IsZero (om_DeletionTimestamp (bk_Meta b)) \<Longrightarrow> \<not> EngineImplemented (bs_Engine (bk_Spec b)) \<Longrightarrow>
     backup_status K R b (early_request ''Unsupported'' ''UnsupportedEngine''
       (''engine '' @ fmt_q (EffectiveEngine (bs_Engine (bk_Spec b))) @ '' is not implemented'')) cs err \<Longrightarrow>
     backup_run K S R req (GetBackup (rq_Namespace req) (rq_Name req) (Inr b) # cs) (after_status 0 err)"
| invalid:
    "timep_IsZero (om_DeletionTimestamp (bk_Meta b)) \<Longrightarrow> EngineImplemented (bs_Engine (bk_Spec b)) \<Longrightarrow>
     ValidateBackupSpec K (bk_Spec b) = Some e \<Longrightarrow>
     backup_status K R b (early_request ''Error'' ''InvalidSpec'' (error_text e)) cs err \<Longrightarrow>
     backup_run K S R req (GetBackup (rq_Namespace req) (rq_Name req) (Inr b) # cs) (after_status 0 err)"
| secret_missing:
    "timep_IsZero (om_DeletionTimestamp (bk_Meta b)) \<Longrightarrow> EngineImplemented (bs_Engine (bk_Spec b)) \<Longrightarrow>
     ValidateBackupSpec K (bk_Spec b) = None \<Longrightarrow>
     backup_secret_error b r = Some e \<Longrightarrow> apierrors_IsNotFound K e \<Longrightarrow>
     backup_status K R b (early_request ''Pending'' ''SecretNotFound''
       (''secret '' @ fmt_q (bs_SecretRef (bk_Spec b)) @ '' not found'')) cs err \<Longrightarrow>
     backup_run K S R req
       (GetBackup (rq_Namespace req) (rq_Name req) (Inr b) # got_backup_secret b r # cs)
       (after_status secretRequeue err)"
| secret_invalid:
    "timep_IsZero (om_DeletionTimestamp (bk_Meta b)) \<Longrightarrow> EngineImplemented (bs_Engine (bk_Spec b)) \<Longrightarrow>
     ValidateBackupSpec K (bk_Spec b) = None \<Longrightarrow>
     backup_secret_error b r = Some e \<Longrightarrow> \<not> apierrors_IsNotFound K e \<Longrightarrow>
     backup_status K R b (early_request ''Error'' ''SecretInvalid'' (error_text e)) cs err \<Longrightarrow>
     backup_run K S R req
       (GetBackup (rq_Namespace req) (rq_Name req) (Inr b) # got_backup_secret b r # cs)
       (after_status 0 err)"
| source_missing:
    "timep_IsZero (om_DeletionTimestamp (bk_Meta b)) \<Longrightarrow> EngineImplemented (bs_Engine (bk_Spec b)) \<Longrightarrow>
     ValidateBackupSpec K (bk_Spec b) = None \<Longrightarrow> backup_secret_error b r = None \<Longrightarrow> IsPVCBackup b \<Longrightarrow>
     source_run b ps (Some e) \<Longrightarrow> apierrors_IsNotFound K e \<Longrightarrow>
     backup_status K R b (early_request ''Pending'' ''SourcePVCNotFound''
       (''source PVC '' @ fmt_q (pv_ClaimName (the (bs_PVC (bk_Spec b)))) @ '' not found'')) cs err \<Longrightarrow>
     backup_run K S R req
       (GetBackup (rq_Namespace req) (rq_Name req) (Inr b) # got_backup_secret b r # ps @ cs)
       (after_status sourceRequeue err)"
| source_invalid:
    "timep_IsZero (om_DeletionTimestamp (bk_Meta b)) \<Longrightarrow> EngineImplemented (bs_Engine (bk_Spec b)) \<Longrightarrow>
     ValidateBackupSpec K (bk_Spec b) = None \<Longrightarrow> backup_secret_error b r = None \<Longrightarrow> IsPVCBackup b \<Longrightarrow>
     source_run b ps (Some e) \<Longrightarrow> \<not> apierrors_IsNotFound K e \<Longrightarrow>
     backup_status K R b (early_request ''Error'' ''SourcePVCInvalid'' (error_text e)) cs err \<Longrightarrow>
     backup_run K S R req
       (GetBackup (rq_Namespace req) (rq_Name req) (Inr b) # got_backup_secret b r # ps @ cs)
       (after_status 0 err)"
| syncs:
    "timep_IsZero (om_DeletionTimestamp (bk_Meta b)) \<Longrightarrow> EngineImplemented (bs_Engine (bk_Spec b)) \<Longrightarrow>
     ValidateBackupSpec K (bk_Spec b) = None \<Longrightarrow> backup_secret_error b r = None \<Longrightarrow>
     (if IsPVCBackup b then source_run b ps None else ps = []) \<Longrightarrow>
     sync_run K (backup_status K R b) (Backup_owned K S R b) cs res \<Longrightarrow>
     backup_run K S R req
       (GetBackup (rq_Namespace req) (rq_Name req) (Inr b) # got_backup_secret b r # ps @ cs) res"

lemma Backup_return_then:
  assumes "\<And>cs err. backup_status K R b q cs err \<Longrightarrow> Q cs (after_status t err)"
  shows "does (Backup_return K R b q t) h Q"
  unfolding Backup_return_def by (rule backup_rec.setStatus_then) (rule assms)

lemma does_Backup_ensureSecret:
  "does (Backup_ensureSecret R b) h Q \<longleftrightarrow>
     (let r = cl_GetSecret (rc_Client R) h (om_Namespace (bk_Meta b)) (bs_SecretRef (bk_Spec b))
      in Q [got_backup_secret b r] (backup_secret_error b r))"
  by (simp add: Backup_ensureSecret_def client_defs run_simps backup_secret_error_def Let_def
      split: sum.split)

lemma Backup_ensureSecret_runs:
  "does (Backup_ensureSecret R b) h (\<lambda>cs err. \<exists>r. cs = [got_backup_secret b r] \<and> err = backup_secret_error b r)"
  by (simp add: does_Backup_ensureSecret Let_def)

lemma Backup_checkSourcePVC_runs:
  "does (Backup_checkSourcePVC R b (BackupOwnedName b)) h (source_run b)"
  by (auto simp: Backup_checkSourcePVC_def client_defs run_simps source_run_def Let_def fail_if_def
      split: sum.split)

lemmas backup_phases = BackupPhaseUnsupported_def BackupPhaseError_def BackupPhasePending_def
  BackupPhaseReady_def

lemma Backup_source_runs:
  assumes "timep_IsZero (om_DeletionTimestamp (bk_Meta b))" "EngineImplemented (bs_Engine (bk_Spec b))"
    "ValidateBackupSpec K (bk_Spec b) = None" "backup_secret_error b r = None"
  shows "does (Backup_source K S R b) h (\<lambda>cs res. backup_run K S R req
    (GetBackup (rq_Namespace req) (rq_Name req) (Inr b) # got_backup_secret b r # cs) res)"
proof (cases "IsPVCBackup b")
  case False
  show ?thesis
    unfolding Backup_source_def if_not_P [OF False]
    by (rule does_mono [OF backup_rec.sync_runs]) (use assms False backup_run.syncs [where ps = "[]"] in simp)
next
  case True
  show ?thesis
    unfolding Backup_source_def if_P [OF True]
  proof (rule does_bindI [OF _ _ Backup_checkSourcePVC_runs], goal_cases)
    case (3 ps e)
    note run = this
    show ?case
    proof (cases e)
      case None
      with run assms True show ?thesis
        by (auto intro!: does_mono [OF backup_rec.sync_runs] backup_run.syncs)
    next
      case (Some err)
      show ?thesis
      proof (cases "apierrors_IsNotFound K err")
        case nf: True
        with run assms True Some show ?thesis
          by (auto simp: backup_phases intro!: Backup_return_then
              backup_run.source_missing [unfolded early_request_def])
      next
        case nf: False
        with run assms True Some show ?thesis
          by (auto simp: backup_phases intro!: Backup_return_then
              backup_run.source_invalid [unfolded early_request_def])
      qed
    qed
  qed simp_all
qed

lemma Backup_reconcile_runs: "does (Backup_reconcile K S R req) h (backup_run K S R req)"
  unfolding Backup_reconcile_def
proof (rule does_bindI [where P = "\<lambda>cs r. cs = [GetBackup (rq_Namespace req) (rq_Name req) r]"], goal_cases)
  case (4 cs r)
  note cs = this
  show ?case
  proof (cases r)
    case (Inl e)
    with cs show ?thesis by (simp add: run_simps backup_run.unreadable)
  next
    case (Inr b)
    consider (deleting) "\<not> timep_IsZero (om_DeletionTimestamp (bk_Meta b))"
      | (unsupported) "timep_IsZero (om_DeletionTimestamp (bk_Meta b))" "\<not> EngineImplemented (bs_Engine (bk_Spec b))"
      | (invalid) e where "timep_IsZero (om_DeletionTimestamp (bk_Meta b))" "EngineImplemented (bs_Engine (bk_Spec b))"
          "ValidateBackupSpec K (bk_Spec b) = Some e"
      | (ok) "timep_IsZero (om_DeletionTimestamp (bk_Meta b))" "EngineImplemented (bs_Engine (bk_Spec b))"
          "ValidateBackupSpec K (bk_Spec b) = None"
      by (cases "ValidateBackupSpec K (bk_Spec b)") blast+
    then show ?thesis
    proof cases
      case deleting
      with cs Inr show ?thesis by (simp add: run_simps backup_run.deleting)
    next
      case unsupported
      with cs Inr show ?thesis
        by (auto simp: backup_phases intro!: Backup_return_then backup_run.unsupported [unfolded early_request_def])
    next
      case invalid
      with cs Inr show ?thesis
        by (auto simp: backup_phases intro!: Backup_return_then backup_run.invalid [unfolded early_request_def])
    next
      case ok
      have "does (do {
          secretErr \<leftarrow> Backup_ensureSecret R b;
          case secretErr of
            None \<Rightarrow> Backup_source K S R b
          | Some err \<Rightarrow>
              if apierrors_IsNotFound K err then
                Backup_return K R b
                  (status_args BackupPhasePending ConditionFalse ''SecretNotFound''
                     (''secret '' @ fmt_q (bs_SecretRef (bk_Spec b)) @ '' not found'') EventTypeWarning None [])
                  secretRequeue
              else
                Backup_return K R b
                  (status_args BackupPhaseError ConditionFalse ''SecretInvalid'' (error_text err)
                     EventTypeWarning None []) 0
        }) (h @ cs) (\<lambda>ds res. backup_run K S R req (cs @ ds) res)"
      proof (rule does_bindI [OF _ _ Backup_ensureSecret_runs], goal_cases)
        case (3 ss e)
        then obtain g where g: "ss = [got_backup_secret b g]" "backup_secret_error b g = e" by blast
        show ?case
        proof (cases e)
          case None
          with g ok cs Inr show ?thesis
            by (auto intro!: does_mono [OF Backup_source_runs [where r = g]])
        next
          case (Some err)
          with g ok cs Inr show ?thesis
            by (cases "apierrors_IsNotFound K err")
              (auto simp: backup_phases intro!: Backup_return_then
                backup_run.secret_missing [unfolded early_request_def]
                backup_run.secret_invalid [unfolded early_request_def])
        qed
      qed simp_all
      with ok Inr show ?thesis by simp
    qed
  qed
qed (simp_all add: run_simps client_defs)

lemma Backup_Reconcile_runs:
  "does (Backup_Reconcile K S R req) h (\<lambda>cs res. \<exists>re. backup_run K S R req cs re \<and> res = requeueOnConflict K re)"
  unfolding Backup_Reconcile_def
  by (rule does_bindI [OF _ _ Backup_reconcile_runs]) (auto simp: run_simps)

section \<open>Safety\<close>

text \<open>No run before the sync changes anything but the status of the Backup that was read.\<close>

lemma backup_run_safe:
  assumes "backup_run K S R req cs res"
  shows "(\<exists>e. cs = [GetBackup (rq_Namespace req) (rq_Name req) (Inl e)]) \<or>
    (\<exists>b ds. cs = GetBackup (rq_Namespace req) (rq_Name req) (Inr b) # ds \<and>
       (\<forall>k\<in>set ds. safe_call K (Backup_owned K S R b) k))"
proof -
  have s: "safe_call K spec k" if "backup_status K R b q ds err" "k \<in> set ds" for b q ds err k spec
    using backup_rec.status_of_harmless [OF that] by (rule harmless_safe)
  have p: "safe_call K spec k" if "source_run b ps e" "k \<in> set ps" for b ps e k spec
    using that by (auto simp: source_run_def safe_call_def Let_def split: if_splits)
  have p': "safe_call K spec k" if "if IsPVCBackup b then source_run b ps None else ps = []" "k \<in> set ps"
    for b ps k spec
    using that p by (auto split: if_splits)
  show ?thesis
    using assms
    by (cases rule: backup_run.cases)
      (auto dest: s p p' backup_rec.sync_run_safe simp: harmless_safe)
qed

text \<open>
  C3: whatever the API server answers, a reconcile of a Backup only ever touches what belongs to
  it.  After reading the Backup, the only objects it creates or updates are the ConfigMap, CronJob,
  claim (only with persistence on) and volume holder (only when the runtime mode needs one) of that
  Backup, under their fixed names; it deletes only objects whose controller is the Backup itself
  (also under a legacy name that another Backup uses today), and it never deletes a claim.
\<close>

theorem Backup_Reconcile_touches_only_its_own:
  "does (Backup_Reconcile K S R req) h
     (\<lambda>cs res. case cs of
        GetBackup ns n r # ds \<Rightarrow> ns = rq_Namespace req \<and> n = rq_Name req \<and>
          (case r of Inl e \<Rightarrow> ds = [] | Inr b \<Rightarrow> list_all (safe_call K (Backup_owned K S R b)) ds)
      | _ \<Rightarrow> False)"
  by (rule does_mono [OF Backup_Reconcile_runs]) (auto dest!: backup_run_safe simp: list_all_iff)

text \<open>
  A Backup that is being deleted is left alone: with a deletion timestamp on the Backup it read,
  the reconciler makes no further call (it recreates none of the objects garbage collection is
  removing) and reports no error.
\<close>

theorem Backup_deleting_is_left_alone:
  assumes "cl_GetBackup (rc_Client R) h (rq_Namespace req) (rq_Name req) = Inr b"
    and "\<not> timep_IsZero (om_DeletionTimestamp (bk_Meta b))"
  shows "run_state (Backup_Reconcile K S R req) h =
    ((Result_zero, None), h @ [GetBackup (rq_Namespace req) (rq_Name req) (Inr b)])"
  using assms
  by (simp add: Backup_Reconcile_def Backup_reconcile_def get_Backup_def call_def State_Monad.bind_def
      State_Monad.return_def requeueOnConflict_def)

section \<open>Conflicts\<close>

lemma backup_run_conflict:
  assumes "backup_run K S R req cs res" and "apierrors_laws K"
    and "k \<in> set cs" "apply_error k = Some e" "apierrors_IsConflict K e"
  shows "(\<forall>k\<in>set cs. \<not> is_status_update k) \<and> (\<exists>e'. snd res = Some e' \<and> apierrors_IsConflict K e')"
proof -
  have s: "apply_error k = None" if "backup_status K R b q ds err" "k \<in> set ds" for b q ds err
    using backup_rec.status_of_harmless [OF that] by simp
  have p: "apply_error k = None" if "source_run b ps e" "k \<in> set ps" for b ps e
    using that by (auto simp: source_run_def Let_def split: if_splits)
  show ?thesis
    using assms(1)
  proof (cases rule: backup_run.cases)
    case (syncs b r ps ds)
    have ps: "\<forall>k\<in>set ps. \<not> is_status_update k \<and> apply_error k = None"
      using syncs(6) by (auto simp: source_run_def Let_def split: if_splits)
    then have "k \<in> set ds" using syncs(1) assms(3,4) by auto
    with backup_rec.sync_run_conflict [OF syncs(7) assms(2) _ assms(4,5)] ps syncs(1) show ?thesis
      by auto
  qed (use assms(3,4) in \<open>auto dest: s p\<close>)
qed

text \<open>
  C5: an optimistic-lock conflict is quiet.  If any write of an owned object is answered with a
  conflict, the Backup's status is not written at all (so the phase cannot flip to Error), and the
  reconcile returns no error but asks to be run again in one second.
\<close>

theorem Backup_conflict_is_quiet:
  assumes "apierrors_laws K"
    and "run_state (Backup_Reconcile K S R req) h = (res, h @ cs)"
    and "k \<in> set cs" and "apply_error k = Some e" and "apierrors_IsConflict K e"
  shows "res = (\<lparr>res_RequeueAfter = 1000000000\<rparr>, None) \<and> list_all (\<lambda>k. \<not> is_status_update k) cs"
proof -
  obtain re where run: "backup_run K S R req cs re" and res: "res = requeueOnConflict K re"
    using does_run [OF Backup_Reconcile_runs assms(2)] by auto
  then obtain e' where "snd re = Some e'" "apierrors_IsConflict K e'" "\<forall>k\<in>set cs. \<not> is_status_update k"
    using backup_run_conflict [OF run assms(1,3-5)] by blast
  with res show ?thesis
    by (cases re) (simp add: requeueOnConflict_def list_all_iff go_const)
qed

section \<open>Ready\<close>

text \<open>The keys a Backup's pods need.\<close>

definition backup_keys :: "Backup \<Rightarrow> string list" where
  "backup_keys b =
     (if IsPVCBackup b then [] else [''username'', ''password'']) @ [''gpg_passphrase''] @
     (if EnabledOrDefault (bs_S3 (bk_Spec b)) then [''s3_access_key'', ''s3_secret_key''] else [])"

lemma backup_secret_error_None:
  "backup_secret_error b r = None \<longleftrightarrow> (\<exists>s. r = Inr s \<and> (\<forall>k\<in>set (backup_keys b). se_Data s k \<noteq> None))"
  by (auto simp: backup_secret_error_def missingKey_None backup_keys_def requiredBackupSecretKeys_def
      requiredBackupDBSecretKeys_def requiredBackupS3SecretKeys_def split: sum.split)

lemma source_run_no_update:
  "if IsPVCBackup b then source_run b ps None else ps = [] \<Longrightarrow> UpdateBackupStatus b' u \<notin> set ps"
  by (auto simp: source_run_def Let_def split: if_splits)

lemma backup_status_phase:
  "backup_status K R b q cs err \<Longrightarrow> UpdateBackupStatus b' u \<in> set cs \<Longrightarrow> st_Phase (bk_Status b') = sr_Phase q"
  using backup_rec.status_of_updates [of K R b q cs err "UpdateBackupStatus b' u"] by auto

lemma sync_run_updates:
  "sync_run K (backup_status K R b) spec cs res \<Longrightarrow> UpdateBackupStatus b' u \<in> set cs \<Longrightarrow>
   \<exists>st. b' = b\<lparr>bk_Status := st\<rparr>"
  by (erule sync_runE; (erule finish_runE)?)
    (auto simp: fail_run_def split: if_splits
      dest: owned_run_no_status legacy_run_no_write backup_rec.status_of_updates)

lemma source_run_no_update':
  "source_run b ps e \<Longrightarrow> UpdateBackupStatus b' u \<notin> set ps"
  by (auto simp: source_run_def Let_def split: if_splits)

lemma backup_run_ready:
  assumes "backup_run K S R req cs res" and "UpdateBackupStatus b' u \<in> set cs"
    and "st_Phase (bk_Status b') = ''Ready''"
  shows "\<exists>b r ps ds. cs = GetBackup (rq_Namespace req) (rq_Name req) (Inr b) # got_backup_secret b r # ps @ ds \<and>
    ValidateBackupSpec K (bk_Spec b) = None \<and> backup_secret_error b r = None \<and>
    UpdateBackupStatus b' u \<in> set ds \<and> sync_run K (backup_status K R b) (Backup_owned K S R b) ds res"
  using assms(1)
proof (cases rule: backup_run.cases)
  case (syncs b r ps ds)
  then have "UpdateBackupStatus b' u \<in> set ds"
    using assms(2) source_run_no_update [OF syncs(6)] by auto
  with syncs show ?thesis by blast
qed (use assms(2,3) in \<open>auto dest: backup_status_phase source_run_no_update'\<close>)

text \<open>
  C1: Ready means ready.  When a reconcile writes the phase Ready, the Backup it read has an
  accepted spec; the Secret it read has every key the pods will refer to; the ConfigMap, the claim
  (with persistence on), the volume holder (where needed, and then available) and the CronJob have
  been applied successfully in this very run; and the status names that CronJob, carries the
  generation that was reconciled and a true Ready condition for it.
\<close>

theorem Backup_ready_means_synced:
  assumes "condition_laws K" and "run_state (Backup_Reconcile K S R req) h = (res, h @ cs)"
    and "UpdateBackupStatus b' u \<in> set cs" and "st_Phase (bk_Status b') = ''Ready''"
  shows "\<exists>b s cron c. GetBackup (rq_Namespace req) (rq_Name req) (Inr b) \<in> set cs \<and>
    bk_Meta b' = bk_Meta b \<and> bk_Spec b' = bk_Spec b \<and> ValidateBackupSpec K (bk_Spec b) = None \<and>
    got_backup_secret b (Inr s) \<in> set cs \<and> set (backup_keys b) \<subseteq> dom (se_Data s) \<and>
    synced_calls K (Backup_owned K S R b) cron cs \<and>
    st_CronJobName (bk_Status b') = om_Name (cj_Meta cron) \<and>
    st_ObservedGeneration (bk_Status b') = om_Generation (bk_Meta b) \<and>
    find_condition (st_Conditions (bk_Status b')) ConditionReady = Some c \<and>
    co_Status c = ConditionTrue \<and> co_ObservedGeneration c = om_Generation (bk_Meta b)"
proof -
  obtain re where "backup_run K S R req cs re"
    using does_run [OF Backup_Reconcile_runs assms(2)] by auto
  from backup_run_ready [OF this assms(3,4)] obtain b r ps ds where
    cs: "cs = GetBackup (rq_Namespace req) (rq_Name req) (Inr b) # got_backup_secret b r # ps @ ds"
    and valid: "ValidateBackupSpec K (bk_Spec b) = None" and sec: "backup_secret_error b r = None"
    and upd: "UpdateBackupStatus b' u \<in> set ds"
    and sync: "sync_run K (backup_status K R b) (Backup_owned K S R b) ds re"
    by blast
  obtain st where b': "b' = b\<lparr>bk_Status := st\<rparr>" using sync_run_updates [OF sync upd] by blast
  obtain cron lj where synced: "synced_calls K (Backup_owned K S R b) cron ds"
      and st: "st = fst (nextStatus K ConditionBackupSucceeded (om_Generation (bk_Meta b)) (bk_Status b)
        (synced_request (Backup_owned K S R b) cron) lj)"
    using backup_rec.sync_run_ready [OF sync upd [unfolded b']] assms(4) b' by auto
  obtain c where c: "find_condition (st_Conditions st) ConditionReady = Some c"
      "same_condition c (readyCondition (om_Generation (bk_Meta b)) (synced_request (Backup_owned K S R b) cron))"
    using nextStatus_conditions [OF assms(1) condition_types(1)] st by blast
  obtain s where s: "r = Inr s" "set (backup_keys b) \<subseteq> dom (se_Data s)"
    using sec by (auto simp: backup_secret_error_None)
  have "synced_calls K (Backup_owned K S R b) cron cs"
    using synced by (auto simp: synced_calls_def cs)
  moreover have "st_CronJobName st = om_Name (cj_Meta cron)"
    "st_ObservedGeneration st = om_Generation (bk_Meta b)"
    by (simp_all add: st synced_request_def status_args_def)
  moreover have "co_Status c = ConditionTrue" "co_ObservedGeneration c = om_Generation (bk_Meta b)"
    using c(2) by (simp_all add: same_condition_def synced_request_def status_args_def)
  ultimately show ?thesis using cs valid s b' c(1) by (intro exI [of _ b]) auto
qed

section \<open>Closed instances\<close>

lemma ex_configMapFn: "\<exists>x. configMapFn doc_lib (Backup_owned doc_lib S (ex_reconciler c) ex_backup) (newConfigMap n ns) = Inr x"
  by (rule configMapFn_fresh)
    (simp_all add: Backup_owned_def MutateBackupConfigMap_def Let_def s3DataError_None s3Endpoint_def s3Bucket_def
      ex_defs EnabledOrDefault_def newConfigMap_def del: first_error_None_iff)

lemma ex_cronJobFn: "\<exists>x. cronJobFn doc_lib (Backup_owned doc_lib S (ex_reconciler c) ex_backup) (newCronJob n ns) = Inr x"
proof -
  obtain cj where "MutateBackupCronJob doc_lib S (newCronJob n ns) ex_backup ex_config = Some cj"
      "om_OwnerReferences (cj_Meta cj) = []"
    using MutateCronJob_meta(1) [of doc_lib S "newCronJob n ns" ex_backup ex_config]
    by (auto simp: newCronJob_def named_meta_def objectmeta_zero_def)
  then show ?thesis
    by (intro cronJobFn_fresh) (auto simp: Backup_owned_def ex_reconciler_def)
qed

lemma ex_backup_facts [simp]:
  "backup_secret_error ex_backup (Inr ex_secret) = None" "\<not> IsPVCBackup ex_backup"
  "\<not> NeedsVolumeHolder (bs_Runtime (bk_Spec ex_backup))"
  "timep_IsZero (om_DeletionTimestamp (bk_Meta ex_backup))" "EngineImplemented (bs_Engine (bk_Spec ex_backup))"
  "PersistenceEnabled (bs_Persistence (bk_Spec ex_backup))"
  "LegacyOwnedName (om_Name (bk_Meta ex_backup)) \<noteq> BackupOwnedName ex_backup"
  "st_Phase (bk_Status ex_backup) = []" "VolumeHolderName (BackupOwnedName ex_backup) \<noteq> []"
  by (simp_all add: backup_secret_error_None backup_keys_def ex_secret_def IsPVCBackup_def
      NeedsVolumeHolder_def EffectiveMode_def timep_IsZero_def EngineImplemented_def PersistenceEnabled_def
      LegacyOwnedName_def BackupOwnedName_def VolumeHolderName_def EffectiveEngine_def ex_defs go_const)

lemma ex_backup_ready:
  "does (Backup_Reconcile doc_lib S (ex_reconciler ex_client) ex_request) []
     (\<lambda>cs res. \<exists>b'. UpdateBackupStatus b' None \<in> set cs \<and> st_Phase (bk_Status b') = ''Ready'')"
proof -
  let ?R = "ex_reconciler ex_client"
  obtain cm where cm: "configMapFn doc_lib (Backup_owned doc_lib S ?R ex_backup) (newConfigMap n ns) = Inr (cm n ns)" for n ns
    using ex_configMapFn by metis
  obtain cj where cj: "cronJobFn doc_lib (Backup_owned doc_lib S ?R ex_backup) (newCronJob n ns) = Inr (cj n ns)" for n ns
    using ex_cronJobFn by metis
  obtain pv where pv: "pvcFn doc_lib (Backup_owned doc_lib S ?R ex_backup) (newPVC n ns) = Inr (pv n ns)" for n ns
    using pvcFn_fresh by metis
  show ?thesis
    by (simp add: Backup_Reconcile_def Backup_reconcile_def does_Backup_ensureSecret Backup_source_def
        Backup_sync_def Backup_finish_def ensureOwned_def deleteLegacyOwned_def deleteIfController_def
        Backup_return_def Backup_setStatus_def lastJobStatus_def case_prod_beta nextStatus_patch
        statusNeedsPatch_def status_args_def BackupPhaseReady_def
        client_defs run_simps cm cj pv Let_def)
qed

theorem Backup_ready_means_synced_witness:
  "\<forall>S. \<exists>res cs b' b cron. run_state (Backup_Reconcile doc_lib S (ex_reconciler ex_client) ex_request) [] = (res, [] @ cs) \<and>
     UpdateBackupStatus b' None \<in> set cs \<and> st_Phase (bk_Status b') = ''Ready'' \<and>
     bk_Meta b' = bk_Meta b \<and> synced_calls doc_lib (Backup_owned doc_lib S (ex_reconciler ex_client) b) cron cs"
proof
  fix S
  obtain res cs b' where run: "run_state (Backup_Reconcile doc_lib S (ex_reconciler ex_client) ex_request) [] = (res, [] @ cs)"
      and b': "UpdateBackupStatus b' None \<in> set cs" "st_Phase (bk_Status b') = ''Ready''"
    using ex_backup_ready [of S] by (auto simp: does_def)
  with Backup_ready_means_synced [OF condition_laws_doc run b'] show
    "\<exists>res cs b' b cron. run_state (Backup_Reconcile doc_lib S (ex_reconciler ex_client) ex_request) [] = (res, [] @ cs) \<and>
     UpdateBackupStatus b' None \<in> set cs \<and> st_Phase (bk_Status b') = ''Ready'' \<and>
     bk_Meta b' = bk_Meta b \<and> synced_calls doc_lib (Backup_owned doc_lib S (ex_reconciler ex_client) b) cron cs"
    by blast
qed

lemma ex_backup_busy:
  "does (Backup_Reconcile doc_lib S (ex_reconciler ex_busy_client) ex_request) []
     (\<lambda>cs res. \<exists>x f. ApplyCronJob x f (Inl conflict) \<in> set cs)"
proof -
  let ?R = "ex_reconciler ex_busy_client"
  obtain cm where cm: "configMapFn doc_lib (Backup_owned doc_lib S ?R ex_backup) (newConfigMap n ns) = Inr (cm n ns)" for n ns
    using ex_configMapFn by metis
  obtain pv where pv: "pvcFn doc_lib (Backup_owned doc_lib S ?R ex_backup) (newPVC n ns) = Inr (pv n ns)" for n ns
    using pvcFn_fresh by metis
  show ?thesis
    by (simp add: Backup_Reconcile_def Backup_reconcile_def does_Backup_ensureSecret Backup_source_def
        Backup_sync_def ensureOwned_def deleteIfController_def Backup_fail_def client_defs run_simps cm pv Let_def)
qed

theorem Backup_conflict_is_quiet_witness:
  "\<forall>S. \<exists>cs x f. run_state (Backup_Reconcile doc_lib S (ex_reconciler ex_busy_client) ex_request) [] =
     ((\<lparr>res_RequeueAfter = 1000000000\<rparr>, None), [] @ cs) \<and> ApplyCronJob x f (Inl conflict) \<in> set cs"
proof
  fix S
  obtain res cs x f where run: "run_state (Backup_Reconcile doc_lib S (ex_reconciler ex_busy_client) ex_request) [] = (res, [] @ cs)"
      and k: "ApplyCronJob x f (Inl conflict) \<in> set cs"
    using ex_backup_busy [of S] by (auto simp: does_def)
  have "res = (\<lparr>res_RequeueAfter = 1000000000\<rparr>, None)"
    using Backup_conflict_is_quiet [OF apierrors_laws_doc run k, of conflict] by simp
  with run k show "\<exists>cs x f. run_state (Backup_Reconcile doc_lib S (ex_reconciler ex_busy_client) ex_request) [] =
     ((\<lparr>res_RequeueAfter = 1000000000\<rparr>, None), [] @ cs) \<and> ApplyCronJob x f (Inl conflict) \<in> set cs"
    by blast
qed

definition ex_deleting_backup :: Backup where
  "ex_deleting_backup = ex_backup\<lparr>bk_Meta := (bk_Meta ex_backup)\<lparr>om_DeletionTimestamp := Some 9\<rparr>\<rparr>"

theorem Backup_deleting_is_left_alone_witness:
  "\<forall>S. run_state (Backup_Reconcile doc_lib S
       (ex_reconciler (ex_client\<lparr>cl_GetBackup := (\<lambda>h ns n. Inr ex_deleting_backup)\<rparr>)) ex_request) [] =
     ((Result_zero, None), [] @ [GetBackup ''backup'' ''app-postgres'' (Inr ex_deleting_backup)])"
proof
  fix S
  have "\<not> timep_IsZero (om_DeletionTimestamp (bk_Meta ex_deleting_backup))"
    by (simp add: ex_deleting_backup_def timep_IsZero_def time_IsZero_def)
  with Backup_deleting_is_left_alone [of "ex_reconciler (ex_client\<lparr>cl_GetBackup := (\<lambda>h ns n. Inr ex_deleting_backup)\<rparr>)"
      "[]" ex_request ex_deleting_backup doc_lib S]
  show "run_state (Backup_Reconcile doc_lib S
       (ex_reconciler (ex_client\<lparr>cl_GetBackup := (\<lambda>h ns n. Inr ex_deleting_backup)\<rparr>)) ex_request) [] =
     ((Result_zero, None), [] @ [GetBackup ''backup'' ''app-postgres'' (Inr ex_deleting_backup)])"
    by (simp add: ex_request_def)
qed

section \<open>The Secret and the pods agree\<close>

text \<open>
  C18: the keys the reconciler insists on are exactly the keys the pods refer to.  The check of the
  Secret passes if and only if the read succeeded and the Secret holds every key that the CronJob's
  stages take from it, for every engine and with S3 on or off; and the stages take keys from no
  other Secret.
\<close>

theorem Backup_secret_check_exact:
  "does (Backup_ensureSecret R b) h (\<lambda>cs err. \<exists>r p.
     cs = [GetSecret (om_Namespace (bk_Meta b)) (bs_SecretRef (bk_Spec b)) r] \<and>
     pod_of (MutateBackupCronJob K S cj b cfg) = Some p \<and>
     list_all (\<lambda>(s, k). s = bs_SecretRef (bk_Spec b)) (concat (map snd (stage_keys p))) \<and>
     (err = None \<longleftrightarrow> (\<exists>s. r = Inr s \<and> list_all (\<lambda>(_, k). k \<in> dom (se_Data s)) (concat (map snd (stage_keys p))))))"
proof -
  obtain p where p: "pod_of (MutateBackupCronJob K S cj b cfg) = Some p"
      and v: "map stage_view (po_Containers p) = backupStages b"
      and vol: "po_Volumes p = backupVolumes K b (secretName b)"
    using MutateBackupCronJob_pod by blast
  have keys: "concat (map snd (stage_keys p)) = map (Pair (bs_SecretRef (bk_Spec b))) (backup_keys b)"
    by (simp add: backup_stage_keys [OF v vol] backup_keys_def secretName_def Let_def)
  have own: "list_all (\<lambda>(s, k). s = bs_SecretRef (bk_Spec b)) (concat (map snd (stage_keys p)))"
    unfolding keys by (simp add: list_all_iff)
  have all: "list_all (\<lambda>(_, k). k \<in> dom (se_Data s)) (concat (map snd (stage_keys p))) \<longleftrightarrow>
      (\<forall>k\<in>set (backup_keys b). se_Data s k \<noteq> None)" for s
    unfolding keys by (auto simp: list_all_iff)
  show ?thesis
    unfolding does_Backup_ensureSecret Let_def backup_secret_error_None
    by (rule exI, rule exI [of _ p], unfold all, intro conjI p own) (rule refl)+
qed

section \<open>Settling\<close>

text \<open>
  C6: a Backup settles.  Once a status has been written, asking for the same status again while the
  Jobs are unchanged makes exactly one call, the listing of the Jobs: no event is recorded and
  nothing is written, so the operator does not feed its own watch.
\<close>

theorem Backup_status_settles:
  assumes "condition_laws K" and "deepequal_laws K" and "sr_Phase q \<noteq> []"
    and "bk_Status b' = fst (nextStatus K ConditionBackupSucceeded (om_Generation (bk_Meta b)) (bk_Status b) q lj)"
    and "bk_Meta b' = bk_Meta b"
    and "\<forall>h. last_job_of (om_Namespace (bk_Meta b)) LabelBackupName (om_Name (bk_Meta b)) KindBackup
      (cl_ListJobs (rc_Client R) h (om_Namespace (bk_Meta b)) (lastJobSelector LabelBackupName (om_Name (bk_Meta b)) KindBackup)) = lj"
  shows "\<exists>jobs. run_state (Backup_setStatus K R b' q) h =
    (None, h @ [ListJobs (om_Namespace (bk_Meta b)) (lastJobSelector LabelBackupName (om_Name (bk_Meta b)) KindBackup) jobs])"
proof -
  have "snd (nextStatus K ConditionBackupSucceeded (om_Generation (bk_Meta b)) (bk_Status b') q lj) = (False, False)"
    unfolding assms(4) by (rule nextStatus_settles [OF assms(1,2) condition_types(1) assms(3)])
  then have "does (Backup_setStatus K R b' q) h (\<lambda>cs err. err = None \<and>
      (\<exists>jobs. cs = [ListJobs (om_Namespace (bk_Meta b)) (lastJobSelector LabelBackupName (om_Name (bk_Meta b)) KindBackup) jobs]))"
    using assms(6)
    by (simp add: Backup_setStatus_def lastJobStatus_def client_defs run_simps case_prod_beta assms(5)
        last_job_of_def)
  then show ?thesis by (auto simp: does_def)
qed

text \<open>The example Backup after its first reconcile.\<close>

definition ex_synced_backup :: Backup where
  "ex_synced_backup = ex_backup\<lparr>bk_Status :=
     fst (nextStatus doc_lib ConditionBackupSucceeded (om_Generation (bk_Meta ex_backup)) (bk_Status ex_backup)
       ex_ready_request
       (last_job_of (om_Namespace (bk_Meta ex_backup)) LabelBackupName (om_Name (bk_Meta ex_backup)) KindBackup
          (Inr [ex_retried_job])))\<rparr>"

theorem Backup_status_settles_witness:
  "\<exists>jobs. run_state (Backup_setStatus doc_lib (ex_reconciler ex_client) ex_synced_backup ex_ready_request) [] =
     (None, [] @ [ListJobs ''backup'' (lastJobSelector LabelBackupName ''app-postgres'' KindBackup) jobs])"
proof -
  have "om_Namespace (bk_Meta ex_backup) = ''backup''" "om_Name (bk_Meta ex_backup) = ''app-postgres''"
    by (simp_all add: ex_defs)
  moreover have "sr_Phase ex_ready_request \<noteq> []" by (simp add: ex_ready_request_def BackupPhaseReady_def)
  ultimately show ?thesis
    using Backup_status_settles [OF condition_laws_doc deepequal_laws_doc, of ex_ready_request ex_synced_backup
        ex_backup "last_job_of ''backup'' LabelBackupName ''app-postgres'' KindBackup (Inr [ex_retried_job])"
        "ex_reconciler ex_client" "[]"]
    by (simp add: ex_synced_backup_def)
qed

section \<open>A Secret that cannot be read\<close>

text \<open>What a successful status run leaves behind, written or already there.\<close>

lemma status_run_leaves:
  assumes "condition_laws K" and "deepequal_laws K" and "ty \<noteq> ConditionReady"
    and "\<And>st e. is_status_update (update st e)"
    and run: "status_run K hasRecorder ty nameLabel kind m st update q cs err"
  shows "\<exists>st' c. (filter is_status_update cs = [update st' err] \<or> filter is_status_update cs = [] \<and> st' = st) \<and>
    st_Phase st' = sr_Phase q \<and> st_ObservedGeneration st' = om_Generation m \<and>
    find_condition (st_Conditions st') ConditionReady = Some c \<and>
    same_condition c (readyCondition (om_Generation m) q)"
proof -
  obtain jobs where cs: "cs = ListJobs (om_Namespace m) (lastJobSelector nameLabel (om_Name m) kind) jobs #
      (if hasRecorder \<and> fst (snd n) then [RecordEvent m (sr_EventType q) (sr_Reason q) (sr_Message q)] else []) @
      (if snd (snd n) then [update (fst n) err] else [])"
      if "n = nextStatus K ty (om_Generation m) st q (last_job_of (om_Namespace m) nameLabel (om_Name m) kind jobs)" for n
    using run unfolding status_run_def Let_def case_prod_beta by blast
  define lj where "lj = last_job_of (om_Namespace m) nameLabel (om_Name m) kind jobs"
  define n where "n = nextStatus K ty (om_Generation m) st q lj"
  have "filter is_status_update cs = (if snd (snd n) then [update (fst n) err] else [])"
    using cs [of n] assms(4) by (simp add: n_def lj_def)
  moreover have "fst n = st" if "\<not> snd (snd n)"
    using skipped_update_changes_nothing [OF assms(1,2)] that by (simp add: n_def)
  moreover obtain c where "find_condition (st_Conditions (fst n)) ConditionReady = Some c"
      "same_condition c (readyCondition (om_Generation m) q)"
    using nextStatus_conditions [OF assms(1,3)] unfolding n_def by blast
  ultimately show ?thesis
    by (intro exI [of _ "fst n"] exI [of _ c]) (simp add: n_def)
qed

lemma Backup_setStatus_leaves:
  assumes "condition_laws K" and "deepequal_laws K" and "\<forall>h x. cl_UpdateBackupStatus (rc_Client R) h x = None"
  shows "does (Backup_setStatus K R b q) h (\<lambda>cs err. err = None \<and>
    list_all (\<lambda>k. \<not> is_apply k \<and> deleted_meta k = None) cs \<and>
    (\<exists>st c. (filter is_status_update cs = [UpdateBackupStatus (b\<lparr>bk_Status := st\<rparr>) None] \<or>
        filter is_status_update cs = [] \<and> st = bk_Status b) \<and>
      st_Phase st = sr_Phase q \<and> st_ObservedGeneration st = om_Generation (bk_Meta b) \<and>
      find_condition (st_Conditions st) ConditionReady = Some c \<and> co_Status c = sr_Ready q \<and>
      co_Reason c = sr_Reason q \<and> co_Message c = sr_Message q))"
proof -
  have "does (Backup_setStatus K R b q) h (\<lambda>cs err. err = None \<and> list_all (\<lambda>k. \<not> is_apply k \<and> deleted_meta k = None) cs)"
    using assms(3)
    by (simp add: Backup_setStatus_def lastJobStatus_def case_prod_beta client_defs run_simps Let_def)
  note runs = does_conj [OF this Backup_setStatus_runs]
  show ?thesis
  proof (rule does_mono [OF runs])
    fix cs err
    assume run: "(err = None \<and> list_all (\<lambda>k. \<not> is_apply k \<and> deleted_meta k = None) cs) \<and> backup_status K R b q cs err"
    then obtain st c where
      "filter is_status_update cs = [UpdateBackupStatus (b\<lparr>bk_Status := st\<rparr>) None] \<or>
        filter is_status_update cs = [] \<and> st = bk_Status b"
      "st_Phase st = sr_Phase q" "st_ObservedGeneration st = om_Generation (bk_Meta b)"
      "find_condition (st_Conditions st) ConditionReady = Some c"
      "same_condition c (readyCondition (om_Generation (bk_Meta b)) q)"
      using status_run_leaves [OF assms(1,2) condition_types(1), of "backup_update b"] by fastforce
    with run show "err = None \<and> list_all (\<lambda>k. \<not> is_apply k \<and> deleted_meta k = None) cs \<and>
      (\<exists>st c. (filter is_status_update cs = [UpdateBackupStatus (b\<lparr>bk_Status := st\<rparr>) None] \<or>
          filter is_status_update cs = [] \<and> st = bk_Status b) \<and>
        st_Phase st = sr_Phase q \<and> st_ObservedGeneration st = om_Generation (bk_Meta b) \<and>
        find_condition (st_Conditions st) ConditionReady = Some c \<and> co_Status c = sr_Ready q \<and>
        co_Reason c = sr_Reason q \<and> co_Message c = sr_Message q)"
      by (intro conjI exI [of _ st] exI [of _ c]) (simp_all add: same_condition_def)
  qed
qed

text \<open>
  C38: what becomes of an accepted Backup whose Secret cannot be read, on a server that accepts every
  status write.  Nothing is applied or deleted, and the reconcile leaves the failure in the status: the
  status it writes, as its only status write (or, if that very status is already stored, the status it
  found), has for this generation the phase Pending, reason \<^verbatim>\<open>SecretNotFound\<close>, when the Secret is missing,
  and the phase Error, reason \<^verbatim>\<open>SecretInvalid\<close> with the text of the error, for any other failure, with the
  Ready condition false.  A missing Secret is looked for again in 30 seconds; but any other error of the
  read, a passing failure of the API server included, is only reported: the reconcile returns neither the
  error nor a requeue interval, so the read is not retried.
\<close>

theorem Backup_unreadable_secret:
  assumes "condition_laws K" and "deepequal_laws K"
    and "\<forall>h. cl_GetBackup (rc_Client R) h (rq_Namespace req) (rq_Name req) = Inr b"
    and "timep_IsZero (om_DeletionTimestamp (bk_Meta b))" and "EngineImplemented (bs_Engine (bk_Spec b))"
    and "ValidateBackupSpec K (bk_Spec b) = None"
    and "\<forall>h. cl_GetSecret (rc_Client R) h (om_Namespace (bk_Meta b)) (bs_SecretRef (bk_Spec b)) = Inl e"
    and "\<forall>h x. cl_UpdateBackupStatus (rc_Client R) h x = None"
  shows "does (Backup_Reconcile K S R req) h (\<lambda>cs res.
    res = (\<lparr>res_RequeueAfter = (if apierrors_IsNotFound K e then 30000000000 else 0)\<rparr>, None) \<and>
    list_all (\<lambda>k. \<not> is_apply k \<and> deleted_meta k = None) cs \<and>
    (\<exists>st c. (filter is_status_update cs = [UpdateBackupStatus (b\<lparr>bk_Status := st\<rparr>) None] \<or>
        filter is_status_update cs = [] \<and> st = bk_Status b) \<and>
      st_Phase st = (if apierrors_IsNotFound K e then ''Pending'' else ''Error'') \<and>
      st_ObservedGeneration st = om_Generation (bk_Meta b) \<and>
      find_condition (st_Conditions st) ConditionReady = Some c \<and> co_Status c = ConditionFalse \<and>
      co_Reason c = (if apierrors_IsNotFound K e then ''SecretNotFound'' else ''SecretInvalid'') \<and>
      co_Message c = (if apierrors_IsNotFound K e then ''secret '' @ fmt_q (bs_SecretRef (bk_Spec b)) @ '' not found''
        else error_text e)))"
  using assms(3-7)
  by (simp add: Backup_Reconcile_def Backup_reconcile_def does_Backup_ensureSecret backup_secret_error_def
      Backup_return_def client_defs run_simps Let_def)
    (auto intro!: does_mono [OF Backup_setStatus_leaves [OF assms(1,2,8)]]
      simp: run_simps requeueOnConflict_def secretRequeue_def time_Second_def status_args_def backup_phases)

theorem Backup_unreadable_secret_witness:
  "\<forall>S. does (Backup_Reconcile doc_lib S
       (ex_reconciler (ex_client\<lparr>cl_GetSecret := (\<lambda>h ns n. Inl (StatusError (ReasonOther ''Timeout'') ''timeout''))\<rparr>))
       ex_request) [] (\<lambda>cs res. res = (\<lparr>res_RequeueAfter = 0\<rparr>, None) \<and>
         (\<exists>st. UpdateBackupStatus (ex_backup\<lparr>bk_Status := st\<rparr>) None \<in> set cs \<and> st_Phase st = ''Error''))"
proof
  fix S
  let ?e = "StatusError (ReasonOther ''Timeout'') ''timeout''"
  let ?R = "ex_reconciler (ex_client\<lparr>cl_GetSecret := (\<lambda>h ns n. Inl ?e)\<rparr>)"
  have written: "UpdateBackupStatus b' None \<in> set cs" if "filter is_status_update cs = [UpdateBackupStatus b' None]" for b' cs
    using arg_cong [OF that, of set] by auto
  show "does (Backup_Reconcile doc_lib S ?R ex_request) [] (\<lambda>cs res. res = (\<lparr>res_RequeueAfter = 0\<rparr>, None) \<and>
         (\<exists>st. UpdateBackupStatus (ex_backup\<lparr>bk_Status := st\<rparr>) None \<in> set cs \<and> st_Phase st = ''Error''))"
    by (rule does_mono [OF Backup_unreadable_secret [OF condition_laws_doc deepequal_laws_doc, of ?R ex_request ex_backup ?e S "[]"]])
      (auto simp: ex_client_def dest: written)
qed

end
