(* ===== verification/Restore_Controller.thy ===== *)
theory Restore_Controller
  imports Example_Client
begin

text \<open>
  \<^verbatim>\<open>internal/controller/restore_controller.go\<close>: the reconciler of Restores.  It checks two
  Secrets (that of the Job and that of the target database) and has no source claim; from the owned
  objects on it is the reconciler of Backups again, and shares its lemmas through
  \<^verbatim>\<open>reconciled_kind\<close>.
\<close>

section \<open>The reconciler\<close>

definition requiredRestoreSecretKeys :: "string list" where
  "requiredRestoreSecretKeys = [''s3_access_key'', ''s3_secret_key'', ''gpg_passphrase'']"

definition Restore_ensureJobSecret :: "Reconciler \<Rightarrow> Restore \<Rightarrow> goerror option kprog" where
  "Restore_ensureJobSecret R restore = do {
     r \<leftarrow> get_Secret (rc_Client R) (om_Namespace (re_Meta restore)) (rs_SecretRef (re_Spec restore));
     State_Monad.return
       (case r of Inl err \<Rightarrow> Some err | Inr s \<Rightarrow> missingKey ''secret'' s requiredRestoreSecretKeys)
   }"

definition Restore_ensureTargetSecret :: "Reconciler \<Rightarrow> Restore \<Rightarrow> goerror option kprog" where
  "Restore_ensureTargetSecret R restore = do {
     let (name, userKey, passKey) = RestoreTargetSecret restore;
     r \<leftarrow> get_Secret (rc_Client R) (om_Namespace (re_Meta restore)) name;
     State_Monad.return
       (case r of Inl err \<Rightarrow> Some err | Inr s \<Rightarrow> missingKey ''target secret'' s [userKey, passKey])
   }"

definition Restore_setStatus :: "k8slib \<Rightarrow> Reconciler \<Rightarrow> Restore \<Rightarrow> status_request \<Rightarrow> goerror option kprog" where
  "Restore_setStatus K R restore q = do {
     newLastJob \<leftarrow> lastJobStatus (rc_Client R) (om_Namespace (re_Meta restore)) LabelRestoreName
       (om_Name (re_Meta restore)) KindRestore;
     let (status, event, patch) = nextStatus K ConditionRestoreSucceeded (om_Generation (re_Meta restore))
       (re_Status restore) q newLastJob;
     _ \<leftarrow> (if rc_HasRecorder R \<and> event
          then record_Event (re_Meta restore) (sr_EventType q) (sr_Reason q) (sr_Message q)
          else State_Monad.return ());
     if \<not> patch then State_Monad.return None
     else update_RestoreStatus (rc_Client R) (restore\<lparr>re_Status := status\<rparr>)
   }"

definition Restore_return ::
  "k8slib \<Rightarrow> Reconciler \<Rightarrow> Restore \<Rightarrow> status_request \<Rightarrow> int \<Rightarrow> (ctrlResult \<times> goerror option) kprog" where
  "Restore_return K R restore q requeue = do {
     statusErr \<leftarrow> Restore_setStatus K R restore q;
     State_Monad.return (after_status requeue statusErr)
   }"

definition Restore_fail ::
  "k8slib \<Rightarrow> Reconciler \<Rightarrow> Restore \<Rightarrow> string \<Rightarrow> goerror \<Rightarrow> goerror option kprog" where
  "Restore_fail K R restore reason err =
     (if apierrors_IsConflict K err then State_Monad.return (Some err)
      else do {
        statusErr \<leftarrow> Restore_setStatus K R restore
          (status_args RestorePhaseError ConditionFalse reason (error_text err) EventTypeWarning None []);
        State_Monad.return (case statusErr of Some e \<Rightarrow> Some e | None \<Rightarrow> Some err)
      })"

definition Restore_owned :: "k8slib \<Rightarrow> Scripts \<Rightarrow> Reconciler \<Rightarrow> Restore \<Rightarrow> ownedResources" where
  "Restore_owned K S R restore =
     \<lparr>ow_Owner = re_Meta restore, ow_Kind = ''Restore'', ow_Name = RestoreOwnedName restore,
      ow_Persistence = rs_Persistence (re_Spec restore), ow_Labels = RestoreLabels restore,
      ow_VolumeHolder = NeedsVolumeHolder (rs_Runtime (re_Spec restore)),
      ow_HolderName = VolumeHolderName (RestoreOwnedName restore),
      ow_MutateConfigMap = (\<lambda>cm. MutateRestoreConfigMap cm restore (rc_Config R)),
      ow_MutateCronJob = (\<lambda>cj. MutateRestoreCronJob K S cj restore (rc_Config R)),
      ow_MutateVolumeHolder =
        (\<lambda>d. MutateVolumeHolderDeployment K d (restoreHolderSpec restore) (rc_Config R))\<rparr>"

definition Restore_finish ::
  "k8slib \<Rightarrow> Reconciler \<Rightarrow> Restore \<Rightarrow> cronjob \<Rightarrow> (ctrlResult \<times> goerror option) kprog" where
  "Restore_finish K R restore cron = (
     let holderName = VolumeHolderName (RestoreOwnedName restore);
         synced = status_args RestorePhaseReady ConditionTrue ''Synced''
           (''CronJob '' @ om_Name (cj_Meta cron) @ '' is synced'') EventTypeNormal (Some cron)
     in if NeedsVolumeHolder (rs_Runtime (re_Spec restore)) then do {
          d \<leftarrow> get_Deployment (rc_Client R) (om_Namespace (re_Meta restore)) holderName;
          case d of
            Inl err \<Rightarrow> do {
              e \<leftarrow> Restore_fail K R restore ''VolumeHolderError'' err;
              State_Monad.return (Result_zero, e)
            }
          | Inr deploy \<Rightarrow>
              if \<not> volumeHolderAvailable deploy then
                Restore_return K R restore
                  (status_args RestorePhasePending ConditionFalse ''VolumeHolderNotReady''
                     (''waiting for volume holder Deployment '' @ holderName) EventTypeNormal (Some cron) holderName)
                  holderRequeue
              else Restore_return K R restore (synced holderName) 0
        } else Restore_return K R restore (synced []) 0)"

definition Restore_sync ::
  "k8slib \<Rightarrow> Scripts \<Rightarrow> Reconciler \<Rightarrow> Restore \<Rightarrow> (ctrlResult \<times> goerror option) kprog" where
  "Restore_sync K S R restore = do {
     cron \<leftarrow> ensureOwned K (rc_Client R) (Restore_owned K S R restore);
     case cron of
       Inl err \<Rightarrow> do {
         e \<leftarrow> Restore_fail K R restore (ownedReason err) err;
         State_Monad.return (Result_zero, e)
       }
     | Inr cj \<Rightarrow> do {
         legacy \<leftarrow> deleteLegacyOwned K (rc_Client R) (re_Meta restore) (RestoreOwnedName restore);
         case legacy of
           Some err \<Rightarrow> do {
             e \<leftarrow> Restore_fail K R restore ''LegacyCleanupError'' err;
             State_Monad.return (Result_zero, e)
           }
         | None \<Rightarrow> Restore_finish K R restore cj
       }
   }"

text \<open>The Secret of the target database, then the owned objects.\<close>

definition Restore_target ::
  "k8slib \<Rightarrow> Scripts \<Rightarrow> Reconciler \<Rightarrow> Restore \<Rightarrow> (ctrlResult \<times> goerror option) kprog" where
  "Restore_target K S R restore = do {
     targetErr \<leftarrow> Restore_ensureTargetSecret R restore;
     case targetErr of
       None \<Rightarrow> Restore_sync K S R restore
     | Some err \<Rightarrow>
         if apierrors_IsNotFound K err then
           Restore_return K R restore
             (status_args RestorePhasePending ConditionFalse ''TargetSecretNotFound''
                (''target secret '' @ fmt_q (fst (RestoreTargetSecret restore)) @ '' not found'')
                EventTypeWarning None []) secretRequeue
         else
           Restore_return K R restore
             (status_args RestorePhaseError ConditionFalse ''TargetSecretInvalid'' (error_text err)
                EventTypeWarning None []) 0
   }"

definition Restore_reconcile ::
  "k8slib \<Rightarrow> Scripts \<Rightarrow> Reconciler \<Rightarrow> request \<Rightarrow> (ctrlResult \<times> goerror option) kprog" where
  "Restore_reconcile K S R req = do {
     r \<leftarrow> get_Restore (rc_Client R) (rq_Namespace req) (rq_Name req);
     case r of
       Inl err \<Rightarrow> State_Monad.return (Result_zero, client_IgnoreNotFound K err)
     | Inr restore \<Rightarrow>
         if \<not> timep_IsZero (om_DeletionTimestamp (re_Meta restore)) then State_Monad.return (Result_zero, None)
         else if \<not> RestoreEngineImplemented (rs_Engine (re_Spec restore)) then
           Restore_return K R restore
             (status_args RestorePhaseUnsupported ConditionFalse ''UnsupportedEngine''
                (''engine '' @ fmt_q (EffectiveEngine (rs_Engine (re_Spec restore))) @ '' is not implemented'')
                EventTypeWarning None []) 0
         else case ValidateRestoreSpec K (re_Spec restore) of
           Some err \<Rightarrow>
             Restore_return K R restore
               (status_args RestorePhaseError ConditionFalse ''InvalidSpec'' (error_text err) EventTypeWarning None []) 0
         | None \<Rightarrow> do {
             secretErr \<leftarrow> Restore_ensureJobSecret R restore;
             case secretErr of
               None \<Rightarrow> Restore_target K S R restore
             | Some err \<Rightarrow>
                 if apierrors_IsNotFound K err then
                   Restore_return K R restore
                     (status_args RestorePhasePending ConditionFalse ''SecretNotFound''
                        (''secret '' @ fmt_q (rs_SecretRef (re_Spec restore)) @ '' not found'') EventTypeWarning None [])
                     secretRequeue
                 else
                   Restore_return K R restore
                     (status_args RestorePhaseError ConditionFalse ''SecretInvalid'' (error_text err)
                        EventTypeWarning None []) 0
           }
   }"

definition Restore_Reconcile ::
  "k8slib \<Rightarrow> Scripts \<Rightarrow> Reconciler \<Rightarrow> request \<Rightarrow> (ctrlResult \<times> goerror option) kprog" where
  "Restore_Reconcile K S R req = do {
     re \<leftarrow> Restore_reconcile K S R req;
     State_Monad.return (requeueOnConflict K re)
   }"

lemma appends_restore [simp]:
  "appends (Restore_ensureJobSecret R x)" "appends (Restore_ensureTargetSecret R x)"
  "appends (Restore_setStatus K R x q)"
  by (simp_all add: Restore_ensureJobSecret_def Restore_ensureTargetSecret_def Restore_setStatus_def)

lemma appends_restore' [simp]:
  "appends (Restore_return K R x q t)" "appends (Restore_fail K R x reason e)"
  by (simp_all add: Restore_return_def Restore_fail_def)

lemma appends_restore'' [simp]: "appends (Restore_finish K R x cj)"
  by (simp add: Restore_finish_def)

lemma appends_restore3 [simp]: "appends (Restore_sync K S R x)"
  by (simp add: Restore_sync_def)

lemma appends_restore4 [simp]: "appends (Restore_target K S R x)"
  by (simp add: Restore_target_def)

lemma appends_restore5 [simp]: "appends (Restore_reconcile K S R req)"
  by (simp add: Restore_reconcile_def)

lemma Restore_owned_sel [simp]:
  "ow_Owner (Restore_owned K S R x) = re_Meta x" "ow_Kind (Restore_owned K S R x) = ''Restore''"
  "ow_Name (Restore_owned K S R x) = RestoreOwnedName x"
  "ow_Persistence (Restore_owned K S R x) = rs_Persistence (re_Spec x)"
  "ow_Labels (Restore_owned K S R x) = RestoreLabels x"
  "ow_VolumeHolder (Restore_owned K S R x) = NeedsVolumeHolder (rs_Runtime (re_Spec x))"
  "ow_HolderName (Restore_owned K S R x) = VolumeHolderName (RestoreOwnedName x)"
  by (simp_all add: Restore_owned_def)

section \<open>The shared contract\<close>

abbreviation restore_update :: "Restore \<Rightarrow> cr_status \<Rightarrow> goerror option \<Rightarrow> kcall" where
  "restore_update x st err \<equiv> UpdateRestoreStatus (x\<lparr>re_Status := st\<rparr>) err"

abbreviation restore_status :: "k8slib \<Rightarrow> Reconciler \<Rightarrow> Restore \<Rightarrow> status_request \<Rightarrow> history \<Rightarrow> goerror option \<Rightarrow> bool" where
  "restore_status K R x \<equiv> status_run K (rc_HasRecorder R) ConditionRestoreSucceeded LabelRestoreName KindRestore
     (re_Meta x) (re_Status x) (restore_update x)"

lemma re_Status_update_inject: "x\<lparr>re_Status := s\<rparr> = x\<lparr>re_Status := t\<rparr> \<longleftrightarrow> s = t"
  by (metis Restore.select_convs(3) Restore.surjective Restore.update_convs(3))

lemma Restore_setStatus_runs: "does (Restore_setStatus K R x q) h (restore_status K R x q)"
  by (simp add: Restore_setStatus_def lastJobStatus_def client_defs run_simps status_run_def
      last_job_of_def Let_def case_prod_beta)

interpretation restore_rec: reconciled_kind re_Meta re_Status ConditionRestoreSucceeded LabelRestoreName KindRestore
  restore_update Restore_setStatus Restore_fail Restore_owned Restore_finish Restore_sync
proof (unfold_locales, goal_cases)
  case (6 K R x reason e)
  then show ?case by (simp add: Restore_fail_def fail_request_def RestorePhaseError_def)
next
  case (8 K R x cron S)
  show ?case
    unfolding Restore_finish_def Restore_owned_def Restore_return_def waiting_request_def synced_request_def
      RestorePhasePending_def RestorePhaseReady_def Let_def ownedResources.select_convs
    by (cases "NeedsVolumeHolder (rs_Runtime (re_Spec x))") simp_all
next
  case (9 K S R x)
  show ?case unfolding Restore_sync_def Restore_owned_def ownedResources.select_convs by (rule refl)
qed (simp_all add: re_Status_update_inject Restore_setStatus_runs)

section \<open>All runs of reconcile\<close>

definition job_secret_error :: "goerror + secret \<Rightarrow> goerror option" where
  "job_secret_error r =
     (case r of Inl err \<Rightarrow> Some err | Inr s \<Rightarrow> missingKey ''secret'' s requiredRestoreSecretKeys)"

definition target_secret_error :: "Restore \<Rightarrow> goerror + secret \<Rightarrow> goerror option" where
  "target_secret_error x r =
     (case RestoreTargetSecret x of (name, userKey, passKey) \<Rightarrow>
        (case r of Inl err \<Rightarrow> Some err | Inr s \<Rightarrow> missingKey ''target secret'' s [userKey, passKey]))"

abbreviation got_job_secret :: "Restore \<Rightarrow> goerror + secret \<Rightarrow> kcall" where
  "got_job_secret x \<equiv> GetSecret (om_Namespace (re_Meta x)) (rs_SecretRef (re_Spec x))"

abbreviation got_target_secret :: "Restore \<Rightarrow> goerror + secret \<Rightarrow> kcall" where
  "got_target_secret x \<equiv> GetSecret (om_Namespace (re_Meta x)) (fst (RestoreTargetSecret x))"

text \<open>
  How a check can stop a run: the reads it took, and after how long to try again.  Only a Secret
  that is absent is worth waiting for.
\<close>

definition secret_wait :: "k8slib \<Rightarrow> goerror \<Rightarrow> int" where
  "secret_wait K e = (if apierrors_IsNotFound K e then secretRequeue else 0)"

inductive restore_stop :: "k8slib \<Rightarrow> Restore \<Rightarrow> history \<Rightarrow> int \<Rightarrow> bool" for K x where
  refused:
    "\<not> RestoreEngineImplemented (rs_Engine (re_Spec x)) \<or> ValidateRestoreSpec K (re_Spec x) \<noteq> None \<Longrightarrow>
     restore_stop K x [] 0"
| job_secret:
    "job_secret_error r = Some e \<Longrightarrow> restore_stop K x [got_job_secret x r] (secret_wait K e)"
| target_secret:
    "job_secret_error r = None \<Longrightarrow> target_secret_error x t = Some e \<Longrightarrow>
     restore_stop K x [got_job_secret x r, got_target_secret x t] (secret_wait K e)"

lemma restore_stop_reads:
  "restore_stop K x gs n \<Longrightarrow> k \<in> set gs \<Longrightarrow> \<exists>ns name r. k = GetSecret ns name r"
  by (cases rule: restore_stop.cases) auto

text \<open>
  A run reads the Restore, then either stops (nothing to do, or a check failed and its outcome is
  written to the status, with one of the phases Unsupported, Error and Pending), or has passed every
  check and syncs.
\<close>

inductive restore_run ::
  "k8slib \<Rightarrow> Scripts \<Rightarrow> Reconciler \<Rightarrow> request \<Rightarrow> history \<Rightarrow> ctrlResult \<times> goerror option \<Rightarrow> bool"
  for K S R req where
  unreadable:
    "restore_run K S R req [GetRestore (rq_Namespace req) (rq_Name req) (Inl e)]
       (Result_zero, client_IgnoreNotFound K e)"
| deleting:
    "\<not> timep_IsZero (om_DeletionTimestamp (re_Meta x)) \<Longrightarrow>
     restore_run K S R req [GetRestore (rq_Namespace req) (rq_Name req) (Inr x)] (Result_zero, None)"
| stops:
    "timep_IsZero (om_DeletionTimestamp (re_Meta x)) \<Longrightarrow> restore_stop K x gs n \<Longrightarrow>
     phase \<in> {''Unsupported'', ''Error'', ''Pending''} \<Longrightarrow>
     restore_status K R x (early_request phase reason message) cs err \<Longrightarrow>
     restore_run K S R req (GetRestore (rq_Namespace req) (rq_Name req) (Inr x) # gs @ cs) (after_status n err)"
| syncs:
    "timep_IsZero (om_DeletionTimestamp (re_Meta x)) \<Longrightarrow> RestoreEngineImplemented (rs_Engine (re_Spec x)) \<Longrightarrow>
     ValidateRestoreSpec K (re_Spec x) = None \<Longrightarrow> job_secret_error r = None \<Longrightarrow> target_secret_error x t = None \<Longrightarrow>
     sync_run K (restore_status K R x) (Restore_owned K S R x) cs res \<Longrightarrow>
     restore_run K S R req
       (GetRestore (rq_Namespace req) (rq_Name req) (Inr x) # got_job_secret x r # got_target_secret x t # cs) res"

lemma does_Restore_ensureJobSecret:
  "does (Restore_ensureJobSecret R x) h Q \<longleftrightarrow>
     (let r = cl_GetSecret (rc_Client R) h (om_Namespace (re_Meta x)) (rs_SecretRef (re_Spec x))
      in Q [got_job_secret x r] (job_secret_error r))"
  by (simp add: Restore_ensureJobSecret_def client_defs run_simps job_secret_error_def Let_def split: sum.split)

lemma does_Restore_ensureTargetSecret:
  "does (Restore_ensureTargetSecret R x) h Q \<longleftrightarrow>
     (let r = cl_GetSecret (rc_Client R) h (om_Namespace (re_Meta x)) (fst (RestoreTargetSecret x))
      in Q [got_target_secret x r] (target_secret_error x r))"
  by (simp add: Restore_ensureTargetSecret_def client_defs run_simps target_secret_error_def Let_def case_prod_beta)

lemma Restore_return_then:
  assumes "\<And>cs err. restore_status K R x q cs err \<Longrightarrow> Q cs (after_status t err)"
  shows "does (Restore_return K R x q t) h Q"
  unfolding Restore_return_def by (rule restore_rec.setStatus_then) (rule assms)

text \<open>A check that fails stops the run.\<close>

lemma Restore_stops:
  assumes "timep_IsZero (om_DeletionTimestamp (re_Meta x))" and "restore_stop K x gs n"
    and "phase \<in> {''Unsupported'', ''Error'', ''Pending''}"
  shows "does (Restore_return K R x (status_args phase ConditionFalse reason message EventTypeWarning None []) n) h
    (\<lambda>cs res. restore_run K S R req (GetRestore (rq_Namespace req) (rq_Name req) (Inr x) # gs @ cs) res)"
  using assms
  by (intro Restore_return_then restore_run.stops) (auto simp: early_request_def)

lemma restore_phases:
  "RestorePhaseUnsupported \<in> {''Unsupported'', ''Error'', ''Pending''}"
  "RestorePhaseError \<in> {''Unsupported'', ''Error'', ''Pending''}"
  "RestorePhasePending \<in> {''Unsupported'', ''Error'', ''Pending''}"
  by (simp_all add: go_const)

lemma Restore_target_runs:
  assumes "timep_IsZero (om_DeletionTimestamp (re_Meta x))" "RestoreEngineImplemented (rs_Engine (re_Spec x))"
    "ValidateRestoreSpec K (re_Spec x) = None" "job_secret_error r = None"
  shows "does (Restore_target K S R x) h (\<lambda>cs res. restore_run K S R req
    (GetRestore (rq_Namespace req) (rq_Name req) (Inr x) # got_job_secret x r # cs) res)"
  unfolding Restore_target_def
proof (rule does_bindI [where P = "\<lambda>cs e. \<exists>t. cs = [got_target_secret x t] \<and> e = target_secret_error x t"], goal_cases)
  case (4 ts e)
  then obtain t where t: "ts = [got_target_secret x t]" "target_secret_error x t = e" by blast
  note stop = Restore_stops [OF assms(1) restore_stop.target_secret [OF assms(4)], where K = K, unfolded secret_wait_def]
  show ?case
  proof (cases e)
    case None
    with t assms show ?thesis
      by (auto intro!: does_mono [OF restore_rec.sync_runs] restore_run.syncs)
  next
    case (Some err)
    with t stop [of t err] restore_phases show ?thesis
      by (cases "apierrors_IsNotFound K err") simp_all
  qed
qed (simp_all add: does_Restore_ensureTargetSecret Let_def)

lemma Restore_reconcile_runs: "does (Restore_reconcile K S R req) h (restore_run K S R req)"
  unfolding Restore_reconcile_def
proof (rule does_bindI [where P = "\<lambda>cs r. cs = [GetRestore (rq_Namespace req) (rq_Name req) r]"], goal_cases)
  case (4 cs r)
  note cs = this
  show ?case
  proof (cases r)
    case (Inl e)
    with cs show ?thesis by (simp add: run_simps restore_run.unreadable)
  next
    case (Inr x)
    note early = Restore_stops [OF _ restore_stop.refused, simplified]
    show ?thesis
    proof (cases "timep_IsZero (om_DeletionTimestamp (re_Meta x)) \<and> RestoreEngineImplemented (rs_Engine (re_Spec x)) \<and>
        ValidateRestoreSpec K (re_Spec x) = None")
      case False
      with cs Inr early restore_phases show ?thesis
        by (auto simp: run_simps restore_run.deleting split: option.split)
    next
      case True
      have "does (Restore_ensureJobSecret R x) (h @ cs)
          (\<lambda>ss e. \<exists>j. ss = [got_job_secret x j] \<and> job_secret_error j = e)"
        by (simp add: does_Restore_ensureJobSecret Let_def)
      then have "does (do {
          secretErr \<leftarrow> Restore_ensureJobSecret R x;
          case secretErr of
            None \<Rightarrow> Restore_target K S R x
          | Some err \<Rightarrow>
              if apierrors_IsNotFound K err then
                Restore_return K R x
                  (status_args RestorePhasePending ConditionFalse ''SecretNotFound''
                     (''secret '' @ fmt_q (rs_SecretRef (re_Spec x)) @ '' not found'') EventTypeWarning None [])
                  secretRequeue
              else
                Restore_return K R x
                  (status_args RestorePhaseError ConditionFalse ''SecretInvalid'' (error_text err)
                     EventTypeWarning None []) 0
        }) (h @ cs) (\<lambda>ds res. restore_run K S R req (cs @ ds) res)"
      proof (rule does_bindI [rotated 2], goal_cases)
        case (1 ss e)
        then obtain j where j: "ss = [got_job_secret x j]" "job_secret_error j = e" by blast
        note stop = Restore_stops [OF True [THEN conjunct1] restore_stop.job_secret [of j], where K = K, unfolded secret_wait_def]
        show ?case
        proof (cases e)
          case None
          with j True cs Inr show ?thesis
            by (auto intro!: does_mono [OF Restore_target_runs [where r = j]])
        next
          case (Some err)
          with j stop [of err] restore_phases cs Inr show ?thesis
            by (cases "apierrors_IsNotFound K err") simp_all
        qed
      qed simp_all
      with True Inr show ?thesis by simp
    qed
  qed
qed (simp_all add: run_simps client_defs)

lemma Restore_Reconcile_runs:
  "does (Restore_Reconcile K S R req) h (\<lambda>cs res. \<exists>re. restore_run K S R req cs re \<and> res = requeueOnConflict K re)"
  unfolding Restore_Reconcile_def
  by (rule does_bindI [OF _ _ Restore_reconcile_runs]) (auto simp: run_simps)

section \<open>Safety\<close>

lemma restore_run_safe:
  assumes "restore_run K S R req cs res"
  shows "(\<exists>e. cs = [GetRestore (rq_Namespace req) (rq_Name req) (Inl e)]) \<or>
    (\<exists>x ds. cs = GetRestore (rq_Namespace req) (rq_Name req) (Inr x) # ds \<and>
       (\<forall>k\<in>set ds. safe_call K (Restore_owned K S R x) k))"
proof -
  have s: "safe_call K spec k" if "restore_status K R x q ds err" "k \<in> set ds" for x q ds err k spec
    using restore_rec.status_of_harmless [OF that] by (rule harmless_safe)
  show ?thesis
    using assms
    by (cases rule: restore_run.cases)
      (auto dest: s restore_rec.sync_run_safe restore_stop_reads simp: harmless_safe)
qed

text \<open>
  C4: whatever the API server answers, a reconcile of a Restore only ever touches what belongs to
  it: after reading the Restore it applies only that Restore's ConfigMap, CronJob, claim (only with
  persistence on) and volume holder (only when needed), deletes only objects whose controller is the
  Restore itself, and never deletes a claim.
\<close>

theorem Restore_Reconcile_touches_only_its_own:
  "does (Restore_Reconcile K S R req) h
     (\<lambda>cs res. case cs of
        GetRestore ns n r # ds \<Rightarrow> ns = rq_Namespace req \<and> n = rq_Name req \<and>
          (case r of Inl e \<Rightarrow> ds = [] | Inr x \<Rightarrow> list_all (safe_call K (Restore_owned K S R x)) ds)
      | _ \<Rightarrow> False)"
  by (rule does_mono [OF Restore_Reconcile_runs]) (auto dest!: restore_run_safe simp: list_all_iff)

text \<open>
  A Restore that is being deleted is left alone: no call follows the read, and no error is
  reported.
\<close>

theorem Restore_deleting_is_left_alone:
  assumes "cl_GetRestore (rc_Client R) h (rq_Namespace req) (rq_Name req) = Inr x"
    and "\<not> timep_IsZero (om_DeletionTimestamp (re_Meta x))"
  shows "run_state (Restore_Reconcile K S R req) h =
    ((Result_zero, None), h @ [GetRestore (rq_Namespace req) (rq_Name req) (Inr x)])"
  using assms
  by (simp add: Restore_Reconcile_def Restore_reconcile_def get_Restore_def call_def State_Monad.bind_def
      State_Monad.return_def requeueOnConflict_def)

section \<open>Conflicts\<close>

lemma restore_run_conflict:
  assumes "restore_run K S R req cs res" and "apierrors_laws K"
    and "k \<in> set cs" "apply_error k = Some e" "apierrors_IsConflict K e"
  shows "(\<forall>k\<in>set cs. \<not> is_status_update k) \<and> (\<exists>e'. snd res = Some e' \<and> apierrors_IsConflict K e')"
  using assms(1)
proof (cases rule: restore_run.cases)
  case (syncs x r t ds)
  then have "k \<in> set ds" using assms(3,4) by auto
  with restore_rec.sync_run_conflict [OF syncs(7) assms(2) _ assms(4,5)] syncs(1) show ?thesis by auto
qed (use assms(3,4) in \<open>auto dest: restore_rec.status_of_harmless restore_stop_reads\<close>)

text \<open>
  An optimistic-lock conflict on any owned object of a Restore is quiet: the status is not
  written, no error is returned, and the reconcile runs again in one second.
\<close>

theorem Restore_conflict_is_quiet:
  assumes "apierrors_laws K"
    and "run_state (Restore_Reconcile K S R req) h = (res, h @ cs)"
    and "k \<in> set cs" and "apply_error k = Some e" and "apierrors_IsConflict K e"
  shows "res = (\<lparr>res_RequeueAfter = 1000000000\<rparr>, None) \<and> list_all (\<lambda>k. \<not> is_status_update k) cs"
proof -
  obtain re where run: "restore_run K S R req cs re" and res: "res = requeueOnConflict K re"
    using does_run [OF Restore_Reconcile_runs assms(2)] by auto
  then obtain e' where "snd re = Some e'" "apierrors_IsConflict K e'" "\<forall>k\<in>set cs. \<not> is_status_update k"
    using restore_run_conflict [OF run assms(1,3-5)] by blast
  with res show ?thesis
    by (cases re) (simp add: requeueOnConflict_def list_all_iff go_const)
qed

section \<open>Ready\<close>

lemma job_secret_error_None:
  "job_secret_error r = None \<longleftrightarrow>
     (\<exists>s. r = Inr s \<and> (\<forall>k\<in>{''s3_access_key'', ''s3_secret_key'', ''gpg_passphrase''}. se_Data s k \<noteq> None))"
  by (auto simp: job_secret_error_def missingKey_None requiredRestoreSecretKeys_def split: sum.split)

lemma target_secret_error_None:
  "target_secret_error x r = None \<longleftrightarrow>
     (\<exists>s. r = Inr s \<and> se_Data s (fst (snd (RestoreTargetSecret x))) \<noteq> None \<and>
        se_Data s (snd (snd (RestoreTargetSecret x))) \<noteq> None)"
  by (auto simp: target_secret_error_def missingKey_None case_prod_beta split: sum.split)

lemma restore_status_phase:
  "restore_status K R x q cs err \<Longrightarrow> UpdateRestoreStatus x' u \<in> set cs \<Longrightarrow> st_Phase (re_Status x') = sr_Phase q"
  using restore_rec.status_of_updates [of K R x q cs err "UpdateRestoreStatus x' u"] by auto

lemma restore_sync_updates:
  "sync_run K (restore_status K R x) spec cs res \<Longrightarrow> UpdateRestoreStatus x' u \<in> set cs \<Longrightarrow>
   \<exists>st. x' = x\<lparr>re_Status := st\<rparr>"
  by (erule sync_runE; (erule finish_runE)?)
    (auto simp: fail_run_def split: if_splits
      dest: owned_run_no_status legacy_run_no_write restore_rec.status_of_updates)

lemma restore_run_ready:
  assumes "restore_run K S R req cs res" and "UpdateRestoreStatus x' u \<in> set cs"
    and "st_Phase (re_Status x') = ''Ready''"
  shows "\<exists>x r t ds. cs = GetRestore (rq_Namespace req) (rq_Name req) (Inr x) # got_job_secret x r # got_target_secret x t # ds \<and>
    ValidateRestoreSpec K (re_Spec x) = None \<and> job_secret_error r = None \<and> target_secret_error x t = None \<and>
    UpdateRestoreStatus x' u \<in> set ds \<and> sync_run K (restore_status K R x) (Restore_owned K S R x) ds res"
  using assms(1)
proof (cases rule: restore_run.cases)
  case (syncs x r t ds)
  with assms(2) show ?thesis by auto
qed (use assms(2,3) in \<open>auto dest: restore_status_phase restore_stop_reads\<close>)

text \<open>
  C2: Ready means ready for Restores too.  When a reconcile writes the phase Ready, the Restore it
  read has an accepted spec, its Secret has the S3 keys and the passphrase, the target's Secret has
  the user and password keys, the owned objects have all been applied successfully in this run (and
  a needed holder is available), and the status names the CronJob and carries the reconciled
  generation and a true Ready condition.
\<close>

theorem Restore_ready_means_synced:
  assumes "condition_laws K" and "run_state (Restore_Reconcile K S R req) h = (res, h @ cs)"
    and "UpdateRestoreStatus x' u \<in> set cs" and "st_Phase (re_Status x') = ''Ready''"
  shows "\<exists>x s t cron c. GetRestore (rq_Namespace req) (rq_Name req) (Inr x) \<in> set cs \<and>
    re_Meta x' = re_Meta x \<and> re_Spec x' = re_Spec x \<and> ValidateRestoreSpec K (re_Spec x) = None \<and>
    got_job_secret x (Inr s) \<in> set cs \<and>
    {''s3_access_key'', ''s3_secret_key'', ''gpg_passphrase''} \<subseteq> dom (se_Data s) \<and>
    got_target_secret x (Inr t) \<in> set cs \<and>
    {fst (snd (RestoreTargetSecret x)), snd (snd (RestoreTargetSecret x))} \<subseteq> dom (se_Data t) \<and>
    synced_calls K (Restore_owned K S R x) cron cs \<and>
    st_CronJobName (re_Status x') = om_Name (cj_Meta cron) \<and>
    st_ObservedGeneration (re_Status x') = om_Generation (re_Meta x) \<and>
    find_condition (st_Conditions (re_Status x')) ConditionReady = Some c \<and>
    co_Status c = ConditionTrue \<and> co_ObservedGeneration c = om_Generation (re_Meta x)"
proof -
  obtain re where "restore_run K S R req cs re"
    using does_run [OF Restore_Reconcile_runs assms(2)] by auto
  from restore_run_ready [OF this assms(3,4)] obtain x r t ds where
    cs: "cs = GetRestore (rq_Namespace req) (rq_Name req) (Inr x) # got_job_secret x r # got_target_secret x t # ds"
    and valid: "ValidateRestoreSpec K (re_Spec x) = None"
    and sec: "job_secret_error r = None" "target_secret_error x t = None"
    and upd: "UpdateRestoreStatus x' u \<in> set ds"
    and sync: "sync_run K (restore_status K R x) (Restore_owned K S R x) ds re"
    by blast
  obtain st where x': "x' = x\<lparr>re_Status := st\<rparr>" using restore_sync_updates [OF sync upd] by blast
  obtain cron lj where synced: "synced_calls K (Restore_owned K S R x) cron ds"
      and st: "st = fst (nextStatus K ConditionRestoreSucceeded (om_Generation (re_Meta x)) (re_Status x)
        (synced_request (Restore_owned K S R x) cron) lj)"
    using restore_rec.sync_run_ready [OF sync upd [unfolded x']] assms(4) x' by auto
  obtain c where c: "find_condition (st_Conditions st) ConditionReady = Some c"
      "same_condition c (readyCondition (om_Generation (re_Meta x)) (synced_request (Restore_owned K S R x) cron))"
    using nextStatus_conditions [OF assms(1) condition_types(3)] st by blast
  obtain s s' where s: "r = Inr s" "t = Inr s'"
      "{''s3_access_key'', ''s3_secret_key'', ''gpg_passphrase''} \<subseteq> dom (se_Data s)"
      "{fst (snd (RestoreTargetSecret x)), snd (snd (RestoreTargetSecret x))} \<subseteq> dom (se_Data s')"
    using sec by (auto simp: job_secret_error_None target_secret_error_None)
  have "synced_calls K (Restore_owned K S R x) cron cs"
    using synced by (auto simp: synced_calls_def cs)
  moreover have "st_CronJobName st = om_Name (cj_Meta cron)"
    "st_ObservedGeneration st = om_Generation (re_Meta x)"
    by (simp_all add: st synced_request_def status_args_def)
  moreover have "co_Status c = ConditionTrue" "co_ObservedGeneration c = om_Generation (re_Meta x)"
    using c(2) by (simp_all add: same_condition_def synced_request_def status_args_def)
  ultimately show ?thesis
    using cs valid s x' c(1) by (intro exI [of _ x] exI [of _ s] exI [of _ s'] exI [of _ cron] exI [of _ c]) simp
qed

section \<open>The Secrets and the pods agree\<close>

text \<open>
  C19: the two Secret checks of a Restore ask for exactly the keys the pods refer to: together they
  pass if and only if both reads succeeded, the Job's Secret holds every key the fetch and decrypt
  stages take from it, and the target's Secret holds both keys the restoring stage takes; the first
  read is of the one Secret, the second of the other, and the stages refer to no third Secret.
\<close>

theorem Restore_secret_checks_exact:
  "does (Restore_ensureJobSecret R x) h (\<lambda>cs err.
     does (Restore_ensureTargetSecret R x) (h @ cs) (\<lambda>ds err'. \<exists>r t p.
       cs = [GetSecret (om_Namespace (re_Meta x)) (rs_SecretRef (re_Spec x)) r] \<and>
       ds = [GetSecret (om_Namespace (re_Meta x)) (fst (RestoreTargetSecret x)) t] \<and>
       pod_of (MutateRestoreCronJob K S cj x cfg) = Some p \<and>
       concat (map snd (stage_keys p)) =
         map (Pair (rs_SecretRef (re_Spec x))) [''s3_access_key'', ''s3_secret_key'', ''gpg_passphrase''] @
         map (Pair (fst (RestoreTargetSecret x)))
           [fst (snd (RestoreTargetSecret x)), snd (snd (RestoreTargetSecret x))] \<and>
       (err = None \<longleftrightarrow> (\<exists>s. r = Inr s \<and>
          list_all (\<lambda>k. k \<in> dom (se_Data s)) [''s3_access_key'', ''s3_secret_key'', ''gpg_passphrase''])) \<and>
       (err' = None \<longleftrightarrow> (\<exists>s. t = Inr s \<and>
          list_all (\<lambda>k. k \<in> dom (se_Data s))
            [fst (snd (RestoreTargetSecret x)), snd (snd (RestoreTargetSecret x))]))))"
proof -
  obtain p where p: "pod_of (MutateRestoreCronJob K S cj x cfg) = Some p"
      and v: "map stage_view (po_Containers p) = restoreStages x"
      and vol: "po_Volumes p = restoreVolumes K x (restoreSecretName x)"
    using MutateRestoreCronJob_pod by blast
  have "concat (map snd (stage_keys p)) =
      map (Pair (rs_SecretRef (re_Spec x))) [''s3_access_key'', ''s3_secret_key'', ''gpg_passphrase''] @
      map (Pair (fst (RestoreTargetSecret x)))
        [fst (snd (RestoreTargetSecret x)), snd (snd (RestoreTargetSecret x))]"
    by (simp add: restore_stage_keys [OF v vol] restoreSecretName_def Let_def case_prod_beta)
  with p show ?thesis
    by (simp add: does_Restore_ensureJobSecret does_Restore_ensureTargetSecret Let_def
        job_secret_error_None target_secret_error_None dom_def)
qed

section \<open>Settling\<close>

text \<open>
  C7: a Restore settles: asked again for the status it has just written, with the same Jobs, it
  lists the Jobs and neither records an event nor writes.
\<close>

theorem Restore_status_settles:
  assumes "condition_laws K" and "deepequal_laws K" and "sr_Phase q \<noteq> []"
    and "re_Status x' = fst (nextStatus K ConditionRestoreSucceeded (om_Generation (re_Meta x)) (re_Status x) q lj)"
    and "re_Meta x' = re_Meta x"
    and "\<forall>h. last_job_of (om_Namespace (re_Meta x)) LabelRestoreName (om_Name (re_Meta x)) KindRestore
      (cl_ListJobs (rc_Client R) h (om_Namespace (re_Meta x)) (lastJobSelector LabelRestoreName (om_Name (re_Meta x)) KindRestore)) = lj"
  shows "\<exists>jobs. run_state (Restore_setStatus K R x' q) h =
    (None, h @ [ListJobs (om_Namespace (re_Meta x)) (lastJobSelector LabelRestoreName (om_Name (re_Meta x)) KindRestore) jobs])"
proof -
  have "snd (nextStatus K ConditionRestoreSucceeded (om_Generation (re_Meta x)) (re_Status x') q lj) = (False, False)"
    unfolding assms(4) by (rule nextStatus_settles [OF assms(1,2) condition_types(3) assms(3)])
  then have "does (Restore_setStatus K R x' q) h (\<lambda>cs err. err = None \<and>
      (\<exists>jobs. cs = [ListJobs (om_Namespace (re_Meta x)) (lastJobSelector LabelRestoreName (om_Name (re_Meta x)) KindRestore) jobs]))"
    using assms(6)
    by (simp add: Restore_setStatus_def lastJobStatus_def client_defs run_simps case_prod_beta assms(5)
        last_job_of_def)
  then show ?thesis by (auto simp: does_def)
qed

definition ex_synced_restore :: Restore where
  "ex_synced_restore = ex_restore\<lparr>re_Status :=
     fst (nextStatus doc_lib ConditionRestoreSucceeded (om_Generation (re_Meta ex_restore)) (re_Status ex_restore)
       ex_ready_request None)\<rparr>"

theorem Restore_status_settles_witness:
  "\<exists>jobs. run_state (Restore_setStatus doc_lib (ex_reconciler ex_client) ex_synced_restore ex_ready_request) [] =
     (None, [] @ [ListJobs ''backup'' (lastJobSelector LabelRestoreName ''app-postgres'' KindRestore) jobs])"
proof -
  have "om_Namespace (re_Meta ex_restore) = ''backup''" "om_Name (re_Meta ex_restore) = ''app-postgres''"
    by (simp_all add: ex_defs)
  moreover have "sr_Phase ex_ready_request \<noteq> []" by (simp add: ex_ready_request_def BackupPhaseReady_def)
  moreover have "last_job_of ''backup'' LabelRestoreName ''app-postgres'' KindRestore (Inr [ex_retried_job]) = None"
    by (simp add: last_job_of_def LastFinished_def lastFinishedLoop.simps ex_retried_job_def map_index_def
        named_meta_def objectmeta_zero_def)
  ultimately show ?thesis
    using Restore_status_settles [OF condition_laws_doc deepequal_laws_doc, of ex_ready_request ex_synced_restore
        ex_restore None "ex_reconciler ex_client" "[]"]
    by (simp add: ex_synced_restore_def)
qed

section \<open>Closed instances\<close>

lemma ex_restore_facts [simp]:
  "job_secret_error (Inr ex_secret) = None" "target_secret_error ex_restore (Inr ex_secret) = None"
  "\<not> NeedsVolumeHolder (rs_Runtime (re_Spec ex_restore))"
  "timep_IsZero (om_DeletionTimestamp (re_Meta ex_restore))" "RestoreEngineImplemented (rs_Engine (re_Spec ex_restore))"
  "PersistenceEnabled (rs_Persistence (re_Spec ex_restore))"
  "LegacyOwnedName (om_Name (re_Meta ex_restore)) \<noteq> RestoreOwnedName ex_restore"
  "st_Phase (re_Status ex_restore) = []" "VolumeHolderName (RestoreOwnedName ex_restore) \<noteq> []"
  by (simp_all add: job_secret_error_None target_secret_error_None ex_secret_def RestoreTargetSecret_def
      RestorePostgresSecret_def restoreSecretKeys_def RestoreEngineImplemented_def
      NeedsVolumeHolder_def EffectiveMode_def timep_IsZero_def EngineImplemented_def PersistenceEnabled_def
      LegacyOwnedName_def RestoreOwnedName_def VolumeHolderName_def EffectiveEngine_def ex_defs go_const)

lemma ex_restore_configMapFn: "\<exists>x. configMapFn doc_lib (Restore_owned doc_lib S (ex_reconciler c) ex_restore) (newConfigMap n ns) = Inr x"
  by (rule configMapFn_fresh)
    (simp_all add: Restore_owned_def MutateRestoreConfigMap_def Let_def s3DataError_None restoreS3Endpoint_def
      restoreS3Bucket_def ex_defs newConfigMap_def del: first_error_None_iff)

lemma ex_restore_cronJobFn: "\<exists>x. cronJobFn doc_lib (Restore_owned doc_lib S (ex_reconciler c) ex_restore) (newCronJob n ns) = Inr x"
proof -
  obtain cj where "MutateRestoreCronJob doc_lib S (newCronJob n ns) ex_restore ex_config = Some cj"
      "om_OwnerReferences (cj_Meta cj) = []"
    using MutateCronJob_meta(2) [of doc_lib S "newCronJob n ns" ex_restore ex_config]
    by (auto simp: newCronJob_def named_meta_def objectmeta_zero_def)
  then show ?thesis
    by (intro cronJobFn_fresh) (auto simp: Restore_owned_def ex_reconciler_def)
qed

lemmas restore_program = Restore_Reconcile_def Restore_reconcile_def does_Restore_ensureJobSecret
  does_Restore_ensureTargetSecret Restore_target_def Restore_sync_def ensureOwned_def deleteIfController_def
  client_defs run_simps

lemma ex_restore_runs:
  "does (Restore_Reconcile doc_lib S (ex_reconciler ex_client) ex_request) []
     (\<lambda>cs res. \<exists>x'. UpdateRestoreStatus x' None \<in> set cs \<and> st_Phase (re_Status x') = ''Ready'')"
  "does (Restore_Reconcile doc_lib S (ex_reconciler ex_busy_client) ex_request) []
     (\<lambda>cs res. \<exists>x f. ApplyCronJob x f (Inl conflict) \<in> set cs)"
proof -
  obtain cm where cm: "configMapFn doc_lib (Restore_owned doc_lib S (ex_reconciler c) ex_restore) (newConfigMap n ns) =
      Inr (cm c n ns)" for c n ns
    using ex_restore_configMapFn by metis
  obtain cj where cj: "cronJobFn doc_lib (Restore_owned doc_lib S (ex_reconciler c) ex_restore) (newCronJob n ns) =
      Inr (cj c n ns)" for c n ns
    using ex_restore_cronJobFn by metis
  obtain pv where pv: "pvcFn doc_lib spec (newPVC n ns) = Inr (pv spec n ns)" for spec n ns
    using pvcFn_fresh by metis
  show "does (Restore_Reconcile doc_lib S (ex_reconciler ex_client) ex_request) []
     (\<lambda>cs res. \<exists>x'. UpdateRestoreStatus x' None \<in> set cs \<and> st_Phase (re_Status x') = ''Ready'')"
    by (simp add: restore_program Restore_finish_def deleteLegacyOwned_def
        Restore_return_def Restore_setStatus_def lastJobStatus_def case_prod_beta nextStatus_patch
        statusNeedsPatch_def status_args_def RestorePhaseReady_def cm cj pv Let_def)
  show "does (Restore_Reconcile doc_lib S (ex_reconciler ex_busy_client) ex_request) []
     (\<lambda>cs res. \<exists>x f. ApplyCronJob x f (Inl conflict) \<in> set cs)"
    by (simp add: restore_program Restore_fail_def cm pv Let_def)
qed

theorem Restore_ready_means_synced_witness:
  "\<forall>S. \<exists>res cs x' x cron. run_state (Restore_Reconcile doc_lib S (ex_reconciler ex_client) ex_request) [] = (res, [] @ cs) \<and>
     UpdateRestoreStatus x' None \<in> set cs \<and> st_Phase (re_Status x') = ''Ready'' \<and>
     re_Meta x' = re_Meta x \<and> synced_calls doc_lib (Restore_owned doc_lib S (ex_reconciler ex_client) x) cron cs"
proof
  fix S
  obtain res cs x' where run: "run_state (Restore_Reconcile doc_lib S (ex_reconciler ex_client) ex_request) [] = (res, [] @ cs)"
      and x': "UpdateRestoreStatus x' None \<in> set cs" "st_Phase (re_Status x') = ''Ready''"
    using ex_restore_runs(1) [of S] by (auto simp: does_def)
  from Restore_ready_means_synced [OF condition_laws_doc run x'] obtain x cron where
      "re_Meta x' = re_Meta x" "synced_calls doc_lib (Restore_owned doc_lib S (ex_reconciler ex_client) x) cron cs"
    by (elim exE conjE)
  with run x' show
    "\<exists>res cs x' x cron. run_state (Restore_Reconcile doc_lib S (ex_reconciler ex_client) ex_request) [] = (res, [] @ cs) \<and>
     UpdateRestoreStatus x' None \<in> set cs \<and> st_Phase (re_Status x') = ''Ready'' \<and>
     re_Meta x' = re_Meta x \<and> synced_calls doc_lib (Restore_owned doc_lib S (ex_reconciler ex_client) x) cron cs"
    by blast
qed

theorem Restore_conflict_is_quiet_witness:
  "\<forall>S. \<exists>cs x f. run_state (Restore_Reconcile doc_lib S (ex_reconciler ex_busy_client) ex_request) [] =
     ((\<lparr>res_RequeueAfter = 1000000000\<rparr>, None), [] @ cs) \<and> ApplyCronJob x f (Inl conflict) \<in> set cs"
proof
  fix S
  obtain res cs x f where run: "run_state (Restore_Reconcile doc_lib S (ex_reconciler ex_busy_client) ex_request) [] = (res, [] @ cs)"
      and k: "ApplyCronJob x f (Inl conflict) \<in> set cs"
    using ex_restore_runs(2) [of S] by (auto simp: does_def)
  have "res = (\<lparr>res_RequeueAfter = 1000000000\<rparr>, None)"
    using Restore_conflict_is_quiet [OF apierrors_laws_doc run k, of conflict] by simp
  with run k show "\<exists>cs x f. run_state (Restore_Reconcile doc_lib S (ex_reconciler ex_busy_client) ex_request) [] =
     ((\<lparr>res_RequeueAfter = 1000000000\<rparr>, None), [] @ cs) \<and> ApplyCronJob x f (Inl conflict) \<in> set cs"
    by blast
qed

definition ex_deleting_restore :: Restore where
  "ex_deleting_restore = ex_restore\<lparr>re_Meta := (re_Meta ex_restore)\<lparr>om_DeletionTimestamp := Some 9\<rparr>\<rparr>"

theorem Restore_deleting_is_left_alone_witness:
  "\<forall>S. run_state (Restore_Reconcile doc_lib S
       (ex_reconciler (ex_client\<lparr>cl_GetRestore := (\<lambda>h ns n. Inr ex_deleting_restore)\<rparr>)) ex_request) [] =
     ((Result_zero, None), [] @ [GetRestore ''backup'' ''app-postgres'' (Inr ex_deleting_restore)])"
proof
  fix S
  have "\<not> timep_IsZero (om_DeletionTimestamp (re_Meta ex_deleting_restore))"
    by (simp add: ex_deleting_restore_def timep_IsZero_def time_IsZero_def)
  with Restore_deleting_is_left_alone [of "ex_reconciler (ex_client\<lparr>cl_GetRestore := (\<lambda>h ns n. Inr ex_deleting_restore)\<rparr>)"
      "[]" ex_request ex_deleting_restore doc_lib S]
  show "run_state (Restore_Reconcile doc_lib S
       (ex_reconciler (ex_client\<lparr>cl_GetRestore := (\<lambda>h ns n. Inr ex_deleting_restore)\<rparr>)) ex_request) [] =
     ((Result_zero, None), [] @ [GetRestore ''backup'' ''app-postgres'' (Inr ex_deleting_restore)])"
    by (simp add: ex_request_def)
qed

end
