(* ===== verification/Ownership.thy ===== *)
theory Ownership
  imports Backup_Controller Restore_Controller
begin

text \<open>
  What the two reconcilers do to the objects they apply: they become the controller of each, never
  of an object somebody else controls; a claim that exists only grows; and the CronJob comes last.
\<close>

section \<open>Ownership of what is applied\<close>

text \<open>
  An object taken over by its owner: it keeps its name and namespace, the owner is its controller
  afterwards, and nobody of another kind or name was before.
\<close>

definition taken_over :: "string \<Rightarrow> objectmeta \<Rightarrow> objectmeta \<Rightarrow> objectmeta \<Rightarrow> bool" where
  "taken_over kind owner m m' \<longleftrightarrow>
     om_Name m' = om_Name m \<and> om_Namespace m' = om_Namespace m \<and>
     (case controller_of m' of None \<Rightarrow> False
      | Some r \<Rightarrow> or_UID r = om_UID owner \<and> or_Kind r = kind \<and> or_Name r = om_Name owner) \<and>
     (case controller_of m of None \<Rightarrow> True | Some r \<Rightarrow> or_Kind r = kind \<and> or_Name r = om_Name owner)"

lemma SetControllerReference_takes_over:
  assumes "ownership_laws K" and "controllerutil_SetControllerReference K kind owner m = Inr m'"
  shows "taken_over kind owner m m'"
proof -
  have "m'\<lparr>om_OwnerReferences := om_OwnerReferences m\<rparr> = m" 
      and "\<exists>r. controller_of m' = Some r \<and> or_UID r = om_UID owner \<and> or_Kind r = kind \<and> or_Name r = om_Name owner"
    using assms by (auto simp: ownership_laws_def)
  moreover have "(or_Kind r, or_Name r) = (kind, om_Name owner)" if "controller_of m = Some r" for r
    using assms that unfolding ownership_laws_def by (metis sum.distinct(1))
  moreover have "om_Name (m'\<lparr>om_OwnerReferences := om_OwnerReferences m\<rparr>) = om_Name m'"
      "om_Namespace (m'\<lparr>om_OwnerReferences := om_OwnerReferences m\<rparr>) = om_Namespace m'"
    by simp_all
  ultimately show ?thesis
    by (auto simp: taken_over_def split: option.split)
qed

lemma taken_over_mutated:
  "taken_over kind owner m1 m' \<Longrightarrow> om_Name m1 = om_Name m \<Longrightarrow> om_Namespace m1 = om_Namespace m \<Longrightarrow>
   om_OwnerReferences m1 = om_OwnerReferences m \<Longrightarrow> taken_over kind owner m m'"
  by (simp add: taken_over_def controller_of_def)

text \<open>Mutators that leave the identity and the owners of an object alone.\<close>

definition keeps_identity :: "objectmeta \<Rightarrow> objectmeta \<Rightarrow> bool" where
  "keeps_identity m m1 \<longleftrightarrow>
     om_Name m1 = om_Name m \<and> om_Namespace m1 = om_Namespace m \<and> om_OwnerReferences m1 = om_OwnerReferences m"

lemma mutate_functions_take_over:
  assumes "ownership_laws K"
    and "\<And>x. keeps_identity (cm_Meta x) (cm_Meta (fst (ow_MutateConfigMap spec x)))"
    and "\<And>x y. ow_MutateCronJob spec x = Some y \<Longrightarrow> keeps_identity (cj_Meta x) (cj_Meta y)"
    and "\<And>x. keeps_identity (de_Meta x) (de_Meta (ow_MutateVolumeHolder spec x))"
  shows "configMapFn K spec cm = Inr cm' \<Longrightarrow> taken_over (ow_Kind spec) (ow_Owner spec) (cm_Meta cm) (cm_Meta cm')"
    and "pvcFn K spec pv = Inr pv' \<Longrightarrow> taken_over (ow_Kind spec) (ow_Owner spec) (pvc_Meta pv) (pvc_Meta pv')"
    and "holderFn K spec d = Inr d' \<Longrightarrow> taken_over (ow_Kind spec) (ow_Owner spec) (de_Meta d) (de_Meta d')"
    and "cronJobFn K spec cj = Inr cj' \<Longrightarrow> taken_over (ow_Kind spec) (ow_Owner spec) (cj_Meta cj) (cj_Meta cj')"
proof -
  note over = taken_over_mutated [OF SetControllerReference_takes_over [OF assms(1)]]
  show "configMapFn K spec cm = Inr cm' \<Longrightarrow> taken_over (ow_Kind spec) (ow_Owner spec) (cm_Meta cm) (cm_Meta cm')"
    using assms(2) [of cm]
    by (auto simp: configMapFn_def keeps_identity_def split: prod.splits option.splits sum.splits intro: over)
  show "pvcFn K spec pv = Inr pv' \<Longrightarrow> taken_over (ow_Kind spec) (ow_Owner spec) (pvc_Meta pv) (pvc_Meta pv')"
    by (auto simp: pvcFn_def ExpandPVC_def MutatePVC_def Let_def split: sum.splits if_splits option.splits intro: over)
  show "holderFn K spec d = Inr d' \<Longrightarrow> taken_over (ow_Kind spec) (ow_Owner spec) (de_Meta d) (de_Meta d')"
    using assms(4) [of d] by (auto simp: holderFn_def keeps_identity_def Let_def split: sum.splits intro: over)
  show "cronJobFn K spec cj = Inr cj' \<Longrightarrow> taken_over (ow_Kind spec) (ow_Owner spec) (cj_Meta cj) (cj_Meta cj')"
    using assms(3) [of cj]
    by (auto simp: cronJobFn_def keeps_identity_def split: option.splits sum.splits intro: over)
qed

lemma backup_keeps_identity:
  "keeps_identity (cm_Meta x) (cm_Meta (fst (ow_MutateConfigMap (Backup_owned K S R b) x)))"
  "ow_MutateCronJob (Backup_owned K S R b) y = Some y' \<Longrightarrow> keeps_identity (cj_Meta y) (cj_Meta y')"
  "keeps_identity (de_Meta z) (de_Meta (ow_MutateVolumeHolder (Backup_owned K S R b) z))"
  using MutateCronJob_meta(1) [of K S y b "rc_Config R"]
  by (auto simp: keeps_identity_def Backup_owned_def MutateBackupConfigMap_def MutateVolumeHolderDeployment_def
      Let_def split: prod.split)

lemma restore_keeps_identity:
  "keeps_identity (cm_Meta x) (cm_Meta (fst (ow_MutateConfigMap (Restore_owned K S R r) x)))"
  "ow_MutateCronJob (Restore_owned K S R r) y = Some y' \<Longrightarrow> keeps_identity (cj_Meta y) (cj_Meta y')"
  "keeps_identity (de_Meta z) (de_Meta (ow_MutateVolumeHolder (Restore_owned K S R r) z))"
  using MutateCronJob_meta(2) [of K S y r "rc_Config R"]
  by (auto simp: keeps_identity_def Restore_owned_def MutateRestoreConfigMap_def MutateVolumeHolderDeployment_def
      Let_def split: prod.split)

text \<open>
  C8: every object a reconciler applies is taken over, never stolen.  Whenever one of the four mutate
  functions of a Backup or a Restore accepts an object, the resource is the object's controller
  afterwards, and the object keeps its name and namespace.  An object whose controller is of another
  kind or has another name is refused with an error; only a predecessor of the same kind and name may
  have been the controller before.
\<close>

theorem applied_objects_are_taken_over:
  assumes "ownership_laws K" and "spec = Backup_owned K S R b \<or> spec = Restore_owned K S R r"
  shows "(\<forall>cm cm'. configMapFn K spec cm = Inr cm' \<longrightarrow> taken_over (ow_Kind spec) (ow_Owner spec) (cm_Meta cm) (cm_Meta cm')) \<and>
    (\<forall>pv pv'. pvcFn K spec pv = Inr pv' \<longrightarrow> taken_over (ow_Kind spec) (ow_Owner spec) (pvc_Meta pv) (pvc_Meta pv')) \<and>
    (\<forall>d d'. holderFn K spec d = Inr d' \<longrightarrow> taken_over (ow_Kind spec) (ow_Owner spec) (de_Meta d) (de_Meta d')) \<and>
    (\<forall>cj cj'. cronJobFn K spec cj = Inr cj' \<longrightarrow> taken_over (ow_Kind spec) (ow_Owner spec) (cj_Meta cj) (cj_Meta cj'))"
  using assms(2)
proof
  assume spec: "spec = Backup_owned K S R b"
  show ?thesis
    unfolding spec
    by (intro conjI allI impI mutate_functions_take_over [OF assms(1) backup_keeps_identity])
next
  assume spec: "spec = Restore_owned K S R r"
  show ?thesis
    unfolding spec
    by (intro conjI allI impI mutate_functions_take_over [OF assms(1) restore_keeps_identity])
qed

theorem applied_objects_are_taken_over_witness:
  "\<forall>S. \<exists>pv. pvcFn doc_lib (Backup_owned doc_lib S (ex_reconciler ex_client) ex_backup) (newPVC ''n'' ''ns'') = Inr pv \<and>
     taken_over ''Backup'' (bk_Meta ex_backup) (pvc_Meta (newPVC ''n'' ''ns'')) (pvc_Meta pv)"
proof
  fix S
  let ?spec = "Backup_owned doc_lib S (ex_reconciler ex_client) ex_backup"
  obtain pv where pv: "pvcFn doc_lib ?spec (newPVC ''n'' ''ns'') = Inr pv" using pvcFn_fresh by blast
  have "taken_over (ow_Kind ?spec) (ow_Owner ?spec) (pvc_Meta (newPVC ''n'' ''ns'')) (pvc_Meta pv)"
    using applied_objects_are_taken_over [OF ownership_laws_doc, of ?spec S "ex_reconciler ex_client" ex_backup] pv
    by blast
  with pv show "\<exists>pv. pvcFn doc_lib ?spec (newPVC ''n'' ''ns'') = Inr pv \<and>
     taken_over ''Backup'' (bk_Meta ex_backup) (pvc_Meta (newPVC ''n'' ''ns'')) (pvc_Meta pv)"
    by auto
qed

section \<open>Claims only grow\<close>

text \<open>
  C9: reconciling never shrinks or reshapes a claim that exists.  Applied to a claim the API server
  has already created, the mutate function either refuses it or asks for at least the storage it had
  (more only up to \<^verbatim>\<open>spec.persistence.size\<close>), and keeps its access modes, storage class and
  annotations, whatever the spec says now.
\<close>

theorem existing_claims_only_grow:
  assumes "quantity_laws K" and "ownership_laws K"
    and "om_CreationTimestamp (pvc_Meta claim) \<noteq> 0" and "pvcFn K spec claim = Inr claim'"
  shows "storage_request claim' =
      Some (case storage_request claim of None \<Rightarrow> persistenceSize K (ow_Persistence spec)
            | Some cur \<Rightarrow> max cur (persistenceSize K (ow_Persistence spec))) \<and>
    pv_AccessModes (pvc_Spec claim') = pv_AccessModes (pvc_Spec claim) \<and>
    pv_StorageClassName (pvc_Spec claim') = pv_StorageClassName (pvc_Spec claim) \<and>
    om_Annotations (pvc_Meta claim') = om_Annotations (pvc_Meta claim)"
proof -
  let ?c = "claim\<lparr>pvc_Meta := (pvc_Meta claim)\<lparr>om_Labels := ow_Labels spec\<rparr>\<rparr>"
  let ?e = "ExpandPVC K ?c (ow_Persistence spec)"
  obtain m where m: "controllerutil_SetControllerReference K (ow_Kind spec) (ow_Owner spec) (pvc_Meta ?e) = Inr m"
      and c': "claim' = ?e\<lparr>pvc_Meta := m\<rparr>"
    using assms(3,4) by (auto simp: pvcFn_def time_IsZero_def Let_def split: sum.splits)
  have "m\<lparr>om_OwnerReferences := om_OwnerReferences (pvc_Meta ?e)\<rparr> = pvc_Meta ?e"
    using assms(2) m by (simp add: ownership_laws_def)
  then have "om_Annotations m = om_Annotations (pvc_Meta ?e)" by (metis objectmeta.select_convs(6) objectmeta.surjective objectmeta.update_convs(7))
  then show ?thesis
    using assms(1)
    by (auto simp: c' ExpandPVC_def storage_request_def quantity_laws_def Let_def max_def split: option.splits)
qed

text \<open>A claim of two bytes that exists, and a spec that asks for three.\<close>

definition ex_claim :: pvc where
  "ex_claim = \<lparr>pvc_Meta = (named_meta ''karkive-backup-app-postgres'' ''backup'')\<lparr>om_CreationTimestamp := 5\<rparr>,
     pvc_Spec = \<lparr>pv_AccessModes = [''ReadWriteMany''], pv_Requests = [ResourceStorage \<mapsto> 2], pv_StorageClassName = None\<rparr>\<rparr>"

definition ex_grow_backup :: Backup where
  "ex_grow_backup = ex_backup\<lparr>bk_Spec := (bk_Spec ex_backup)\<lparr>bs_Persistence :=
     Some \<lparr>ps_Enabled = None, ps_StorageClassName = ''fast'', ps_AccessModes = [], ps_Size = 3,
           ps_Annotations = Map.empty\<rparr>\<rparr>\<rparr>"

theorem existing_claims_only_grow_witness:
  "\<forall>S. \<exists>claim'. pvcFn doc_lib (Backup_owned doc_lib S (ex_reconciler ex_client) ex_grow_backup) ex_claim = Inr claim' \<and>
     storage_request claim' = Some 3 \<and> pv_AccessModes (pvc_Spec claim') = [''ReadWriteMany''] \<and>
     pv_StorageClassName (pvc_Spec claim') = None"
proof
  fix S
  let ?spec = "Backup_owned doc_lib S (ex_reconciler ex_client) ex_grow_backup"
  have created: "om_CreationTimestamp (pvc_Meta ex_claim) \<noteq> 0" by (simp add: ex_claim_def)
  let ?e = "ExpandPVC doc_lib (ex_claim\<lparr>pvc_Meta := (pvc_Meta ex_claim)\<lparr>om_Labels := ow_Labels ?spec\<rparr>\<rparr>) (ow_Persistence ?spec)"
  have "om_OwnerReferences (pvc_Meta ?e) = []"
    by (simp add: ExpandPVC_def ex_claim_def named_meta_def objectmeta_zero_def Let_def split: option.split)
  then obtain m where "doc_SetControllerReference (ow_Kind ?spec) (ow_Owner ?spec) (pvc_Meta ?e) = Inr m"
    using SetControllerReference_fresh by blast
  then obtain c where c: "pvcFn doc_lib ?spec ex_claim = Inr c"
    using created by (simp add: pvcFn_def time_IsZero_def Let_def)
  have "storage_request ex_claim = Some 2" "persistenceSize doc_lib (ow_Persistence ?spec) = 3"
      "pv_AccessModes (pvc_Spec ex_claim) = [''ReadWriteMany'']" "pv_StorageClassName (pvc_Spec ex_claim) = None"
    by (simp_all add: storage_request_def ex_claim_def persistenceSize_def ex_grow_backup_def)
  with existing_claims_only_grow [OF quantity_laws_doc ownership_laws_doc created c] c
  show "\<exists>claim'. pvcFn doc_lib ?spec ex_claim = Inr claim' \<and>
     storage_request claim' = Some 3 \<and> pv_AccessModes (pvc_Spec claim') = [''ReadWriteMany''] \<and>
     pv_StorageClassName (pvc_Spec claim') = None"
    by (intro exI [of _ c]) simp
qed

section \<open>The CronJob comes last\<close>

text \<open>
  Everything before the write of the CronJob has succeeded, nothing follows it, and the ConfigMap, the
  claim and the holder it depends on are among what was written before.
\<close>

definition ordered_calls :: "k8slib \<Rightarrow> ownedResources \<Rightarrow> history \<Rightarrow> bool" where
  "ordered_calls K spec cs \<longleftrightarrow>
     (\<forall>xs x f r ys. cs = xs @ ApplyCronJob x f r # ys \<longrightarrow>
        ys = [] \<and> (\<forall>k\<in>set xs. apply_error k = None) \<and>
        (\<exists>cm. applied_cm K spec (Inr cm) \<in> set xs) \<and>
        (PersistenceEnabled (ow_Persistence spec) \<longrightarrow> (\<exists>p. applied_pvc K spec (Inr p) \<in> set xs)) \<and>
        (ow_VolumeHolder spec \<longrightarrow> (\<exists>d. applied_holder K spec (Inr d) \<in> set xs)))"

lemma not_cronjob:
  "pvc_calls K spec ps e \<Longrightarrow> ApplyCronJob x f r \<notin> set ps"
  "holder_calls K spec hs e \<Longrightarrow> ApplyCronJob x f r \<notin> set hs"
  by (auto simp: run_defs split: if_splits dest: delete_runs_no_write(1))

lemma no_cronjob_ordered:
  assumes "\<And>x f r. ApplyCronJob x f r \<notin> set cs"
  shows "ordered_calls K spec cs"
proof -
  have "cs \<noteq> xs @ ApplyCronJob x f r # ys" for xs x f r ys
    using assms [of x f r] by auto
  then show ?thesis by (simp add: ordered_calls_def)
qed

lemma append_Cons_last: "xs @ k # ys = zs @ [l] \<Longrightarrow> k \<notin> set zs \<Longrightarrow> ys = [] \<and> xs = zs \<and> k = l"
  by (cases ys rule: rev_cases) auto

text \<open>
  C28: the CronJob is applied last.  In every run of \<^verbatim>\<open>ensureOwned\<close>, whatever the server
  answers, a CronJob is written only after the ConfigMap, the claim (with persistence on) and the
  volume holder (where one is needed) have been written successfully, so a Job can never start
  against a missing environment or volume; and no write follows it.
\<close>

theorem CronJob_applied_last: "does (ensureOwned K c spec) h (\<lambda>cs res. ordered_calls K spec cs)"
proof (rule does_mono [OF ensureOwned_runs])
  fix cs res
  assume "owned_run K spec cs res"
  then show "ordered_calls K spec cs"
  proof (cases rule: owned_run.cases)
    case (pvc_fails ps e cm)
    have "ApplyCronJob x f r \<notin> set cs" for x f r
      using not_cronjob(1) [OF pvc_fails(3)] by (simp add: pvc_fails(1))
    then show ?thesis by (rule no_cronjob_ordered)
  next
    case (holder_fails ps hs e cm)
    have "ApplyCronJob x f r \<notin> set cs" for x f r
      using not_cronjob(1) [OF holder_fails(3)] not_cronjob(2) [OF holder_fails(4)] by (simp add: holder_fails(1))
    then show ?thesis by (rule no_cronjob_ordered)
  next
    case (cronjob_applied ps hs cj cm)
    let ?pre = "applied_cm K spec (Inr cm) # ps @ hs"
    have no: "ApplyCronJob x f r \<notin> set ?pre" for x f r
      using not_cronjob(1) [OF cronjob_applied(2)] not_cronjob(2) [OF cronjob_applied(3)] by simp
    have ok: "\<forall>k\<in>set ?pre. apply_error k = None"
      using pvc_calls_error [OF cronjob_applied(2)] holder_calls_error [OF cronjob_applied(3)]
      by (auto simp: option.distinct) (metis not_None_eq option.distinct(1))+
    have pre: "ys = [] \<and> xs = ?pre" if "cs = xs @ ApplyCronJob x f r # ys" for xs x f r ys
    proof -
      have "xs @ ApplyCronJob x f r # ys = ?pre @ [applied_cj K spec cj]"
        using that cronjob_applied(1) by simp
      from append_Cons_last [OF this no] show ?thesis by simp
    qed
    have dep: "PersistenceEnabled (ow_Persistence spec) \<longrightarrow> (\<exists>p. applied_pvc K spec (Inr p) \<in> set ?pre)"
        "ow_VolumeHolder spec \<longrightarrow> (\<exists>d. applied_holder K spec (Inr d) \<in> set ?pre)"
      using pvc_calls_success [of K spec ps] cronjob_applied(2) holder_calls_success [OF cronjob_applied(3)]
      by fastforce+
    show ?thesis
      unfolding ordered_calls_def
    proof (intro allI impI)
      fix xs x f r ys
      assume "cs = xs @ ApplyCronJob x f r # ys"
      then have "ys = []" "xs = ?pre" using pre by blast+
      with ok dep show "ys = [] \<and> (\<forall>k\<in>set xs. apply_error k = None) \<and>
          (\<exists>cm. applied_cm K spec (Inr cm) \<in> set xs) \<and>
          (PersistenceEnabled (ow_Persistence spec) \<longrightarrow> (\<exists>p. applied_pvc K spec (Inr p) \<in> set xs)) \<and>
          (ow_VolumeHolder spec \<longrightarrow> (\<exists>d. applied_holder K spec (Inr d) \<in> set xs))"
        by auto
    qed
  qed (auto simp: ordered_calls_def Cons_eq_append_conv)
qed

end
