(* ===== verification/Liveness.thy ===== *)
theory Liveness
  imports Ownership
begin

text \<open>
  Reconciling makes progress.  A request whose result asks for another attempt is reconciled again;
  as long as the server's answers are of the kind a reconciler waits for, every reconcile that
  does not ask for another attempt has left the resource Ready, and from the moment on when the server
  grants every call, the next reconcile is the last one.
\<close>

section \<open>Answers\<close>

text \<open>The answer to a status update.\<close>

fun status_error :: "kcall \<Rightarrow> goerror option" where
  "status_error (UpdateBackupStatus b r) = r"
| "status_error (UpdateRestoreStatus x r) = r"
| "status_error k = None"

definition read_or_absent :: "k8slib \<Rightarrow> goerror + 'a \<Rightarrow> bool" where
  "read_or_absent K r = (case r of Inl e \<Rightarrow> apierrors_IsNotFound K e | Inr _ \<Rightarrow> True)"

definition done_or_absent :: "k8slib \<Rightarrow> goerror option \<Rightarrow> bool" where
  "done_or_absent K r = (case r of Some e \<Rightarrow> apierrors_IsNotFound K e | None \<Rightarrow> True)"

text \<open>
  An answer that grants the call: reads find their object (what is only looked up to be deleted, the
  legacy objects and a holder that is no longer needed, may be absent), writes succeed, a holder that is
  needed is available, and the claims in \<open>claims\<close> exist.
\<close>

fun granted :: "k8slib \<Rightarrow> bool \<Rightarrow> string set \<Rightarrow> kcall \<Rightarrow> bool" where
  "granted K holder claims (GetBackup ns n r) = (\<not> isl r)"
| "granted K holder claims (GetRestore ns n r) = (\<not> isl r)"
| "granted K holder claims (GetSecret ns n r) = (\<not> isl r)"
| "granted K holder claims (GetConfigMap ns n r) = read_or_absent K r"
| "granted K holder claims (GetPVC ns n r) = (if n \<in> claims then \<not> isl r else True)"
| "granted K holder claims (GetDeployment ns n r) =
     (if holder then (case r of Inl e \<Rightarrow> False | Inr d \<Rightarrow> volumeHolderAvailable d) else read_or_absent K r)"
| "granted K holder claims (GetCronJob ns n r) = read_or_absent K r"
| "granted K holder claims (ApplyConfigMap x f r) = (\<not> isl r)"
| "granted K holder claims (ApplyPVC x f r) = (\<not> isl r)"
| "granted K holder claims (ApplyDeployment x f r) = (\<not> isl r)"
| "granted K holder claims (ApplyCronJob x f r) = (\<not> isl r)"
| "granted K holder claims (DeleteConfigMap x r) = done_or_absent K r"
| "granted K holder claims (DeleteCronJob x r) = done_or_absent K r"
| "granted K holder claims (DeleteDeployment x r) = done_or_absent K r"
| "granted K holder claims (UpdateBackupStatus b r) = (r = None)"
| "granted K holder claims (UpdateRestoreStatus x r) = (r = None)"
| "granted K holder claims (ListJobs ns sel r) = True"
| "granted K holder claims (RecordEvent m ty reason msg) = True"

lemma granted_status: "is_status_update k \<Longrightarrow> granted K holder claims k \<longleftrightarrow> status_error k = None"
  by (cases k) auto

lemma ignoreNotFound_absent: "apierrors_IsNotFound K e \<Longrightarrow> ignoreNotFound K e = Inr False"
  by (simp add: ignoreNotFound_def client_IgnoreNotFound_def)

lemmas absent_defs = read_or_absent_def done_or_absent_def ignoreNotFound_absent

lemma not_isl_iff [simp]: "\<not> isl r \<longleftrightarrow> (\<exists>x. r = Inr x)"
  by (cases r) auto

lemma delete_runs_granted:
  "configmap_kind.delete_run ns n K owner cs r \<Longrightarrow> list_all (granted K holder claims) cs \<Longrightarrow> \<exists>x. r = Inr x"
  "cronjob_kind.delete_run ns n K owner cs r \<Longrightarrow> list_all (granted K holder claims) cs \<Longrightarrow> \<exists>x. r = Inr x"
  "deployment_kind.delete_run ns n K owner cs r \<Longrightarrow> list_all (granted K False claims) cs \<Longrightarrow> \<exists>x. r = Inr x"
  by (auto simp: configmap_kind.delete_run_def cronjob_kind.delete_run_def deployment_kind.delete_run_def
      absent_defs split: option.splits)

lemma holder_calls_granted:
  "holder_calls K spec hs e \<Longrightarrow> list_all (granted K (ow_VolumeHolder spec) claims) hs \<Longrightarrow> e = None"
  by (auto simp: holder_calls_def Let_def split: if_splits dest: delete_runs_granted(3))

lemma owned_run_granted:
  "owned_run K spec cs r \<Longrightarrow> list_all (granted K (ow_VolumeHolder spec) claims) cs \<Longrightarrow> \<exists>cron. r = Inr cron"
  by (cases rule: owned_run.cases)
    (auto simp: pvc_calls_def split: if_splits sum.splits dest: holder_calls_granted)

lemma legacy_run_granted:
  "legacy_run K owner cur cs e \<Longrightarrow> list_all (granted K holder claims) cs \<Longrightarrow> e = None"
  by (cases rule: legacy_run.cases) (auto dest: delete_runs_granted(1,2))

section \<open>A reconcile that asks for nothing more\<close>

definition settled :: "ctrlResult \<times> goerror option \<Rightarrow> bool" where
  "settled r \<longleftrightarrow> res_RequeueAfter (fst r) = 0 \<and> snd r = None"

lemma settled_requeueOnConflict:
  "settled (requeueOnConflict K r) \<longleftrightarrow> settled r"
  by (cases r) (auto simp: settled_def requeueOnConflict_def go_const split: option.splits)

lemma settled_simps [simp]:
  "settled (Result_zero, e) \<longleftrightarrow> e = None" "settled (after_status t e) \<longleftrightarrow> t = 0 \<and> e = None"
  by (auto simp: settled_def Result_zero_def after_status_def split: option.splits)

lemma requeue_intervals [simp]: "secretRequeue \<noteq> 0" "sourceRequeue \<noteq> 0" "holderRequeue \<noteq> 0"
  by (simp_all add: go_const)

lemma fail_run_error: "fail_run K status reason e cs err \<Longrightarrow> err \<noteq> None"
  by (auto simp: fail_run_def split: if_splits option.splits)

lemma status_runE:
  assumes "status_run K hasRecorder condType nameLabel kind m st update q cs err"
  obtains jobs n where
    "n = nextStatus K condType (om_Generation m) st q (last_job_of (om_Namespace m) nameLabel (om_Name m) kind jobs)"
    "cs = ListJobs (om_Namespace m) (lastJobSelector nameLabel (om_Name m) kind) jobs #
       (if hasRecorder \<and> fst (snd n) then [RecordEvent m (sr_EventType q) (sr_Reason q) (sr_Message q)] else []) @
       (if snd (snd n) then [update (fst n) err] else [])"
    "snd (snd n) \<or> err = None"
  using assms that unfolding status_run_def Let_def case_prod_beta by blast

text \<open>
  How an attempt leaves the status: it writes the phase Ready, once, and successfully, or it read the phase
  Ready and writes no status at all.
\<close>

definition ends_ready :: "(cr_status \<Rightarrow> kcall) \<Rightarrow> cr_status \<Rightarrow> history \<Rightarrow> bool" where
  "ends_ready written st cs \<longleftrightarrow>
     filter is_status_update cs = [] \<and> st_Phase st = ''Ready'' \<or>
     (\<exists>st'. filter is_status_update cs = [written st'] \<and> st_Phase st' = ''Ready'')"

lemma ends_ready_append:
  "(\<And>k. k \<in> set cs \<Longrightarrow> \<not> is_status_update k) \<Longrightarrow> ends_ready written st (cs @ ds) \<longleftrightarrow> ends_ready written st ds"
  by (simp add: ends_ready_def filter_empty_conv)

lemma ends_ready_Cons [simp]:
  "\<not> is_status_update k \<Longrightarrow> ends_ready written st (k # ds) \<longleftrightarrow> ends_ready written st ds"
  by (simp add: ends_ready_def)

text \<open>What the two kinds share: the answer to a status update is the one it is logged with.\<close>

locale live_kind = reconciled_kind +
  assumes update_answer: "status_error (update x st err) = err"
begin

lemma status_of_granted:
  "status_of K R x q cs err \<Longrightarrow> list_all (granted K holder claims) cs \<Longrightarrow> err = None"
  by (erule status_runE) (auto simp: granted_status update_status update_answer split: if_splits)

lemma sync_run_granted:
  assumes "sync_run K (status_of K R x) spec cs res" and "list_all (granted K (ow_VolumeHolder spec) claims) cs"
  shows "settled res"
  using assms
proof (cases rule: sync_run.cases)
  case (finishes cs' cron ls fs)
  from finishes(4) show ?thesis
    by (cases rule: finish_run.cases) (use assms(2) finishes in \<open>auto dest: status_of_granted\<close>)
qed (auto dest: owned_run_granted legacy_run_granted)

text \<open>A status run for Ready leaves Ready behind.\<close>

lemma ready_recorded:
  assumes "status_of K R x q ds None" and "sr_Phase q = ''Ready''"
  shows "ends_ready (\<lambda>st. update x st None) (statusOf x) ds"
  using assms(1)
proof (rule status_runE)
  fix jobs n
  assume n: "n = nextStatus K condType (om_Generation (metaOf x)) (statusOf x) q
      (last_job_of (om_Namespace (metaOf x)) nameLabel (om_Name (metaOf x)) kind jobs)"
    and ds: "ds = ListJobs (om_Namespace (metaOf x)) (lastJobSelector nameLabel (om_Name (metaOf x)) kind) jobs #
       (if rc_HasRecorder R \<and> fst (snd n) then [RecordEvent (metaOf x) (sr_EventType q) (sr_Reason q) (sr_Message q)] else []) @
       (if snd (snd n) then [update x (fst n) None] else [])"
  show ?thesis
  proof (cases "snd (snd n)")
    case True
    then show ?thesis using assms(2) n by (auto simp: ds ends_ready_def update_status)
  next
    case False
    then show ?thesis using assms(2) by (auto simp: ds ends_ready_def n nextStatus_patch statusNeedsPatch_def)
  qed
qed

lemma sync_run_settled:
  assumes "sync_run K (status_of K R x) spec cs res" and "settled res"
  shows "\<exists>cron. synced_calls K spec cron cs \<and> ends_ready (\<lambda>st. update x st None) (statusOf x) cs"
  using assms
proof (cases rule: sync_run.cases)
  case (finishes cs' cron ls fs)
  have ready: "ends_ready (\<lambda>st. update x st None) (statusOf x) ds"
    if "status_of K R x (synced_request spec cron) ds None" for ds
    using ready_recorded [OF that] by (simp add: synced_request_def status_args_def)
  have before: "ends_ready (\<lambda>st. update x st None) (statusOf x) cs \<longleftrightarrow> ends_ready (\<lambda>st. update x st None) (statusOf x) fs"
    unfolding finishes(1) append_assoc [symmetric]
    by (rule ends_ready_append)
      (use owned_run_no_status [OF finishes(2)] legacy_run_no_write [OF finishes(3)] in auto)
  from finishes(4) show ?thesis
  proof (cases rule: finish_run.cases)
    case (holder_unreadable e ds err)
    then show ?thesis using assms(2) fail_run_error by auto
  next
    case (holder_waiting d ds err)
    then show ?thesis using assms(2) by auto
  next
    case (holder_ready d ds err)
    then have "synced_calls K spec cron cs"
      unfolding finishes(1) by (intro owned_run_synced [OF finishes(2)]) auto
    with holder_ready assms(2) show ?thesis by (intro exI [of _ cron]) (simp add: before ready)
  next
    case (no_holder err)
    then have "synced_calls K spec cron cs"
      unfolding finishes(1) by (intro owned_run_synced [OF finishes(2)]) auto
    with no_holder assms(2) show ?thesis by (intro exI [of _ cron]) (simp add: before ready)
  qed
qed (use fail_run_error in auto)

end

interpretation backup_live: live_kind bk_Meta bk_Status ConditionBackupSucceeded LabelBackupName KindBackup
  backup_update Backup_setStatus Backup_fail Backup_owned Backup_finish Backup_sync
  by unfold_locales simp

interpretation restore_live: live_kind re_Meta re_Status ConditionRestoreSucceeded LabelRestoreName KindRestore
  restore_update Restore_setStatus Restore_fail Restore_owned Restore_finish Restore_sync
  by unfold_locales simp

section \<open>Attempts\<close>

text \<open>
  How controller-runtime uses a result: a request is reconciled again while the result asks for it,
  at most \<open>n\<close> times here.
\<close>

fun retry :: "nat \<Rightarrow> (ctrlResult \<times> goerror option) kprog \<Rightarrow> (ctrlResult \<times> goerror option) option kprog" where
  "retry 0 p = State_Monad.return None"
| "retry (Suc n) p = do {
     r \<leftarrow> p;
     if settled r then State_Monad.return (Some r) else retry n p
   }"

lemma appends_retry [simp]: "appends p \<Longrightarrow> appends (retry n p)"
  by (induction n) auto

text \<open>
  Every attempt makes a call, so after \<open>N\<close> attempts the history has reached the point from which on
  an attempt settles.  What is then known is known of the last attempt alone: its calls \<open>ds\<close> are those
  that \<open>p\<close> makes after the earlier ones.
\<close>

definition last_attempt ::
  "(ctrlResult \<times> goerror option) kprog \<Rightarrow> (history \<Rightarrow> bool) \<Rightarrow> history \<Rightarrow> history \<Rightarrow>
    (ctrlResult \<times> goerror option) option \<Rightarrow> bool" where
  "last_attempt p Q h cs r \<longleftrightarrow>
     (\<exists>before ds res. cs = before @ ds \<and> r = Some res \<and> settled res \<and>
        run_state p (h @ before) = (res, h @ before @ ds) \<and> Q ds)"

lemma last_attemptI: "run_state p h = (r, h @ cs) \<Longrightarrow> settled r \<Longrightarrow> Q cs \<Longrightarrow> last_attempt p Q h cs (Some r)"
  unfolding last_attempt_def by (intro exI [of _ "[]"] exI [of _ cs]) simp

lemma last_attempt_later: "last_attempt p Q (h @ cs) ds r \<Longrightarrow> last_attempt p Q h (cs @ ds) r"
  unfolding last_attempt_def by (metis append.assoc)

lemma does_result: "does p h Q \<Longrightarrow> does p h (\<lambda>cs r. run_state p h = (r, h @ cs) \<and> Q cs r)"
  by (auto simp: does_def)

lemma retry_settles:
  assumes p: "appends p"
    and step: "\<And>h. does p h (\<lambda>cs r. cs \<noteq> [] \<and> (settled r \<longrightarrow> Q cs))"
    and live: "\<And>h. N \<le> length h \<Longrightarrow> does p h (\<lambda>cs r. settled r)"
  shows "N \<le> length h + n \<Longrightarrow> does (retry (Suc n) p) h (last_attempt p Q h)"
proof (induction n arbitrary: h)
  case 0
  have "does p h (\<lambda>cs r. run_state p h = (r, h @ cs) \<and> settled r \<and> Q cs)"
    by (rule does_result, rule does_mono [OF does_conj [OF step live]]) (use 0 in auto)
  then show ?case
    by (simp add: run_simps p) (erule does_mono, simp add: run_simps last_attemptI)
next
  case (Suc n)
  have rest: "does (retry (Suc n) p) (h @ cs) (\<lambda>ds r. last_attempt p Q h (cs @ ds) r)" if "cs \<noteq> []" for cs
    using that Suc.prems
    by (intro does_mono [OF Suc.IH [of "h @ cs"]] last_attempt_later) (cases cs, auto)
  show ?case
    unfolding retry.simps(2) [of "Suc n"]
  proof (rule does_bindI [OF p _ does_result [OF step]])
    fix cs r
    assume cs: "run_state p h = (r, h @ cs) \<and> cs \<noteq> [] \<and> (settled r \<longrightarrow> Q cs)"
    show "does (if settled r then State_Monad.return (Some r) else retry (Suc n) p) (h @ cs)
        (\<lambda>ds r. last_attempt p Q h (cs @ ds) r)"
    proof (cases "settled r")
      case True
      with cs show ?thesis by (simp add: run_simps last_attemptI)
    next
      case False
      show ?thesis unfolding if_not_P [OF False] using cs by (blast intro: rest)
    qed
  qed (simp add: p)
qed

lemma synced_calls_mono: "synced_calls K spec cron cs \<Longrightarrow> set cs \<subseteq> set ds \<Longrightarrow> synced_calls K spec cron ds"
  unfolding synced_calls_def by blast

section \<open>Backups\<close>

definition source_claims :: "Backup \<Rightarrow> string set" where
  "source_claims b = (if IsPVCBackup b then {pv_ClaimName (the (bs_PVC (bk_Spec b)))} else {})"

text \<open>
  Answers the reconciler of a Backup waits out: the Backup itself stays (its status may change, a read
  may fail), its Secret and source claim are absent or good.  All other calls may fail in any way.
\<close>

fun awaited :: "k8slib \<Rightarrow> Backup \<Rightarrow> kcall \<Rightarrow> bool" where
  "awaited K b (GetBackup ns n r) =
     (case r of Inl e \<Rightarrow> \<not> apierrors_IsNotFound K e | Inr b' \<Rightarrow> bk_Meta b' = bk_Meta b \<and> bk_Spec b' = bk_Spec b)"
| "awaited K b (GetSecret ns n r) =
     (case r of Inl e \<Rightarrow> apierrors_IsNotFound K e | Inr s \<Rightarrow> set (backup_keys b) \<subseteq> dom (se_Data s))"
| "awaited K b (GetPVC ns n r) =
     (if n \<in> source_claims b
      then (case r of Inl e \<Rightarrow> apierrors_IsNotFound K e
            | Inr p \<Rightarrow> ReadWriteOncePod \<notin> set (pv_AccessModes (pvc_Spec p)))
      else True)"
| "awaited K b k = True"

text \<open>
  What the calls of one attempt show when it leaves the Backup Ready: it read the Backup, synced everything for
  what it read, and its status is Ready at the end.
\<close>

definition backup_made_ready ::
  "k8slib \<Rightarrow> Scripts \<Rightarrow> Reconciler \<Rightarrow> request \<Rightarrow> Backup \<Rightarrow> history \<Rightarrow> bool" where
  "backup_made_ready K S R req b cs \<longleftrightarrow>
     (\<exists>x ds cron. cs = GetBackup (rq_Namespace req) (rq_Name req) (Inr x) # ds \<and>
        bk_Meta x = bk_Meta b \<and> bk_Spec x = bk_Spec b \<and> synced_calls K (Backup_owned K S R x) cron ds \<and>
        ends_ready (\<lambda>st. UpdateBackupStatus (x\<lparr>bk_Status := st\<rparr>) None) (bk_Status x) ds)"

text \<open>The Backup can become Ready at all.\<close>

definition can_be_ready :: "k8slib \<Rightarrow> Backup \<Rightarrow> bool" where
  "can_be_ready K b \<longleftrightarrow>
     timep_IsZero (om_DeletionTimestamp (bk_Meta b)) \<and> EngineImplemented (bs_Engine (bk_Spec b)) \<and>
     ValidateBackupSpec K (bk_Spec b) = None \<and> BackupOwnedName b \<notin> source_claims b"

lemma backup_same:
  assumes "bk_Meta b' = bk_Meta b" and "bk_Spec b' = bk_Spec b"
  shows "IsPVCBackup b' = IsPVCBackup b" "backup_secret_error b' r = backup_secret_error b r"
    "source_run b' = source_run b" "can_be_ready K b' = can_be_ready K b"
    "source_claims b' = source_claims b" "backup_keys b' = backup_keys b"
proof -
  show pvc: "IsPVCBackup b' = IsPVCBackup b" by (simp add: IsPVCBackup_def assms)
  show "backup_secret_error b' r = backup_secret_error b r"
    unfolding backup_secret_error_def pvc assms ..
  show claims: "source_claims b' = source_claims b" and "backup_keys b' = backup_keys b"
    by (simp_all add: source_claims_def backup_keys_def assms pvc)
  show "source_run b' = source_run b"
    unfolding source_run_def BackupOwnedName_def assms ..
  show "can_be_ready K b' = can_be_ready K b"
    unfolding can_be_ready_def BackupOwnedName_def claims assms ..
qed

text \<open>The Secret and the source claim are good or absent.\<close>

lemma awaited_secret:
  "awaited K b (GetSecret ns n r) \<Longrightarrow> backup_secret_error b r = Some e \<Longrightarrow> apierrors_IsNotFound K e \<and> isl r"
  using backup_secret_error_None [of b r] by (cases r) (auto simp: backup_secret_error_def)

lemma awaited_source:
  assumes "source_run b ps (Some e)" and "list_all (awaited K b) ps" and "IsPVCBackup b" and "can_be_ready K b"
  shows "apierrors_IsNotFound K e \<and> \<not> list_all (granted K holder (source_claims b)) ps"
  using assms
  by (auto simp: source_run_def can_be_ready_def source_claims_def Let_def split: if_splits sum.splits)

lemma source_run_reads: "source_run b ps e \<Longrightarrow> k \<in> set ps \<Longrightarrow> \<not> is_status_update k"
  by (auto simp: source_run_def Let_def split: if_splits)

lemma backup_run_live:
  assumes run: "backup_run K S R req cs res" and wait: "list_all (awaited K b) cs" and able: "can_be_ready K b"
  shows "list_all (granted K (NeedsVolumeHolder (bs_Runtime (bk_Spec b))) (source_claims b)) cs \<Longrightarrow> settled res"
    and "settled res \<Longrightarrow> backup_made_ready K S R req b cs"
proof -
  show "settled res"
    if g: "list_all (granted K (NeedsVolumeHolder (bs_Runtime (bk_Spec b))) (source_claims b)) cs"
    using run
  proof (cases rule: backup_run.cases)
    case (syncs x r ps ds)
    then have "bk_Spec x = bk_Spec b" using wait by simp
    then have "list_all (granted K (ow_VolumeHolder (Backup_owned K S R x)) (source_claims b)) ds"
      using g syncs by simp
    then show ?thesis using backup_live.sync_run_granted [OF syncs(7)] by blast
  next
    case (secret_missing x r)
    then show ?thesis using wait g awaited_secret [of K b _ _ r] backup_same(2) [of x b] by auto
  next
    case (source_missing x r ps e)
    then show ?thesis
      using wait g awaited_source [of b ps e K] able backup_same(1,3) [of x b] by auto
  next
    case (source_invalid x r ps e)
    then show ?thesis
      using wait awaited_source [of b ps e K] able backup_same(1,3) [of x b] by auto
  next
    case (secret_invalid x r)
    then show ?thesis using wait awaited_secret [of K b _ _ r] backup_same(2) [of x b] by auto
  qed (use wait g able in \<open>auto simp: can_be_ready_def\<close>)
next
  assume settled: "settled res"
  show "backup_made_ready K S R req b cs"
    using run
  proof (cases rule: backup_run.cases)
    case (syncs x r ps ds)
    have same: "bk_Meta x = bk_Meta b" "bk_Spec x = bk_Spec b" using wait syncs by simp_all
    obtain cron where synced: "synced_calls K (Backup_owned K S R x) cron ds"
        and ready: "ends_ready (\<lambda>st. UpdateBackupStatus (x\<lparr>bk_Status := st\<rparr>) None) (bk_Status x) ds"
      using backup_live.sync_run_settled [OF syncs(7) settled] by blast
    have "synced_calls K (Backup_owned K S R x) cron (got_backup_secret x r # ps @ ds)"
      by (rule synced_calls_mono [OF synced]) auto
    moreover have "ends_ready (\<lambda>st. UpdateBackupStatus (x\<lparr>bk_Status := st\<rparr>) None) (bk_Status x) (got_backup_secret x r # ps @ ds)"
      using ready source_run_reads [of x ps None] syncs(6) by (simp add: ends_ready_append split: if_splits)
    ultimately show ?thesis using same unfolding backup_made_ready_def syncs(1) by blast
  next
    case (secret_invalid x r)
    then show ?thesis using wait awaited_secret [of K b _ _ r] backup_same(2) [of x b] by auto
  next
    case (source_invalid x r ps e)
    then show ?thesis
      using wait awaited_source [of b ps e K] able backup_same(1,3) [of x b] by auto
  qed (use wait able settled in \<open>auto simp: can_be_ready_def client_IgnoreNotFound_def\<close>)
qed

lemma backup_run_calls: "backup_run K S R req cs res \<Longrightarrow> cs \<noteq> []"
  by (cases rule: backup_run.cases) auto

text \<open>
  C11: a Backup that can be Ready becomes Ready.  Take a Backup that is not being deleted, whose engine is
  implemented, whose spec is accepted, and whose source claim (for a PVC backup) is not the claim the
  Backup itself owns; and a server on which the Backup is neither deleted nor edited (a read of it may
  fail), its Secret and its source claim are at every read absent or good (the Secret has its keys, the
  claim is not \<^verbatim>\<open>ReadWriteOncePod\<close>), every other call may fail in any way during the first \<open>N\<close> calls, and
  every call is granted afterwards.  Then the reconciler, run again as long as its result asks for it, stops after at most \<open>N + 1\<close> attempts.  In the
  last attempt by itself, the Backup was read, every object owned by what was read was applied, the holder
  was available where one is needed, and the status is Ready at its end: the attempt wrote the phase
  Ready, successfully and as its only status write, or it read the phase Ready and wrote no status.
\<close>

theorem Backup_eventually_ready:
  assumes "can_be_ready K b"
    and "\<forall>h. does (Backup_Reconcile K S R req) h (\<lambda>cs r. list_all (awaited K b) cs)"
    and "\<forall>h. N \<le> length h \<longrightarrow> does (Backup_Reconcile K S R req) h
      (\<lambda>cs r. list_all (granted K (NeedsVolumeHolder (bs_Runtime (bk_Spec b))) (source_claims b)) cs)"
  shows "does (retry (Suc N) (Backup_Reconcile K S R req)) h (last_attempt (Backup_Reconcile K S R req) (backup_made_ready K S R req b) h)"
proof (rule retry_settles [where N = N], goal_cases)
  case 1
  show ?case by (simp add: Backup_Reconcile_def)
next
  case (2 h)
  show ?case
    by (rule does_mono [OF does_conj [OF Backup_Reconcile_runs assms(2) [THEN spec]]])
      (use backup_run_calls backup_run_live(2) [OF _ _ assms(1)] settled_requeueOnConflict in blast)
next
  case (3 h)
  note runs = does_conj [OF Backup_Reconcile_runs does_conj [OF assms(2) [THEN spec] assms(3) [THEN spec, THEN mp, OF 3]]]
  show ?case
    by (rule does_mono [OF runs]) (use backup_run_live(1) [OF _ _ assms(1)] settled_requeueOnConflict in blast)
qed simp

text \<open>A server whose Secret appears after four calls.\<close>

definition late_client :: client where
  "late_client = ex_client\<lparr>cl_GetSecret := (\<lambda>h ns n. if length h < 4 then Inl not_found else Inr ex_secret)\<rparr>"

lemma late_client_sel [simp]:
  "cl_GetBackup late_client h ns n = Inr ex_backup" "cl_GetRestore late_client h ns n = Inr ex_restore"
  "cl_GetSecret late_client h ns n = (if length h < 4 then Inl not_found else Inr ex_secret)"
  "cl_GetConfigMap late_client h ns n = Inl not_found" "cl_GetPVC late_client h ns n = Inl not_found"
  "cl_GetDeployment late_client h ns n = Inl not_found" "cl_GetCronJob late_client h ns n = Inl not_found"
  "cl_ListJobs late_client h ns sel = Inr [ex_retried_job]"
  "cl_ApplyConfigMap late_client h xc fc = fc xc" "cl_ApplyPVC late_client h xp fp = fp xp"
  "cl_ApplyDeployment late_client h xd fd = fd xd" "cl_ApplyCronJob late_client h xj fj = fj xj"
  "cl_UpdateBackupStatus late_client h b = None" "cl_UpdateRestoreStatus late_client h r = None"
  by (simp_all add: late_client_def)

lemma backup_late:
  "does (Backup_Reconcile doc_lib S (ex_reconciler late_client) ex_request) h
     (\<lambda>cs r. list_all (awaited doc_lib ex_backup) cs \<and>
       (4 \<le> length h \<longrightarrow> list_all (granted doc_lib False {}) cs))"
proof -
  let ?R = "ex_reconciler late_client"
  obtain cm where cm: "configMapFn doc_lib (Backup_owned doc_lib S ?R ex_backup) (newConfigMap n ns) = Inr (cm n ns)" for n ns
    using ex_configMapFn by metis
  obtain cj where cj: "cronJobFn doc_lib (Backup_owned doc_lib S ?R ex_backup) (newCronJob n ns) = Inr (cj n ns)" for n ns
    using ex_cronJobFn by metis
  obtain pv where pv: "pvcFn doc_lib (Backup_owned doc_lib S ?R ex_backup) (newPVC n ns) = Inr (pv n ns)" for n ns
    using pvcFn_fresh by metis
  have absent: "backup_secret_error ex_backup (Inl not_found) = Some not_found"
    by (simp add: backup_secret_error_def)
  have keys: "set (backup_keys ex_backup) \<subseteq> dom (se_Data ex_secret)"
    using ex_backup_facts(1) unfolding backup_secret_error_None by auto
  show ?thesis
    by (simp add: Backup_Reconcile_def Backup_reconcile_def does_Backup_ensureSecret Backup_source_def
        Backup_sync_def Backup_finish_def ensureOwned_def deleteLegacyOwned_def deleteIfController_def
        Backup_return_def Backup_setStatus_def lastJobStatus_def case_prod_beta nextStatus_patch
        statusNeedsPatch_def status_args_def go_const source_claims_def absent keys absent_defs
        client_defs run_simps cm cj pv Let_def)
qed

theorem Backup_eventually_ready_witness:
  "\<forall>S. does (retry 5 (Backup_Reconcile doc_lib S (ex_reconciler late_client) ex_request)) []
     (last_attempt (Backup_Reconcile doc_lib S (ex_reconciler late_client) ex_request)
       (backup_made_ready doc_lib S (ex_reconciler late_client) ex_request ex_backup) [])"
proof
  fix S
  have "can_be_ready doc_lib ex_backup"
    by (simp add: can_be_ready_def source_claims_def)
  moreover have "source_claims ex_backup = {}" by (simp add: source_claims_def)
  ultimately show "does (retry 5 (Backup_Reconcile doc_lib S (ex_reconciler late_client) ex_request)) []
     (last_attempt (Backup_Reconcile doc_lib S (ex_reconciler late_client) ex_request)
       (backup_made_ready doc_lib S (ex_reconciler late_client) ex_request ex_backup) [])"
    using Backup_eventually_ready [of doc_lib ex_backup S "ex_reconciler late_client" ex_request 4 "[]"]
      does_mono [OF backup_late]
    by (simp add: eval_nat_numeral)
qed

section \<open>Restores\<close>

text \<open>Answers the reconciler of a Restore waits out: each of its two Secrets is absent or good.\<close>

fun restore_awaited :: "k8slib \<Rightarrow> Restore \<Rightarrow> kcall \<Rightarrow> bool" where
  "restore_awaited K x (GetRestore ns n r) =
     (case r of Inl e \<Rightarrow> \<not> apierrors_IsNotFound K e | Inr x' \<Rightarrow> re_Meta x' = re_Meta x \<and> re_Spec x' = re_Spec x)"
| "restore_awaited K x (GetSecret ns n r) =
     (case r of Inl e \<Rightarrow> apierrors_IsNotFound K e
      | Inr s \<Rightarrow> (n = rs_SecretRef (re_Spec x) \<longrightarrow> set requiredRestoreSecretKeys \<subseteq> dom (se_Data s)) \<and>
          (n = fst (RestoreTargetSecret x) \<longrightarrow>
             {fst (snd (RestoreTargetSecret x)), snd (snd (RestoreTargetSecret x))} \<subseteq> dom (se_Data s)))"
| "restore_awaited K x k = True"

definition restore_made_ready ::
  "k8slib \<Rightarrow> Scripts \<Rightarrow> Reconciler \<Rightarrow> request \<Rightarrow> Restore \<Rightarrow> history \<Rightarrow> bool" where
  "restore_made_ready K S R req x cs \<longleftrightarrow>
     (\<exists>y ds cron. cs = GetRestore (rq_Namespace req) (rq_Name req) (Inr y) # ds \<and>
        re_Meta y = re_Meta x \<and> re_Spec y = re_Spec x \<and> synced_calls K (Restore_owned K S R y) cron ds \<and>
        ends_ready (\<lambda>st. UpdateRestoreStatus (y\<lparr>re_Status := st\<rparr>) None) (re_Status y) ds)"

definition restore_can_be_ready :: "k8slib \<Rightarrow> Restore \<Rightarrow> bool" where
  "restore_can_be_ready K x \<longleftrightarrow>
     timep_IsZero (om_DeletionTimestamp (re_Meta x)) \<and> RestoreEngineImplemented (rs_Engine (re_Spec x)) \<and>
     ValidateRestoreSpec K (re_Spec x) = None"

lemma RestoreTargetSecret_same: "re_Spec y = re_Spec x \<Longrightarrow> RestoreTargetSecret y = RestoreTargetSecret x"
  unfolding RestoreTargetSecret_def RestorePostgresSecret_def RestoreMariaDBSecret_def RestoreRedisSecret_def by simp

text \<open>A check stops a run only for a Secret that is absent, and asks for another attempt.\<close>

lemma restore_stop_awaited:
  assumes "restore_stop K y gs n" and "list_all (restore_awaited K x) gs" and "restore_can_be_ready K x"
    and "re_Meta y = re_Meta x" and "re_Spec y = re_Spec x"
  shows "n \<noteq> 0 \<and> \<not> list_all (granted K holder claims) gs"
  using assms(1)
proof (cases rule: restore_stop.cases)
  case refused
  then show ?thesis using assms(3-5) by (simp add: restore_can_be_ready_def)
next
  case (job_secret r e)
  then show ?thesis
    using assms(2,5) job_secret_error_None [of r]
    by (cases r) (auto simp: job_secret_error_def requiredRestoreSecretKeys_def secret_wait_def)
next
  case (target_secret r t e)
  then show ?thesis
    using assms(2,5) target_secret_error_None [of y t] RestoreTargetSecret_same [OF assms(5)]
    by (cases t) (auto simp: target_secret_error_def secret_wait_def)
qed

lemma restore_run_live:
  assumes run: "restore_run K S R req cs res" and wait: "list_all (restore_awaited K x) cs"
    and able: "restore_can_be_ready K x"
  shows "list_all (granted K (NeedsVolumeHolder (rs_Runtime (re_Spec x))) {}) cs \<Longrightarrow> settled res"
    and "settled res \<Longrightarrow> restore_made_ready K S R req x cs"
proof -
  show "settled res" if g: "list_all (granted K (NeedsVolumeHolder (rs_Runtime (re_Spec x))) {}) cs"
    using run
  proof (cases rule: restore_run.cases)
    case (syncs y r t ds)
    then have "re_Spec y = re_Spec x" using wait by simp
    then have "list_all (granted K (ow_VolumeHolder (Restore_owned K S R y)) {}) ds"
      using g syncs by simp
    then show ?thesis using restore_live.sync_run_granted [OF syncs(7)] by blast
  next
    case (stops y gs n)
    then show ?thesis using wait g restore_stop_awaited [OF stops(4) _ able] by auto
  qed (use wait g able in \<open>auto simp: restore_can_be_ready_def\<close>)
next
  assume settled: "settled res"
  show "restore_made_ready K S R req x cs"
    using run
  proof (cases rule: restore_run.cases)
    case (syncs y r t ds)
    have same: "re_Meta y = re_Meta x" "re_Spec y = re_Spec x" using wait syncs by simp_all
    obtain cron where synced: "synced_calls K (Restore_owned K S R y) cron ds"
        and ready: "ends_ready (\<lambda>st. UpdateRestoreStatus (y\<lparr>re_Status := st\<rparr>) None) (re_Status y) ds"
      using restore_live.sync_run_settled [OF syncs(7) settled] by blast
    have "synced_calls K (Restore_owned K S R y) cron (got_job_secret y r # got_target_secret y t # ds)"
      by (rule synced_calls_mono [OF synced]) auto
    moreover have "ends_ready (\<lambda>st. UpdateRestoreStatus (y\<lparr>re_Status := st\<rparr>) None) (re_Status y) (got_job_secret y r # got_target_secret y t # ds)"
      using ready by simp
    ultimately show ?thesis using same unfolding restore_made_ready_def syncs(1) by blast
  next
    case (stops y gs n)
    then show ?thesis using wait settled restore_stop_awaited [OF stops(4) _ able] by auto
  qed (use wait able settled in \<open>auto simp: restore_can_be_ready_def client_IgnoreNotFound_def\<close>)
qed

lemma restore_run_calls: "restore_run K S R req cs res \<Longrightarrow> cs \<noteq> []"
  by (cases rule: restore_run.cases) auto

text \<open>
  C12: a Restore that can be Ready becomes Ready.  Take a Restore that is not being deleted, whose engine can
  be restored (an accepted spec alone does not say so: an unknown engine is accepted and reported as
  Unsupported) and whose spec is accepted; and a server on which the Restore is neither
  deleted nor edited (a read of it may fail), its two Secrets are at every read absent or have their keys,
  every other call may fail in any way during the first \<open>N\<close> calls, and every call is granted afterwards.
  Then the reconciler, run again as long as its result asks for it, stops after at most \<open>N + 1\<close>
  attempts.  In the last attempt by itself, the Restore was read, every object owned by what was read was
  applied, and the attempt wrote the phase Ready, successfully and as its only status write, or read the
  phase Ready and wrote no status.
\<close>

theorem Restore_eventually_ready:
  assumes "restore_can_be_ready K x"
    and "\<forall>h. does (Restore_Reconcile K S R req) h (\<lambda>cs r. list_all (restore_awaited K x) cs)"
    and "\<forall>h. N \<le> length h \<longrightarrow> does (Restore_Reconcile K S R req) h
      (\<lambda>cs r. list_all (granted K (NeedsVolumeHolder (rs_Runtime (re_Spec x))) {}) cs)"
  shows "does (retry (Suc N) (Restore_Reconcile K S R req)) h (last_attempt (Restore_Reconcile K S R req) (restore_made_ready K S R req x) h)"
proof (rule retry_settles [where N = N], goal_cases)
  case 1
  show ?case by (simp add: Restore_Reconcile_def)
next
  case (2 h)
  show ?case
    by (rule does_mono [OF does_conj [OF Restore_Reconcile_runs assms(2) [THEN spec]]])
      (use restore_run_calls restore_run_live(2) [OF _ _ assms(1)] settled_requeueOnConflict in blast)
next
  case (3 h)
  note runs = does_conj [OF Restore_Reconcile_runs does_conj [OF assms(2) [THEN spec] assms(3) [THEN spec, THEN mp, OF 3]]]
  show ?case
    by (rule does_mono [OF runs]) (use restore_run_live(1) [OF _ _ assms(1)] settled_requeueOnConflict in blast)
qed simp

lemma restore_late:
  "does (Restore_Reconcile doc_lib S (ex_reconciler late_client) ex_request) h
     (\<lambda>cs r. list_all (restore_awaited doc_lib ex_restore) cs \<and>
       (4 \<le> length h \<longrightarrow> list_all (granted doc_lib False {}) cs))"
proof -
  let ?R = "ex_reconciler late_client"
  obtain cm where cm: "configMapFn doc_lib (Restore_owned doc_lib S ?R ex_restore) (newConfigMap n ns) = Inr (cm n ns)" for n ns
    using ex_restore_configMapFn by metis
  obtain cj where cj: "cronJobFn doc_lib (Restore_owned doc_lib S ?R ex_restore) (newCronJob n ns) = Inr (cj n ns)" for n ns
    using ex_restore_cronJobFn by metis
  obtain pv where pv: "pvcFn doc_lib (Restore_owned doc_lib S ?R ex_restore) (newPVC n ns) = Inr (pv n ns)" for n ns
    using pvcFn_fresh by metis
  have absent: "job_secret_error (Inl not_found) = Some not_found"
      "target_secret_error ex_restore (Inl not_found) = Some not_found"
    by (simp_all add: job_secret_error_def target_secret_error_def case_prod_beta)
  have keys: "set requiredRestoreSecretKeys \<subseteq> dom (se_Data ex_secret)"
      "\<exists>v. se_Data ex_secret (fst (snd (RestoreTargetSecret ex_restore))) = Some v"
      "\<exists>v. se_Data ex_secret (snd (snd (RestoreTargetSecret ex_restore))) = Some v"
    using ex_restore_facts(1,2) unfolding job_secret_error_None target_secret_error_None
    by (auto simp: requiredRestoreSecretKeys_def)
  show ?thesis
    by (simp add: restore_program Restore_finish_def deleteLegacyOwned_def Restore_return_def
        Restore_setStatus_def lastJobStatus_def case_prod_beta nextStatus_patch statusNeedsPatch_def
        status_args_def go_const absent keys keys(1) [unfolded dom_def, simplified] absent_defs cm cj pv dom_def Let_def)
qed

theorem Restore_eventually_ready_witness:
  "\<forall>S. does (retry 5 (Restore_Reconcile doc_lib S (ex_reconciler late_client) ex_request)) []
     (last_attempt (Restore_Reconcile doc_lib S (ex_reconciler late_client) ex_request)
       (restore_made_ready doc_lib S (ex_reconciler late_client) ex_request ex_restore) [])"
proof
  fix S
  have "restore_can_be_ready doc_lib ex_restore"
    by (simp add: restore_can_be_ready_def)
  then show "does (retry 5 (Restore_Reconcile doc_lib S (ex_reconciler late_client) ex_request)) []
     (last_attempt (Restore_Reconcile doc_lib S (ex_reconciler late_client) ex_request)
       (restore_made_ready doc_lib S (ex_reconciler late_client) ex_request ex_restore) [])"
    using Restore_eventually_ready [of doc_lib ex_restore S "ex_reconciler late_client" ex_request 4 "[]"]
      does_mono [OF restore_late]
    by (simp add: eval_nat_numeral)
qed

end
