(* ===== verification/Watches.thy ===== *)
theory Watches
  imports Liveness
begin

text \<open>
  \<^verbatim>\<open>SetupWithManager\<close> of the two controllers: which events make a reconciler run, and for which
  request.  The builder and the handlers of controller-runtime are third-party: the handlers are the
  argument \<open>H\<close>, with their documented behaviour as \<open>handler_laws\<close>.
\<close>

section \<open>Watches\<close>

datatype resource =
    RBackup
  | RRestore
  | RCronJob
  | RConfigMap
  | RPersistentVolumeClaim
  | RDeployment
  | RJob
  | RSecret

text \<open>What the builder is told: the reconciled kind, the owned kinds, and other kinds with a map function.\<close>

datatype watch =
    For resource
  | Owns resource
  | Watches resource "objectmeta \<Rightarrow> request list"

definition Backup_SetupWithManager :: "watch list" where
  "Backup_SetupWithManager =
     [For RBackup, Owns RCronJob, Owns RConfigMap, Owns RPersistentVolumeClaim, Owns RDeployment,
      Watches RJob (mapJobToOwner KindBackup LabelBackupName)]"

definition Restore_SetupWithManager :: "watch list" where
  "Restore_SetupWithManager =
     [For RRestore, Owns RCronJob, Owns RConfigMap, Owns RPersistentVolumeClaim, Owns RDeployment,
      Watches RJob (mapJobToOwner KindRestore LabelRestoreName)]"

section \<open>Events\<close>

record handlers =
  EnqueueRequestForObject :: "objectmeta \<Rightarrow> request list"
  EnqueueRequestForOwner :: "resource \<Rightarrow> objectmeta \<Rightarrow> request list"

text \<open>The kind under which owner references name a resource.\<close>

fun kind_name :: "resource \<Rightarrow> string" where
  "kind_name RBackup = ''Backup''"
| "kind_name RRestore = ''Restore''"
| "kind_name RCronJob = ''CronJob''"
| "kind_name RConfigMap = ''ConfigMap''"
| "kind_name RPersistentVolumeClaim = ''PersistentVolumeClaim''"
| "kind_name RDeployment = ''Deployment''"
| "kind_name RJob = ''Job''"
| "kind_name RSecret = ''Secret''"

definition request_for :: "objectmeta \<Rightarrow> request" where
  "request_for m = \<lparr>rq_Name = om_Name m, rq_Namespace = om_Namespace m\<rparr>"

text \<open>
  \<^verbatim>\<open>For\<close> enqueues the object itself; \<^verbatim>\<open>Owns\<close> enqueues the object named by the
  controlling reference, in the namespace of the event's object, when that reference is of the kind
  given to \<^verbatim>\<open>For\<close>.
\<close>

definition handler_laws :: "handlers \<Rightarrow> bool" where
  "handler_laws H \<longleftrightarrow>
     (\<forall>m. EnqueueRequestForObject H m = [request_for m]) \<and>
     (\<forall>res m. EnqueueRequestForOwner H res m =
        (case controller_of m of None \<Rightarrow> []
         | Some r \<Rightarrow> if or_Kind r = kind_name res then [\<lparr>rq_Name = or_Name r, rq_Namespace = om_Namespace m\<rparr>] else []))"

fun handle :: "handlers \<Rightarrow> resource \<Rightarrow> watch \<Rightarrow> resource \<Rightarrow> objectmeta \<Rightarrow> request list" where
  "handle H self (For k) res m = (if k = res then EnqueueRequestForObject H m else [])"
| "handle H self (Owns k) res m = (if k = res then EnqueueRequestForOwner H self m else [])"
| "handle H self (Watches k f) res m = (if k = res then f m else [])"

text \<open>
  The requests an event on an object of kind \<open>res\<close> leads to in a controller: the builder hands the
  object of \<^verbatim>\<open>For\<close> to the handlers of the owned kinds.
\<close>

definition requests :: "handlers \<Rightarrow> watch list \<Rightarrow> resource \<Rightarrow> objectmeta \<Rightarrow> request list" where
  "requests H ws res m =
     (case ws of For self # _ \<Rightarrow> concat (map (\<lambda>w. handle H self w res m) ws) | _ \<Rightarrow> [])"

lemmas setup_defs = Backup_SetupWithManager_def Restore_SetupWithManager_def requests_def

section \<open>Two controllers\<close>

text \<open>The kinds of the objects a reconciler applies.\<close>

definition owned_resources :: "resource set" where
  "owned_resources = {RCronJob, RConfigMap, RPersistentVolumeClaim, RDeployment}"

text \<open>An event that runs one controller, for the given owner, and not the other.\<close>

definition triggers_only ::
  "handlers \<Rightarrow> watch list \<Rightarrow> watch list \<Rightarrow> resource \<Rightarrow> objectmeta \<Rightarrow> objectmeta \<Rightarrow> bool" where
  "triggers_only H ws other res owner m \<longleftrightarrow>
     requests H ws res m = [request_for owner] \<and> requests H other res m = []"

locale owning_controller =
  fixes ws :: "watch list"
    and self :: resource
  assumes owned_events: "res \<in> owned_resources \<Longrightarrow> requests H ws res m = EnqueueRequestForOwner H self m"

locale two_controllers = owning_controller ws self + other: owning_controller ws' self'
  for ws self ws' self' +
  assumes other_kind: "kind_name self \<noteq> kind_name self'"
begin

lemma taken_over_triggers:
  assumes "handler_laws H" and "res \<in> owned_resources"
    and "taken_over (kind_name self) owner m m'" and "om_Namespace m = om_Namespace owner"
  shows "triggers_only H ws ws' res owner m'"
  using assms other_kind
  by (auto simp: triggers_only_def taken_over_def owned_events other.owned_events handler_laws_def request_for_def
      split: option.splits)

end

interpretation backup_events: two_controllers Backup_SetupWithManager RBackup Restore_SetupWithManager RRestore
  by unfold_locales (auto simp: setup_defs owned_resources_def)

interpretation restore_events: two_controllers Restore_SetupWithManager RRestore Backup_SetupWithManager RBackup
  by unfold_locales (auto simp: setup_defs owned_resources_def)

section \<open>What triggers a reconcile\<close>

text \<open>
  Every object the mutate functions of \<open>spec\<close> let through, applied in the namespace of the owner,
  runs the owner's controller for the owner, and only that one.
\<close>

definition applied_trigger :: "k8slib \<Rightarrow> handlers \<Rightarrow> watch list \<Rightarrow> watch list \<Rightarrow> ownedResources \<Rightarrow> bool" where
  "applied_trigger K H ws other spec \<longleftrightarrow>
     (\<forall>x y. configMapFn K spec x = Inr y \<and> om_Namespace (cm_Meta x) = om_Namespace (ow_Owner spec) \<longrightarrow>
        triggers_only H ws other RConfigMap (ow_Owner spec) (cm_Meta y)) \<and>
     (\<forall>x y. pvcFn K spec x = Inr y \<and> om_Namespace (pvc_Meta x) = om_Namespace (ow_Owner spec) \<longrightarrow>
        triggers_only H ws other RPersistentVolumeClaim (ow_Owner spec) (pvc_Meta y)) \<and>
     (\<forall>x y. holderFn K spec x = Inr y \<and> om_Namespace (de_Meta x) = om_Namespace (ow_Owner spec) \<longrightarrow>
        triggers_only H ws other RDeployment (ow_Owner spec) (de_Meta y)) \<and>
     (\<forall>x y. cronJobFn K spec x = Inr y \<and> om_Namespace (cj_Meta x) = om_Namespace (ow_Owner spec) \<longrightarrow>
        triggers_only H ws other RCronJob (ow_Owner spec) (cj_Meta y))"

lemma backup_applied_trigger:
  assumes "ownership_laws K" and "handler_laws H"
  shows "applied_trigger K H Backup_SetupWithManager Restore_SetupWithManager (Backup_owned K S R b)"
proof -
  note over = mutate_functions_take_over [OF assms(1) backup_keeps_identity, simplified]
  note trig = backup_events.taken_over_triggers [OF assms(2), unfolded kind_name.simps]
  show ?thesis
    unfolding applied_trigger_def
    by (auto simp: owned_resources_def intro!: trig over)
qed

lemma restore_applied_trigger:
  assumes "ownership_laws K" and "handler_laws H"
  shows "applied_trigger K H Restore_SetupWithManager Backup_SetupWithManager (Restore_owned K S R x)"
proof -
  note over = mutate_functions_take_over [OF assms(1) restore_keeps_identity, simplified]
  note trig = restore_events.taken_over_triggers [OF assms(2), unfolded kind_name.simps]
  show ?thesis
    unfolding applied_trigger_def
    by (auto simp: owned_resources_def intro!: trig over)
qed

text \<open>The Jobs of a pipeline, with the labels the CronJob's template gives them.\<close>

lemma job_requests:
  "requests H Backup_SetupWithManager RJob m = mapJobToOwner KindBackup LabelBackupName m"
  "requests H Restore_SetupWithManager RJob m = mapJobToOwner KindRestore LabelRestoreName m"
  by (simp_all add: setup_defs)

text \<open>
  C13: every change to what a resource owns reconciles that resource, and no other.  An event on a
  ConfigMap, claim, holder or CronJob that a Backup's reconciler has applied enqueues exactly that
  Backup in the Backup controller and nothing in the Restore controller, and the other way round; so
  does an event on a Job of the Backup's or Restore's pipeline.  An event on the resource itself
  enqueues it in its own controller only.  Secrets are not watched at all, which is why a missing Secret is
  looked for again after a while.
\<close>

theorem owned_objects_trigger_their_owner:
  assumes "ownership_laws K" and "handler_laws H" and "om_Name (bk_Meta b) \<noteq> []" and "om_Name (re_Meta x) \<noteq> []"
  shows "applied_trigger K H Backup_SetupWithManager Restore_SetupWithManager (Backup_owned K S R b) \<and>
    applied_trigger K H Restore_SetupWithManager Backup_SetupWithManager (Restore_owned K S R x) \<and>
    (\<exists>bl rl. job_labels (MutateBackupCronJob K S cj b cfg) = Some bl \<and>
      job_labels (MutateRestoreCronJob K S cj x cfg) = Some rl \<and>
      triggers_only H Backup_SetupWithManager Restore_SetupWithManager RJob (bk_Meta b)
        (m\<lparr>om_Labels := bl, om_Namespace := om_Namespace (bk_Meta b)\<rparr>) \<and>
      triggers_only H Restore_SetupWithManager Backup_SetupWithManager RJob (re_Meta x)
        (m\<lparr>om_Labels := rl, om_Namespace := om_Namespace (re_Meta x)\<rparr>)) \<and>
    triggers_only H Backup_SetupWithManager Restore_SetupWithManager RBackup (bk_Meta b) (bk_Meta b) \<and>
    triggers_only H Restore_SetupWithManager Backup_SetupWithManager RRestore (re_Meta x) (re_Meta x) \<and>
    requests H Backup_SetupWithManager RSecret m = [] \<and> requests H Restore_SetupWithManager RSecret m = []"
proof (intro conjI)
  show "\<exists>bl rl. job_labels (MutateBackupCronJob K S cj b cfg) = Some bl \<and>
      job_labels (MutateRestoreCronJob K S cj x cfg) = Some rl \<and>
      triggers_only H Backup_SetupWithManager Restore_SetupWithManager RJob (bk_Meta b)
        (m\<lparr>om_Labels := bl, om_Namespace := om_Namespace (bk_Meta b)\<rparr>) \<and>
      triggers_only H Restore_SetupWithManager Backup_SetupWithManager RJob (re_Meta x)
        (m\<lparr>om_Labels := rl, om_Namespace := om_Namespace (re_Meta x)\<rparr>)"
    using assms(3,4) by (simp add: triggers_only_def job_requests mapJobToOwner_def request_for_def)
  show "triggers_only H Backup_SetupWithManager Restore_SetupWithManager RBackup (bk_Meta b) (bk_Meta b)"
    "triggers_only H Restore_SetupWithManager Backup_SetupWithManager RRestore (re_Meta x) (re_Meta x)"
    using assms(2) by (simp_all add: triggers_only_def setup_defs handler_laws_def)
  show "requests H Backup_SetupWithManager RSecret m = []" "requests H Restore_SetupWithManager RSecret m = []"
    by (simp_all add: setup_defs)
qed (rule backup_applied_trigger [OF assms(1,2)] restore_applied_trigger [OF assms(1,2)])+

text \<open>Handlers that do what is documented.\<close>

definition doc_handlers :: handlers where
  "doc_handlers =
     \<lparr>EnqueueRequestForObject = (\<lambda>m. [request_for m]),
      EnqueueRequestForOwner = (\<lambda>res m.
        case controller_of m of None \<Rightarrow> []
        | Some r \<Rightarrow> if or_Kind r = kind_name res then [\<lparr>rq_Name = or_Name r, rq_Namespace = om_Namespace m\<rparr>] else [])\<rparr>"

lemma handler_laws_doc: "handler_laws doc_handlers"
  by (simp add: handler_laws_def doc_handlers_def)

theorem owned_objects_trigger_their_owner_witness:
  "\<forall>S. \<exists>pv. pvcFn doc_lib (Backup_owned doc_lib S (ex_reconciler ex_client) ex_backup) (newPVC ''n'' ''backup'') = Inr pv \<and>
     requests doc_handlers Backup_SetupWithManager RPersistentVolumeClaim (pvc_Meta pv) =
       [\<lparr>rq_Name = ''app-postgres'', rq_Namespace = ''backup''\<rparr>] \<and>
     requests doc_handlers Restore_SetupWithManager RPersistentVolumeClaim (pvc_Meta pv) = []"
proof
  fix S
  let ?spec = "Backup_owned doc_lib S (ex_reconciler ex_client) ex_backup"
  obtain pv where pv: "pvcFn doc_lib ?spec (newPVC ''n'' ''backup'') = Inr pv" using pvcFn_fresh by blast
  have meta: "om_Name (bk_Meta ex_backup) = ''app-postgres''" "om_Namespace (bk_Meta ex_backup) = ''backup''"
      "om_Name (re_Meta ex_restore) \<noteq> []" "om_Namespace (pvc_Meta (newPVC ''n'' ''backup'')) = ''backup''"
    by (simp_all add: ex_defs newPVC_def)
  then have "applied_trigger doc_lib doc_handlers Backup_SetupWithManager Restore_SetupWithManager ?spec"
    using owned_objects_trigger_their_owner [OF ownership_laws_doc handler_laws_doc, of ex_backup ex_restore S]
    by simp
  then have "triggers_only doc_handlers Backup_SetupWithManager Restore_SetupWithManager RPersistentVolumeClaim
      (bk_Meta ex_backup) (pvc_Meta pv)"
    using pv meta by (auto simp: applied_trigger_def)
  with pv meta show "\<exists>pv. pvcFn doc_lib ?spec (newPVC ''n'' ''backup'') = Inr pv \<and>
     requests doc_handlers Backup_SetupWithManager RPersistentVolumeClaim (pvc_Meta pv) =
       [\<lparr>rq_Name = ''app-postgres'', rq_Namespace = ''backup''\<rparr>] \<and>
     requests doc_handlers Restore_SetupWithManager RPersistentVolumeClaim (pvc_Meta pv) = []"
    by (auto simp: triggers_only_def request_for_def)
qed

end
