(* ===== verification/Bounded.thy ===== *)
theory Bounded
  imports Liveness
begin

text \<open>
  What a reconcile costs: how often it uses the client of the API server, whatever the answers are, and that
  the status is written at most once, by the last of its calls.
\<close>

section \<open>Requests\<close>

text \<open>
  The operations on the client behind a logged call: \<^verbatim>\<open>controllerutil.CreateOrUpdate\<close>, logged as one
  \<^verbatim>\<open>Apply\<close>, is a \<^verbatim>\<open>Get\<close> followed by a \<^verbatim>\<open>Create\<close> or an \<^verbatim>\<open>Update\<close> (or by none, if nothing
  changed); an event goes to the recorder, not to the client; every other call is one operation.
\<close>

definition requests_of :: "kcall \<Rightarrow> nat" where
  "requests_of k = (if is_apply k then 2 else case k of RecordEvent m ty reason msg \<Rightarrow> 0 | _ \<Rightarrow> 1)"

definition requests :: "history \<Rightarrow> nat" where
  "requests cs = sum_list (map requests_of cs)"

lemma requests_simps [simp]:
  "requests [] = 0" "requests (k # cs) = requests_of k + requests cs" "requests (cs @ ds) = requests cs + requests ds"
  by (simp_all add: requests_def)

lemma requests_of_simps [simp]:
  "requests_of (GetBackup ns n gb) = 1" "requests_of (GetRestore ns n gr) = 1" "requests_of (GetSecret ns n gs) = 1"
  "requests_of (GetConfigMap ns n gc) = 1" "requests_of (GetPVC ns n gp) = 1" "requests_of (GetDeployment ns n gd) = 1"
  "requests_of (GetCronJob ns n gj) = 1" "requests_of (ListJobs ns sel js) = 1" "requests_of (RecordEvent m ty reason msg) = 0"
  "requests_of (ApplyConfigMap xc fc rc) = 2" "requests_of (ApplyPVC xp fp rp) = 2"
  "requests_of (ApplyDeployment xd fd rd) = 2" "requests_of (ApplyCronJob xj fj rj) = 2"
  "requests_of (DeleteConfigMap dc e) = 1" "requests_of (DeleteCronJob dj e) = 1" "requests_of (DeleteDeployment dd e) = 1"
  "requests_of (UpdateBackupStatus b e) = 1" "requests_of (UpdateRestoreStatus r e) = 1"
  by (simp_all add: requests_of_def)

lemma requests_of_le: "requests_of k \<le> 2"
  by (cases k) simp_all

definition brief :: "nat \<Rightarrow> history \<Rightarrow> bool" where
  "brief n cs \<longleftrightarrow> requests cs \<le> n \<and> list_all (\<lambda>k. \<not> is_status_update k) (butlast cs)"

lemma brief_after:
  assumes "brief n ys" and "requests xs + n \<le> m" and "\<And>k. k \<in> set xs \<Longrightarrow> \<not> is_status_update k"
  shows "brief m (xs @ ys)"
  using assms by (auto simp: brief_def list_all_iff butlast_append dest: in_set_butlastD)

lemma brief_Cons: "brief n ys \<Longrightarrow> requests_of k + n \<le> m \<Longrightarrow> \<not> is_status_update k \<Longrightarrow> brief m (k # ys)"
  using brief_after [of n ys "[k]"] by simp

lemma brief_mono: "brief n cs \<Longrightarrow> n \<le> m \<Longrightarrow> brief m cs"
  by (simp add: brief_def)

lemma delete_runs_requests:
  "configmap_kind.delete_run ns n K owner cs r \<Longrightarrow> requests cs \<le> 2"
  "cronjob_kind.delete_run ns n K owner cs r \<Longrightarrow> requests cs \<le> 2"
  "deployment_kind.delete_run ns n K owner cs r \<Longrightarrow> requests cs \<le> 2"
  by (auto simp: configmap_kind.delete_run_def cronjob_kind.delete_run_def deployment_kind.delete_run_def)

lemma pvc_calls_requests: "pvc_calls K spec cs e \<Longrightarrow> requests cs \<le> 2"
  by (auto simp: pvc_calls_def split: if_splits)

lemma holder_calls_requests: "holder_calls K spec cs e \<Longrightarrow> requests cs \<le> 2"
  by (auto simp: holder_calls_def Let_def split: if_splits dest: delete_runs_requests(3))

lemma owned_run_requests: "owned_run K spec cs r \<Longrightarrow> requests cs \<le> 8"
  by (cases rule: owned_run.cases) (auto dest!: pvc_calls_requests holder_calls_requests split: if_splits)

lemma legacy_run_requests: "legacy_run K owner cur cs e \<Longrightarrow> requests cs \<le> 5"
  by (cases rule: legacy_run.cases) (auto dest!: delete_runs_requests)

lemma status_run_brief:
  assumes "\<And>st e. requests_of (update st e) = 1"
    and "status_run K hasRecorder condType nameLabel kind m st update q cs err"
  shows "brief 2 cs"
  using assms(2) by (rule status_runE) (auto simp: brief_def assms(1))

lemma statuses_brief:
  "backup_status K R b q cs err \<Longrightarrow> brief 2 cs" "restore_status K R x q cs err \<Longrightarrow> brief 2 cs"
  by (rule status_run_brief; simp)+

lemma fail_run_brief:
  assumes "\<And>q cs err. status q cs err \<Longrightarrow> brief 2 cs" and "fail_run K status reason e cs err"
  shows "brief 2 cs"
  using assms by (auto simp: fail_run_def brief_def split: if_splits)

lemma finish_run_brief:
  assumes "\<And>q cs err. status q cs err \<Longrightarrow> brief 2 cs" and "finish_run K status spec cron cs res"
  shows "brief (if ow_VolumeHolder spec then 3 else 2) cs"
proof -
  have "fail_run K status reason e ds err \<Longrightarrow> brief 2 ds" for reason e ds err
    using fail_run_brief assms(1) by blast
  with assms(2) show ?thesis
    by (cases rule: finish_run.cases) (auto intro!: brief_Cons [where n = 2] dest: assms(1))
qed

lemma sync_run_brief:
  assumes "\<And>q cs err. status q cs err \<Longrightarrow> brief 2 cs" and "sync_run K status spec cs res"
  shows "brief 16 cs"
  using assms(2)
proof (cases rule: sync_run.cases)
  case (owned_fails cs' e ds err)
  show ?thesis
    unfolding owned_fails(1)
    by (rule brief_after [OF fail_run_brief [OF assms(1) owned_fails(4)]])
      (use owned_run_requests [OF owned_fails(3)] owned_run_no_status [OF owned_fails(3)] in \<open>auto split: if_splits\<close>)
next
  case (legacy_fails cs' cron ls e ds err)
  have "brief 7 (ls @ ds)"
    by (rule brief_after [OF fail_run_brief [OF assms(1) legacy_fails(5)]])
      (use legacy_run_requests [OF legacy_fails(4)] legacy_run_no_write [OF legacy_fails(4)] in auto)
  then show ?thesis
    unfolding legacy_fails(1)
    by (rule brief_after)
      (use owned_run_requests [OF legacy_fails(3)] owned_run_no_status [OF legacy_fails(3)] in \<open>auto split: if_splits\<close>)
next
  case (finishes cs' cron ls fs)
  have "brief (if ow_VolumeHolder spec then 8 else 7) (ls @ fs)"
    by (rule brief_after [OF finish_run_brief [OF assms(1) finishes(4)]])
      (use legacy_run_requests [OF finishes(3)] legacy_run_no_write [OF finishes(3)] in auto)
  then show ?thesis
    unfolding finishes(1)
    by (rule brief_after)
      (use owned_run_requests [OF finishes(2)] owned_run_no_status [OF finishes(2)] in \<open>auto split: if_splits\<close>)
qed

section \<open>The two reconcilers\<close>

lemma source_run_brief: "source_run b ps e \<Longrightarrow> requests ps \<le> 1 \<and> (k \<in> set ps \<longrightarrow> \<not> is_status_update k)"
  by (auto simp: source_run_def Let_def split: if_splits)

lemma source_brief: "if IsPVCBackup b then source_run b ps None else ps = [] \<Longrightarrow>
    requests ps \<le> 1 \<and> (k \<in> set ps \<longrightarrow> \<not> is_status_update k)"
  using source_run_brief [of b ps None k] by (auto split: if_splits)

text \<open>A check that fails: some reads, then the status.\<close>

lemma reads_brief:
  assumes "brief 2 cs" and "requests gs \<le> 2"
    and "\<And>k. k \<in> set gs \<Longrightarrow> \<not> is_status_update k" and "\<not> is_status_update k"
  shows "brief 19 (k # gs @ cs)"
  by (rule brief_Cons [OF brief_after [OF assms(1), where m = 4]]) (use assms(2-4) requests_of_le [of k] in auto)

lemma backup_run_brief:
  assumes "backup_run K S R req cs res"
  shows "brief 19 cs"
  using assms
proof (cases rule: backup_run.cases)
  case (syncs b r ps ds)
  have "brief 17 (ps @ ds)"
    by (rule brief_after [OF sync_run_brief [OF statuses_brief(1) syncs(7)]]) (use source_brief [OF syncs(6)] in auto)
  then have "brief 18 (got_backup_secret b r # ps @ ds)" by (rule brief_Cons) simp_all
  then show ?thesis unfolding syncs(1) by (rule brief_Cons) simp_all
next
  case (unsupported b ds err)
  show ?thesis unfolding unsupported(1) using reads_brief [OF statuses_brief(1) [OF unsupported(5)], of "[]"] by simp
next
  case (invalid b e ds err)
  show ?thesis unfolding invalid(1) using reads_brief [OF statuses_brief(1) [OF invalid(6)], of "[]"] by simp
next
  case (secret_missing b r e ds err)
  show ?thesis unfolding secret_missing(1) using reads_brief [OF statuses_brief(1) [OF secret_missing(8)], of "[got_backup_secret b r]"] by simp
next
  case (secret_invalid b r e ds err)
  show ?thesis unfolding secret_invalid(1) using reads_brief [OF statuses_brief(1) [OF secret_invalid(8)], of "[got_backup_secret b r]"] by simp
next
  case (source_missing b r ps e ds err)
  have "brief 19 (GetBackup (rq_Namespace req) (rq_Name req) (Inr b) # (got_backup_secret b r # ps) @ ds)"
    by (rule reads_brief [OF statuses_brief(1) [OF source_missing(10)]]) (use source_run_brief [OF source_missing(8)] in auto)
  then show ?thesis by (simp add: source_missing(1))
next
  case (source_invalid b r ps e ds err)
  have "brief 19 (GetBackup (rq_Namespace req) (rq_Name req) (Inr b) # (got_backup_secret b r # ps) @ ds)"
    by (rule reads_brief [OF statuses_brief(1) [OF source_invalid(10)]]) (use source_run_brief [OF source_invalid(8)] in auto)
  then show ?thesis by (simp add: source_invalid(1))
qed (simp_all add: brief_def)

lemma restore_run_brief:
  assumes "restore_run K S R req cs res"
  shows "brief 19 cs"
  using assms
proof (cases rule: restore_run.cases)
  case (syncs x r t ds)
  have "brief 16 ds" by (rule sync_run_brief [OF statuses_brief(2) syncs(7)])
  then have "brief 17 (got_target_secret x t # ds)" by (rule brief_Cons) simp_all
  then have "brief 18 (got_job_secret x r # got_target_secret x t # ds)" by (rule brief_Cons) simp_all
  then show ?thesis unfolding syncs(1) by (rule brief_Cons) simp_all
next
  case (stops x gs n phase reason message ds err)
  have "requests gs \<le> 2" using stops(4) by (cases rule: restore_stop.cases) auto
  then show ?thesis
    unfolding stops(1) by (rule reads_brief [OF statuses_brief(2) [OF stops(6)]]) (auto dest: restore_stop_reads [OF stops(4)])
qed (simp_all add: brief_def)

text \<open>
  C14: what a reconcile costs, and when it reports.  Whatever the API server answers, one reconcile of a Backup
  or of a Restore performs at most nineteen operations on the client, counting two for each
  \<^verbatim>\<open>CreateOrUpdate\<close>; and it writes the status at most once, with its very last call: nothing is read,
  applied or deleted after the status has been reported, and no event is recorded after it.
\<close>

theorem Reconcile_reports_last:
  "does (Backup_Reconcile K S R req) h
     (\<lambda>cs res. requests cs \<le> 19 \<and> list_all (\<lambda>k. \<not> is_status_update k) (butlast cs)) \<and>
   does (Restore_Reconcile K S R req) h
     (\<lambda>cs res. requests cs \<le> 19 \<and> list_all (\<lambda>k. \<not> is_status_update k) (butlast cs))"
  using backup_run_brief restore_run_brief unfolding brief_def
  by (intro conjI does_mono [OF Backup_Reconcile_runs] does_mono [OF Restore_Reconcile_runs]) blast+

end
