(* ===== verification/Idempotence.thy ===== *)
theory Idempotence
  imports Ownership
begin

text \<open>
  Applying repairs drift, in one step.  What a mutate function writes into a ConfigMap, CronJob or holder
  depends on the custom resource alone, not on what it finds there, and mutating the result once more
  changes nothing that is modelled.  (The records hold the fields the operator writes; the ones the API server
  fills in by default are not among them, so nothing is said here about updates they may cause.)
\<close>

section \<open>The controller reference\<close>

lemma SetControllerReference_keeps:
  assumes "ownership_laws K" and "controllerutil_SetControllerReference K kind owner m = Inr m'"
  shows "controllerutil_SetControllerReference K kind owner m' = Inr m'" "om_Labels m' = om_Labels m"
    "om_Annotations m' = om_Annotations m" "om_CreationTimestamp m' = om_CreationTimestamp m"
proof -
  have m: "m'\<lparr>om_OwnerReferences := om_OwnerReferences m\<rparr> = m"
    and "controllerutil_SetControllerReference K kind owner m' = Inr m'"
    using assms unfolding ownership_laws_def by blast+
  then show "controllerutil_SetControllerReference K kind owner m' = Inr m'" by simp
  show "om_Labels m' = om_Labels m" "om_Annotations m' = om_Annotations m"
    "om_CreationTimestamp m' = om_CreationTimestamp m"
    using arg_cong [OF m, of om_Labels] arg_cong [OF m, of om_Annotations] arg_cong [OF m, of om_CreationTimestamp]
    by simp_all
qed

lemma relabel: "om_Labels m = l \<Longrightarrow> m\<lparr>om_Labels := l\<rparr> = m"
  by simp

section \<open>Mutating twice\<close>

text \<open>
  What the mutators of both kinds do: they overwrite the labels and the content, and depend on nothing
  else of the object but its metadata.
\<close>

definition overwrites :: "ownedResources \<Rightarrow> bool" where
  "overwrites spec \<longleftrightarrow>
     (\<exists>l d e. \<forall>x. ow_MutateConfigMap spec x = (x\<lparr>cm_Meta := (cm_Meta x)\<lparr>om_Labels := l\<rparr>, cm_Data := d\<rparr>, e)) \<and>
     (\<exists>l s. \<forall>x. ow_MutateCronJob spec x =
        map_option (\<lambda>p. x\<lparr>cj_Meta := (cj_Meta x)\<lparr>om_Labels := l\<rparr>, cj_Spec := Some p\<rparr>) s) \<and>
     (\<exists>l s. \<forall>x. ow_MutateVolumeHolder spec x = x\<lparr>de_Meta := (de_Meta x)\<lparr>om_Labels := l\<rparr>, de_Spec := Some s\<rparr>)"

lemma owned_overwrites: "overwrites (Backup_owned K S R b)" "overwrites (Restore_owned K S R x)"
proof -
  have "MutateBackupCronJob K S y b cfg =
      map_option (\<lambda>p. y\<lparr>cj_Meta := (cj_Meta y)\<lparr>om_Labels := BackupLabels b\<rparr>, cj_Spec := Some p\<rparr>)
        (map_option (cronJobSpec (bs_Schedule (bk_Spec b)) (ptr_Deref (bs_Job (bk_Spec b)) JobPolicy_zero)
          (bs_Suspend (bk_Spec b)) (BackupLabels b) 3) (backupPodSpec K S b cfg))" for y cfg
    by (cases "backupPodSpec K S b cfg") (simp_all add: MutateBackupCronJob_def Let_def)
  moreover have "MutateRestoreCronJob K S y x cfg =
      map_option (\<lambda>p. y\<lparr>cj_Meta := (cj_Meta y)\<lparr>om_Labels := RestoreLabels x\<rparr>, cj_Spec := Some p\<rparr>)
        (map_option (cronJobSpec (rs_Schedule (re_Spec x)) (ptr_Deref (rs_Job (re_Spec x)) JobPolicy_zero)
          (rs_Suspend (re_Spec x)) (RestoreLabels x) 1) (restorePodSpec K S x cfg))" for y cfg
    by (cases "restorePodSpec K S x cfg") (simp_all add: MutateRestoreCronJob_def Let_def)
  ultimately show "overwrites (Backup_owned K S R b)" "overwrites (Restore_owned K S R x)"
    unfolding overwrites_def Backup_owned_def Restore_owned_def MutateBackupConfigMap_def
      MutateRestoreConfigMap_def MutateVolumeHolderDeployment_def Let_def case_prod_beta ownedResources.select_convs
    by blast+
qed

lemma overwriting_idempotent:
  assumes "ownership_laws K" and "overwrites spec"
  shows "configMapFn K spec cm = Inr cm' \<Longrightarrow> configMapFn K spec cm' = Inr cm'"
    and "holderFn K spec d = Inr d' \<Longrightarrow> holderFn K spec d' = Inr d'"
    and "cronJobFn K spec cj = Inr cj' \<Longrightarrow> cronJobFn K spec cj' = Inr cj'"
  using assms(2) SetControllerReference_keeps(1,2) [OF assms(1)]
  by (auto simp: overwrites_def configMapFn_def holderFn_def cronJobFn_def Let_def relabel
      split: option.splits sum.splits)

text \<open>What is written does not depend on what was there.\<close>

lemma overwriting_repairs:
  assumes "ownership_laws K" and "overwrites spec"
  shows "configMapFn K spec cm = Inr cm' \<Longrightarrow> configMapFn K spec dm = Inr dm' \<Longrightarrow>
      cm_Data cm' = cm_Data dm' \<and> om_Labels (cm_Meta cm') = om_Labels (cm_Meta dm')"
    and "holderFn K spec d = Inr d' \<Longrightarrow> holderFn K spec e = Inr e' \<Longrightarrow>
      de_Spec d' = de_Spec e' \<and> om_Labels (de_Meta d') = om_Labels (de_Meta e')"
    and "cronJobFn K spec cj = Inr cj' \<Longrightarrow> cronJobFn K spec dj = Inr dj' \<Longrightarrow>
      cj_Spec cj' = cj_Spec dj' \<and> om_Labels (cj_Meta cj') = om_Labels (cj_Meta dj')"
  using assms(2) SetControllerReference_keeps(2) [OF assms(1)]
  by (auto simp: overwrites_def configMapFn_def holderFn_def cronJobFn_def Let_def split: option.splits sum.splits)

text \<open>
  A claim that exists is left as it is the second time; one that has just been created keeps its spec,
  labels and annotations.
\<close>

lemma ExpandPVC_done:
  assumes "quantity_laws K" and "storage_request claim = Some q" and "persistenceSize K persistence \<le> q"
  shows "ExpandPVC K claim persistence = claim"
  using assms by (simp add: ExpandPVC_def storage_request_def quantity_laws_def Let_def)

lemma claim_idempotent:
  assumes "ownership_laws K" and "quantity_laws K" and "pvcFn K spec claim = Inr claim'"
    and "om_CreationTimestamp (pvc_Meta claim) \<noteq> 0"
  shows "pvcFn K spec claim' = Inr claim'"
proof -
  let ?c = "claim\<lparr>pvc_Meta := (pvc_Meta claim)\<lparr>om_Labels := ow_Labels spec\<rparr>\<rparr>"
  let ?e = "ExpandPVC K ?c (ow_Persistence spec)"
  obtain m where m: "controllerutil_SetControllerReference K (ow_Kind spec) (ow_Owner spec) (pvc_Meta ?e) = Inr m"
      and c': "claim' = ?e\<lparr>pvc_Meta := m\<rparr>"
    using assms(3,4) by (auto simp: pvcFn_def time_IsZero_def Let_def split: sum.splits)
  note keep = SetControllerReference_keeps [OF assms(1) m]
  have meta: "pvc_Meta ?e = pvc_Meta ?c"
    by (simp add: ExpandPVC_def Let_def split: option.split)
  have labels: "claim'\<lparr>pvc_Meta := (pvc_Meta claim')\<lparr>om_Labels := ow_Labels spec\<rparr>\<rparr> = claim'"
    using keep(2) by (simp add: c' meta relabel)
  have "\<exists>q. storage_request claim' = Some q \<and> persistenceSize K (ow_Persistence spec) \<le> q"
    using assms(2) by (auto simp: c' storage_request_def ExpandPVC_def quantity_laws_def Let_def split: option.split)
  then have "ExpandPVC K claim' (ow_Persistence spec) = claim'" using ExpandPVC_done [OF assms(2)] by blast
  moreover have "om_CreationTimestamp (pvc_Meta claim') \<noteq> 0"
    using keep(4) assms(4) by (simp add: c' meta)
  moreover have "controllerutil_SetControllerReference K (ow_Kind spec) (ow_Owner spec) (pvc_Meta claim') = Inr (pvc_Meta claim')"
    using keep(1) by (simp add: c')
  ultimately show ?thesis by (simp add: pvcFn_def time_IsZero_def labels Let_def)
qed

lemma created_claim_kept:
  assumes "ownership_laws K" and "quantity_laws K" and "pvcFn K spec claim = Inr claim'"
    and "om_CreationTimestamp (pvc_Meta claim) = 0" and "t \<noteq> 0"
    and "pvcFn K spec (claim'\<lparr>pvc_Meta := (pvc_Meta claim')\<lparr>om_CreationTimestamp := t\<rparr>\<rparr>) = Inr c"
  shows "pvc_Spec c = pvc_Spec claim' \<and> om_Labels (pvc_Meta c) = om_Labels (pvc_Meta claim') \<and>
    om_Annotations (pvc_Meta c) = om_Annotations (pvc_Meta claim')"
proof -
  let ?n = "MutatePVC K claim (ow_Persistence spec) (ow_Labels spec)"
  obtain m where m: "controllerutil_SetControllerReference K (ow_Kind spec) (ow_Owner spec) (pvc_Meta ?n) = Inr m"
      and c': "claim' = ?n\<lparr>pvc_Meta := m\<rparr>"
    using assms(3,4) by (auto simp: pvcFn_def time_IsZero_def Let_def split: sum.splits)
  have labels: "om_Labels m = ow_Labels spec"
    using SetControllerReference_keeps(2) [OF assms(1) m] by (simp add: MutatePVC_def Let_def split: option.splits)
  let ?c = "claim'\<lparr>pvc_Meta := m\<lparr>om_CreationTimestamp := t\<rparr>\<rparr>"
  have "storage_request ?c = Some (persistenceSize K (ow_Persistence spec))"
    by (simp add: c' storage_request_def MutatePVC_def Let_def)
  then have "ExpandPVC K ?c (ow_Persistence spec) = ?c" using ExpandPVC_done [OF assms(2)] by simp
  moreover have "?c\<lparr>pvc_Meta := (pvc_Meta ?c)\<lparr>om_Labels := ow_Labels spec\<rparr>\<rparr> = ?c"
    by (simp add: relabel labels)
  ultimately obtain m' where
      "controllerutil_SetControllerReference K (ow_Kind spec) (ow_Owner spec) (m\<lparr>om_CreationTimestamp := t\<rparr>) = Inr m'"
      and "c = ?c\<lparr>pvc_Meta := m'\<rparr>"
    using assms(5,6) by (auto simp: pvcFn_def time_IsZero_def c' Let_def split: sum.splits)
  then show ?thesis
    using SetControllerReference_keeps(2,3) [OF assms(1)] by (auto simp: c')
qed

section \<open>Editing the spec\<close>

lemma holder_selectors:
  "map_option ds_Selector (de_Spec (MutateVolumeHolderDeployment K d (backupHolderSpec b) cfg)) =
     Some (VolumeHolderMatchLabels KindBackup (om_Name (bk_Meta b)))"
  "map_option ds_Selector (de_Spec (MutateVolumeHolderDeployment K d (restoreHolderSpec x) cfg)) =
     Some (VolumeHolderMatchLabels KindRestore (om_Name (re_Meta x)))"
  by (simp_all add: MutateVolumeHolderDeployment_def backupHolderSpec_def restoreHolderSpec_def Let_def case_prod_beta)

text \<open>
  C16: applying repairs drift, in one step.  Whatever ConfigMap, CronJob or holder Deployment the mutate
  function of a Backup or a Restore finds, edited by hand or out of date, if it succeeds the data or the
  spec and the labels it leaves are the same: they are determined by the custom resource.  Mutating the result
  once more gives the very same object, on the fields the operator writes, which are the ones modelled
  (nothing is claimed of the fields that the API server adds by default, which the overwritten spec of a CronJob
  or a Deployment drops again).  A claim that exists is left as it is when mutated a second time, and
  one that has just been created keeps its spec, labels and annotations on the next reconcile.  The
  selector of a holder, which the API server refuses to change, does not depend on the resource's spec
  at all.
\<close>

theorem applying_repairs_drift:
  assumes "ownership_laws K" and "quantity_laws K" and "spec = Backup_owned K S R b \<or> spec = Restore_owned K S R x"
  shows "(\<forall>cm cm' dm dm'. configMapFn K spec cm = Inr cm' \<and> configMapFn K spec dm = Inr dm' \<longrightarrow>
       cm_Data cm' = cm_Data dm' \<and> om_Labels (cm_Meta cm') = om_Labels (cm_Meta dm') \<and> configMapFn K spec cm' = Inr cm') \<and>
    (\<forall>d d' e e'. holderFn K spec d = Inr d' \<and> holderFn K spec e = Inr e' \<longrightarrow>
       de_Spec d' = de_Spec e' \<and> om_Labels (de_Meta d') = om_Labels (de_Meta e') \<and> holderFn K spec d' = Inr d') \<and>
    (\<forall>cj cj' dj dj'. cronJobFn K spec cj = Inr cj' \<and> cronJobFn K spec dj = Inr dj' \<longrightarrow>
       cj_Spec cj' = cj_Spec dj' \<and> om_Labels (cj_Meta cj') = om_Labels (cj_Meta dj') \<and> cronJobFn K spec cj' = Inr cj') \<and>
    (\<forall>c c'. pvcFn K spec c = Inr c' \<and> om_CreationTimestamp (pvc_Meta c) \<noteq> 0 \<longrightarrow> pvcFn K spec c' = Inr c') \<and>
    (\<forall>c c' t c''. pvcFn K spec c = Inr c' \<and> om_CreationTimestamp (pvc_Meta c) = 0 \<and> t \<noteq> 0 \<and>
       pvcFn K spec (c'\<lparr>pvc_Meta := (pvc_Meta c')\<lparr>om_CreationTimestamp := t\<rparr>\<rparr>) = Inr c'' \<longrightarrow>
       pvc_Spec c'' = pvc_Spec c' \<and> om_Labels (pvc_Meta c'') = om_Labels (pvc_Meta c') \<and>
       om_Annotations (pvc_Meta c'') = om_Annotations (pvc_Meta c')) \<and>
    (\<forall>d. map_option ds_Selector (de_Spec (ow_MutateVolumeHolder spec d)) =
       Some (VolumeHolderMatchLabels (if ow_Kind spec = ''Restore'' then KindRestore else KindBackup) (om_Name (ow_Owner spec))))"
proof -
  have spec: "overwrites spec" using assms(3) owned_overwrites by blast
  have "map_option ds_Selector (de_Spec (ow_MutateVolumeHolder spec d)) =
      Some (VolumeHolderMatchLabels (if ow_Kind spec = ''Restore'' then KindRestore else KindBackup) (om_Name (ow_Owner spec)))" for d
    using assms(3) holder_selectors by (auto simp: Backup_owned_def Restore_owned_def)
  with overwriting_idempotent [OF assms(1) spec] overwriting_repairs [OF assms(1) spec]
    claim_idempotent [OF assms(1,2)] created_claim_kept [OF assms(1,2)]
  show ?thesis by (intro conjI allI impI) (blast | metis)+
qed

text \<open>A ConfigMap that someone has emptied and relabelled.\<close>

theorem applying_repairs_drift_witness:
  "\<forall>S l. \<exists>cm dm. configMapFn doc_lib (Backup_owned doc_lib S (ex_reconciler ex_client) ex_backup) (newConfigMap ''n'' ''ns'') = Inr cm \<and>
     configMapFn doc_lib (Backup_owned doc_lib S (ex_reconciler ex_client) ex_backup)
       (cm\<lparr>cm_Data := Map.empty, cm_Meta := (cm_Meta cm)\<lparr>om_Labels := l\<rparr>\<rparr>) = Inr dm \<and>
     cm_Data dm = cm_Data cm \<and> om_Labels (cm_Meta dm) = om_Labels (cm_Meta cm)"
proof (intro allI)
  fix S l
  let ?spec = "Backup_owned doc_lib S (ex_reconciler ex_client) ex_backup"
  note repairs = applying_repairs_drift [OF ownership_laws_doc quantity_laws_doc, of ?spec S "ex_reconciler ex_client" ex_backup]
  obtain cm where cm: "configMapFn doc_lib ?spec (newConfigMap ''n'' ''ns'') = Inr cm" using ex_configMapFn by blast
  with repairs have again: "configMapFn doc_lib ?spec cm = Inr cm" by blast
  have "configMapFn doc_lib ?spec (cm\<lparr>cm_Data := Map.empty, cm_Meta := (cm_Meta cm)\<lparr>om_Labels := l\<rparr>\<rparr>) = configMapFn doc_lib ?spec cm"
    by (simp add: configMapFn_def Backup_owned_def MutateBackupConfigMap_def Let_def case_prod_beta)
  with again have "configMapFn doc_lib ?spec (cm\<lparr>cm_Data := Map.empty, cm_Meta := (cm_Meta cm)\<lparr>om_Labels := l\<rparr>\<rparr>) = Inr cm" by simp
  with cm repairs show "\<exists>cm dm. configMapFn doc_lib ?spec (newConfigMap ''n'' ''ns'') = Inr cm \<and>
     configMapFn doc_lib ?spec (cm\<lparr>cm_Data := Map.empty, cm_Meta := (cm_Meta cm)\<lparr>om_Labels := l\<rparr>\<rparr>) = Inr dm \<and>
     cm_Data dm = cm_Data cm \<and> om_Labels (cm_Meta dm) = om_Labels (cm_Meta cm)"
    by blast
qed

end
