(* ===== verification/Status_Machine.thy ===== *)
theory Status_Machine
  imports Ownership
begin

text \<open>
  The status of a resource over its life in the cluster: it starts empty, users edit the spec, and
  reconciles, possibly on an outdated copy, write the status.  Whatever the interleaving, the parts of a
  status agree with each other.
\<close>

section \<open>Consistent statuses\<close>

definition phases :: "string set" where
  "phases = {''Pending'', ''Ready'', ''Error'', ''Unsupported''}"

definition job_condition_status :: "LastJobStatus option \<Rightarrow> string" where
  "job_condition_status lj =
     (case lj of None \<Rightarrow> ConditionUnknown
      | Some j \<Rightarrow> if lj_Outcome j = LastJobOutcomeSucceeded then ConditionTrue else ConditionFalse)"

text \<open>
  A status written for generation \<open>g\<close>: one of the four phases, a Ready condition that is true exactly
  in the phase Ready, a condition on the last Job that says how it went, both of that generation, and a
  holder only while it is waited for or in use.
\<close>

definition status_consistent :: "string \<Rightarrow> int \<Rightarrow> cr_status \<Rightarrow> bool" where
  "status_consistent ty g st \<longleftrightarrow>
     st_Phase st \<in> phases \<and> st_ObservedGeneration st = g \<and>
     (\<exists>r. find_condition (st_Conditions st) ConditionReady = Some r \<and> co_ObservedGeneration r = g \<and>
        co_Status r = (if st_Phase st = ''Ready'' then ConditionTrue else ConditionFalse)) \<and>
     (\<exists>s. find_condition (st_Conditions st) ty = Some s \<and> co_ObservedGeneration s = g \<and>
        co_Status s = job_condition_status (st_LastJob st)) \<and>
     (st_VolumeHolderName st = [] \<or> st_Phase st \<in> {''Pending'', ''Ready''})"

text \<open>The requests a reconciler makes.\<close>

definition request_consistent :: "status_request \<Rightarrow> bool" where
  "request_consistent q \<longleftrightarrow>
     sr_Phase q \<in> phases \<and> sr_Ready q = (if sr_Phase q = ''Ready'' then ConditionTrue else ConditionFalse) \<and>
     (sr_HolderName q = [] \<or> sr_Phase q \<in> {''Pending'', ''Ready''})"

lemma requests_consistent [simp]:
  "phase \<in> {''Unsupported'', ''Error'', ''Pending''} \<Longrightarrow> request_consistent (early_request phase reason message)"
  "request_consistent (fail_request reason e)" "request_consistent (waiting_request spec cron)"
  "request_consistent (synced_request spec cron)"
  by (auto simp: request_consistent_def early_request_def fail_request_def waiting_request_def
      synced_request_def status_args_def phases_def)

lemma jobSucceededCondition_sel:
  "co_Status (jobSucceededCondition ty g lj) = job_condition_status lj"
  "co_ObservedGeneration (jobSucceededCondition ty g lj) = g"
  by (simp_all add: jobSucceededCondition_def job_condition_status_def Let_def split: option.split)

lemma nextStatus_consistent:
  assumes "condition_laws K" and "ty \<noteq> ConditionReady" and "request_consistent q"
  shows "status_consistent ty g (fst (nextStatus K ty g st q lj))"
  using nextStatus_conditions [OF assms(1,2), of g st q lj] assms(3)
  by (auto simp: status_consistent_def request_consistent_def same_condition_def readyCondition_def
      jobSucceededCondition_sel)

section \<open>What a reconcile writes\<close>

context reconciled_kind
begin

lemma status_of_consistent:
  assumes "condition_laws K" and "status_of K R x q cs err" and "request_consistent q"
    and "k \<in> set cs" and "is_status_update k"
  shows "\<exists>st. k = update x st err \<and> status_consistent condType (om_Generation (metaOf x)) st"
  using status_of_updates [OF assms(2,4,5)] nextStatus_consistent [OF assms(1) not_ready assms(3)] by blast

lemma fail_run_consistent:
  assumes "condition_laws K" and "fail_run K (status_of K R x) reason e cs err"
    and "k \<in> set cs" and "is_status_update k"
  shows "\<exists>st u. k = update x st u \<and> status_consistent condType (om_Generation (metaOf x)) st"
  using assms(2-4) status_of_consistent [OF assms(1) _ requests_consistent(2)]
  by (auto simp: fail_run_def split: if_splits) blast+

lemma sync_run_consistent:
  assumes "condition_laws K" and "sync_run K (status_of K R x) spec cs res"
    and "k \<in> set cs" and "is_status_update k"
  shows "\<exists>st u. k = update x st u \<and> status_consistent condType (om_Generation (metaOf x)) st"
  using assms(2)
proof (cases rule: sync_run.cases)
  case (owned_fails cs' e ds err)
  then show ?thesis using assms(3,4) owned_run_no_status fail_run_consistent [OF assms(1)] by auto
next
  case (legacy_fails cs' cron ls e ds err)
  then show ?thesis
    using assms(3,4) owned_run_no_status legacy_run_no_write fail_run_consistent [OF assms(1)] by auto
next
  case (finishes cs' cron ls fs)
  then have k: "k \<in> set fs" using assms(3,4) owned_run_no_status legacy_run_no_write by auto
  have writes: "?thesis" if "status_of K R x q ds err" "request_consistent q" "k \<in> set ds" for q ds err
    using status_of_consistent [OF assms(1) that assms(4)] by blast
  from finishes(4) show ?thesis
  proof (cases rule: finish_run.cases)
    case (holder_unreadable e ds err)
    then show ?thesis using k assms(4) fail_run_consistent [OF assms(1)] by auto
  next
    case (holder_waiting d ds err)
    then show ?thesis using k assms(4) by (intro writes [OF holder_waiting(5)]) auto
  next
    case (holder_ready d ds err)
    then show ?thesis using k assms(4) by (intro writes [OF holder_ready(5)]) auto
  next
    case (no_holder err)
    then show ?thesis using k by (intro writes [OF no_holder(3)]) auto
  qed
qed

end

text \<open>Every status update of a run, for the resource the run has read.\<close>

lemma backup_run_consistent:
  assumes "condition_laws K" and "backup_run K S R req cs res" and "k \<in> set cs" and "is_status_update k"
  shows "\<exists>b st u. GetBackup (rq_Namespace req) (rq_Name req) (Inr b) \<in> set cs \<and> k = UpdateBackupStatus (b\<lparr>bk_Status := st\<rparr>) u \<and>
    status_consistent ConditionBackupSucceeded (om_Generation (bk_Meta b)) st"
proof -
  have writes: ?thesis
    if "backup_status K R b (early_request phase reason message) ds err" "k \<in> set ds"
      "phase \<in> {''Unsupported'', ''Error'', ''Pending''}" "GetBackup (rq_Namespace req) (rq_Name req) (Inr b) \<in> set cs"
    for b phase reason message ds err
    using backup_rec.status_of_consistent [OF assms(1) that(1) requests_consistent(1) [OF that(3)] that(2) assms(4)] that(4)
    by blast
  have source: "\<not> is_status_update j" if "source_run b ps e" "j \<in> set ps" for b ps e j
    using that by (auto simp: source_run_def Let_def split: if_splits)
  show ?thesis
    using assms(2)
  proof (cases rule: backup_run.cases)
    case (syncs b r ps ds)
    then have "k \<in> set ds" using assms(3,4) source [of b ps None] by (auto split: if_splits)
    with backup_rec.sync_run_consistent [OF assms(1) syncs(7) _ assms(4)] syncs(1) show ?thesis by auto
  next
    case (unsupported b ds err)
    then show ?thesis using assms(3,4) by (intro writes [OF unsupported(5)]) auto
  next
    case (invalid b e ds err)
    then show ?thesis using assms(3,4) by (intro writes [OF invalid(6)]) auto
  next
    case (secret_missing b r e ds err)
    then show ?thesis using assms(3,4) by (intro writes [OF secret_missing(8)]) auto
  next
    case (secret_invalid b r e ds err)
    then show ?thesis using assms(3,4) by (intro writes [OF secret_invalid(8)]) auto
  next
    case (source_missing b r ps e ds err)
    then show ?thesis using assms(3,4) source [OF source_missing(8)] by (intro writes [OF source_missing(10)]) auto
  next
    case (source_invalid b r ps e ds err)
    then show ?thesis using assms(3,4) source [OF source_invalid(8)] by (intro writes [OF source_invalid(10)]) auto
  qed (use assms(3,4) in auto)
qed

lemma restore_run_consistent:
  assumes "condition_laws K" and "restore_run K S R req cs res" and "k \<in> set cs" and "is_status_update k"
  shows "\<exists>x st u. GetRestore (rq_Namespace req) (rq_Name req) (Inr x) \<in> set cs \<and> k = UpdateRestoreStatus (x\<lparr>re_Status := st\<rparr>) u \<and>
    status_consistent ConditionRestoreSucceeded (om_Generation (re_Meta x)) st"
  using assms(2)
proof (cases rule: restore_run.cases)
  case (syncs x r t ds)
  then have "k \<in> set ds" using assms(3,4) by auto
  with restore_rec.sync_run_consistent [OF assms(1) syncs(7) _ assms(4)] syncs(1) show ?thesis by auto
next
  case (stops x gs n phase reason message ds err)
  then have "k \<in> set ds" using assms(3,4) by (auto dest: restore_stop_reads)
  with restore_rec.status_of_consistent [OF assms(1) stops(6) requests_consistent(1) [OF stops(5)] _ assms(4)] stops(1)
  show ?thesis by auto
qed (use assms(3,4) in auto)

section \<open>The life of a status\<close>

text \<open>
  Some reconcile that read the resource at generation \<open>g\<close> has written the status \<open>st\<close>, with success.
\<close>

definition backup_writes :: "k8slib \<Rightarrow> int \<Rightarrow> cr_status \<Rightarrow> bool" where
  "backup_writes K g st \<longleftrightarrow>
     (\<exists>S R req h res cs b. run_state (Backup_Reconcile K S R req) h = (res, h @ cs) \<and>
        UpdateBackupStatus b None \<in> set cs \<and> om_Generation (bk_Meta b) = g \<and> bk_Status b = st)"

definition restore_writes :: "k8slib \<Rightarrow> int \<Rightarrow> cr_status \<Rightarrow> bool" where
  "restore_writes K g st \<longleftrightarrow>
     (\<exists>S R req h res cs x. run_state (Restore_Reconcile K S R req) h = (res, h @ cs) \<and>
        UpdateRestoreStatus x None \<in> set cs \<and> om_Generation (re_Meta x) = g \<and> re_Status x = st)"

text \<open>
  The generation and status of a resource in the cluster.  A reconcile may be late: the generation it
  read need not be the present one.
\<close>

inductive cluster_status :: "(int \<Rightarrow> cr_status \<Rightarrow> bool) \<Rightarrow> int \<Rightarrow> cr_status \<Rightarrow> bool"
  for writes where
  created: "0 \<le> g \<Longrightarrow> cluster_status writes g cr_status_zero"
| edited: "cluster_status writes g st \<Longrightarrow> g \<le> g' \<Longrightarrow> cluster_status writes g' st"
| reconciled: "cluster_status writes g st \<Longrightarrow> writes g' st' \<Longrightarrow> g' \<le> g \<Longrightarrow> cluster_status writes g st'"

lemma cluster_status_consistent:
  assumes "\<And>g st. writes g st \<Longrightarrow> status_consistent ty g st" and "cluster_status writes g st"
  shows "st = cr_status_zero \<or> (\<exists>g'\<le>g. status_consistent ty g' st)"
  using assms(2)
proof (induction rule: cluster_status.induct)
  case (edited g st g')
  then show ?case by (meson order_trans)
next
  case (reconciled g st g' st')
  then show ?case using assms(1) by blast
qed simp

lemma writes_consistent:
  assumes "condition_laws K"
  shows "backup_writes K g st \<Longrightarrow> status_consistent ConditionBackupSucceeded g st"
    and "restore_writes K g st \<Longrightarrow> status_consistent ConditionRestoreSucceeded g st"
proof -
  assume "backup_writes K g st"
  then obtain S R req h res cs b where "run_state (Backup_Reconcile K S R req) h = (res, h @ cs)"
      and b: "UpdateBackupStatus b None \<in> set cs" "om_Generation (bk_Meta b) = g" "bk_Status b = st"
    unfolding backup_writes_def by blast
  from does_run [OF Backup_Reconcile_runs this(1)] obtain re where "backup_run K S R req cs re" by blast
  from backup_run_consistent [OF assms this b(1)] b(2,3) show "status_consistent ConditionBackupSucceeded g st" by auto
next
  assume "restore_writes K g st"
  then obtain S R req h res cs x where "run_state (Restore_Reconcile K S R req) h = (res, h @ cs)"
      and x: "UpdateRestoreStatus x None \<in> set cs" "om_Generation (re_Meta x) = g" "re_Status x = st"
    unfolding restore_writes_def by blast
  from does_run [OF Restore_Reconcile_runs this(1)] obtain re where "restore_run K S R req cs re" by blast
  from restore_run_consistent [OF assms this x(1)] x(2,3) show "status_consistent ConditionRestoreSucceeded g st" by auto
qed

text \<open>
  C15: a status never contradicts itself.  At any time in the life of a Backup or a Restore, under any
  interleaving of edits and (possibly outdated) reconciles with any answers of the API server, its status is
  still empty, or it is one of the four phases, its Ready condition is true exactly in the phase
  Ready, its condition on the last Job says what \<^verbatim>\<open>status.lastJob\<close> says, all carry one and the same
  generation, which is not ahead of the resource's, and a volume holder is named only in the phases
  Pending and Ready.
\<close>

theorem status_never_contradicts_itself:
  assumes "condition_laws K"
  shows "(cluster_status (backup_writes K) g st \<longrightarrow>
      st = cr_status_zero \<or> (\<exists>g'\<le>g. status_consistent ConditionBackupSucceeded g' st)) \<and>
    (cluster_status (restore_writes K) g st \<longrightarrow>
      st = cr_status_zero \<or> (\<exists>g'\<le>g. status_consistent ConditionRestoreSucceeded g' st))"
  using cluster_status_consistent writes_consistent [OF assms] by blast

theorem status_never_contradicts_itself_witness:
  "\<exists>g st. cluster_status (backup_writes doc_lib) g st \<and> st_Phase st = ''Ready'' \<and>
     (\<exists>g'\<le>g. status_consistent ConditionBackupSucceeded g' st)"
proof -
  obtain res cs b where run: "run_state (Backup_Reconcile doc_lib S (ex_reconciler ex_client) ex_request) [] = (res, [] @ cs)"
      and b: "UpdateBackupStatus b None \<in> set cs" "st_Phase (bk_Status b) = ''Ready''"
    using ex_backup_ready [of S] by (auto simp: does_def)
  let ?g = "om_Generation (bk_Meta b)"
  have "backup_writes doc_lib ?g (bk_Status b)" unfolding backup_writes_def using run b(1) by blast
  moreover have "cluster_status (backup_writes doc_lib) (max 0 ?g) cr_status_zero"
    by (rule cluster_status.created) simp
  ultimately have life: "cluster_status (backup_writes doc_lib) (max 0 ?g) (bk_Status b)"
    by (auto intro: cluster_status.reconciled)
  moreover have "bk_Status b \<noteq> cr_status_zero" using b(2) by (auto simp: cr_status_zero_def)
  ultimately show ?thesis
    using status_never_contradicts_itself [OF condition_laws_doc, of "max 0 ?g" "bk_Status b"] b(2) by blast
qed

end
