(* ===== verification/Metrics.thy ===== *)
theory Metrics
  imports Complex_Main Status
begin

text \<open>
  \<^verbatim>\<open>internal/metrics/collector.go\<close>: the Prometheus collector.  The answers of the three list
  calls are arguments.  A description is its name and its variable labels; the help texts are left
  out.  A sample's value is a rational number: the rounding to \<^verbatim>\<open>float64\<close> is not modelled.
  \<^verbatim>\<open>prometheus.MustNewConstMetric\<close> is third-party: it is the parameter \<open>mk\<close>, \<^const>\<open>None\<close>
  where it panics.
\<close>

section \<open>Descriptions\<close>

record desc =
  pd_Name :: string
  pd_Labels :: "string list"

definition crLabels :: "string list" where "crLabels = [''namespace'', ''name'', ''engine'']"
definition infoLabelNames :: "string list" where
  "infoLabelNames = crLabels @ [''outcome'', ''reason'', ''job_name'']"

definition backupReadyDesc :: desc where
  "backupReadyDesc = \<lparr>pd_Name = ''karkive_backup_ready'', pd_Labels = crLabels\<rparr>"
definition backupSuspendedDesc :: desc where
  "backupSuspendedDesc = \<lparr>pd_Name = ''karkive_backup_suspended'', pd_Labels = crLabels\<rparr>"
definition backupLastScheduleDesc :: desc where
  "backupLastScheduleDesc = \<lparr>pd_Name = ''karkive_backup_last_schedule_timestamp_seconds'', pd_Labels = crLabels\<rparr>"
definition backupLastSuccessDesc :: desc where
  "backupLastSuccessDesc = \<lparr>pd_Name = ''karkive_backup_last_successful_timestamp_seconds'', pd_Labels = crLabels\<rparr>"
definition backupLastJobFailedDesc :: desc where
  "backupLastJobFailedDesc = \<lparr>pd_Name = ''karkive_backup_last_job_failed'', pd_Labels = crLabels\<rparr>"
definition backupLastJobDurationDesc :: desc where
  "backupLastJobDurationDesc = \<lparr>pd_Name = ''karkive_backup_last_job_duration_seconds'', pd_Labels = crLabels\<rparr>"
definition backupLastJobInfoDesc :: desc where
  "backupLastJobInfoDesc = \<lparr>pd_Name = ''karkive_backup_last_job_info'', pd_Labels = infoLabelNames\<rparr>"
definition restoreReadyDesc :: desc where
  "restoreReadyDesc = \<lparr>pd_Name = ''karkive_restore_ready'', pd_Labels = crLabels\<rparr>"
definition restoreSuspendedDesc :: desc where
  "restoreSuspendedDesc = \<lparr>pd_Name = ''karkive_restore_suspended'', pd_Labels = crLabels\<rparr>"
definition restoreLastScheduleDesc :: desc where
  "restoreLastScheduleDesc = \<lparr>pd_Name = ''karkive_restore_last_schedule_timestamp_seconds'', pd_Labels = crLabels\<rparr>"
definition restoreLastSuccessDesc :: desc where
  "restoreLastSuccessDesc = \<lparr>pd_Name = ''karkive_restore_last_successful_timestamp_seconds'', pd_Labels = crLabels\<rparr>"
definition restoreLastJobFailedDesc :: desc where
  "restoreLastJobFailedDesc = \<lparr>pd_Name = ''karkive_restore_last_job_failed'', pd_Labels = crLabels\<rparr>"
definition restoreLastJobDurationDesc :: desc where
  "restoreLastJobDurationDesc = \<lparr>pd_Name = ''karkive_restore_last_job_duration_seconds'', pd_Labels = crLabels\<rparr>"
definition restoreLastJobInfoDesc :: desc where
  "restoreLastJobInfoDesc = \<lparr>pd_Name = ''karkive_restore_last_job_info'', pd_Labels = infoLabelNames\<rparr>"

definition Describe :: "desc list" where
  "Describe =
     [backupReadyDesc, backupSuspendedDesc, backupLastScheduleDesc, backupLastSuccessDesc,
      backupLastJobFailedDesc, backupLastJobDurationDesc, backupLastJobInfoDesc,
      restoreReadyDesc, restoreSuspendedDesc, restoreLastScheduleDesc, restoreLastSuccessDesc,
      restoreLastJobFailedDesc, restoreLastJobDurationDesc, restoreLastJobInfoDesc]"

section \<open>Samples\<close>

record metric =
  mt_Desc :: desc
  mt_Value :: rat
  mt_LabelValues :: "string list"

type_synonym const_metric = "desc \<Rightarrow> rat \<Rightarrow> string list \<Rightarrow> metric option"

text \<open>
  The documented contract: an error (here a panic) when the number of label values is not that of the
  description's variable labels, else the sample.  (It also refuses a label value that is not UTF-8,
  which no string decoded from an answer of the API server is.)
\<close>

definition const_metric_laws :: "const_metric \<Rightarrow> bool" where
  "const_metric_laws mk \<longleftrightarrow>
     (\<forall>d v ls. length ls = length (pd_Labels d) \<longrightarrow>
        mk d v ls = Some \<lparr>mt_Desc = d, mt_Value = v, mt_LabelValues = ls\<rparr>)"

definition gauge :: "const_metric \<Rightarrow> desc \<Rightarrow> rat \<Rightarrow> string list \<Rightarrow> metric option" where
  "gauge mk desc v labels = mk desc v labels"

definition unixTime :: "gotime option \<Rightarrow> rat" where
  "unixTime t =
     (case t of None \<Rightarrow> 0 | Some u \<Rightarrow> if time_IsZero u then 0 else of_int (time_Unix u))"

definition boolValue :: "bool \<Rightarrow> rat" where
  "boolValue v = (if v then 1 else 0)"

text \<open>The wall time of the last Job in seconds, never negative.\<close>

definition lastJobDuration :: "LastJobStatus \<Rightarrow> rat" where
  "lastJobDuration s =
     (case (lj_StartTime s, lj_CompletionTime s) of
        (Some start, Some end) \<Rightarrow>
          let d = of_int (time_Sub end start) / 10 ^ 9 in if d < 0 then 0 else d
      | _ \<Rightarrow> 0)"

text \<open>What is sent to the channel, in order; \<^verbatim>\<open>those\<close> propagates a panic.\<close>

definition emitLastJob ::
  "const_metric \<Rightarrow> LastJobStatus option \<Rightarrow> desc \<Rightarrow> desc \<Rightarrow> desc \<Rightarrow> string list \<Rightarrow> metric option list" where
  "emitLastJob mk st failedDesc durationDesc infoDesc labels =
     (case st of
        None \<Rightarrow> [gauge mk failedDesc 0 labels, gauge mk durationDesc 0 labels]
      | Some s \<Rightarrow>
          let outcome = (if lj_Outcome s = [] then ''Unknown'' else lj_Outcome s);
              reason = (if lj_Reason s = [] then ''None'' else lj_Reason s);
              jobName = (if lj_Name s = [] then ''unknown'' else lj_Name s)
          in [gauge mk failedDesc (boolValue (lj_Outcome s = LastJobOutcomeFailed)) labels,
              gauge mk durationDesc (lastJobDuration s) labels,
              gauge mk infoDesc 1 (labels @ [outcome, reason, jobName])])"

definition collectBackup :: "const_metric \<Rightarrow> Backup \<Rightarrow> job list \<Rightarrow> metric option list" where
  "collectBackup mk backup jobs =
     (let engine = EffectiveEngine (bs_Engine (bk_Spec backup));
          labels = [om_Namespace (bk_Meta backup), om_Name (bk_Meta backup), engine];
          sched = unixTime (st_LastScheduleTime (bk_Status backup));
          succ = unixTime (st_LastSuccessfulTime (bk_Status backup));
          st = (case st_LastJob (bk_Status backup) of
                  Some s \<Rightarrow> Some s
                | None \<Rightarrow> Summarize (LastFinished jobs (om_Namespace (bk_Meta backup)) LabelBackupName
                            (om_Name (bk_Meta backup)) KindBackup))
      in [gauge mk backupReadyDesc (boolValue (st_Phase (bk_Status backup) = BackupPhaseReady)) labels,
          gauge mk backupSuspendedDesc (boolValue (bs_Suspend (bk_Spec backup) = Some True)) labels] @
         (if sched > 0 then [gauge mk backupLastScheduleDesc sched labels] else []) @
         (if succ > 0 then [gauge mk backupLastSuccessDesc succ labels] else []) @
         emitLastJob mk st backupLastJobFailedDesc backupLastJobDurationDesc backupLastJobInfoDesc labels)"

definition collectRestore :: "const_metric \<Rightarrow> Restore \<Rightarrow> job list \<Rightarrow> metric option list" where
  "collectRestore mk restore jobs =
     (let engine = EffectiveEngine (rs_Engine (re_Spec restore));
          labels = [om_Namespace (re_Meta restore), om_Name (re_Meta restore), engine];
          sched = unixTime (st_LastScheduleTime (re_Status restore));
          succ = unixTime (st_LastSuccessfulTime (re_Status restore));
          st = (case st_LastJob (re_Status restore) of
                  Some s \<Rightarrow> Some s
                | None \<Rightarrow> Summarize (LastFinished jobs (om_Namespace (re_Meta restore)) LabelRestoreName
                            (om_Name (re_Meta restore)) KindRestore))
      in [gauge mk restoreReadyDesc (boolValue (st_Phase (re_Status restore) = RestorePhaseReady)) labels,
          gauge mk restoreSuspendedDesc (boolValue (rs_Suspend (re_Spec restore) = Some True)) labels] @
         (if sched > 0 then [gauge mk restoreLastScheduleDesc sched labels] else []) @
         (if succ > 0 then [gauge mk restoreLastSuccessDesc succ labels] else []) @
         emitLastJob mk st restoreLastJobFailedDesc restoreLastJobDurationDesc restoreLastJobInfoDesc labels)"

text \<open>An error of a list call leaves its list empty.\<close>

definition items :: "goerror + 'a list \<Rightarrow> 'a list" where
  "items r = (case r of Inl e \<Rightarrow> [] | Inr xs \<Rightarrow> xs)"

definition Collect_metrics ::
  "const_metric \<Rightarrow> goerror + job list \<Rightarrow> goerror + Backup list \<Rightarrow> goerror + Restore list \<Rightarrow> metric list option" where
  "Collect_metrics mk jobs backups restores =
     those (concat (map (\<lambda>b. collectBackup mk b (items jobs)) (items backups)) @
            concat (map (\<lambda>r. collectRestore mk r (items jobs)) (items restores)))"

section \<open>No panic, every sample described\<close>

text \<open>A sample as the description and labels it is identified by, with its value.\<close>

definition sample :: "desc \<Rightarrow> rat \<Rightarrow> string list \<Rightarrow> metric" where
  "sample d v ls = \<lparr>mt_Desc = d, mt_Value = v, mt_LabelValues = ls\<rparr>"

lemma those_map_Some: "those (map Some xs) = Some xs"
  by (induction xs) auto

lemma desc_labels [simp]:
  "length (pd_Labels backupReadyDesc) = 3" "length (pd_Labels backupSuspendedDesc) = 3"
  "length (pd_Labels backupLastScheduleDesc) = 3" "length (pd_Labels backupLastSuccessDesc) = 3"
  "length (pd_Labels backupLastJobFailedDesc) = 3" "length (pd_Labels backupLastJobDurationDesc) = 3"
  "length (pd_Labels backupLastJobInfoDesc) = 6"
  "length (pd_Labels restoreReadyDesc) = 3" "length (pd_Labels restoreSuspendedDesc) = 3"
  "length (pd_Labels restoreLastScheduleDesc) = 3" "length (pd_Labels restoreLastSuccessDesc) = 3"
  "length (pd_Labels restoreLastJobFailedDesc) = 3" "length (pd_Labels restoreLastJobDurationDesc) = 3"
  "length (pd_Labels restoreLastJobInfoDesc) = 6"
  by (simp_all add: backupReadyDesc_def backupSuspendedDesc_def backupLastScheduleDesc_def
      backupLastSuccessDesc_def backupLastJobFailedDesc_def backupLastJobDurationDesc_def
      backupLastJobInfoDesc_def restoreReadyDesc_def restoreSuspendedDesc_def restoreLastScheduleDesc_def
      restoreLastSuccessDesc_def restoreLastJobFailedDesc_def restoreLastJobDurationDesc_def
      restoreLastJobInfoDesc_def crLabels_def infoLabelNames_def)

lemma gauge_sample:
  "const_metric_laws mk \<Longrightarrow> length ls = length (pd_Labels d) \<Longrightarrow> gauge mk d v ls = Some (sample d v ls)"
  by (simp add: const_metric_laws_def gauge_def sample_def)

text \<open>The samples of one resource: those of its seven descriptions, in order, some of them absent.\<close>

definition samples_of :: "desc list \<Rightarrow> string list \<Rightarrow> metric list \<Rightarrow> bool" where
  "samples_of ds labels ms \<longleftrightarrow>
     subseq (map mt_Desc ms) ds \<and>
     (\<forall>m\<in>set ms. prefix labels (mt_LabelValues m) \<and> length (mt_LabelValues m) = length (pd_Labels (mt_Desc m)) \<and>
        0 \<le> mt_Value m)"

definition backupDescs :: "desc list" where "backupDescs = take 7 Describe"
definition restoreDescs :: "desc list" where "restoreDescs = drop 7 Describe"

text \<open>The library that answers as documented, on which the samples are computed.\<close>

definition mk_sample :: const_metric where
  "mk_sample d v ls = Some (sample d v ls)"

lemma gauge_mk_sample [simp]: "gauge mk_sample d v ls = Some (sample d v ls)"
  by (simp add: gauge_def mk_sample_def)

lemma emitLastJob_eq:
  assumes "const_metric_laws mk" and "length labels = 3"
    and "length (pd_Labels f) = 3" "length (pd_Labels d) = 3" "length (pd_Labels i) = 6"
  shows "emitLastJob mk st f d i labels = emitLastJob mk_sample st f d i labels"
  using assms by (simp add: emitLastJob_def gauge_sample Let_def split: option.split)

lemma collect_eq:
  assumes "const_metric_laws mk"
  shows "collectBackup mk b jobs = collectBackup mk_sample b jobs"
    and "collectRestore mk r jobs = collectRestore mk_sample r jobs"
  using assms by (simp_all add: collectBackup_def collectRestore_def gauge_sample emitLastJob_eq Let_def)

lemma sample_sel [simp]:
  "mt_Desc (sample d v ls) = d" "mt_Value (sample d v ls) = v" "mt_LabelValues (sample d v ls) = ls"
  by (simp_all add: sample_def)

lemma lastJobDuration_nonneg [simp]: "0 \<le> lastJobDuration s"
  by (simp add: lastJobDuration_def Let_def split: option.split)

lemma emitLastJob_samples:
  assumes "length labels = 3" "length (pd_Labels f) = 3" "length (pd_Labels d) = 3" "length (pd_Labels i) = 6"
  shows "\<exists>ms. emitLastJob mk_sample st f d i labels = map Some ms \<and> samples_of [f, d, i] labels ms"
proof (cases st)
  case None
  then have "emitLastJob mk_sample st f d i labels = map Some [sample f 0 labels, sample d 0 labels]"
    by (simp add: emitLastJob_def)
  moreover have "samples_of [f, d, i] labels [sample f 0 labels, sample d 0 labels]"
    using assms by (auto simp: samples_of_def)
  ultimately show ?thesis by blast
next
  case (Some s)
  define ms where "ms = [sample f (boolValue (lj_Outcome s = LastJobOutcomeFailed)) labels,
    sample d (lastJobDuration s) labels,
    sample i 1 (labels @ [if lj_Outcome s = [] then ''Unknown'' else lj_Outcome s,
      if lj_Reason s = [] then ''None'' else lj_Reason s, if lj_Name s = [] then ''unknown'' else lj_Name s])]"
  have "emitLastJob mk_sample st f d i labels = map Some ms"
    by (simp add: Some emitLastJob_def ms_def Let_def)
  moreover have "samples_of [f, d, i] labels ms"
    using assms by (simp add: samples_of_def ms_def boolValue_def)
  ultimately show ?thesis by blast
qed

lemma samples_of_append:
  "samples_of ds labels ms \<Longrightarrow> samples_of es labels ns \<Longrightarrow> samples_of (ds @ es) labels (ms @ ns)"
  by (auto simp: samples_of_def intro: list_emb_append_mono)

lemma samples_of_one:
  "length ls = length (pd_Labels d) \<Longrightarrow> 0 \<le> v \<Longrightarrow> samples_of [d] ls (if c then [sample d v ls] else [])"
  by (simp add: samples_of_def)

lemma boolValue_nonneg [simp]: "0 \<le> boolValue v"
  by (simp add: boolValue_def)

text \<open>The four status gauges, then those of the last Job.\<close>

lemma resource_samples:
  assumes "length labels = 3" and "\<forall>d\<in>{r, u, c, s, f, t}. length (pd_Labels d) = 3" and "length (pd_Labels i) = 6"
    and "0 \<le> rv" and "0 \<le> uv"
  shows "\<exists>ms. [gauge mk_sample r rv labels, gauge mk_sample u uv labels] @
      (if cv > 0 then [gauge mk_sample c cv labels] else []) @
      (if sv > 0 then [gauge mk_sample s sv labels] else []) @
      emitLastJob mk_sample st f t i labels = map Some ms \<and> samples_of [r, u, c, s, f, t, i] labels ms"
proof -
  obtain es where es: "emitLastJob mk_sample st f t i labels = map Some es" "samples_of [f, t, i] labels es"
    using emitLastJob_samples [of labels f t i st] assms by auto
  let ?ms = "[sample r rv labels] @ [sample u uv labels] @ (if cv > 0 then [sample c cv labels] else []) @
    (if sv > 0 then [sample s sv labels] else []) @ es"
  have "samples_of ([r] @ [u] @ [c] @ [s] @ [f, t, i]) labels ?ms"
    using assms samples_of_one [of labels r rv True] samples_of_one [of labels u uv True]
    by (intro samples_of_append es) (auto simp: samples_of_def)
  then show ?thesis by (intro exI [of _ ?ms]) (simp add: es)
qed

lemma collect_samples:
  "\<exists>ms. collectBackup mk_sample b jobs = map Some ms \<and>
     samples_of backupDescs [om_Namespace (bk_Meta b), om_Name (bk_Meta b), EffectiveEngine (bs_Engine (bk_Spec b))] ms"
  "\<exists>ms. collectRestore mk_sample x jobs = map Some ms \<and>
     samples_of restoreDescs [om_Namespace (re_Meta x), om_Name (re_Meta x), EffectiveEngine (rs_Engine (re_Spec x))] ms"
  by (simp_all only: collectBackup_def collectRestore_def Let_def backupDescs_def restoreDescs_def Describe_def
      take_Suc_Cons drop_Suc_Cons take_0 drop_0 numeral_eq_Suc pred_numeral_simps BitM.simps)
    (rule resource_samples; simp)+

section \<open>One series per resource and description\<close>

text \<open>What Prometheus identifies a series by.\<close>

definition series :: "metric \<Rightarrow> desc \<times> string list" where
  "series m = (mt_Desc m, mt_LabelValues m)"

lemma subseq_set_distinct: "subseq xs ys \<Longrightarrow> set xs \<subseteq> set ys \<and> (distinct ys \<longrightarrow> distinct xs)"
  by (induction rule: list_emb.induct) auto

lemma samples_of_series_distinct: "samples_of ds labels ms \<Longrightarrow> distinct ds \<Longrightarrow> distinct (map series ms)"
proof -
  assume "samples_of ds labels ms" "distinct ds"
  then have "distinct (map mt_Desc ms)" by (auto simp: samples_of_def dest: subseq_set_distinct)
  then have "distinct (map fst (map series ms))" by (simp add: series_def comp_def)
  then show ?thesis by (simp only: distinct_map)
qed

lemma prefix_same_length: "prefix xs zs \<Longrightarrow> prefix ys zs \<Longrightarrow> length xs = length ys \<Longrightarrow> xs = ys"
  by (auto simp: prefix_def)

lemma resources_series_distinct:
  assumes "\<And>x. x \<in> set xs \<Longrightarrow> samples_of ds (lab x) (f x)" and "distinct ds" and "distinct (map lab xs)"
    and "\<And>x. length (lab x) = n"
  shows "distinct (map series (concat (map f xs)))"
  using assms(1,3)
proof (induction xs)
  case (Cons x xs)
  have "series ` set (f x) \<inter> series ` (\<Union>y\<in>set xs. set (f y)) = {}"
  proof (rule equals0I)
    fix k
    assume "k \<in> series ` set (f x) \<inter> series ` (\<Union>y\<in>set xs. set (f y))"
    then obtain m m' y where m: "m \<in> set (f x)" and m': "m' \<in> set (f y)" "y \<in> set xs"
        and eq: "series m = series m'" by auto
    have "prefix (lab x) (mt_LabelValues m)" "prefix (lab y) (mt_LabelValues m')"
      using Cons.prems(1) m m' by (auto simp: samples_of_def)
    then have "lab x = lab y" using eq assms(4) prefix_same_length by (metis series_def prod.inject)
    with Cons.prems(2) m'(2) show False by force
  qed
  moreover have "distinct (map series (f x))"
    using Cons.prems(1) assms(2) by (intro samples_of_series_distinct) auto
  moreover have "distinct (map series (concat (map f xs)))"
    using Cons by auto
  ultimately show ?case by simp
qed simp

lemma descs_distinct: "distinct Describe"
  by (simp add: Describe_def backupReadyDesc_def backupSuspendedDesc_def backupLastScheduleDesc_def
      backupLastSuccessDesc_def backupLastJobFailedDesc_def backupLastJobDurationDesc_def
      backupLastJobInfoDesc_def restoreReadyDesc_def restoreSuspendedDesc_def restoreLastScheduleDesc_def
      restoreLastSuccessDesc_def restoreLastJobFailedDesc_def restoreLastJobDurationDesc_def
      restoreLastJobInfoDesc_def)

lemma descs_split: "distinct backupDescs" "distinct restoreDescs" "set backupDescs \<inter> set restoreDescs = {}"
    "set backupDescs \<subseteq> set Describe" "set restoreDescs \<subseteq> set Describe"
  using descs_distinct set_take_disj_set_drop_if_distinct [OF descs_distinct, of 7 7]
  by (simp_all add: backupDescs_def restoreDescs_def set_take_subset set_drop_subset)

lemma samples_of_desc: "samples_of ds labels ms \<Longrightarrow> m \<in> set ms \<Longrightarrow> mt_Desc m \<in> set ds"
  by (auto simp: samples_of_def dest!: subseq_set_distinct)

text \<open>A sample that can be sent.\<close>

definition sendable :: "metric \<Rightarrow> bool" where
  "sendable m \<longleftrightarrow>
     mt_Desc m \<in> set Describe \<and> length (mt_LabelValues m) = length (pd_Labels (mt_Desc m)) \<and> 0 \<le> mt_Value m"

lemma samples_of_sendable:
  "samples_of ds labels ms \<Longrightarrow> set ds \<subseteq> set Describe \<Longrightarrow> m \<in> set ms \<Longrightarrow> sendable m"
  using samples_of_desc [of ds labels ms m] by (auto simp: sendable_def samples_of_def)

lemma samples_of_apart:
  "samples_of ds labels ms \<Longrightarrow> samples_of es labels' ns \<Longrightarrow> set ds \<inter> set es = {} \<Longrightarrow>
   m \<in> set ms \<Longrightarrow> n \<in> set ns \<Longrightarrow> series m \<noteq> series n"
  using samples_of_desc [of ds labels ms m] samples_of_desc [of es labels' ns n] by (auto simp: series_def)

text \<open>
  C35: a scrape always succeeds.  For every list of Backups and Restores the API server can hold
  (names are unique in a namespace) and whatever the list calls answered, collecting never panics
  on a label mismatch; every sample has a description that \<^verbatim>\<open>Describe\<close> announces, with the
  right number of labels and a value that is not negative; and no two samples are the same series,
  which Prometheus would reject.
\<close>

theorem scrape_is_consistent:
  assumes "const_metric_laws mk"
    and "distinct (map (\<lambda>b. (om_Namespace (bk_Meta b), om_Name (bk_Meta b))) (items backups))"
    and "distinct (map (\<lambda>r. (om_Namespace (re_Meta r), om_Name (re_Meta r))) (items restores))"
  shows "\<exists>ms. Collect_metrics mk jobs backups restores = Some ms \<and>
    list_all sendable ms \<and> distinct (map series ms)"
proof -
  let ?bl = "\<lambda>b. [om_Namespace (bk_Meta b), om_Name (bk_Meta b), EffectiveEngine (bs_Engine (bk_Spec b))]"
  let ?rl = "\<lambda>r. [om_Namespace (re_Meta r), om_Name (re_Meta r), EffectiveEngine (rs_Engine (re_Spec r))]"
  define bs where "bs b = map the (collectBackup mk_sample b (items jobs))" for b
  define rs where "rs r = map the (collectRestore mk_sample r (items jobs))" for r
  have bs: "collectBackup mk_sample b (items jobs) = map Some (bs b)" "samples_of backupDescs (?bl b) (bs b)" for b
    using collect_samples(1) [of b "items jobs"] by (auto simp: bs_def comp_def)
  have rs: "collectRestore mk_sample r (items jobs) = map Some (rs r)" "samples_of restoreDescs (?rl r) (rs r)" for r
    using collect_samples(2) [of r "items jobs"] by (auto simp: rs_def comp_def)
  let ?B = "concat (map bs (items backups))" and ?R = "concat (map rs (items restores))"
  have "concat (map (\<lambda>b. collectBackup mk b (items jobs)) (items backups)) @
      concat (map (\<lambda>r. collectRestore mk r (items jobs)) (items restores)) = map Some (?B @ ?R)"
    by (simp add: collect_eq [OF assms(1)] bs rs map_concat comp_def)
  then have "Collect_metrics mk jobs backups restores = Some (?B @ ?R)"
    by (simp only: Collect_metrics_def those_map_Some)
  moreover have "list_all sendable (?B @ ?R)"
    using samples_of_sendable [OF bs(2) descs_split(4)] samples_of_sendable [OF rs(2) descs_split(5)]
    by (auto simp: list_all_iff)
  moreover have "distinct (map series ?B)"
    by (rule resources_series_distinct [where ds = backupDescs and lab = ?bl and n = 3])
      (use assms(2) bs(2) descs_split in \<open>auto simp: distinct_map inj_on_def\<close>)
  moreover have "distinct (map series ?R)"
    by (rule resources_series_distinct [where ds = restoreDescs and lab = ?rl and n = 3])
      (use assms(3) rs(2) descs_split in \<open>auto simp: distinct_map inj_on_def\<close>)
  moreover have "set (map series ?B) \<inter> set (map series ?R) = {}"
    using samples_of_apart [OF bs(2) rs(2) descs_split(3)] by (force simp del: split_paired_All)
  ultimately show ?thesis by (intro exI [of _ "?B @ ?R"]) simp
qed

lemma mk_sample_laws: "const_metric_laws mk_sample"
  by (simp add: const_metric_laws_def mk_sample_def sample_def)

theorem scrape_is_consistent_witness:
  "\<exists>ms. Collect_metrics mk_sample (Inl (ErrorString ''timeout'')) (Inr [ex_backup, ex_pvc_backup]) (Inr [ex_restore]) = Some ms \<and>
    list_all sendable ms \<and> distinct (map series ms)"
  by (rule scrape_is_consistent [OF mk_sample_laws])
    (simp_all add: items_def ex_backup_def ex_pvc_backup_def ex_restore_def ex_meta_def named_meta_def)

section \<open>What the samples of a resource say\<close>

text \<open>The value of a description's sample, if it is sent.\<close>

definition value_of :: "desc \<Rightarrow> metric option list \<Rightarrow> rat option" where
  "value_of d ms = map_option (mt_Value \<circ> the) (List.find (\<lambda>m. m \<noteq> None \<and> mt_Desc (the m) = d) ms)"

text \<open>The Job the last-Job gauges are about: the one of the status, else the last one that finished.\<close>

definition backup_last_job :: "Backup \<Rightarrow> job list \<Rightarrow> LastJobStatus option" where
  "backup_last_job b jobs =
     (case st_LastJob (bk_Status b) of
        None \<Rightarrow> Summarize (LastFinished jobs (om_Namespace (bk_Meta b)) LabelBackupName (om_Name (bk_Meta b)) KindBackup)
      | s \<Rightarrow> s)"

lemma value_of_simps [simp]:
  "value_of d [] = None"
  "value_of d (None # ms) = value_of d ms"
  "value_of d (Some (sample e v ls) # ms) = (if e = d then Some v else value_of d ms)"
  by (simp_all add: value_of_def)

lemma value_of_skip [simp]:
  "value_of d ((if c then [Some (sample e v ls)] else []) @ ms) =
   (if c \<and> e = d then Some v else value_of d ms)"
  by simp

lemma value_of_emitLastJob:
  "distinct [f, t, i] \<Longrightarrow> value_of f (emitLastJob mk_sample st f t i ls) =
     Some (boolValue (\<exists>s. st = Some s \<and> lj_Outcome s = LastJobOutcomeFailed))"
  "distinct [f, t, i] \<Longrightarrow> value_of t (emitLastJob mk_sample st f t i ls) =
     Some (case st of None \<Rightarrow> 0 | Some s \<Rightarrow> lastJobDuration s)"
  "distinct [f, t, i] \<Longrightarrow> value_of i (emitLastJob mk_sample st f t i ls) = map_option (\<lambda>_. 1) st"
  by (auto simp: emitLastJob_def boolValue_def Let_def split: option.split)

lemma value_of_no_job_sample: "d \<notin> {f, t, i} \<Longrightarrow> value_of d (emitLastJob mk_sample st f t i ls) = None"
  by (auto simp: emitLastJob_def Let_def split: option.split)

lemmas backup_descs_apart = descs_split(1) [unfolded backupDescs_def Describe_def, simplified]

lemma backup_last_job_eq:
  "(case st_LastJob (bk_Status b) of Some s \<Rightarrow> Some s
     | None \<Rightarrow> Summarize (LastFinished jobs (om_Namespace (bk_Meta b)) LabelBackupName (om_Name (bk_Meta b)) KindBackup)) =
   backup_last_job b jobs"
  by (simp add: backup_last_job_def split: option.split)

lemmas backup_gauges = collectBackup_def Let_def backup_last_job_eq gauge_mk_sample append.simps
  value_of_simps value_of_skip

text \<open>
  C36: the gauges of a Backup say what its status says.  Whatever the finished Jobs are, the ready
  gauge is 1 in phase Ready and 0 otherwise, the suspended gauge follows \<^verbatim>\<open>spec.suspend\<close>, the
  timestamp of the last success is present exactly when the status has one after the epoch, the
  failure gauge is 1 exactly when the last Job failed, and the info sample is present exactly when a
  last Job is known.
\<close>

theorem backup_gauges_follow_status:
  assumes "const_metric_laws mk"
  shows "value_of backupReadyDesc (collectBackup mk b jobs) =
        Some (if st_Phase (bk_Status b) = BackupPhaseReady then 1 else 0) \<and>
      value_of backupSuspendedDesc (collectBackup mk b jobs) =
        Some (if bs_Suspend (bk_Spec b) = Some True then 1 else 0) \<and>
      value_of backupLastSuccessDesc (collectBackup mk b jobs) =
        (case st_LastSuccessfulTime (bk_Status b) of
           None \<Rightarrow> None
         | Some t \<Rightarrow> if \<not> time_IsZero t \<and> time_Unix t > 0 then Some (of_int (time_Unix t)) else None) \<and>
      value_of backupLastJobFailedDesc (collectBackup mk b jobs) =
        Some (if map_option lj_Outcome (backup_last_job b jobs) = Some LastJobOutcomeFailed then 1 else 0) \<and>
      value_of backupLastJobInfoDesc (collectBackup mk b jobs) = map_option (\<lambda>_. 1) (backup_last_job b jobs)"
    (is "?ready \<and> ?suspended \<and> ?success \<and> ?failed \<and> ?info")
proof (intro conjI)
  note eq = collect_eq(1) [OF assms]
  show ?ready ?suspended
    unfolding eq using backup_descs_apart by (simp_all add: backup_gauges boolValue_def)
  have "value_of backupLastSuccessDesc (emitLastJob mk_sample st backupLastJobFailedDesc backupLastJobDurationDesc
      backupLastJobInfoDesc ls) = None" for st ls
    using backup_descs_apart by (intro value_of_no_job_sample) auto
  then show ?success
    unfolding eq using backup_descs_apart by (simp add: backup_gauges unixTime_def split: option.split)
  show ?failed ?info
    unfolding eq using backup_descs_apart by (simp_all add: backup_gauges value_of_emitLastJob boolValue_def)
qed

theorem backup_gauges_follow_status_witness:
  "value_of backupReadyDesc (collectBackup mk_sample ex_backup []) = Some 0 \<and>
   value_of backupLastJobInfoDesc (collectBackup mk_sample ex_backup []) = None"
  using backup_gauges_follow_status [OF mk_sample_laws, of ex_backup "[]"]
  by (simp add: backup_last_job_def ex_backup_def cr_status_zero_def LastFinished_def Summarize_def go_const)

end
