(* ===== verification/Flags.thy ===== *)
theory Flags
  imports Defaults
begin

text \<open>
  The command line of \<^verbatim>\<open>cmd/main.go\<close>: the flags it declares and what Go's package
  \<^verbatim>\<open>flag\<close> makes of the arguments.  The flags that \<^verbatim>\<open>zap.Options.BindFlags\<close> and the imported
  packages add are third-party: they are the argument \<open>Z\<close>, a name, whether the flag is boolean and
  which values it accepts.
\<close>

section \<open>The values of the flags\<close>

record flags =
  fl_metricsAddr :: string
  fl_probeAddr :: string
  fl_enableLeaderElection :: bool
  fl_secureMetrics :: bool
  fl_enableHTTP2 :: bool
  fl_enableWebhooks :: bool
  fl_cfg :: Config

definition defaultFlags :: flags where
  "defaultFlags =
     \<lparr>fl_metricsAddr = '':8080'', fl_probeAddr = '':8081'', fl_enableLeaderElection = False, fl_secureMetrics = False,
      fl_enableHTTP2 = False, fl_enableWebhooks = False,
      fl_cfg = \<lparr>cfg_BusyBoxImage = DefaultBusyBoxImage, cfg_GnuPGImage = DefaultGnuPGImage,
             cfg_PostgresImage = DefaultPostgresImage, cfg_McImage = DefaultMcImage, cfg_MariaDBImage = DefaultMariaDBImage,
             cfg_RedisImage = DefaultRedisImage, cfg_TarImage = DefaultTarImage, cfg_DefaultS3Endpoint = [], cfg_DefaultS3Bucket = []\<rparr>\<rparr>"

text \<open>What a flag writes to: a string or a bool of \<^verbatim>\<open>main\<close>, or something of a third party.\<close>

datatype flagValue =
    StringVar "string \<Rightarrow> flags \<Rightarrow> flags"
  | BoolVar "bool \<Rightarrow> flags \<Rightarrow> flags"
  | ForeignVar bool "string \<Rightarrow> bool"

definition mainFlags :: "(string \<times> flagValue) list" where
  "mainFlags =
     [(''metrics-bind-address'', StringVar (\<lambda>v f. f\<lparr>fl_metricsAddr := v\<rparr>)),
      (''health-probe-bind-address'', StringVar (\<lambda>v f. f\<lparr>fl_probeAddr := v\<rparr>)),
      (''leader-elect'', BoolVar (\<lambda>v f. f\<lparr>fl_enableLeaderElection := v\<rparr>)),
      (''metrics-secure'', BoolVar (\<lambda>v f. f\<lparr>fl_secureMetrics := v\<rparr>)),
      (''enable-http2'', BoolVar (\<lambda>v f. f\<lparr>fl_enableHTTP2 := v\<rparr>)),
      (''webhooks'', BoolVar (\<lambda>v f. f\<lparr>fl_enableWebhooks := v\<rparr>)),
      (''busybox-image'', StringVar (\<lambda>v f. f\<lparr>fl_cfg := (fl_cfg f)\<lparr>cfg_BusyBoxImage := v\<rparr>\<rparr>)),
      (''gnupg-image'', StringVar (\<lambda>v f. f\<lparr>fl_cfg := (fl_cfg f)\<lparr>cfg_GnuPGImage := v\<rparr>\<rparr>)),
      (''postgres-image'', StringVar (\<lambda>v f. f\<lparr>fl_cfg := (fl_cfg f)\<lparr>cfg_PostgresImage := v\<rparr>\<rparr>)),
      (''mc-image'', StringVar (\<lambda>v f. f\<lparr>fl_cfg := (fl_cfg f)\<lparr>cfg_McImage := v\<rparr>\<rparr>)),
      (''mariadb-image'', StringVar (\<lambda>v f. f\<lparr>fl_cfg := (fl_cfg f)\<lparr>cfg_MariaDBImage := v\<rparr>\<rparr>)),
      (''redis-image'', StringVar (\<lambda>v f. f\<lparr>fl_cfg := (fl_cfg f)\<lparr>cfg_RedisImage := v\<rparr>\<rparr>)),
      (''tar-image'', StringVar (\<lambda>v f. f\<lparr>fl_cfg := (fl_cfg f)\<lparr>cfg_TarImage := v\<rparr>\<rparr>)),
      (''default-s3-endpoint'', StringVar (\<lambda>v f. f\<lparr>fl_cfg := (fl_cfg f)\<lparr>cfg_DefaultS3Endpoint := v\<rparr>\<rparr>)),
      (''default-s3-bucket'', StringVar (\<lambda>v f. f\<lparr>fl_cfg := (fl_cfg f)\<lparr>cfg_DefaultS3Bucket := v\<rparr>\<rparr>))]"

section \<open>Package flag\<close>

datatype flag_error =
    BadSyntax string
  | NotDefined string
  | NeedsArgument string
  | InvalidValue string string
  | ErrHelp

text \<open>\<^verbatim>\<open>strconv.ParseBool\<close>.\<close>

definition ParseBool :: "string \<Rightarrow> bool option" where
  "ParseBool s =
     (if s \<in> {''1'', ''t'', ''T'', ''true'', ''TRUE'', ''True''} then Some True
      else if s \<in> {''0'', ''f'', ''F'', ''false'', ''FALSE'', ''False''} then Some False
      else None)"

text \<open>\<^verbatim>\<open>Value.Set\<close> (\<^verbatim>\<open>None\<close> is its error) and \<^verbatim>\<open>IsBoolFlag\<close>.\<close>

fun Value_Set :: "flagValue \<Rightarrow> string \<Rightarrow> flags \<Rightarrow> flags option" where
  "Value_Set (StringVar put) v f = Some (put v f)"
| "Value_Set (BoolVar put) v f = map_option (\<lambda>b. put b f) (ParseBool v)"
| "Value_Set (ForeignVar isBool accepts) v f = (if accepts v then Some f else None)"

fun IsBoolFlag :: "flagValue \<Rightarrow> bool" where
  "IsBoolFlag (StringVar put) = False"
| "IsBoolFlag (BoolVar put) = True"
| "IsBoolFlag (ForeignVar isBool accepts) = isBool"

text \<open>The name and the value of \<^verbatim>\<open>name=value\<close>; the equals sign cannot be first.\<close>

definition splitFlag :: "string \<Rightarrow> string \<times> string option" where
  "splitFlag s =
     (let rest = tl s in
      (take 1 s @ takeWhile (\<lambda>c. c \<noteq> CHR ''='') rest,
       case dropWhile (\<lambda>c. c \<noteq> CHR ''='') rest of [] \<Rightarrow> None | _ # v \<Rightarrow> Some v))"

text \<open>\<^verbatim>\<open>Set\<close> with its error.\<close>

definition setFlag :: "string \<Rightarrow> flagValue \<Rightarrow> string \<Rightarrow> flags \<Rightarrow> flag_error + flags" where
  "setFlag name fv v f = (case Value_Set fv v f of None \<Rightarrow> Inl (InvalidValue v name) | Some f' \<Rightarrow> Inr f')"

text \<open>A flag that was found, with the value it came with and the arguments behind it.\<close>

definition applyFlag ::
  "string \<Rightarrow> flagValue \<Rightarrow> string option \<Rightarrow> string list \<Rightarrow> flags \<Rightarrow> flag_error + flags \<times> string list" where
  "applyFlag name fv value args f =
     (if IsBoolFlag fv then
        (case setFlag name fv (case value of None \<Rightarrow> ''true'' | Some v \<Rightarrow> v) f of
           Inl e \<Rightarrow> Inl e | Inr f' \<Rightarrow> Inr (f', args))
      else
        (case (value, args) of
           (Some v, _) \<Rightarrow> (case setFlag name fv v f of Inl e \<Rightarrow> Inl e | Inr f' \<Rightarrow> Inr (f', args))
         | (None, v # args') \<Rightarrow> (case setFlag name fv v f of Inl e \<Rightarrow> Inl e | Inr f' \<Rightarrow> Inr (f', args'))
         | (None, []) \<Rightarrow> Inl (NeedsArgument name)))"

text \<open>
  \<^verbatim>\<open>FlagSet.parseOne\<close>: whether a flag was seen, the values and the remaining arguments.
\<close>

definition parseFlag ::
  "(string \<rightharpoonup> flagValue) \<Rightarrow> string \<Rightarrow> string \<Rightarrow> string list \<Rightarrow> flags \<Rightarrow> flag_error + bool \<times> flags \<times> string list" where
  "parseFlag formal arg s args f =
     (if s = [] \<or> hd s \<in> {CHR ''-'', CHR ''=''} then Inl (BadSyntax arg)
      else let (name, value) = splitFlag s in
        case formal name of
          None \<Rightarrow> Inl (if name \<in> {''help'', ''h''} then ErrHelp else NotDefined name)
        | Some fv \<Rightarrow>
            (case applyFlag name fv value args f of Inl e \<Rightarrow> Inl e | Inr (f', args') \<Rightarrow> Inr (True, f', args')))"

fun parseOne ::
  "(string \<rightharpoonup> flagValue) \<Rightarrow> flags \<Rightarrow> string list \<Rightarrow> flag_error + bool \<times> flags \<times> string list" where
  "parseOne formal f [] = Inr (False, f, [])"
| "parseOne formal f (s # args) =
     (if length s < 2 \<or> hd s \<noteq> CHR ''-'' then Inr (False, f, s # args)
      else if s = ''--'' then Inr (False, f, args)
      else parseFlag formal s (if s ! 1 = CHR ''-'' then drop 2 s else drop 1 s) args f)"

lemma parseOne_shorter:
  assumes "parseOne formal f args = Inr (True, f', args')"
  shows "length args' < length args"
proof (cases args)
  case (Cons s rest)
  with assms obtain n fv v where "applyFlag n fv v rest f = Inr (f', args')"
    by (auto simp: parseFlag_def case_prod_beta split: if_splits option.splits sum.splits)
  then have "length args' \<le> length rest"
    by (auto simp: applyFlag_def split: if_splits sum.splits option.splits list.splits)
  with Cons show ?thesis by simp
qed (use assms in simp)

text \<open>The loop of \<^verbatim>\<open>FlagSet.Parse\<close>: it ends because every flag seen uses up an argument.\<close>

function flag_Parse ::
  "(string \<rightharpoonup> flagValue) \<Rightarrow> flags \<Rightarrow> string list \<Rightarrow> flag_error + flags \<times> string list" where
  "flag_Parse formal f args =
     (case parseOne formal f args of
        Inl e \<Rightarrow> Inl e
      | Inr (seen, f', args') \<Rightarrow> if seen then flag_Parse formal f' args' else Inr (f', args'))"
  by auto
termination
  by (relation "measure (\<lambda>(formal, f, args). length args)") (auto dest: parseOne_shorter)

declare flag_Parse.simps [simp del]

section \<open>Giving a flag\<close>

text \<open>A name a flag can be given by, and the forms in which it can be given.\<close>

definition flag_name :: "string \<Rightarrow> bool" where
  "flag_name n \<longleftrightarrow> n \<noteq> [] \<and> hd n \<noteq> CHR ''-'' \<and> CHR ''='' \<notin> set n"

definition setting :: "string \<Rightarrow> string \<Rightarrow> string" where
  "setting n v = ''--'' @ n @ ''='' @ v"

lemma splitFlag_simps:
  assumes "flag_name n"
  shows "splitFlag (n @ ''='' @ v) = (n, Some v)" "splitFlag n = (n, None)"
proof -
  obtain c cs where n: "n = c # cs" "CHR ''='' \<notin> set cs"
    using assms by (cases n) (auto simp: flag_name_def)
  then have all: "\<forall>x\<in>set cs. x \<noteq> CHR ''=''" by auto
  show "splitFlag (n @ ''='' @ v) = (n, Some v)"
    using all by (simp add: n splitFlag_def takeWhile_append2 dropWhile_append2)
  show "splitFlag n = (n, None)"
    using all by (simp add: n splitFlag_def takeWhile_eq_all_conv [THEN iffD2] dropWhile_eq_Nil_conv [THEN iffD2])
qed

lemma parseFlag_seen:
  assumes "flag_name n" and "formal n = Some fv"
  shows "parseFlag formal arg (n @ ''='' @ v) args f =
      (case applyFlag n fv (Some v) args f of Inl e \<Rightarrow> Inl e | Inr (f', args') \<Rightarrow> Inr (True, f', args'))"
    and "parseFlag formal arg n args f =
      (case applyFlag n fv None args f of Inl e \<Rightarrow> Inl e | Inr (f', args') \<Rightarrow> Inr (True, f', args'))"
proof -
  have "n \<noteq> []" "hd n \<noteq> CHR ''-''" "hd n \<noteq> CHR ''=''"
    using assms(1) by (cases n; auto simp: flag_name_def)+
  then show "parseFlag formal arg (n @ ''='' @ v) args f =
      (case applyFlag n fv (Some v) args f of Inl e \<Rightarrow> Inl e | Inr (f', args') \<Rightarrow> Inr (True, f', args'))"
    and "parseFlag formal arg n args f =
      (case applyFlag n fv None args f of Inl e \<Rightarrow> Inl e | Inr (f', args') \<Rightarrow> Inr (True, f', args'))"
    unfolding parseFlag_def splitFlag_simps [OF assms(1)] using assms(2) by simp_all
qed

lemma parseOne_dashes:
  assumes "flag_name n"
  shows "parseOne formal f ((''--'' @ n @ s) # args) = parseFlag formal (''--'' @ n @ s) (n @ s) args f"
    and "parseOne formal f ((''-'' @ n @ s) # args) = parseFlag formal (''-'' @ n @ s) (n @ s) args f"
  using assms by (cases n; auto simp: flag_name_def)+

text \<open>
  The four ways of giving a string flag: one dash or two, the value behind an equals sign or as the next
  argument.
\<close>

definition given :: "string \<Rightarrow> string \<Rightarrow> string list set" where
  "given n v = {[d @ n @ ''='' @ v] |d. d \<in> {''-'', ''--''}} \<union> {[d @ n, v] |d. d \<in> {''-'', ''--''}}"

lemma flag_Parse_seen: "parseOne formal f as = Inr (True, f', args) \<Longrightarrow> flag_Parse formal f as = flag_Parse formal f' args"
  by (simp add: flag_Parse.simps [of formal f as])

lemma flag_Parse_given:
  assumes "flag_name n" and "formal n = Some fv" and "Value_Set fv v f = Some f'"
  shows "flag_Parse formal f (setting n v # args) = flag_Parse formal f' args"
    and "\<not> IsBoolFlag fv \<Longrightarrow> as \<in> given n v \<Longrightarrow> flag_Parse formal f (as @ args) = flag_Parse formal f' args"
proof -
  note one = parseOne_dashes [OF assms(1)] parseOne_dashes [OF assms(1), where s = "[]", unfolded append_Nil2]
  note seen = parseFlag_seen [of n formal fv, OF assms(1,2)]
  have set1: "setFlag n fv v f = Inr f'" by (simp add: setFlag_def assms(3))
  show "flag_Parse formal f (setting n v # args) = flag_Parse formal f' args"
    by (rule flag_Parse_seen) (unfold setting_def one seen, simp add: applyFlag_def set1)
  assume fv: "\<not> IsBoolFlag fv" and "as \<in> given n v"
  then consider d where "d \<in> {''-'', ''--''}" "as = [d @ n @ ''='' @ v]" | d where "d \<in> {''-'', ''--''}" "as = [d @ n, v]"
    by (auto simp: given_def)
  moreover have "parseOne formal f ((d @ n @ ''='' @ v) # args) = Inr (True, f', args)"
      "parseOne formal f ((d @ n) # v # args) = Inr (True, f', args)" if "d \<in> {''-'', ''--''}" for d
    using that fv by (elim insertE emptyE; simp only: one seen; simp add: applyFlag_def set1)+
  ultimately have "parseOne formal f (as @ args) = Inr (True, f', args)" by cases simp_all
  then show "flag_Parse formal f (as @ args) = flag_Parse formal f' args" by (rule flag_Parse_seen)
qed

section \<open>Round trip\<close>

definition FormatBool :: "bool \<Rightarrow> string" where
  "FormatBool b = (if b then ''true'' else ''false'')"

lemma ParseBool_FormatBool [simp]: "ParseBool (FormatBool b) = Some b"
  by (simp add: ParseBool_def FormatBool_def)

text \<open>A command line that gives every flag of \<^verbatim>\<open>main\<close> its value.\<close>

definition flagArgs :: "flags \<Rightarrow> string list" where
  "flagArgs f =
     [setting ''metrics-bind-address'' (fl_metricsAddr f), setting ''health-probe-bind-address'' (fl_probeAddr f),
      setting ''leader-elect'' (FormatBool (fl_enableLeaderElection f)),
      setting ''metrics-secure'' (FormatBool (fl_secureMetrics f)),
      setting ''enable-http2'' (FormatBool (fl_enableHTTP2 f)), setting ''webhooks'' (FormatBool (fl_enableWebhooks f)),
      setting ''busybox-image'' (cfg_BusyBoxImage (fl_cfg f)), setting ''gnupg-image'' (cfg_GnuPGImage (fl_cfg f)),
      setting ''postgres-image'' (cfg_PostgresImage (fl_cfg f)), setting ''mc-image'' (cfg_McImage (fl_cfg f)),
      setting ''mariadb-image'' (cfg_MariaDBImage (fl_cfg f)), setting ''redis-image'' (cfg_RedisImage (fl_cfg f)),
      setting ''tar-image'' (cfg_TarImage (fl_cfg f)),
      setting ''default-s3-endpoint'' (cfg_DefaultS3Endpoint (fl_cfg f)),
      setting ''default-s3-bucket'' (cfg_DefaultS3Bucket (fl_cfg f))]"

text \<open>Every flag of \<^verbatim>\<open>main\<close> found under its name, whatever others there are.\<close>

lemma mainFlags_found:
  "n \<in> set (map fst mainFlags) \<Longrightarrow> map_of (mainFlags @ Z) n = map_of mainFlags n"
  by (auto simp: map_add_def map_of_eq_None_iff split: option.split)

lemma flag_name_mainFlags: "list_all flag_name (map fst mainFlags)"
  by (simp add: mainFlags_def flag_name_def)

text \<open>
  C33: the command line determines the configuration.  Rendering any values of the fifteen flags as
  \<^verbatim>\<open>--name=value\<close> and parsing them gives exactly these values back, whatever the values were before
  (their defaults included), whatever characters the strings contain, whichever flags third parties
  have added, and with the arguments behind them left to be parsed next.
\<close>

theorem flagArgs_roundtrip:
  "flag_Parse (map_of (mainFlags @ Z)) f0 (flagArgs f) = Inr (f, []) \<and>
   flag_Parse (map_of (mainFlags @ Z)) f0 (flagArgs f @ args) = flag_Parse (map_of (mainFlags @ Z)) f args"
proof -
  define P where "P = flag_Parse (map_of (mainFlags @ Z))"
  define put where "put n v g = Value_Set (the (map_of mainFlags n)) v g" for n v g
  have step: "P g (setting n v # as) = P (the (put n v g)) as"
    if "n \<in> set (map fst mainFlags)" "put n v g \<noteq> None" for n v g as
    unfolding P_def
  proof (rule flag_Parse_given(1))
    show "flag_name n" using flag_name_mainFlags that(1) by (auto simp: list_all_iff)
    show "map_of (mainFlags @ Z) n = Some (the (map_of mainFlags n))"
      using mainFlags_found [OF that(1)] that(1) by (metis map_of_eq_None_iff option.exhaust_sel set_map)
    show "Value_Set (the (map_of mainFlags n)) v g = Some (the (put n v g))"
      using that(2) by (simp add: put_def)
  qed
  have "P f0 (flagArgs f @ args) = P f args" for args
    unfolding flagArgs_def append.simps
    by (simp add: step mainFlags_def put_def)
      (auto intro!: arg_cong [where f = "\<lambda>g. P g args"] flags.equality Config.equality)
  moreover have "P f [] = Inr (f, [])" by (simp add: P_def flag_Parse.simps)
  ultimately show ?thesis unfolding P_def by (metis append_Nil2)
qed

end
