(* ===== verification/Startup.thy ===== *)
theory Startup
  imports Flags
begin

text \<open>
  \<^verbatim>\<open>cmd/main.go\<close>: how the process is put together.  The command line and the variable
  \<^verbatim>\<open>WATCH_NAMESPACE\<close> are arguments; the manager of controller-runtime is third-party, so whether
  each call on it succeeds is the argument \<open>ok\<close>.  Logging is left out.
\<close>

section \<open>Manager options\<close>

text \<open>
  The options of the manager.  A TLS option is the list of protocols it sets.  Of the metrics
  server's options, \<open>mo_SecureServing\<close> and \<open>mo_TLSOpts\<close> are those of controller-runtime that decide
  whether and how it serves HTTPS.
\<close>

record metrics_options =
  mo_BindAddress :: string
  mo_FilterProvider :: bool
  mo_SecureServing :: bool
  mo_TLSOpts :: "string list list"

record manager_options =
  go_Metrics :: metrics_options
  go_HealthProbeBindAddress :: string
  go_LeaderElection :: bool
  go_LeaderElectionID :: string
  go_WebhookServer :: "string list list option"
  go_DefaultNamespaces :: "string list option"

definition disableHTTP2 :: "string list" where "disableHTTP2 = [''http/1.1'']"

definition tlsOpts :: "flags \<Rightarrow> string list list" where
  "tlsOpts f = (if \<not> fl_enableHTTP2 f then [disableHTTP2] else [])"

definition metricsOpts :: "flags \<Rightarrow> metrics_options" where
  "metricsOpts f =
     \<lparr>mo_BindAddress = fl_metricsAddr f, mo_FilterProvider = fl_secureMetrics f, mo_SecureServing = False, mo_TLSOpts = []\<rparr>"

definition mgrOpts :: "flags \<Rightarrow> string \<Rightarrow> manager_options" where
  "mgrOpts f ns =
     \<lparr>go_Metrics = metricsOpts f, go_HealthProbeBindAddress = fl_probeAddr f,
      go_LeaderElection = fl_enableLeaderElection f, go_LeaderElectionID = ''karkive.io'',
      go_WebhookServer = (if fl_enableWebhooks f then Some (tlsOpts f) else None),
      go_DefaultNamespaces = (if ns \<noteq> [] then Some [ns] else None)\<rparr>"

section \<open>The start of the process\<close>

datatype startup_call =
    NewManager manager_options
  | SetupBackupReconciler Config
  | SetupRestoreReconciler Config
  | SetupBackupWebhook
  | SetupRestoreWebhook
  | RegisterCollector
  | AddHealthzCheck
  | AddReadyzCheck
  | StartManager

datatype exit = Returned | Exit nat | Panicked

text \<open>The calls that follow one another, each guarded by \<^verbatim>\<open>os.Exit(1)\<close> (a panic in \<^verbatim>\<open>Register\<close>).\<close>

fun guarded :: "(startup_call \<Rightarrow> bool) \<Rightarrow> startup_call list \<Rightarrow> startup_call list \<times> exit" where
  "guarded ok [] = ([], Returned)"
| "guarded ok (c # cs) =
     (if ok c then let (done_calls, e) = guarded ok cs in (c # done_calls, e)
      else ([c], if c = RegisterCollector then Panicked else Exit 1))"

definition start :: "(startup_call \<Rightarrow> bool) \<Rightarrow> flags \<Rightarrow> string \<Rightarrow> startup_call list \<times> exit" where
  "start ok f ns =
     guarded ok
       ([NewManager (mgrOpts f ns), SetupBackupReconciler (fl_cfg f), SetupRestoreReconciler (fl_cfg f)] @
        (if fl_enableWebhooks f then [SetupBackupWebhook, SetupRestoreWebhook] else []) @
        [RegisterCollector, AddHealthzCheck, AddReadyzCheck, StartManager])"

text \<open>
  \<^verbatim>\<open>main\<close>: declaring a flag twice panics; \<^verbatim>\<open>flag.CommandLine\<close> ends the process on an error
  (\<^verbatim>\<open>ExitOnError\<close>), with status 0 when help was asked for and 2 otherwise; positional arguments
  are ignored.
\<close>

definition main ::
  "(startup_call \<Rightarrow> bool) \<Rightarrow> (string \<times> flagValue) list \<Rightarrow> string list \<Rightarrow> string \<Rightarrow> startup_call list \<times> exit" where
  "main ok Z args ns =
     (if \<not> distinct (map fst (mainFlags @ Z)) then ([], Panicked)
      else case flag_Parse (map_of (mainFlags @ Z)) defaultFlags args of
             Inl e \<Rightarrow> ([], Exit (if e = ErrHelp then 0 else 2))
           | Inr (f, _) \<Rightarrow> start ok f ns)"

lemma guarded_all_ok:
  "snd (guarded ok cs) = Returned \<longleftrightarrow> list_all ok cs"
  by (induction cs) (auto split: prod.split simp: case_prod_beta)

lemma guarded_last:
  "distinct (cs @ [c]) \<Longrightarrow> c \<in> set (fst (guarded ok (cs @ [c]))) \<longleftrightarrow> list_all ok cs"
  by (induction cs) (auto simp: case_prod_beta)

lemma start_complete:
  "StartManager \<in> set (fst (start ok f ns)) \<longleftrightarrow>
     ok (NewManager (mgrOpts f ns)) \<and> ok (SetupBackupReconciler (fl_cfg f)) \<and> ok (SetupRestoreReconciler (fl_cfg f)) \<and>
     (if fl_enableWebhooks f then ok SetupBackupWebhook \<and> ok SetupRestoreWebhook else True) \<and>
     ok RegisterCollector \<and> ok AddHealthzCheck \<and> ok AddReadyzCheck"
  "snd (start ok f ns) = Returned \<longleftrightarrow> StartManager \<in> set (fst (start ok f ns)) \<and> ok StartManager"
proof -
  let ?cs = "[NewManager (mgrOpts f ns), SetupBackupReconciler (fl_cfg f), SetupRestoreReconciler (fl_cfg f)] @
    (if fl_enableWebhooks f then [SetupBackupWebhook, SetupRestoreWebhook] else []) @
    [RegisterCollector, AddHealthzCheck, AddReadyzCheck]"
  have eq: "start ok f ns = guarded ok (?cs @ [StartManager])"
    by (simp add: start_def)
  have last_call: "StartManager \<in> set (fst (start ok f ns)) \<longleftrightarrow> list_all ok ?cs"
    unfolding eq by (rule guarded_last) simp
  then show "StartManager \<in> set (fst (start ok f ns)) \<longleftrightarrow>
     ok (NewManager (mgrOpts f ns)) \<and> ok (SetupBackupReconciler (fl_cfg f)) \<and> ok (SetupRestoreReconciler (fl_cfg f)) \<and>
     (if fl_enableWebhooks f then ok SetupBackupWebhook \<and> ok SetupRestoreWebhook else True) \<and>
     ok RegisterCollector \<and> ok AddHealthzCheck \<and> ok AddReadyzCheck"
    by auto
  show "snd (start ok f ns) = Returned \<longleftrightarrow> StartManager \<in> set (fst (start ok f ns)) \<and> ok StartManager"
    unfolding last_call unfolding eq guarded_all_ok by auto
qed

text \<open>
  C40: the manager starts only on a complete process.  On a command line that does not parse, the
  process ends without having set anything up.  Otherwise \<^verbatim>\<open>mgr.Start\<close> is called exactly when the
  manager, both reconcilers (with the configuration of the flags), the webhooks when they are enabled,
  the collector and both probes have been set up; the process returns without error exactly when
  starting succeeds as well.  The metrics server is never told to serve TLS, whatever
  \<^verbatim>\<open>--metrics-secure\<close> and \<^verbatim>\<open>--enable-http2\<close> say.
\<close>

theorem manager_starts_complete:
  "if \<not> distinct (map fst (mainFlags @ Z)) then main ok Z args ns = ([], Panicked)
   else case flag_Parse (map_of (mainFlags @ Z)) defaultFlags args of
     Inl e \<Rightarrow> main ok Z args ns = ([], Exit (if e = ErrHelp then 0 else 2))
   | Inr (f, rest) \<Rightarrow>
       (StartManager \<in> set (fst (main ok Z args ns)) \<longleftrightarrow>
          ok (NewManager (mgrOpts f ns)) \<and> ok (SetupBackupReconciler (fl_cfg f)) \<and> ok (SetupRestoreReconciler (fl_cfg f)) \<and>
          (if fl_enableWebhooks f then ok SetupBackupWebhook \<and> ok SetupRestoreWebhook else True) \<and>
          ok RegisterCollector \<and> ok AddHealthzCheck \<and> ok AddReadyzCheck) \<and>
       (snd (main ok Z args ns) = Returned \<longleftrightarrow> StartManager \<in> set (fst (main ok Z args ns)) \<and> ok StartManager) \<and>
       mo_SecureServing (go_Metrics (mgrOpts f ns)) = False \<and> mo_TLSOpts (go_Metrics (mgrOpts f ns)) = []"
  using start_complete
  by (simp add: main_def mgrOpts_def metricsOpts_def split: sum.split prod.split)

end
