(* ===== verification/Deep_Copy_Lib.thy ===== *)
theory Deep_Copy_Lib
  imports Api_Types
begin

text \<open>
  Memory for \<^verbatim>\<open>zz_generated.deepcopy.go\<close>.  Whether a copy is deep is a question of addresses, so
  here a pointer, slice or map is an address together with what is stored there, and allocation draws
  addresses from a counter.  A value of a third-party type is its content and the addresses it holds;
  the deep copies of these types are the argument \<open>D\<close>, with what is documented of them as
  \<open>deepcopy_laws\<close>.
\<close>

section \<open>Pointers and allocation\<close>

datatype 'a ptr = NilPtr | At nat 'a

type_synonym 'a alloc = "(nat, 'a) State_Monad.state"

definition new :: "nat alloc" where
  "new = State_Monad.State (\<lambda>n. (n, Suc n))"

text \<open>
  \<^verbatim>\<open>if in.F != nil { *out = new(T); copy the pointee }\<close>, and the same with \<^verbatim>\<open>make\<close> for a
  slice or map; a nil pointer stays nil.
\<close>

definition copyPtr :: "('a \<Rightarrow> 'a alloc) \<Rightarrow> 'a ptr \<Rightarrow> 'a ptr alloc" where
  "copyPtr copy p =
     (case p of
        NilPtr \<Rightarrow> State_Monad.return NilPtr
      | At a v \<Rightarrow> do { b \<leftarrow> new; w \<leftarrow> copy v; State_Monad.return (At b w) })"

text \<open>\<^verbatim>\<open>for i := range *in { (*in)[i].DeepCopyInto(&(*out)[i]) }\<close>.\<close>

fun copyAll :: "('a \<Rightarrow> 'a alloc) \<Rightarrow> 'a list \<Rightarrow> 'a list alloc" where
  "copyAll copy [] = State_Monad.return []"
| "copyAll copy (x # xs) = do { y \<leftarrow> copy x; ys \<leftarrow> copyAll copy xs; State_Monad.return (y # ys) }"

section \<open>What is stored, and where\<close>

text \<open>Forgetting the addresses leaves the structure and the values (nil included).\<close>

fun erase_ptr :: "('a \<Rightarrow> 'a) \<Rightarrow> 'a ptr \<Rightarrow> 'a ptr" where
  "erase_ptr f NilPtr = NilPtr"
| "erase_ptr f (At a v) = At 0 (f v)"

fun addrs_ptr :: "('a \<Rightarrow> nat list) \<Rightarrow> 'a ptr \<Rightarrow> nat list" where
  "addrs_ptr f NilPtr = []"
| "addrs_ptr f (At a v) = a # f v"

definition no_addrs :: "'a \<Rightarrow> nat list" where "no_addrs v = []"

definition addrs_list :: "('a \<Rightarrow> nat list) \<Rightarrow> 'a list \<Rightarrow> nat list" where
  "addrs_list f xs = concat (map f xs)"

text \<open>A value of a third-party type.\<close>

datatype 'a blob = Blob (blob_value: 'a) (blob_addrs: "nat list")

definition erase_blob :: "'a blob \<Rightarrow> 'a blob" where
  "erase_blob b = Blob (blob_value b) []"

section \<open>Deep copies\<close>

text \<open>Addresses drawn between two states of the counter, no two the same.\<close>

definition fresh :: "nat \<Rightarrow> nat \<Rightarrow> nat list \<Rightarrow> bool" where
  "fresh n k xs \<longleftrightarrow> n \<le> k \<and> distinct xs \<and> set xs \<subseteq> {n..<k}"

lemma fresh_Nil [intro]: "fresh n n []"
  by (simp add: fresh_def)

lemma fresh_append: "fresh n m xs \<Longrightarrow> fresh m k ys \<Longrightarrow> fresh n k (xs @ ys)"
  by (force simp: fresh_def)

lemma fresh_Cons: "fresh (Suc n) k xs \<Longrightarrow> fresh n k (n # xs)"
  by (force simp: fresh_def)

text \<open>A deep copy: the same values in the same structure, all of it in fresh memory.\<close>

definition copied :: "('a \<Rightarrow> 'a) \<Rightarrow> ('a \<Rightarrow> nat list) \<Rightarrow> 'a \<Rightarrow> nat \<Rightarrow> 'a \<Rightarrow> nat \<Rightarrow> bool" where
  "copied erase addrs x n y k \<longleftrightarrow> erase y = erase x \<and> fresh n k (addrs y)"

definition yields :: "'a alloc \<Rightarrow> nat \<Rightarrow> ('a \<Rightarrow> nat \<Rightarrow> bool) \<Rightarrow> bool" where
  "yields m n Q \<longleftrightarrow> Q (fst (State_Monad.run_state m n)) (snd (State_Monad.run_state m n))"

lemma yields_return [simp]: "yields (State_Monad.return x) n Q \<longleftrightarrow> Q x n"
  by (simp add: yields_def State_Monad.return_def)

lemma yields_bind: "yields m n P \<Longrightarrow> (\<And>y k. P y k \<Longrightarrow> yields (f y) k Q) \<Longrightarrow> yields (State_Monad.bind m f) n Q"
  by (simp add: yields_def State_Monad.bind_def case_prod_beta)

text \<open>A program that copies something first; what is copied afterwards goes behind it.\<close>

lemma copied_then:
  assumes "yields m n (copied erase addrs x n)"
    and "\<And>y k. erase y = erase x \<Longrightarrow> fresh n k (addrs y) \<Longrightarrow>
      (\<And>m zs. fresh k m zs \<Longrightarrow> fresh n m (addrs y @ zs)) \<Longrightarrow> yields (f y) k Q"
  shows "yields (State_Monad.bind m f) n Q"
  by (rule yields_bind [OF assms(1)]) (auto simp: copied_def intro: assms(2) fresh_append)

lemma yields_new: "yields new n (\<lambda>a k. a = n \<and> k = Suc n)"
  by (simp add: yields_def new_def)

text \<open>What a \<^verbatim>\<open>DeepCopyInto\<close> promises, and what follows for pointers to and slices of its type.\<close>

locale deep_copyable =
  fixes erase :: "'a \<Rightarrow> 'a"
    and addrs :: "'a \<Rightarrow> nat list"
    and copy :: "'a \<Rightarrow> 'a alloc"
  assumes copy_copied: "yields (copy x) n (copied erase addrs x n)"
begin

lemma ptr_copied: "yields (copyPtr copy p) n (copied (erase_ptr erase) (addrs_ptr addrs) p n)"
proof (cases p)
  case NilPtr
  then show ?thesis by (auto simp: copyPtr_def copied_def)
next
  case (At a v)
  show ?thesis
    unfolding At copyPtr_def ptr.case
    by (rule yields_bind [OF yields_new], rule yields_bind [OF copy_copied])
      (auto simp: copied_def intro: fresh_Cons)
qed

lemma slice_copied: "yields (copyAll copy xs) n (copied (map erase) (addrs_list addrs) xs n)"
proof (induction xs arbitrary: n)
  case Nil
  show ?case by (auto simp: copied_def addrs_list_def)
next
  case (Cons x xs)
  show ?case
    unfolding copyAll.simps
    by (rule yields_bind [OF copy_copied], rule yields_bind [OF Cons.IH])
      (auto simp: copied_def addrs_list_def intro: fresh_append)
qed

lemma slice_ptr_copied:
  "yields (copyPtr (copyAll copy) p) n (copied (erase_ptr (map erase)) (addrs_ptr (addrs_list addrs)) p n)"
  by (rule deep_copyable.ptr_copied [OF deep_copyable.intro]) (rule slice_copied)

lemmas copy_then = copied_then [OF copy_copied]
lemmas ptr_then = copied_then [OF ptr_copied]
lemmas slice_then = copied_then [OF slice_ptr_copied]

text \<open>The copy shares no memory with anything allocated before it, the original included.\<close>

lemma copy_independent:
  assumes "State_Monad.run_state (copy x) n = (y, k)" and "list_all (\<lambda>a. a < n) as"
  shows "erase y = erase x \<and> distinct (addrs y) \<and> set (addrs y) \<inter> set as = {}"
  using copy_copied [of x n] assms
  by (fastforce simp: yields_def copied_def fresh_def list_all_iff)

end

text \<open>Values without pointers are copied by assignment.\<close>

interpretation plain: deep_copyable id no_addrs State_Monad.return
  by unfold_locales (auto simp: copied_def no_addrs_def)

section \<open>Third-party types\<close>

record listmeta =
  lm_SelfLink :: string
  lm_ResourceVersion :: string
  lm_Continue :: string
  lm_RemainingItemCount :: "int option"

record deepcopylib =
  dl_ObjectMeta :: "objectmeta blob \<Rightarrow> objectmeta blob alloc"
  dl_ListMeta :: "listmeta blob \<Rightarrow> listmeta blob alloc"
  dl_ResourceRequirements :: "resource_requirements blob \<Rightarrow> resource_requirements blob alloc"
  dl_LabelSelector :: "label_selector blob \<Rightarrow> label_selector blob alloc"
  dl_Condition :: "condition blob \<Rightarrow> condition blob alloc"
  dl_Quantity :: "quantity blob \<Rightarrow> quantity blob alloc"
  dl_Time :: "gotime ptr \<Rightarrow> gotime ptr alloc"

text \<open>Each copies deeply.\<close>

definition deepcopy_laws :: "deepcopylib \<Rightarrow> bool" where
  "deepcopy_laws D \<longleftrightarrow>
     deep_copyable erase_blob blob_addrs (dl_ObjectMeta D) \<and>
     deep_copyable erase_blob blob_addrs (dl_ListMeta D) \<and>
     deep_copyable erase_blob blob_addrs (dl_ResourceRequirements D) \<and>
     deep_copyable erase_blob blob_addrs (dl_LabelSelector D) \<and>
     deep_copyable erase_blob blob_addrs (dl_Condition D) \<and>
     deep_copyable erase_blob blob_addrs (dl_Quantity D) \<and>
     deep_copyable (erase_ptr id) (addrs_ptr no_addrs) (dl_Time D)"

text \<open>\<^verbatim>\<open>if in.T != nil { *out = (*in).DeepCopy() }\<close> for a time.\<close>

definition copyTime :: "deepcopylib \<Rightarrow> gotime ptr \<Rightarrow> gotime ptr alloc" where
  "copyTime D p = (case p of NilPtr \<Rightarrow> State_Monad.return NilPtr | At a t \<Rightarrow> dl_Time D p)"

lemma copyTime_copied:
  "deepcopy_laws D \<Longrightarrow> yields (copyTime D p) n (copied (erase_ptr id) (addrs_ptr no_addrs) p n)"
  by (cases p) (auto simp: copyTime_def deepcopy_laws_def copied_def deep_copyable_def)

lemma library_deep:
  assumes "deepcopy_laws D"
  shows "deep_copyable erase_blob blob_addrs (dl_ObjectMeta D)" "deep_copyable erase_blob blob_addrs (dl_ListMeta D)"
    "deep_copyable erase_blob blob_addrs (dl_ResourceRequirements D)"
    "deep_copyable erase_blob blob_addrs (dl_LabelSelector D)" "deep_copyable erase_blob blob_addrs (dl_Condition D)"
    "deep_copyable erase_blob blob_addrs (dl_Quantity D)"
    "deep_copyable (erase_ptr id) (addrs_ptr no_addrs) (copyTime D)"
  using assms copyTime_copied [OF assms] by (simp_all add: deepcopy_laws_def deep_copyable.intro)

lemmas library_then =
  deep_copyable.copy_then [OF library_deep(1)] deep_copyable.copy_then [OF library_deep(2)]
  deep_copyable.ptr_then [OF library_deep(3)] deep_copyable.ptr_then [OF library_deep(4)]
  deep_copyable.slice_then [OF library_deep(5)] deep_copyable.copy_then [OF library_deep(6)]
  deep_copyable.copy_then [OF library_deep(7)]

end
