(* ===== verification/Deep_Copy.thy ===== *)
theory Deep_Copy
  imports Deep_Copy_Lib
begin

text \<open>
  \<^verbatim>\<open>zz_generated.deepcopy.go\<close>: the structs of the API with their pointers, slices and maps in
  memory, what each \<^verbatim>\<open>DeepCopyInto\<close> and \<^verbatim>\<open>DeepCopy\<close> does, and that every one of them
  copies deeply.  The API server's cache hands out the objects it holds, so this is what keeps one
  reconcile from changing what another one sees.
\<close>

section \<open>The structs in memory\<close>

text \<open>Kind and API version.\<close>

type_synonym typemeta = "string \<times> string"

record LS3Spec =
  l3_Enabled :: "bool ptr"
  l3_Endpoint :: string
  l3_Bucket :: string
  l3_Path :: string
  l3_RetentionDays :: "int ptr"

record LPersistenceSpec =
  lps_Enabled :: "bool ptr"
  lps_StorageClassName :: string
  lps_AccessModes :: "(string list) ptr"
  lps_Size :: "quantity blob"
  lps_Annotations :: "strmap ptr"

record LImageSet =
  lis_BusyBox :: "ImageSpec ptr"
  lis_GnuPG :: "ImageSpec ptr"
  lis_Postgres :: "ImageSpec ptr"
  lis_Mc :: "ImageSpec ptr"
  lis_MariaDB :: "ImageSpec ptr"
  lis_Redis :: "ImageSpec ptr"
  lis_Tar :: "ImageSpec ptr"

record LJobPolicy =
  ljp_ConcurrencyPolicy :: string
  ljp_FailedJobsHistoryLimit :: "int ptr"
  ljp_SuccessfulJobsHistoryLimit :: "int ptr"
  ljp_StartingDeadlineSeconds :: "int ptr"
  ljp_BackoffLimit :: "int ptr"
  ljp_TTLSecondsAfterFinished :: "int ptr"
  ljp_RestartPolicy :: string
  ljp_TimeZone :: string

record LLastJobStatus =
  llj_Name :: string
  llj_Outcome :: string
  llj_Reason :: string
  llj_Message :: string
  llj_StartTime :: "gotime ptr"
  llj_CompletionTime :: "gotime ptr"

record LBackupResources =
  lbr_Cleanup :: "resource_requirements blob ptr"
  lbr_Dump :: "resource_requirements blob ptr"
  lbr_Compress :: "resource_requirements blob ptr"
  lbr_Encrypt :: "resource_requirements blob ptr"
  lbr_S3Sync :: "resource_requirements blob ptr"

record LRestoreResources =
  lrr_Cleanup :: "resource_requirements blob ptr"
  lrr_Fetch :: "resource_requirements blob ptr"
  lrr_Decrypt :: "resource_requirements blob ptr"
  lrr_Extract :: "resource_requirements blob ptr"
  lrr_Restore :: "resource_requirements blob ptr"

record LPVCSourceSpec =
  lpv_ClaimName :: string
  lpv_Path :: string
  lpv_Excludes :: "(string list) ptr"
  lpv_ConsumerSelector :: "label_selector blob ptr"
  lpv_RunAsUser :: "int ptr"
  lpv_RunAsGroup :: "int ptr"

record LBackupSpec =
  lbs_Engine :: engine
  lbs_Schedule :: string
  lbs_Suspend :: "bool ptr"
  lbs_Database :: DatabaseSpec
  lbs_PVC :: "LPVCSourceSpec ptr"
  lbs_S3 :: LS3Spec
  lbs_SecretRef :: string
  lbs_Persistence :: "LPersistenceSpec ptr"
  lbs_LocalRetentionDays :: "int ptr"
  lbs_LogFileEnabled :: "bool ptr"
  lbs_DataDir :: string
  lbs_McConfigDir :: string
  lbs_Images :: "LImageSet ptr"
  lbs_Resources :: "LBackupResources ptr"
  lbs_Job :: "LJobPolicy ptr"
  lbs_Runtime :: "RuntimeSpec ptr"
  lbs_Component :: string

record LRestoreSpec =
  lrs_Engine :: engine
  lrs_Schedule :: string
  lrs_Suspend :: "bool ptr"
  lrs_Database :: DatabaseSpec
  lrs_S3 :: LS3Spec
  lrs_SecretRef :: string
  lrs_PostgresSecret :: "SecretKeySelector ptr"
  lrs_MariaDBSecret :: "SecretKeySelector ptr"
  lrs_RedisSecret :: "SecretKeySelector ptr"
  lrs_Persistence :: "LPersistenceSpec ptr"
  lrs_LogFileEnabled :: "bool ptr"
  lrs_Workdir :: string
  lrs_McConfigDir :: string
  lrs_BackupFile :: string
  lrs_UseLatestBackupAsFallback :: "bool ptr"
  lrs_DropDatabaseIfExists :: "bool ptr"
  lrs_StripPgAuditExtension :: "bool ptr"
  lrs_Images :: "LImageSet ptr"
  lrs_Resources :: "LRestoreResources ptr"
  lrs_Job :: "LJobPolicy ptr"
  lrs_Runtime :: "RuntimeSpec ptr"
  lrs_Component :: string

record LStatus =
  lst_Phase :: string
  lst_ObservedGeneration :: int
  lst_CronJobName :: string
  lst_VolumeHolderName :: string
  lst_LastScheduleTime :: "gotime ptr"
  lst_LastSuccessfulTime :: "gotime ptr"
  lst_LastJob :: "LLastJobStatus ptr"
  lst_Conditions :: "condition blob list ptr"

record LBackup =
  lbk_TypeMeta :: typemeta
  lbk_ObjectMeta :: "objectmeta blob"
  lbk_Spec :: LBackupSpec
  lbk_Status :: LStatus

record LRestore =
  lre_TypeMeta :: typemeta
  lre_ObjectMeta :: "objectmeta blob"
  lre_Spec :: LRestoreSpec
  lre_Status :: LStatus

record LBackupList =
  lbl_TypeMeta :: typemeta
  lbl_ListMeta :: "listmeta blob"
  lbl_Items :: "LBackup list ptr"

record LRestoreList =
  lrl_TypeMeta :: typemeta
  lrl_ListMeta :: "listmeta blob"
  lrl_Items :: "LRestore list ptr"

section \<open>Their values and addresses\<close>

text \<open>
  For each struct, its value with all addresses forgotten, and the addresses of everything it points
  to, in the order in which the fields are copied.
\<close>

definition erase_S3Spec :: "LS3Spec \<Rightarrow> LS3Spec" where
  "erase_S3Spec x =
     x\<lparr>l3_Enabled := erase_ptr id (l3_Enabled x),
        l3_RetentionDays := erase_ptr id (l3_RetentionDays x)\<rparr>"

definition addrs_S3Spec :: "LS3Spec \<Rightarrow> nat list" where
  "addrs_S3Spec x =
     addrs_ptr no_addrs (l3_Enabled x) @ addrs_ptr no_addrs (l3_RetentionDays x)"

definition erase_PersistenceSpec :: "LPersistenceSpec \<Rightarrow> LPersistenceSpec" where
  "erase_PersistenceSpec x =
     x\<lparr>lps_Enabled := erase_ptr id (lps_Enabled x),
        lps_AccessModes := erase_ptr id (lps_AccessModes x), lps_Size := erase_blob (lps_Size x),
        lps_Annotations := erase_ptr id (lps_Annotations x)\<rparr>"

definition addrs_PersistenceSpec :: "LPersistenceSpec \<Rightarrow> nat list" where
  "addrs_PersistenceSpec x =
     addrs_ptr no_addrs (lps_Enabled x) @ addrs_ptr no_addrs (lps_AccessModes x) @
      blob_addrs (lps_Size x) @ addrs_ptr no_addrs (lps_Annotations x)"

definition erase_ImageSet :: "LImageSet \<Rightarrow> LImageSet" where
  "erase_ImageSet x =
     x\<lparr>lis_BusyBox := erase_ptr id (lis_BusyBox x), lis_GnuPG := erase_ptr id (lis_GnuPG x),
        lis_Postgres := erase_ptr id (lis_Postgres x), lis_Mc := erase_ptr id (lis_Mc x),
        lis_MariaDB := erase_ptr id (lis_MariaDB x), lis_Redis := erase_ptr id (lis_Redis x),
        lis_Tar := erase_ptr id (lis_Tar x)\<rparr>"

definition addrs_ImageSet :: "LImageSet \<Rightarrow> nat list" where
  "addrs_ImageSet x =
     addrs_ptr no_addrs (lis_BusyBox x) @ addrs_ptr no_addrs (lis_GnuPG x) @
      addrs_ptr no_addrs (lis_Postgres x) @ addrs_ptr no_addrs (lis_Mc x) @
      addrs_ptr no_addrs (lis_MariaDB x) @ addrs_ptr no_addrs (lis_Redis x) @ addrs_ptr no_addrs (lis_Tar x)"

definition erase_JobPolicy :: "LJobPolicy \<Rightarrow> LJobPolicy" where
  "erase_JobPolicy x =
     x\<lparr>ljp_FailedJobsHistoryLimit := erase_ptr id (ljp_FailedJobsHistoryLimit x),
        ljp_SuccessfulJobsHistoryLimit := erase_ptr id (ljp_SuccessfulJobsHistoryLimit x),
        ljp_StartingDeadlineSeconds := erase_ptr id (ljp_StartingDeadlineSeconds x),
        ljp_BackoffLimit := erase_ptr id (ljp_BackoffLimit x),
        ljp_TTLSecondsAfterFinished := erase_ptr id (ljp_TTLSecondsAfterFinished x)\<rparr>"

definition addrs_JobPolicy :: "LJobPolicy \<Rightarrow> nat list" where
  "addrs_JobPolicy x =
     addrs_ptr no_addrs (ljp_FailedJobsHistoryLimit x) @
      addrs_ptr no_addrs (ljp_SuccessfulJobsHistoryLimit x) @
      addrs_ptr no_addrs (ljp_StartingDeadlineSeconds x) @ addrs_ptr no_addrs (ljp_BackoffLimit x) @
      addrs_ptr no_addrs (ljp_TTLSecondsAfterFinished x)"

definition erase_LastJobStatus :: "LLastJobStatus \<Rightarrow> LLastJobStatus" where
  "erase_LastJobStatus x =
     x\<lparr>llj_StartTime := erase_ptr id (llj_StartTime x),
        llj_CompletionTime := erase_ptr id (llj_CompletionTime x)\<rparr>"

definition addrs_LastJobStatus :: "LLastJobStatus \<Rightarrow> nat list" where
  "addrs_LastJobStatus x =
     addrs_ptr no_addrs (llj_StartTime x) @ addrs_ptr no_addrs (llj_CompletionTime x)"

definition erase_BackupResources :: "LBackupResources \<Rightarrow> LBackupResources" where
  "erase_BackupResources x =
     x\<lparr>lbr_Cleanup := erase_ptr erase_blob (lbr_Cleanup x),
        lbr_Dump := erase_ptr erase_blob (lbr_Dump x),
        lbr_Compress := erase_ptr erase_blob (lbr_Compress x),
        lbr_Encrypt := erase_ptr erase_blob (lbr_Encrypt x),
        lbr_S3Sync := erase_ptr erase_blob (lbr_S3Sync x)\<rparr>"

definition addrs_BackupResources :: "LBackupResources \<Rightarrow> nat list" where
  "addrs_BackupResources x =
     addrs_ptr blob_addrs (lbr_Cleanup x) @ addrs_ptr blob_addrs (lbr_Dump x) @
      addrs_ptr blob_addrs (lbr_Compress x) @ addrs_ptr blob_addrs (lbr_Encrypt x) @
      addrs_ptr blob_addrs (lbr_S3Sync x)"

definition erase_RestoreResources :: "LRestoreResources \<Rightarrow> LRestoreResources" where
  "erase_RestoreResources x =
     x\<lparr>lrr_Cleanup := erase_ptr erase_blob (lrr_Cleanup x),
        lrr_Fetch := erase_ptr erase_blob (lrr_Fetch x),
        lrr_Decrypt := erase_ptr erase_blob (lrr_Decrypt x),
        lrr_Extract := erase_ptr erase_blob (lrr_Extract x),
        lrr_Restore := erase_ptr erase_blob (lrr_Restore x)\<rparr>"

definition addrs_RestoreResources :: "LRestoreResources \<Rightarrow> nat list" where
  "addrs_RestoreResources x =
     addrs_ptr blob_addrs (lrr_Cleanup x) @ addrs_ptr blob_addrs (lrr_Fetch x) @
      addrs_ptr blob_addrs (lrr_Decrypt x) @ addrs_ptr blob_addrs (lrr_Extract x) @
      addrs_ptr blob_addrs (lrr_Restore x)"

definition erase_PVCSourceSpec :: "LPVCSourceSpec \<Rightarrow> LPVCSourceSpec" where
  "erase_PVCSourceSpec x =
     x\<lparr>lpv_Excludes := erase_ptr id (lpv_Excludes x),
        lpv_ConsumerSelector := erase_ptr erase_blob (lpv_ConsumerSelector x),
        lpv_RunAsUser := erase_ptr id (lpv_RunAsUser x), lpv_RunAsGroup := erase_ptr id (lpv_RunAsGroup x)\<rparr>"

definition addrs_PVCSourceSpec :: "LPVCSourceSpec \<Rightarrow> nat list" where
  "addrs_PVCSourceSpec x =
     addrs_ptr no_addrs (lpv_Excludes x) @ addrs_ptr blob_addrs (lpv_ConsumerSelector x) @
      addrs_ptr no_addrs (lpv_RunAsUser x) @ addrs_ptr no_addrs (lpv_RunAsGroup x)"

definition erase_BackupSpec :: "LBackupSpec \<Rightarrow> LBackupSpec" where
  "erase_BackupSpec x =
     x\<lparr>lbs_Suspend := erase_ptr id (lbs_Suspend x),
        lbs_PVC := erase_ptr erase_PVCSourceSpec (lbs_PVC x), lbs_S3 := erase_S3Spec (lbs_S3 x),
        lbs_Persistence := erase_ptr erase_PersistenceSpec (lbs_Persistence x),
        lbs_LocalRetentionDays := erase_ptr id (lbs_LocalRetentionDays x),
        lbs_LogFileEnabled := erase_ptr id (lbs_LogFileEnabled x),
        lbs_Images := erase_ptr erase_ImageSet (lbs_Images x),
        lbs_Resources := erase_ptr erase_BackupResources (lbs_Resources x),
        lbs_Job := erase_ptr erase_JobPolicy (lbs_Job x), lbs_Runtime := erase_ptr id (lbs_Runtime x)\<rparr>"

definition addrs_BackupSpec :: "LBackupSpec \<Rightarrow> nat list" where
  "addrs_BackupSpec x =
     addrs_ptr no_addrs (lbs_Suspend x) @ addrs_ptr addrs_PVCSourceSpec (lbs_PVC x) @
      addrs_S3Spec (lbs_S3 x) @ addrs_ptr addrs_PersistenceSpec (lbs_Persistence x) @
      addrs_ptr no_addrs (lbs_LocalRetentionDays x) @ addrs_ptr no_addrs (lbs_LogFileEnabled x) @
      addrs_ptr addrs_ImageSet (lbs_Images x) @ addrs_ptr addrs_BackupResources (lbs_Resources x) @
      addrs_ptr addrs_JobPolicy (lbs_Job x) @ addrs_ptr no_addrs (lbs_Runtime x)"

definition erase_RestoreSpec :: "LRestoreSpec \<Rightarrow> LRestoreSpec" where
  "erase_RestoreSpec x =
     x\<lparr>lrs_Suspend := erase_ptr id (lrs_Suspend x), lrs_S3 := erase_S3Spec (lrs_S3 x),
        lrs_PostgresSecret := erase_ptr id (lrs_PostgresSecret x),
        lrs_MariaDBSecret := erase_ptr id (lrs_MariaDBSecret x),
        lrs_RedisSecret := erase_ptr id (lrs_RedisSecret x),
        lrs_Persistence := erase_ptr erase_PersistenceSpec (lrs_Persistence x),
        lrs_LogFileEnabled := erase_ptr id (lrs_LogFileEnabled x),
        lrs_UseLatestBackupAsFallback := erase_ptr id (lrs_UseLatestBackupAsFallback x),
        lrs_DropDatabaseIfExists := erase_ptr id (lrs_DropDatabaseIfExists x),
        lrs_StripPgAuditExtension := erase_ptr id (lrs_StripPgAuditExtension x),
        lrs_Images := erase_ptr erase_ImageSet (lrs_Images x),
        lrs_Resources := erase_ptr erase_RestoreResources (lrs_Resources x),
        lrs_Job := erase_ptr erase_JobPolicy (lrs_Job x), lrs_Runtime := erase_ptr id (lrs_Runtime x)\<rparr>"

definition addrs_RestoreSpec :: "LRestoreSpec \<Rightarrow> nat list" where
  "addrs_RestoreSpec x =
     addrs_ptr no_addrs (lrs_Suspend x) @ addrs_S3Spec (lrs_S3 x) @
      addrs_ptr no_addrs (lrs_PostgresSecret x) @ addrs_ptr no_addrs (lrs_MariaDBSecret x) @
      addrs_ptr no_addrs (lrs_RedisSecret x) @ addrs_ptr addrs_PersistenceSpec (lrs_Persistence x) @
      addrs_ptr no_addrs (lrs_LogFileEnabled x) @ addrs_ptr no_addrs (lrs_UseLatestBackupAsFallback x) @
      addrs_ptr no_addrs (lrs_DropDatabaseIfExists x) @ addrs_ptr no_addrs (lrs_StripPgAuditExtension x) @
      addrs_ptr addrs_ImageSet (lrs_Images x) @ addrs_ptr addrs_RestoreResources (lrs_Resources x) @
      addrs_ptr addrs_JobPolicy (lrs_Job x) @ addrs_ptr no_addrs (lrs_Runtime x)"

definition erase_Status :: "LStatus \<Rightarrow> LStatus" where
  "erase_Status x =
     x\<lparr>lst_LastScheduleTime := erase_ptr id (lst_LastScheduleTime x),
        lst_LastSuccessfulTime := erase_ptr id (lst_LastSuccessfulTime x),
        lst_LastJob := erase_ptr erase_LastJobStatus (lst_LastJob x),
        lst_Conditions := erase_ptr (map erase_blob) (lst_Conditions x)\<rparr>"

definition addrs_Status :: "LStatus \<Rightarrow> nat list" where
  "addrs_Status x =
     addrs_ptr no_addrs (lst_LastScheduleTime x) @ addrs_ptr no_addrs (lst_LastSuccessfulTime x) @
      addrs_ptr addrs_LastJobStatus (lst_LastJob x) @ addrs_ptr (addrs_list blob_addrs) (lst_Conditions x)"

definition erase_Backup :: "LBackup \<Rightarrow> LBackup" where
  "erase_Backup x =
     x\<lparr>lbk_ObjectMeta := erase_blob (lbk_ObjectMeta x), lbk_Spec := erase_BackupSpec (lbk_Spec x),
        lbk_Status := erase_Status (lbk_Status x)\<rparr>"

definition addrs_Backup :: "LBackup \<Rightarrow> nat list" where
  "addrs_Backup x =
     blob_addrs (lbk_ObjectMeta x) @ addrs_BackupSpec (lbk_Spec x) @ addrs_Status (lbk_Status x)"

definition erase_Restore :: "LRestore \<Rightarrow> LRestore" where
  "erase_Restore x =
     x\<lparr>lre_ObjectMeta := erase_blob (lre_ObjectMeta x), lre_Spec := erase_RestoreSpec (lre_Spec x),
        lre_Status := erase_Status (lre_Status x)\<rparr>"

definition addrs_Restore :: "LRestore \<Rightarrow> nat list" where
  "addrs_Restore x =
     blob_addrs (lre_ObjectMeta x) @ addrs_RestoreSpec (lre_Spec x) @ addrs_Status (lre_Status x)"

definition erase_BackupList :: "LBackupList \<Rightarrow> LBackupList" where
  "erase_BackupList x =
     x\<lparr>lbl_ListMeta := erase_blob (lbl_ListMeta x),
        lbl_Items := erase_ptr (map erase_Backup) (lbl_Items x)\<rparr>"

definition addrs_BackupList :: "LBackupList \<Rightarrow> nat list" where
  "addrs_BackupList x =
     blob_addrs (lbl_ListMeta x) @ addrs_ptr (addrs_list addrs_Backup) (lbl_Items x)"

definition erase_RestoreList :: "LRestoreList \<Rightarrow> LRestoreList" where
  "erase_RestoreList x =
     x\<lparr>lrl_ListMeta := erase_blob (lrl_ListMeta x),
        lrl_Items := erase_ptr (map erase_Restore) (lrl_Items x)\<rparr>"

definition addrs_RestoreList :: "LRestoreList \<Rightarrow> nat list" where
  "addrs_RestoreList x =
     blob_addrs (lrl_ListMeta x) @ addrs_ptr (addrs_list addrs_Restore) (lrl_Items x)"

section \<open>The resources that are stored\<close>

text \<open>The struct of \<^verbatim>\<open>Api_Types\<close> that is in memory: nil slices and maps read as empty ones.\<close>

definition pointee :: "'a ptr \<Rightarrow> 'a option" where
  "pointee p = (case p of NilPtr \<Rightarrow> None | At a v \<Rightarrow> Some v)"

definition pointee_or :: "'a \<Rightarrow> 'a ptr \<Rightarrow> 'a" where
  "pointee_or d p = (case p of NilPtr \<Rightarrow> d | At a v \<Rightarrow> v)"

definition view_S3Spec :: "LS3Spec \<Rightarrow> S3Spec" where
  "view_S3Spec x =
     \<lparr>s3_Enabled = pointee (l3_Enabled x), s3_Endpoint = l3_Endpoint x, s3_Bucket = l3_Bucket x,
      s3_Path = l3_Path x, s3_RetentionDays = pointee (l3_RetentionDays x)\<rparr>"

definition view_PersistenceSpec :: "LPersistenceSpec \<Rightarrow> PersistenceSpec" where
  "view_PersistenceSpec x =
     \<lparr>ps_Enabled = pointee (lps_Enabled x), ps_StorageClassName = lps_StorageClassName x,
      ps_AccessModes = pointee_or [] (lps_AccessModes x), ps_Size = blob_value (lps_Size x),
      ps_Annotations = pointee_or Map.empty (lps_Annotations x)\<rparr>"

definition view_ImageSet :: "LImageSet \<Rightarrow> ImageSet" where
  "view_ImageSet x =
     \<lparr>is_BusyBox = pointee (lis_BusyBox x), is_GnuPG = pointee (lis_GnuPG x),
      is_Postgres = pointee (lis_Postgres x), is_Mc = pointee (lis_Mc x),
      is_MariaDB = pointee (lis_MariaDB x), is_Redis = pointee (lis_Redis x), is_Tar = pointee (lis_Tar x)\<rparr>"

definition view_JobPolicy :: "LJobPolicy \<Rightarrow> JobPolicy" where
  "view_JobPolicy x =
     \<lparr>jp_ConcurrencyPolicy = ljp_ConcurrencyPolicy x,
      jp_FailedJobsHistoryLimit = pointee (ljp_FailedJobsHistoryLimit x),
      jp_SuccessfulJobsHistoryLimit = pointee (ljp_SuccessfulJobsHistoryLimit x),
      jp_StartingDeadlineSeconds = pointee (ljp_StartingDeadlineSeconds x),
      jp_BackoffLimit = pointee (ljp_BackoffLimit x),
      jp_TTLSecondsAfterFinished = pointee (ljp_TTLSecondsAfterFinished x),
      jp_RestartPolicy = ljp_RestartPolicy x, jp_TimeZone = ljp_TimeZone x\<rparr>"

definition view_LastJobStatus :: "LLastJobStatus \<Rightarrow> LastJobStatus" where
  "view_LastJobStatus x =
     \<lparr>lj_Name = llj_Name x, lj_Outcome = llj_Outcome x, lj_Reason = llj_Reason x,
      lj_Message = llj_Message x, lj_StartTime = pointee (llj_StartTime x),
      lj_CompletionTime = pointee (llj_CompletionTime x)\<rparr>"

definition view_BackupResources :: "LBackupResources \<Rightarrow> BackupResources" where
  "view_BackupResources x =
     \<lparr>br_Cleanup = map_option blob_value (pointee (lbr_Cleanup x)),
      br_Dump = map_option blob_value (pointee (lbr_Dump x)),
      br_Compress = map_option blob_value (pointee (lbr_Compress x)),
      br_Encrypt = map_option blob_value (pointee (lbr_Encrypt x)),
      br_S3Sync = map_option blob_value (pointee (lbr_S3Sync x))\<rparr>"

definition view_RestoreResources :: "LRestoreResources \<Rightarrow> RestoreResources" where
  "view_RestoreResources x =
     \<lparr>rr_Cleanup = map_option blob_value (pointee (lrr_Cleanup x)),
      rr_Fetch = map_option blob_value (pointee (lrr_Fetch x)),
      rr_Decrypt = map_option blob_value (pointee (lrr_Decrypt x)),
      rr_Extract = map_option blob_value (pointee (lrr_Extract x)),
      rr_Restore = map_option blob_value (pointee (lrr_Restore x))\<rparr>"

definition view_PVCSourceSpec :: "LPVCSourceSpec \<Rightarrow> PVCSourceSpec" where
  "view_PVCSourceSpec x =
     \<lparr>pv_ClaimName = lpv_ClaimName x, pv_Path = lpv_Path x,
      pv_Excludes = pointee_or [] (lpv_Excludes x),
      pv_ConsumerSelector = map_option blob_value (pointee (lpv_ConsumerSelector x)),
      pv_RunAsUser = pointee (lpv_RunAsUser x), pv_RunAsGroup = pointee (lpv_RunAsGroup x)\<rparr>"

definition view_BackupSpec :: "LBackupSpec \<Rightarrow> BackupSpec" where
  "view_BackupSpec x =
     \<lparr>bs_Engine = lbs_Engine x, bs_Schedule = lbs_Schedule x, bs_Suspend = pointee (lbs_Suspend x),
      bs_Database = lbs_Database x, bs_PVC = map_option view_PVCSourceSpec (pointee (lbs_PVC x)),
      bs_S3 = view_S3Spec (lbs_S3 x), bs_SecretRef = lbs_SecretRef x,
      bs_Persistence = map_option view_PersistenceSpec (pointee (lbs_Persistence x)),
      bs_LocalRetentionDays = pointee (lbs_LocalRetentionDays x),
      bs_LogFileEnabled = pointee (lbs_LogFileEnabled x), bs_DataDir = lbs_DataDir x,
      bs_McConfigDir = lbs_McConfigDir x, bs_Images = map_option view_ImageSet (pointee (lbs_Images x)),
      bs_Resources = map_option view_BackupResources (pointee (lbs_Resources x)),
      bs_Job = map_option view_JobPolicy (pointee (lbs_Job x)), bs_Runtime = pointee (lbs_Runtime x),
      bs_Component = lbs_Component x\<rparr>"

definition view_RestoreSpec :: "LRestoreSpec \<Rightarrow> RestoreSpec" where
  "view_RestoreSpec x =
     \<lparr>rs_Engine = lrs_Engine x, rs_Schedule = lrs_Schedule x, rs_Suspend = pointee (lrs_Suspend x),
      rs_Database = lrs_Database x, rs_S3 = view_S3Spec (lrs_S3 x), rs_SecretRef = lrs_SecretRef x,
      rs_PostgresSecret = pointee (lrs_PostgresSecret x), rs_MariaDBSecret = pointee (lrs_MariaDBSecret x),
      rs_RedisSecret = pointee (lrs_RedisSecret x),
      rs_Persistence = map_option view_PersistenceSpec (pointee (lrs_Persistence x)),
      rs_LogFileEnabled = pointee (lrs_LogFileEnabled x), rs_Workdir = lrs_Workdir x,
      rs_McConfigDir = lrs_McConfigDir x, rs_BackupFile = lrs_BackupFile x,
      rs_UseLatestBackupAsFallback = pointee (lrs_UseLatestBackupAsFallback x),
      rs_DropDatabaseIfExists = pointee (lrs_DropDatabaseIfExists x),
      rs_StripPgAuditExtension = pointee (lrs_StripPgAuditExtension x),
      rs_Images = map_option view_ImageSet (pointee (lrs_Images x)),
      rs_Resources = map_option view_RestoreResources (pointee (lrs_Resources x)),
      rs_Job = map_option view_JobPolicy (pointee (lrs_Job x)), rs_Runtime = pointee (lrs_Runtime x),
      rs_Component = lrs_Component x\<rparr>"

definition view_Status :: "LStatus \<Rightarrow> cr_status" where
  "view_Status x =
     \<lparr>st_Phase = lst_Phase x, st_ObservedGeneration = lst_ObservedGeneration x,
      st_CronJobName = lst_CronJobName x, st_VolumeHolderName = lst_VolumeHolderName x,
      st_LastScheduleTime = pointee (lst_LastScheduleTime x),
      st_LastSuccessfulTime = pointee (lst_LastSuccessfulTime x),
      st_LastJob = map_option view_LastJobStatus (pointee (lst_LastJob x)),
      st_Conditions = map blob_value (pointee_or [] (lst_Conditions x))\<rparr>"

definition view_Backup :: "LBackup \<Rightarrow> Backup" where
  "view_Backup x =
     \<lparr>bk_Meta = blob_value (lbk_ObjectMeta x), bk_Spec = view_BackupSpec (lbk_Spec x),
      bk_Status = view_Status (lbk_Status x)\<rparr>"

definition view_Restore :: "LRestore \<Rightarrow> Restore" where
  "view_Restore x =
     \<lparr>re_Meta = blob_value (lre_ObjectMeta x), re_Spec = view_RestoreSpec (lre_Spec x),
      re_Status = view_Status (lre_Status x)\<rparr>"

section \<open>DeepCopyInto\<close>

text \<open>
  \<^verbatim>\<open>*out = *in\<close> copies every field, then the fields with pointers are replaced by copies.  The
  result is what \<^verbatim>\<open>out\<close> holds at the end.  A map is copied entry by entry, which gives the same map.
\<close>

definition DatabaseSpec_DeepCopyInto :: "DatabaseSpec \<Rightarrow> DatabaseSpec alloc" where
  "DatabaseSpec_DeepCopyInto x = State_Monad.return x"

definition ImageSpec_DeepCopyInto :: "ImageSpec \<Rightarrow> ImageSpec alloc" where
  "ImageSpec_DeepCopyInto x = State_Monad.return x"

definition RuntimeSpec_DeepCopyInto :: "RuntimeSpec \<Rightarrow> RuntimeSpec alloc" where
  "RuntimeSpec_DeepCopyInto x = State_Monad.return x"

definition SecretKeySelector_DeepCopyInto :: "SecretKeySelector \<Rightarrow> SecretKeySelector alloc" where
  "SecretKeySelector_DeepCopyInto x = State_Monad.return x"

definition BackupCustomValidator_DeepCopyInto :: "unit \<Rightarrow> unit alloc" where
  "BackupCustomValidator_DeepCopyInto x = State_Monad.return x"

definition RestoreCustomValidator_DeepCopyInto :: "unit \<Rightarrow> unit alloc" where
  "RestoreCustomValidator_DeepCopyInto x = State_Monad.return x"

definition S3Spec_DeepCopyInto :: "LS3Spec \<Rightarrow> LS3Spec alloc" where
  "S3Spec_DeepCopyInto x = do {
     enabled \<leftarrow> copyPtr State_Monad.return (l3_Enabled x);
     retentionDays \<leftarrow> copyPtr State_Monad.return (l3_RetentionDays x);
     State_Monad.return (x\<lparr>l3_Enabled := enabled, l3_RetentionDays := retentionDays\<rparr>)
   }"

definition PersistenceSpec_DeepCopyInto :: "deepcopylib \<Rightarrow> LPersistenceSpec \<Rightarrow> LPersistenceSpec alloc" where
  "PersistenceSpec_DeepCopyInto D x = do {
     enabled \<leftarrow> copyPtr State_Monad.return (lps_Enabled x);
     accessModes \<leftarrow> copyPtr State_Monad.return (lps_AccessModes x);
     size \<leftarrow> dl_Quantity D (lps_Size x);
     annotations \<leftarrow> copyPtr State_Monad.return (lps_Annotations x);
     State_Monad.return (x\<lparr>lps_Enabled := enabled, lps_AccessModes := accessModes, lps_Size := size,
          lps_Annotations := annotations\<rparr>)
   }"

definition ImageSet_DeepCopyInto :: "LImageSet \<Rightarrow> LImageSet alloc" where
  "ImageSet_DeepCopyInto x = do {
     busyBox \<leftarrow> copyPtr State_Monad.return (lis_BusyBox x);
     gnuPG \<leftarrow> copyPtr State_Monad.return (lis_GnuPG x);
     postgres \<leftarrow> copyPtr State_Monad.return (lis_Postgres x);
     mc \<leftarrow> copyPtr State_Monad.return (lis_Mc x);
     mariaDB \<leftarrow> copyPtr State_Monad.return (lis_MariaDB x);
     redis \<leftarrow> copyPtr State_Monad.return (lis_Redis x);
     tar \<leftarrow> copyPtr State_Monad.return (lis_Tar x);
     State_Monad.return (x\<lparr>lis_BusyBox := busyBox, lis_GnuPG := gnuPG, lis_Postgres := postgres,
          lis_Mc := mc, lis_MariaDB := mariaDB, lis_Redis := redis, lis_Tar := tar\<rparr>)
   }"

definition JobPolicy_DeepCopyInto :: "LJobPolicy \<Rightarrow> LJobPolicy alloc" where
  "JobPolicy_DeepCopyInto x = do {
     failedJobsHistoryLimit \<leftarrow> copyPtr State_Monad.return (ljp_FailedJobsHistoryLimit x);
     successfulJobsHistoryLimit \<leftarrow> copyPtr State_Monad.return (ljp_SuccessfulJobsHistoryLimit x);
     startingDeadlineSeconds \<leftarrow> copyPtr State_Monad.return (ljp_StartingDeadlineSeconds x);
     backoffLimit \<leftarrow> copyPtr State_Monad.return (ljp_BackoffLimit x);
     tTLSecondsAfterFinished \<leftarrow> copyPtr State_Monad.return (ljp_TTLSecondsAfterFinished x);
     State_Monad.return (x\<lparr>ljp_FailedJobsHistoryLimit := failedJobsHistoryLimit,
          ljp_SuccessfulJobsHistoryLimit := successfulJobsHistoryLimit,
          ljp_StartingDeadlineSeconds := startingDeadlineSeconds, ljp_BackoffLimit := backoffLimit,
          ljp_TTLSecondsAfterFinished := tTLSecondsAfterFinished\<rparr>)
   }"

definition LastJobStatus_DeepCopyInto :: "deepcopylib \<Rightarrow> LLastJobStatus \<Rightarrow> LLastJobStatus alloc" where
  "LastJobStatus_DeepCopyInto D x = do {
     startTime \<leftarrow> copyTime D (llj_StartTime x);
     completionTime \<leftarrow> copyTime D (llj_CompletionTime x);
     State_Monad.return (x\<lparr>llj_StartTime := startTime, llj_CompletionTime := completionTime\<rparr>)
   }"

definition BackupResources_DeepCopyInto :: "deepcopylib \<Rightarrow> LBackupResources \<Rightarrow> LBackupResources alloc" where
  "BackupResources_DeepCopyInto D x = do {
     cleanup \<leftarrow> copyPtr (dl_ResourceRequirements D) (lbr_Cleanup x);
     dump \<leftarrow> copyPtr (dl_ResourceRequirements D) (lbr_Dump x);
     compress \<leftarrow> copyPtr (dl_ResourceRequirements D) (lbr_Compress x);
     encrypt \<leftarrow> copyPtr (dl_ResourceRequirements D) (lbr_Encrypt x);
     s3Sync \<leftarrow> copyPtr (dl_ResourceRequirements D) (lbr_S3Sync x);
     State_Monad.return (x\<lparr>lbr_Cleanup := cleanup, lbr_Dump := dump, lbr_Compress := compress,
          lbr_Encrypt := encrypt, lbr_S3Sync := s3Sync\<rparr>)
   }"

definition RestoreResources_DeepCopyInto :: "deepcopylib \<Rightarrow> LRestoreResources \<Rightarrow> LRestoreResources alloc" where
  "RestoreResources_DeepCopyInto D x = do {
     cleanup \<leftarrow> copyPtr (dl_ResourceRequirements D) (lrr_Cleanup x);
     fetch \<leftarrow> copyPtr (dl_ResourceRequirements D) (lrr_Fetch x);
     decrypt \<leftarrow> copyPtr (dl_ResourceRequirements D) (lrr_Decrypt x);
     extract \<leftarrow> copyPtr (dl_ResourceRequirements D) (lrr_Extract x);
     restore \<leftarrow> copyPtr (dl_ResourceRequirements D) (lrr_Restore x);
     State_Monad.return (x\<lparr>lrr_Cleanup := cleanup, lrr_Fetch := fetch, lrr_Decrypt := decrypt,
          lrr_Extract := extract, lrr_Restore := restore\<rparr>)
   }"

definition PVCSourceSpec_DeepCopyInto :: "deepcopylib \<Rightarrow> LPVCSourceSpec \<Rightarrow> LPVCSourceSpec alloc" where
  "PVCSourceSpec_DeepCopyInto D x = do {
     excludes \<leftarrow> copyPtr State_Monad.return (lpv_Excludes x);
     consumerSelector \<leftarrow> copyPtr (dl_LabelSelector D) (lpv_ConsumerSelector x);
     runAsUser \<leftarrow> copyPtr State_Monad.return (lpv_RunAsUser x);
     runAsGroup \<leftarrow> copyPtr State_Monad.return (lpv_RunAsGroup x);
     State_Monad.return (x\<lparr>lpv_Excludes := excludes, lpv_ConsumerSelector := consumerSelector,
          lpv_RunAsUser := runAsUser, lpv_RunAsGroup := runAsGroup\<rparr>)
   }"

definition BackupSpec_DeepCopyInto :: "deepcopylib \<Rightarrow> LBackupSpec \<Rightarrow> LBackupSpec alloc" where
  "BackupSpec_DeepCopyInto D x = do {
     suspend \<leftarrow> copyPtr State_Monad.return (lbs_Suspend x);
     pVC \<leftarrow> copyPtr (PVCSourceSpec_DeepCopyInto D) (lbs_PVC x);
     s3 \<leftarrow> S3Spec_DeepCopyInto (lbs_S3 x);
     persistence \<leftarrow> copyPtr (PersistenceSpec_DeepCopyInto D) (lbs_Persistence x);
     localRetentionDays \<leftarrow> copyPtr State_Monad.return (lbs_LocalRetentionDays x);
     logFileEnabled \<leftarrow> copyPtr State_Monad.return (lbs_LogFileEnabled x);
     images \<leftarrow> copyPtr ImageSet_DeepCopyInto (lbs_Images x);
     resources \<leftarrow> copyPtr (BackupResources_DeepCopyInto D) (lbs_Resources x);
     job \<leftarrow> copyPtr JobPolicy_DeepCopyInto (lbs_Job x);
     runtime \<leftarrow> copyPtr State_Monad.return (lbs_Runtime x);
     State_Monad.return (x\<lparr>lbs_Suspend := suspend, lbs_PVC := pVC, lbs_S3 := s3,
          lbs_Persistence := persistence, lbs_LocalRetentionDays := localRetentionDays,
          lbs_LogFileEnabled := logFileEnabled, lbs_Images := images, lbs_Resources := resources,
          lbs_Job := job, lbs_Runtime := runtime\<rparr>)
   }"

definition RestoreSpec_DeepCopyInto :: "deepcopylib \<Rightarrow> LRestoreSpec \<Rightarrow> LRestoreSpec alloc" where
  "RestoreSpec_DeepCopyInto D x = do {
     suspend \<leftarrow> copyPtr State_Monad.return (lrs_Suspend x);
     s3 \<leftarrow> S3Spec_DeepCopyInto (lrs_S3 x);
     postgresSecret \<leftarrow> copyPtr State_Monad.return (lrs_PostgresSecret x);
     mariaDBSecret \<leftarrow> copyPtr State_Monad.return (lrs_MariaDBSecret x);
     redisSecret \<leftarrow> copyPtr State_Monad.return (lrs_RedisSecret x);
     persistence \<leftarrow> copyPtr (PersistenceSpec_DeepCopyInto D) (lrs_Persistence x);
     logFileEnabled \<leftarrow> copyPtr State_Monad.return (lrs_LogFileEnabled x);
     useLatestBackupAsFallback \<leftarrow> copyPtr State_Monad.return (lrs_UseLatestBackupAsFallback x);
     dropDatabaseIfExists \<leftarrow> copyPtr State_Monad.return (lrs_DropDatabaseIfExists x);
     stripPgAuditExtension \<leftarrow> copyPtr State_Monad.return (lrs_StripPgAuditExtension x);
     images \<leftarrow> copyPtr ImageSet_DeepCopyInto (lrs_Images x);
     resources \<leftarrow> copyPtr (RestoreResources_DeepCopyInto D) (lrs_Resources x);
     job \<leftarrow> copyPtr JobPolicy_DeepCopyInto (lrs_Job x);
     runtime \<leftarrow> copyPtr State_Monad.return (lrs_Runtime x);
     State_Monad.return (x\<lparr>lrs_Suspend := suspend, lrs_S3 := s3,
          lrs_PostgresSecret := postgresSecret, lrs_MariaDBSecret := mariaDBSecret,
          lrs_RedisSecret := redisSecret, lrs_Persistence := persistence,
          lrs_LogFileEnabled := logFileEnabled, lrs_UseLatestBackupAsFallback := useLatestBackupAsFallback,
          lrs_DropDatabaseIfExists := dropDatabaseIfExists,
          lrs_StripPgAuditExtension := stripPgAuditExtension, lrs_Images := images,
          lrs_Resources := resources, lrs_Job := job, lrs_Runtime := runtime\<rparr>)
   }"

definition BackupStatus_DeepCopyInto :: "deepcopylib \<Rightarrow> LStatus \<Rightarrow> LStatus alloc" where
  "BackupStatus_DeepCopyInto D x = do {
     lastScheduleTime \<leftarrow> copyTime D (lst_LastScheduleTime x);
     lastSuccessfulTime \<leftarrow> copyTime D (lst_LastSuccessfulTime x);
     lastJob \<leftarrow> copyPtr (LastJobStatus_DeepCopyInto D) (lst_LastJob x);
     conditions \<leftarrow> copyPtr (copyAll (dl_Condition D)) (lst_Conditions x);
     State_Monad.return (x\<lparr>lst_LastScheduleTime := lastScheduleTime,
          lst_LastSuccessfulTime := lastSuccessfulTime, lst_LastJob := lastJob, lst_Conditions := conditions\<rparr>)
   }"

definition RestoreStatus_DeepCopyInto :: "deepcopylib \<Rightarrow> LStatus \<Rightarrow> LStatus alloc" where
  "RestoreStatus_DeepCopyInto D x = do {
     lastScheduleTime \<leftarrow> copyTime D (lst_LastScheduleTime x);
     lastSuccessfulTime \<leftarrow> copyTime D (lst_LastSuccessfulTime x);
     lastJob \<leftarrow> copyPtr (LastJobStatus_DeepCopyInto D) (lst_LastJob x);
     conditions \<leftarrow> copyPtr (copyAll (dl_Condition D)) (lst_Conditions x);
     State_Monad.return (x\<lparr>lst_LastScheduleTime := lastScheduleTime,
          lst_LastSuccessfulTime := lastSuccessfulTime, lst_LastJob := lastJob, lst_Conditions := conditions\<rparr>)
   }"

definition Backup_DeepCopyInto :: "deepcopylib \<Rightarrow> LBackup \<Rightarrow> LBackup alloc" where
  "Backup_DeepCopyInto D x = do {
     objectMeta \<leftarrow> dl_ObjectMeta D (lbk_ObjectMeta x);
     spec \<leftarrow> BackupSpec_DeepCopyInto D (lbk_Spec x);
     status \<leftarrow> BackupStatus_DeepCopyInto D (lbk_Status x);
     State_Monad.return (x\<lparr>lbk_ObjectMeta := objectMeta, lbk_Spec := spec, lbk_Status := status\<rparr>)
   }"

definition Restore_DeepCopyInto :: "deepcopylib \<Rightarrow> LRestore \<Rightarrow> LRestore alloc" where
  "Restore_DeepCopyInto D x = do {
     objectMeta \<leftarrow> dl_ObjectMeta D (lre_ObjectMeta x);
     spec \<leftarrow> RestoreSpec_DeepCopyInto D (lre_Spec x);
     status \<leftarrow> RestoreStatus_DeepCopyInto D (lre_Status x);
     State_Monad.return (x\<lparr>lre_ObjectMeta := objectMeta, lre_Spec := spec, lre_Status := status\<rparr>)
   }"

definition BackupList_DeepCopyInto :: "deepcopylib \<Rightarrow> LBackupList \<Rightarrow> LBackupList alloc" where
  "BackupList_DeepCopyInto D x = do {
     listMeta \<leftarrow> dl_ListMeta D (lbl_ListMeta x);
     items \<leftarrow> copyPtr (copyAll (Backup_DeepCopyInto D)) (lbl_Items x);
     State_Monad.return (x\<lparr>lbl_ListMeta := listMeta, lbl_Items := items\<rparr>)
   }"

definition RestoreList_DeepCopyInto :: "deepcopylib \<Rightarrow> LRestoreList \<Rightarrow> LRestoreList alloc" where
  "RestoreList_DeepCopyInto D x = do {
     listMeta \<leftarrow> dl_ListMeta D (lrl_ListMeta x);
     items \<leftarrow> copyPtr (copyAll (Restore_DeepCopyInto D)) (lrl_Items x);
     State_Monad.return (x\<lparr>lrl_ListMeta := listMeta, lrl_Items := items\<rparr>)
   }"

section \<open>DeepCopy and DeepCopyObject\<close>

text \<open>\<^verbatim>\<open>DeepCopy\<close> of a nil pointer is nil; otherwise a new struct is filled by \<^verbatim>\<open>DeepCopyInto\<close>.\<close>

definition DatabaseSpec_DeepCopy :: "DatabaseSpec ptr \<Rightarrow> DatabaseSpec ptr alloc" where
  "DatabaseSpec_DeepCopy p = copyPtr DatabaseSpec_DeepCopyInto p"

definition ImageSpec_DeepCopy :: "ImageSpec ptr \<Rightarrow> ImageSpec ptr alloc" where
  "ImageSpec_DeepCopy p = copyPtr ImageSpec_DeepCopyInto p"

definition RuntimeSpec_DeepCopy :: "RuntimeSpec ptr \<Rightarrow> RuntimeSpec ptr alloc" where
  "RuntimeSpec_DeepCopy p = copyPtr RuntimeSpec_DeepCopyInto p"

definition SecretKeySelector_DeepCopy :: "SecretKeySelector ptr \<Rightarrow> SecretKeySelector ptr alloc" where
  "SecretKeySelector_DeepCopy p = copyPtr SecretKeySelector_DeepCopyInto p"

definition BackupCustomValidator_DeepCopy :: "unit ptr \<Rightarrow> unit ptr alloc" where
  "BackupCustomValidator_DeepCopy p = copyPtr BackupCustomValidator_DeepCopyInto p"

definition RestoreCustomValidator_DeepCopy :: "unit ptr \<Rightarrow> unit ptr alloc" where
  "RestoreCustomValidator_DeepCopy p = copyPtr RestoreCustomValidator_DeepCopyInto p"

definition S3Spec_DeepCopy :: "LS3Spec ptr \<Rightarrow> LS3Spec ptr alloc" where
  "S3Spec_DeepCopy p = copyPtr S3Spec_DeepCopyInto p"

definition PersistenceSpec_DeepCopy :: "deepcopylib \<Rightarrow> LPersistenceSpec ptr \<Rightarrow> LPersistenceSpec ptr alloc" where
  "PersistenceSpec_DeepCopy D p = copyPtr (PersistenceSpec_DeepCopyInto D) p"

definition ImageSet_DeepCopy :: "LImageSet ptr \<Rightarrow> LImageSet ptr alloc" where
  "ImageSet_DeepCopy p = copyPtr ImageSet_DeepCopyInto p"

definition JobPolicy_DeepCopy :: "LJobPolicy ptr \<Rightarrow> LJobPolicy ptr alloc" where
  "JobPolicy_DeepCopy p = copyPtr JobPolicy_DeepCopyInto p"

definition LastJobStatus_DeepCopy :: "deepcopylib \<Rightarrow> LLastJobStatus ptr \<Rightarrow> LLastJobStatus ptr alloc" where
  "LastJobStatus_DeepCopy D p = copyPtr (LastJobStatus_DeepCopyInto D) p"

definition BackupResources_DeepCopy :: "deepcopylib \<Rightarrow> LBackupResources ptr \<Rightarrow> LBackupResources ptr alloc" where
  "BackupResources_DeepCopy D p = copyPtr (BackupResources_DeepCopyInto D) p"

definition RestoreResources_DeepCopy :: "deepcopylib \<Rightarrow> LRestoreResources ptr \<Rightarrow> LRestoreResources ptr alloc" where
  "RestoreResources_DeepCopy D p = copyPtr (RestoreResources_DeepCopyInto D) p"

definition PVCSourceSpec_DeepCopy :: "deepcopylib \<Rightarrow> LPVCSourceSpec ptr \<Rightarrow> LPVCSourceSpec ptr alloc" where
  "PVCSourceSpec_DeepCopy D p = copyPtr (PVCSourceSpec_DeepCopyInto D) p"

definition BackupSpec_DeepCopy :: "deepcopylib \<Rightarrow> LBackupSpec ptr \<Rightarrow> LBackupSpec ptr alloc" where
  "BackupSpec_DeepCopy D p = copyPtr (BackupSpec_DeepCopyInto D) p"

definition RestoreSpec_DeepCopy :: "deepcopylib \<Rightarrow> LRestoreSpec ptr \<Rightarrow> LRestoreSpec ptr alloc" where
  "RestoreSpec_DeepCopy D p = copyPtr (RestoreSpec_DeepCopyInto D) p"

definition BackupStatus_DeepCopy :: "deepcopylib \<Rightarrow> LStatus ptr \<Rightarrow> LStatus ptr alloc" where
  "BackupStatus_DeepCopy D p = copyPtr (BackupStatus_DeepCopyInto D) p"

definition RestoreStatus_DeepCopy :: "deepcopylib \<Rightarrow> LStatus ptr \<Rightarrow> LStatus ptr alloc" where
  "RestoreStatus_DeepCopy D p = copyPtr (RestoreStatus_DeepCopyInto D) p"

definition Backup_DeepCopy :: "deepcopylib \<Rightarrow> LBackup ptr \<Rightarrow> LBackup ptr alloc" where
  "Backup_DeepCopy D p = copyPtr (Backup_DeepCopyInto D) p"

definition Restore_DeepCopy :: "deepcopylib \<Rightarrow> LRestore ptr \<Rightarrow> LRestore ptr alloc" where
  "Restore_DeepCopy D p = copyPtr (Restore_DeepCopyInto D) p"

definition BackupList_DeepCopy :: "deepcopylib \<Rightarrow> LBackupList ptr \<Rightarrow> LBackupList ptr alloc" where
  "BackupList_DeepCopy D p = copyPtr (BackupList_DeepCopyInto D) p"

definition RestoreList_DeepCopy :: "deepcopylib \<Rightarrow> LRestoreList ptr \<Rightarrow> LRestoreList ptr alloc" where
  "RestoreList_DeepCopy D p = copyPtr (RestoreList_DeepCopyInto D) p"

text \<open>An object as \<^verbatim>\<open>runtime.Object\<close>: a nil pointer becomes the nil interface.\<close>

definition asObject :: "'a ptr \<Rightarrow> 'a ptr option" where
  "asObject c = (case c of NilPtr \<Rightarrow> None | At a v \<Rightarrow> Some c)"

definition Backup_DeepCopyObject :: "deepcopylib \<Rightarrow> LBackup ptr \<Rightarrow> LBackup ptr option alloc" where
  "Backup_DeepCopyObject D p = do {
     c \<leftarrow> Backup_DeepCopy D p;
     State_Monad.return (asObject c)
   }"

definition BackupList_DeepCopyObject :: "deepcopylib \<Rightarrow> LBackupList ptr \<Rightarrow> LBackupList ptr option alloc" where
  "BackupList_DeepCopyObject D p = do {
     c \<leftarrow> BackupList_DeepCopy D p;
     State_Monad.return (asObject c)
   }"

definition Restore_DeepCopyObject :: "deepcopylib \<Rightarrow> LRestore ptr \<Rightarrow> LRestore ptr option alloc" where
  "Restore_DeepCopyObject D p = do {
     c \<leftarrow> Restore_DeepCopy D p;
     State_Monad.return (asObject c)
   }"

definition RestoreList_DeepCopyObject :: "deepcopylib \<Rightarrow> LRestoreList ptr \<Rightarrow> LRestoreList ptr option alloc" where
  "RestoreList_DeepCopyObject D p = do {
     c \<leftarrow> RestoreList_DeepCopy D p;
     State_Monad.return (asObject c)
   }"

section \<open>Every copy is deep\<close>

interpretation S3Spec_copy: deep_copyable erase_S3Spec addrs_S3Spec S3Spec_DeepCopyInto
  by unfold_locales
    (unfold S3Spec_DeepCopyInto_def, intro plain.ptr_then,
      simp_all add: copied_def erase_S3Spec_def addrs_S3Spec_def)

lemma PersistenceSpec_deep:
  "deepcopy_laws D \<Longrightarrow> deep_copyable erase_PersistenceSpec addrs_PersistenceSpec (PersistenceSpec_DeepCopyInto D)"
  by unfold_locales
    (unfold PersistenceSpec_DeepCopyInto_def, intro plain.ptr_then library_then,
      simp_all add: copied_def erase_PersistenceSpec_def addrs_PersistenceSpec_def)

interpretation ImageSet_copy: deep_copyable erase_ImageSet addrs_ImageSet ImageSet_DeepCopyInto
  by unfold_locales
    (unfold ImageSet_DeepCopyInto_def, intro plain.ptr_then,
      simp_all add: copied_def erase_ImageSet_def addrs_ImageSet_def)

interpretation JobPolicy_copy: deep_copyable erase_JobPolicy addrs_JobPolicy JobPolicy_DeepCopyInto
  by unfold_locales
    (unfold JobPolicy_DeepCopyInto_def, intro plain.ptr_then,
      simp_all add: copied_def erase_JobPolicy_def addrs_JobPolicy_def)

lemma LastJobStatus_deep:
  "deepcopy_laws D \<Longrightarrow> deep_copyable erase_LastJobStatus addrs_LastJobStatus (LastJobStatus_DeepCopyInto D)"
  by unfold_locales
    (unfold LastJobStatus_DeepCopyInto_def, intro library_then,
      simp_all add: copied_def erase_LastJobStatus_def addrs_LastJobStatus_def)

lemma BackupResources_deep:
  "deepcopy_laws D \<Longrightarrow> deep_copyable erase_BackupResources addrs_BackupResources (BackupResources_DeepCopyInto D)"
  by unfold_locales
    (unfold BackupResources_DeepCopyInto_def, intro library_then,
      simp_all add: copied_def erase_BackupResources_def addrs_BackupResources_def)

lemma RestoreResources_deep:
  "deepcopy_laws D \<Longrightarrow> deep_copyable erase_RestoreResources addrs_RestoreResources (RestoreResources_DeepCopyInto D)"
  by unfold_locales
    (unfold RestoreResources_DeepCopyInto_def, intro library_then,
      simp_all add: copied_def erase_RestoreResources_def addrs_RestoreResources_def)

lemma PVCSourceSpec_deep:
  "deepcopy_laws D \<Longrightarrow> deep_copyable erase_PVCSourceSpec addrs_PVCSourceSpec (PVCSourceSpec_DeepCopyInto D)"
  by unfold_locales
    (unfold PVCSourceSpec_DeepCopyInto_def, intro plain.ptr_then library_then,
      simp_all add: copied_def erase_PVCSourceSpec_def addrs_PVCSourceSpec_def)

lemma BackupSpec_deep:
  "deepcopy_laws D \<Longrightarrow> deep_copyable erase_BackupSpec addrs_BackupSpec (BackupSpec_DeepCopyInto D)"
  by unfold_locales
    (unfold BackupSpec_DeepCopyInto_def, intro plain.ptr_then
      deep_copyable.ptr_then [OF PVCSourceSpec_deep] S3Spec_copy.copy_then
      deep_copyable.ptr_then [OF PersistenceSpec_deep] ImageSet_copy.ptr_then
      deep_copyable.ptr_then [OF BackupResources_deep] JobPolicy_copy.ptr_then,
      simp_all add: copied_def erase_BackupSpec_def addrs_BackupSpec_def)

lemma RestoreSpec_deep:
  "deepcopy_laws D \<Longrightarrow> deep_copyable erase_RestoreSpec addrs_RestoreSpec (RestoreSpec_DeepCopyInto D)"
  by unfold_locales
    (unfold RestoreSpec_DeepCopyInto_def, intro plain.ptr_then S3Spec_copy.copy_then
      deep_copyable.ptr_then [OF PersistenceSpec_deep] ImageSet_copy.ptr_then
      deep_copyable.ptr_then [OF RestoreResources_deep] JobPolicy_copy.ptr_then,
      simp_all add: copied_def erase_RestoreSpec_def addrs_RestoreSpec_def)

lemma BackupStatus_deep:
  "deepcopy_laws D \<Longrightarrow> deep_copyable erase_Status addrs_Status (BackupStatus_DeepCopyInto D)"
  by unfold_locales
    (unfold BackupStatus_DeepCopyInto_def, intro library_then deep_copyable.ptr_then [OF LastJobStatus_deep],
      simp_all add: copied_def erase_Status_def addrs_Status_def)

lemma RestoreStatus_deep:
  "deepcopy_laws D \<Longrightarrow> deep_copyable erase_Status addrs_Status (RestoreStatus_DeepCopyInto D)"
  by unfold_locales
    (unfold RestoreStatus_DeepCopyInto_def, intro library_then
      deep_copyable.ptr_then [OF LastJobStatus_deep],
      simp_all add: copied_def erase_Status_def addrs_Status_def)

lemma Backup_deep:
  "deepcopy_laws D \<Longrightarrow> deep_copyable erase_Backup addrs_Backup (Backup_DeepCopyInto D)"
  by unfold_locales
    (unfold Backup_DeepCopyInto_def, intro library_then deep_copyable.copy_then [OF BackupSpec_deep]
      deep_copyable.copy_then [OF BackupStatus_deep],
      simp_all add: copied_def erase_Backup_def addrs_Backup_def)

lemma Restore_deep:
  "deepcopy_laws D \<Longrightarrow> deep_copyable erase_Restore addrs_Restore (Restore_DeepCopyInto D)"
  by unfold_locales
    (unfold Restore_DeepCopyInto_def, intro library_then deep_copyable.copy_then [OF RestoreSpec_deep]
      deep_copyable.copy_then [OF RestoreStatus_deep],
      simp_all add: copied_def erase_Restore_def addrs_Restore_def)

lemma BackupList_deep:
  "deepcopy_laws D \<Longrightarrow> deep_copyable erase_BackupList addrs_BackupList (BackupList_DeepCopyInto D)"
  by unfold_locales
    (unfold BackupList_DeepCopyInto_def, intro library_then deep_copyable.slice_then [OF Backup_deep],
      simp_all add: copied_def erase_BackupList_def addrs_BackupList_def)

lemma RestoreList_deep:
  "deepcopy_laws D \<Longrightarrow> deep_copyable erase_RestoreList addrs_RestoreList (RestoreList_DeepCopyInto D)"
  by unfold_locales
    (unfold RestoreList_DeepCopyInto_def, intro library_then deep_copyable.slice_then [OF Restore_deep],
      simp_all add: copied_def erase_RestoreList_def addrs_RestoreList_def)

section \<open>Copies of resources\<close>

text \<open>What is stored does not depend on where.\<close>

lemma pointee_erase:
  "pointee (erase_ptr f p) = map_option f (pointee p)" "pointee_or d (erase_ptr id p) = pointee_or d p"
  by (cases p; simp add: pointee_def pointee_or_def)+

lemma pointee_erase_slice: "pointee_or [] (erase_ptr (map f) p) = map f (pointee_or [] p)"
  by (cases p; simp add: pointee_or_def)

lemma blob_value_erase: "blob_value (erase_blob b) = blob_value b"
  by (simp add: erase_blob_def)

lemmas pointee_simps = pointee_erase pointee_erase_slice blob_value_erase option.map_id option.map_comp comp_def

lemma view_erase_S3Spec [simp]: "view_S3Spec (erase_S3Spec x) = view_S3Spec x"
  by (simp add: view_S3Spec_def erase_S3Spec_def pointee_simps)

lemma view_erase_PersistenceSpec [simp]: "view_PersistenceSpec (erase_PersistenceSpec x) = view_PersistenceSpec x"
  by (simp add: view_PersistenceSpec_def erase_PersistenceSpec_def pointee_simps)

lemma view_erase_ImageSet [simp]: "view_ImageSet (erase_ImageSet x) = view_ImageSet x"
  by (simp add: view_ImageSet_def erase_ImageSet_def pointee_simps)

lemma view_erase_JobPolicy [simp]: "view_JobPolicy (erase_JobPolicy x) = view_JobPolicy x"
  by (simp add: view_JobPolicy_def erase_JobPolicy_def pointee_simps)

lemma view_erase_LastJobStatus [simp]: "view_LastJobStatus (erase_LastJobStatus x) = view_LastJobStatus x"
  by (simp add: view_LastJobStatus_def erase_LastJobStatus_def pointee_simps)

lemma view_erase_BackupResources [simp]: "view_BackupResources (erase_BackupResources x) = view_BackupResources x"
  by (simp add: view_BackupResources_def erase_BackupResources_def pointee_simps)

lemma view_erase_RestoreResources [simp]: "view_RestoreResources (erase_RestoreResources x) = view_RestoreResources x"
  by (simp add: view_RestoreResources_def erase_RestoreResources_def pointee_simps)

lemma view_erase_PVCSourceSpec [simp]: "view_PVCSourceSpec (erase_PVCSourceSpec x) = view_PVCSourceSpec x"
  by (simp add: view_PVCSourceSpec_def erase_PVCSourceSpec_def pointee_simps)

lemma view_erase_BackupSpec [simp]: "view_BackupSpec (erase_BackupSpec x) = view_BackupSpec x"
  by (simp add: view_BackupSpec_def erase_BackupSpec_def pointee_simps)

lemma view_erase_RestoreSpec [simp]: "view_RestoreSpec (erase_RestoreSpec x) = view_RestoreSpec x"
  by (simp add: view_RestoreSpec_def erase_RestoreSpec_def pointee_simps)

lemma view_erase_Status [simp]: "view_Status (erase_Status x) = view_Status x"
  by (simp add: view_Status_def erase_Status_def pointee_simps)

lemma view_erase_Backup [simp]: "view_Backup (erase_Backup x) = view_Backup x"
  by (simp add: view_Backup_def erase_Backup_def pointee_simps)

lemma view_erase_Restore [simp]: "view_Restore (erase_Restore x) = view_Restore x"
  by (simp add: view_Restore_def erase_Restore_def pointee_simps)

text \<open>
  What \<^verbatim>\<open>DeepCopyObject\<close> makes of an object: nil of nil; otherwise a new object with the same
  values, stored at addresses of its own.
\<close>

definition deep_object :: "('a \<Rightarrow> 'a) \<Rightarrow> ('a \<Rightarrow> nat list) \<Rightarrow> 'a ptr \<Rightarrow> 'a ptr option \<Rightarrow> bool" where
  "deep_object erase addrs p obj \<longleftrightarrow>
     (case p of
        NilPtr \<Rightarrow> obj = None
      | At a x \<Rightarrow> \<exists>b y. obj = Some (At b y) \<and> erase y = erase x \<and> distinct (b # addrs y) \<and>
          set (b # addrs y) \<inter> set (a # addrs x) = {})"

lemma deep_object:
  assumes "deep_copyable erase addrs copy" and "list_all (\<lambda>a. a < n) (addrs_ptr addrs p)"
  shows "yields (do { c \<leftarrow> copyPtr copy p; State_Monad.return (asObject c) }) n (\<lambda>obj k. deep_object erase addrs p obj)"
proof (rule yields_bind [OF deep_copyable.ptr_copied [OF assms(1)]])
  fix q k
  assume q: "copied (erase_ptr erase) (addrs_ptr addrs) p n q k"
  show "yields (State_Monad.return (asObject q)) k (\<lambda>obj k. deep_object erase addrs p obj)"
  proof (cases p)
    case NilPtr
    with q show ?thesis by (cases q) (auto simp: copied_def deep_object_def asObject_def)
  next
    case (At a x)
    with q obtain b y where "q = At b y" by (cases q) (auto simp: copied_def)
    with q At assms(2) show ?thesis
      by (fastforce simp: copied_def deep_object_def asObject_def fresh_def list_all_iff)
  qed
qed

text \<open>
  C17: \<^verbatim>\<open>DeepCopyObject\<close> copies deeply.  For Backups, Restores and lists of them, wherever they lie in
  memory: the copy of a nil pointer is the nil object; any other copy has the same values field by
  field (nil pointers, slices and maps staying nil), no two parts of it share memory, and it shares none
  with the original, down to the last nested pointer, slice and map; so the resource that is read from
  the copy is the original's, and writing to the one never changes the other.
\<close>

theorem DeepCopyObject_deep:
  assumes "deepcopy_laws D"
    and "list_all (\<lambda>a. a < n)
      (addrs_ptr addrs_Backup b @ addrs_ptr addrs_Restore r @ addrs_ptr addrs_BackupList bl @ addrs_ptr addrs_RestoreList rl)"
  shows "yields (Backup_DeepCopyObject D b) n (\<lambda>obj k. deep_object erase_Backup addrs_Backup b obj \<and>
      map_option view_Backup (pointee b) = map_option view_Backup (Option.bind obj pointee)) \<and>
    yields (Restore_DeepCopyObject D r) n (\<lambda>obj k. deep_object erase_Restore addrs_Restore r obj \<and>
      map_option view_Restore (pointee r) = map_option view_Restore (Option.bind obj pointee)) \<and>
    yields (BackupList_DeepCopyObject D bl) n (\<lambda>obj k. deep_object erase_BackupList addrs_BackupList bl obj) \<and>
    yields (RestoreList_DeepCopyObject D rl) n (\<lambda>obj k. deep_object erase_RestoreList addrs_RestoreList rl obj)"
proof -
  have view: "map_option view (pointee p) = map_option view (Option.bind obj pointee)"
    if "deep_object erase addrs p obj" "\<And>x. view (erase x) = view x" for erase addrs p obj view
    using that by (cases p) (auto simp: deep_object_def pointee_def, metis)
  show ?thesis
    using deep_object [OF Backup_deep [OF assms(1)], of n b] deep_object [OF Restore_deep [OF assms(1)], of n r]
      deep_object [OF BackupList_deep [OF assms(1)], of n bl] deep_object [OF RestoreList_deep [OF assms(1)], of n rl] assms(2)
    by (auto simp: Backup_DeepCopyObject_def Restore_DeepCopyObject_def BackupList_DeepCopyObject_def
        RestoreList_DeepCopyObject_def Backup_DeepCopy_def Restore_DeepCopy_def BackupList_DeepCopy_def
        RestoreList_DeepCopy_def yields_def intro!: view)
qed

text \<open>Third-party deep copies that do what is documented: every address is replaced by a new one.\<close>

definition copyBlob :: "'a blob \<Rightarrow> 'a blob alloc" where
  "copyBlob b = do {
     as \<leftarrow> copyAll (\<lambda>_. new) (blob_addrs b);
     State_Monad.return (Blob (blob_value b) as)
   }"

lemma new_addresses: "yields (copyAll (\<lambda>_. new) as) n (\<lambda>bs k. fresh n k bs)"
proof (induction as arbitrary: n)
  case (Cons a as)
  show ?case
    unfolding copyAll.simps by (rule yields_bind [OF yields_new], rule yields_bind [OF Cons.IH]) (auto intro: fresh_Cons)
qed auto

interpretation blob_copy: deep_copyable erase_blob blob_addrs copyBlob
  by unfold_locales (unfold copyBlob_def, rule yields_bind [OF new_addresses], simp add: copied_def erase_blob_def)

definition doc_copies :: deepcopylib where
  "doc_copies =
     \<lparr>dl_ObjectMeta = copyBlob, dl_ListMeta = copyBlob, dl_ResourceRequirements = copyBlob, dl_LabelSelector = copyBlob,
      dl_Condition = copyBlob, dl_Quantity = copyBlob, dl_Time = copyPtr State_Monad.return\<rparr>"

lemma deepcopy_laws_doc: "deepcopy_laws doc_copies"
  by (simp add: deepcopy_laws_def doc_copies_def blob_copy.deep_copyable_axioms deep_copyable.intro [OF plain.ptr_copied])

text \<open>A suspended Backup of a claim, in the first seven cells of memory.\<close>

definition ex_located :: "LBackup ptr" where
  "ex_located = At 0
     \<lparr>lbk_TypeMeta = (''Backup'', ''karkive.io/v1alpha1''), lbk_ObjectMeta = Blob objectmeta_zero [1, 2],
      lbk_Spec =
        \<lparr>lbs_Engine = EnginePVC, lbs_Schedule = ''@daily'', lbs_Suspend = At 3 True,
         lbs_Database = \<lparr>db_Host = [], db_Port = 0, db_Name = [], db_OwnerRole = []\<rparr>,
         lbs_PVC = At 4 \<lparr>lpv_ClaimName = ''data'', lpv_Path = [], lpv_Excludes = At 5 [''tmp''],
           lpv_ConsumerSelector = NilPtr, lpv_RunAsUser = NilPtr, lpv_RunAsGroup = NilPtr\<rparr>,
         lbs_S3 = \<lparr>l3_Enabled = NilPtr, l3_Endpoint = [], l3_Bucket = [], l3_Path = [], l3_RetentionDays = NilPtr\<rparr>,
         lbs_SecretRef = ''keys'', lbs_Persistence = NilPtr, lbs_LocalRetentionDays = NilPtr,
         lbs_LogFileEnabled = NilPtr, lbs_DataDir = [], lbs_McConfigDir = [], lbs_Images = NilPtr,
         lbs_Resources = NilPtr, lbs_Job = NilPtr, lbs_Runtime = NilPtr, lbs_Component = []\<rparr>,
      lbk_Status =
        \<lparr>lst_Phase = [], lst_ObservedGeneration = 0, lst_CronJobName = [], lst_VolumeHolderName = [],
         lst_LastScheduleTime = NilPtr, lst_LastSuccessfulTime = NilPtr, lst_LastJob = NilPtr,
         lst_Conditions = At 6 []\<rparr>\<rparr>"

lemma ex_located_addrs: "addrs_ptr addrs_Backup ex_located = [0, 1, 2, 3, 4, 5, 6]"
  by (simp add: ex_located_def addrs_Backup_def addrs_BackupSpec_def addrs_Status_def addrs_PVCSourceSpec_def
      addrs_S3Spec_def addrs_list_def no_addrs_def)

theorem DeepCopyObject_deep_witness:
  "yields (Backup_DeepCopyObject doc_copies ex_located) 7 (\<lambda>obj k. obj \<noteq> None \<and>
     deep_object erase_Backup addrs_Backup ex_located obj \<and>
     map_option view_Backup (pointee ex_located) = map_option view_Backup (Option.bind obj pointee))"
proof -
  have "obj \<noteq> None" if "deep_object erase_Backup addrs_Backup ex_located obj" for obj
    using that by (auto simp: deep_object_def ex_located_def)
  then show ?thesis
    using DeepCopyObject_deep [OF deepcopy_laws_doc, of 7 ex_located NilPtr NilPtr NilPtr]
    by (simp add: ex_located_addrs yields_def)
qed

end
