(* ===== verification/Spec2Isabelle.thy ===== *)
theory Spec2Isabelle
  imports Watches Bounded Idempotence Status_Machine Metrics Startup Deep_Copy
begin

text \<open>
  \<^bold>\<open>KArkive: a verified model of the operator.\<close>

  KArkive is a Kubernetes operator for scheduled logical backups and restores.  A user declares a
  \<^verbatim>\<open>Backup\<close> or a \<^verbatim>\<open>Restore\<close>; the operator validates it, checks the Secrets it names, and
  owns a ConfigMap (the environment of the pipeline), optionally a PersistentVolumeClaim (scratch
  space), optionally a Deployment (the volume holder that keeps the claim attached to a node) and a
  CronJob, whose Jobs run the pipeline: cleanup, dump, compress, encrypt, s3-sync for a backup and
  cleanup, fetch, decrypt, extract, restore for a restore.  The outcome of the last Job flows back into
  the status of the resource and into Prometheus metrics.

  \<^bold>\<open>Parts and theories, in the order of the imports.\<close>

  \<^item> \<^verbatim>\<open>Prelude\<close>: the Go standard library functions the operator calls (splitting, joining and
    trimming strings, \<^verbatim>\<open>strconv.Itoa\<close>, \<^verbatim>\<open>path.Clean\<close>, times, \<^verbatim>\<open>errors.As\<close>),
    \<^verbatim>\<open>internal/ptr\<close>, and the programs over a history of calls on which the controllers are
    built: \<^verbatim>\<open>call\<close> logs a call with its answer, \<^verbatim>\<open>does p h Q\<close> says that every run of
    \<^verbatim>\<open>p\<close> after the history \<^verbatim>\<open>h\<close> makes calls and gives a result related by \<^verbatim>\<open>Q\<close>.
  \<^item> \<^verbatim>\<open>Kube_Types\<close>, \<^verbatim>\<open>Api_Types\<close>: the structs, the Kubernetes ones as far as the operator
    reads or writes them and those of \<^verbatim>\<open>api/v1alpha1\<close> in full (\<^verbatim>\<open>common_types.go\<close>,
    \<^verbatim>\<open>backup_types.go\<close>, \<^verbatim>\<open>restore_types.go\<close>), as records.  A pointer is an option, an empty
    string an empty list, a Go map a partial function.
  \<^item> \<^verbatim>\<open>K8s_Lib\<close>, \<^verbatim>\<open>Doc_Lib\<close>: the third-party functions as the parameter \<^verbatim>\<open>K\<close>, what
    is documented of them as the predicates \<^verbatim>\<open>..._laws\<close>, and a concrete library that satisfies
    them, on which the closed instances are computed.
  \<^item> \<^verbatim>\<open>Validation\<close>: \<^verbatim>\<open>validation.go\<close> and the webhooks.  The accepted specs are
    characterised exactly, and the locale \<^verbatim>\<open>admission\<close> shows by rule induction over the
    requests that a webhook lets nothing else into the cluster.
  \<^item> \<^verbatim>\<open>Naming\<close>: \<^verbatim>\<open>internal/config\<close>, \<^verbatim>\<open>names.go\<close>, \<^verbatim>\<open>labels.go\<close>,
    \<^verbatim>\<open>engine.go\<close>, \<^verbatim>\<open>runtime.go\<close>.  The locale \<^verbatim>\<open>owned_kind\<close> carries what Backups and
    Restores share: names that stay apart and selectors that select exactly their own pods; which holder
    names can coincide is stated exactly.
  \<^item> \<^verbatim>\<open>Embed\<close> (\<^verbatim>\<open>internal/pipeline/embed.go\<close>), \<^verbatim>\<open>Security\<close>
    (\<^verbatim>\<open>security.go\<close>), \<^verbatim>\<open>Defaults\<close> (\<^verbatim>\<open>defaults.go\<close>), \<^verbatim>\<open>Claims\<close>
    (\<^verbatim>\<open>pvc.go\<close>, \<^verbatim>\<open>pvcsource.go\<close>), \<^verbatim>\<open>ConfigMaps\<close> (\<^verbatim>\<open>configmap.go\<close>,
    \<^verbatim>\<open>restore_configmap.go\<close>), \<^verbatim>\<open>CronJobs\<close> (\<^verbatim>\<open>cronjob.go\<close>,
    \<^verbatim>\<open>restore_cronjob.go\<close>), \<^verbatim>\<open>Holder\<close> (\<^verbatim>\<open>holder.go\<close>): the builders of
    \<^verbatim>\<open>internal/resources\<close>, one definition per function, pure.
  \<^item> \<^verbatim>\<open>Pods\<close>: what the pods guarantee.  The image and script of every stage, well-formedness, the
    secrets each stage can read, confinement and users, where the dumps are kept, and the agreement of Job
    and holder.
  \<^item> \<^verbatim>\<open>Job_Status\<close> (\<^verbatim>\<open>jobstatus.go\<close>, \<^verbatim>\<open>mapJobToOwner\<close>), \<^verbatim>\<open>Status\<close>
    (\<^verbatim>\<open>status.go\<close> and the pure part of both \<^verbatim>\<open>setStatus\<close>): which Job is the last one,
    and the next status with the decisions to record an event and to write.
  \<^item> \<^verbatim>\<open>Kube_Client\<close>: the API client as a parameter, a record of operations that answer as a
    function of the whole history of calls.  Any server state, any failure and any activity of other
    clients between two calls is such a record, so a theorem about all clients is a theorem about all
    interleavings at the granularity of these calls (\<^verbatim>\<open>controllerutil.CreateOrUpdate\<close> is one of them).
  \<^item> \<^verbatim>\<open>Owned\<close> (\<^verbatim>\<open>owned.go\<close>, \<^verbatim>\<open>lastJobStatus\<close>), \<^verbatim>\<open>Reconciler\<close>,
    \<^verbatim>\<open>Backup_Controller\<close>, \<^verbatim>\<open>Restore_Controller\<close>: the reconcilers as programs over the
    client.  The inductive relations \<^verbatim>\<open>owned_run\<close>, \<^verbatim>\<open>legacy_run\<close>, \<^verbatim>\<open>finish_run\<close>,
    \<^verbatim>\<open>sync_run\<close>, \<^verbatim>\<open>backup_run\<close>, \<^verbatim>\<open>restore_run\<close> have one rule per way the source
    can return; every run of the program is shown to be one of them, and the properties follow by
    cases.  The locale \<^verbatim>\<open>deletable_kind\<close> is the contract of \<^verbatim>\<open>deleteIfController\<close>
    (interpreted for ConfigMaps, CronJobs and Deployments), \<^verbatim>\<open>reconciled_kind\<close> that of a
    reconciler (interpreted for Backups and Restores).
  \<^item> \<^verbatim>\<open>Ownership\<close>: what reconciling does to the objects it applies.  \<^verbatim>\<open>Liveness\<close>:
    that it ends with a Ready resource once the server cooperates; the locale \<^verbatim>\<open>live_kind\<close> extends
    \<^verbatim>\<open>reconciled_kind\<close>.  \<^verbatim>\<open>Bounded\<close>: what it costs in operations on the client.
    \<^verbatim>\<open>Idempotence\<close>: that applying repairs drift, in one step.  \<^verbatim>\<open>Status_Machine\<close>: the status over the life of a resource, as
    the step relation \<^verbatim>\<open>cluster_status\<close> of edits and reconciles, with its invariant.
  \<^item> \<^verbatim>\<open>Watches\<close> (\<^verbatim>\<open>SetupWithManager\<close> of both controllers): which events lead to which
    requests.  The handlers of controller-runtime are the parameter \<^verbatim>\<open>H\<close>; the locale
    \<^verbatim>\<open>two_controllers\<close> is interpreted once from each side.
  \<^item> \<^verbatim>\<open>Metrics\<close> (\<^verbatim>\<open>collector.go\<close>).  \<^verbatim>\<open>Flags\<close>, \<^verbatim>\<open>Startup\<close>
    (\<^verbatim>\<open>cmd/main.go\<close>): the flags with Go's package \<^verbatim>\<open>flag\<close> (a loop with a termination
    proof), and the start of the process.
  \<^item> \<^verbatim>\<open>Deep_Copy_Lib\<close>, \<^verbatim>\<open>Deep_Copy\<close> (\<^verbatim>\<open>zz_generated.deepcopy.go\<close>): the structs of
    the API once more, with an address at every pointer, slice and map, and allocation as a counter.  The
    locale \<^verbatim>\<open>deep_copyable\<close> states what a deep copy is; it is interpreted for, or shown of, the
    \<^verbatim>\<open>DeepCopyInto\<close> of every struct.
  \<^item> \<^verbatim>\<open>Examples\<close>, \<^verbatim>\<open>Example_Client\<close>: concrete resources and servers for the closed
    instances of the theorems that have hypotheses.

  \<^bold>\<open>What the theorems show.\<close>

  \<^item> Reconciling: whatever the API server answers, a reconcile reads its resource first, writes only
    objects of the resource's own names and deletes only what the resource controls; it writes the phase
    Ready only after the spec was accepted, the Secrets had their keys, every owned object was applied and
    the holder was available; a conflict is retried quietly; a resource under deletion is left alone; and
    once the status is written, an unchanged world makes no further write.  A reconcile uses
    the client at most nineteen times (two for each \<^verbatim>\<open>CreateOrUpdate\<close>) and writes the status last; and
    however long the server fails, once it grants the calls, retrying a resource that can be Ready ends
    with an attempt that syncs everything and leaves it Ready.  What is applied is determined by the
    resource alone, and mutating it again changes no modelled field; and the phase, the conditions and the
    generation of a status always agree.  A Secret that cannot be read is reported in the status.
  \<^item> Events: a change to an object that a reconciler applied, or to a Job of the pipeline, runs the
    reconciler of its owner for its owner and no other.
  \<^item> Secrets: the checks of the reconcilers ask for exactly the keys the pods read, and a stage reads
    no key beyond its task.
  \<^item> Pods: every stage runs the script and the image of its task, as a fixed user and confined.
  \<^item> Data: an accepted Backup with the default data directory writes its dumps to the volume all stages
    share, which is its claim unless the dumps are uploaded to S3; a claim never shrinks;
    the path and the exclude patterns of a claim backup reach the archiver unchanged and inside the
    claim; a Restore looks for its file where the Backup of the same target puts it.
  \<^item> Observation: the last Job is the latest finished one and is attributed to its own resource; a
    scrape never panics and never sends a series twice, and the gauges say what the status says.
  \<^item> Process: the command line determines the configuration, and the manager starts only when all parts
    are set up.  Memory: a deep copy has the values of the original and none of its addresses.

  \<^bold>\<open>Bounds.\<close>  Every function is total, and no function of the source is given fuel.  The number of attempts in
  \<^verbatim>\<open>retry\<close>, which stands for the work queue of controller-runtime, is an argument; the liveness
  theorems give the number that suffices: one more than the number of calls after which the server
  cooperates, since every attempt makes at least one call.  Integers
  of the source (ports, retention days, limits, nanoseconds) are kept as \<^typ>\<open>int\<close>; the only
  arithmetic on them is the comparison and subtraction of times, far from the limits of 64 bits for the
  dates Kubernetes writes, and the printing of 32-bit numbers.  Strings are lists of bytes.  Metric values
  are rationals (no \<^verbatim>\<open>float64\<close> rounding).

  \<^bold>\<open>Not modelled.\<close>  Log lines; contexts and their timeouts; the registration of the types with the
  runtime scheme, which only hands them to the scheme builder of controller-runtime; the flags of
  third parties beyond the values they accept; the shell scripts the pipeline runs, which are a
  parameter of the builders (their names are modelled, their contents are not); charts, manifests and
  documentation.  A map is copied as a whole in \<^verbatim>\<open>Deep_Copy\<close>, since the order in which Go visits its
  entries does not matter.
\<close>

end
